(* ===== verification/Prelude.thy ===== *)
theory Prelude
  imports Main "HOL-Library.Sublist" "HOL-Library.List_Lexorder" "HOL-Library.Char_ord"
    "HOL-Library.Product_Lexorder"
begin

text \<open>
  What every component shares: Rust strings and their standard-library operations, decimal
  printing, \<open>Result\<close>, list helpers, the state-and-error operations in which the
  stateful handlers are written, and the fact collections the component proofs use.

  A \<open>String\<close> or \<open>&str\<close> is an Isabelle \<open>string\<close> (a list of 8-bit
  characters); the character classes below are those of the ASCII range, so the models of
  \<open>trim\<close>, \<open>split_whitespace\<close> and the case operations are exact on ASCII text.
  An \<open>anyhow::Error\<close> is the text that \<open>to_string()\<close> gives for it, its
  outermost message, because that text is all the code ever reads of an error.
  Comparison of strings is the byte-wise lexicographic order of Rust and of SQLite's
  BINARY collation (the library's \<open>List_Lexorder\<close> over \<open>Char_ord\<close>).
\<close>

section \<open>Fact collections\<close>

named_theorems op_simps \<open>unfolding rules of the state-and-error operations\<close>
named_theorems hoare_intros \<open>composition rules of the operations' pre- and postconditions\<close>
named_theorems preserves_intros \<open>rules that an operation keeps a predicate on the state\<close>

section \<open>Results\<close>

type_synonym error = string
type_synonym 'a res = "error + 'a"

fun is_ok :: "'e + 'a \<Rightarrow> bool" where
  "is_ok (Inl e) = False"
| "is_ok (Inr a) = True"

fun ok_or :: "'e \<Rightarrow> 'a option \<Rightarrow> 'e + 'a" where
  "ok_or e None = Inl e"
| "ok_or e (Some a) = Inr a"

fun map_ok :: "('a \<Rightarrow> 'b) \<Rightarrow> 'e + 'a \<Rightarrow> 'e + 'b" where
  "map_ok f (Inl e) = Inl e"
| "map_ok f (Inr a) = Inr (f a)"

fun unwrap_or :: "'a \<Rightarrow> 'a option \<Rightarrow> 'a" where
  "unwrap_or d None = d"
| "unwrap_or d (Some a) = a"

text \<open>\<open>?\<close> on a value, and \<open>collect::<Result<Vec<_>>>()\<close>.\<close>

fun try_res :: "'a res \<Rightarrow> ('a \<Rightarrow> 'b res) \<Rightarrow> 'b res" where
  "try_res (Inl e) f = Inl e"
| "try_res (Inr a) f = f a"

fun collect_res :: "('a \<Rightarrow> 'b res) \<Rightarrow> 'a list \<Rightarrow> 'b list res" where
  "collect_res f [] = Inr []"
| "collect_res f (x # xs) = try_res (f x) (\<lambda>y. try_res (collect_res f xs) (\<lambda>ys. Inr (y # ys)))"

lemma try_res_Inr: "try_res r f = Inr b \<longleftrightarrow> (\<exists>a. r = Inr a \<and> f a = Inr b)"
  by (cases r) auto

lemma try_res_Inl: "try_res r f = Inl e \<longleftrightarrow> r = Inl e \<or> (\<exists>a. r = Inr a \<and> f a = Inl e)"
  by (cases r) auto

lemma try_res_cong [fundef_cong]: "r = r' \<Longrightarrow> (\<And>a. r' = Inr a \<Longrightarrow> f a = f' a) \<Longrightarrow> try_res r f = try_res r' f'"
  by (cases r') auto

lemma is_ok_iff: "is_ok r \<longleftrightarrow> (\<exists>a. r = Inr a)"
  by (cases r) auto

section \<open>Characters and strings\<close>

definition code_of :: "char \<Rightarrow> nat" where
  "code_of c = of_char c"

definition is_ascii_digit :: "char \<Rightarrow> bool" where
  "is_ascii_digit c \<longleftrightarrow> 48 \<le> code_of c \<and> code_of c \<le> 57"

definition is_ascii_upper :: "char \<Rightarrow> bool" where
  "is_ascii_upper c \<longleftrightarrow> 65 \<le> code_of c \<and> code_of c \<le> 90"

definition is_ascii_lower :: "char \<Rightarrow> bool" where
  "is_ascii_lower c \<longleftrightarrow> 97 \<le> code_of c \<and> code_of c \<le> 122"

definition is_ascii_alphanumeric :: "char \<Rightarrow> bool" where
  "is_ascii_alphanumeric c \<longleftrightarrow> is_ascii_digit c \<or> is_ascii_upper c \<or> is_ascii_lower c"

text \<open>The ASCII part of \<open>char::is_whitespace\<close>: tab, newline, vertical tab, form feed,
  carriage return and space.\<close>

definition is_whitespace :: "char \<Rightarrow> bool" where
  "is_whitespace c \<longleftrightarrow> (9 \<le> code_of c \<and> code_of c \<le> 13) \<or> code_of c = 32"

definition to_ascii_lower :: "char \<Rightarrow> char" where
  "to_ascii_lower c = (if is_ascii_upper c then char_of (code_of c + 32) else c)"

definition to_ascii_upper :: "char \<Rightarrow> char" where
  "to_ascii_upper c = (if is_ascii_lower c then char_of (code_of c - 32) else c)"

definition to_ascii_lowercase :: "string \<Rightarrow> string" where
  "to_ascii_lowercase s = map to_ascii_lower s"

definition to_ascii_uppercase :: "string \<Rightarrow> string" where
  "to_ascii_uppercase s = map to_ascii_upper s"

definition eq_ignore_ascii_case :: "string \<Rightarrow> string \<Rightarrow> bool" where
  "eq_ignore_ascii_case a b \<longleftrightarrow> to_ascii_lowercase a = to_ascii_lowercase b"

definition trim_matches :: "(char \<Rightarrow> bool) \<Rightarrow> string \<Rightarrow> string" where
  "trim_matches p s = rev (dropWhile p (rev (dropWhile p s)))"

definition trim :: "string \<Rightarrow> string" where
  "trim s = trim_matches is_whitespace s"

abbreviation str_contains :: "string \<Rightarrow> string \<Rightarrow> bool" where
  "str_contains s pat \<equiv> sublist pat s"

abbreviation starts_with :: "string \<Rightarrow> string \<Rightarrow> bool" where
  "starts_with s pat \<equiv> prefix pat s"

abbreviation ends_with :: "string \<Rightarrow> string \<Rightarrow> bool" where
  "ends_with s pat \<equiv> suffix pat s"

text \<open>\<open>str::split\<close> on a character predicate: always at least one piece.\<close>

fun split_on :: "(char \<Rightarrow> bool) \<Rightarrow> string \<Rightarrow> string list" where
  "split_on p [] = [[]]"
| "split_on p (c # cs) =
     (if p c then [] # split_on p cs
      else (case split_on p cs of [] \<Rightarrow> [[c]] | w # ws \<Rightarrow> (c # w) # ws))"

definition split_whitespace :: "string \<Rightarrow> string list" where
  "split_whitespace s = filter (\<lambda>w. w \<noteq> []) (split_on is_whitespace s)"

fun join :: "string \<Rightarrow> string list \<Rightarrow> string" where
  "join sep [] = []"
| "join sep [x] = x"
| "join sep (x # y # ys) = x @ sep @ join sep (y # ys)"

text \<open>\<open>Display\<close> of an unsigned integer.\<close>

fun show_nat :: "nat \<Rightarrow> string" where
  "show_nat n = (if n < 10 then [char_of (48 + n)]
                 else show_nat (n div 10) @ [char_of (48 + n mod 10)])"

declare show_nat.simps [simp del]

lemma show_nat_nonempty [simp]: "show_nat n \<noteq> []"
  by (subst show_nat.simps) simp

lemma split_on_nonempty [simp]: "split_on p s \<noteq> []"
  by (induction s) (auto split: list.splits)

lemma split_on_pieces: "w \<in> set (split_on p s) \<Longrightarrow> c \<in> set w \<Longrightarrow> \<not> p c"
  by (induction s arbitrary: w) (fastforce split: list.splits if_splits)+

lemma trim_matches_idem: "trim_matches p (trim_matches p s) = trim_matches p s"
proof -
  have rev_drop: "dropWhile p (rev (dropWhile p t)) = rev (dropWhile p t)"
    if "t = rev (dropWhile p s)" for t
  proof (cases "dropWhile p t")
    case Nil then show ?thesis by (metis dropWhile.simps(1) rev.simps(1))
  next
    case (Cons x xs)
    have suf: "suffix (dropWhile p t) t" by (rule suffix_dropWhile)
    then have pre: "prefix (rev (dropWhile p t)) (dropWhile p s)"
      using that by (simp add: suffix_to_prefix)
    have ne: "rev (dropWhile p t) \<noteq> []" using Cons by simp
    then have "hd (rev (dropWhile p t)) = hd (dropWhile p s)"
      using pre by (metis hd_append2 prefix_def)
    moreover have "dropWhile p s \<noteq> []" using pre ne by (metis prefix_Nil)
    ultimately have "\<not> p (hd (rev (dropWhile p t)))" by (metis hd_dropWhile)
    with ne show ?thesis by (cases "rev (dropWhile p t)") auto
  qed
  show ?thesis
    by (simp add: trim_matches_def rev_drop dropWhile_idem)
qed

lemma trim_idem [simp]: "trim (trim s) = trim s"
  by (simp add: trim_def trim_matches_idem)

lemma set_trim_matches: "set (trim_matches p s) \<subseteq> set s"
  by (auto simp: trim_matches_def dest!: set_dropWhileD)

lemma set_trim: "c \<in> set (trim s) \<Longrightarrow> c \<in> set s"
  using set_trim_matches [of is_whitespace s] by (auto simp: trim_def)

lemma trim_no_ws: "(\<forall>c\<in>set s. \<not> is_whitespace c) \<Longrightarrow> trim s = s"
proof -
  assume a: "\<forall>c\<in>set s. \<not> is_whitespace c"
  have "dropWhile is_whitespace t = t" if "set t \<subseteq> set s" for t
    using that a by (cases t) auto
  then show ?thesis by (simp add: trim_def trim_matches_def)
qed

lemma sublist_middle [simp]: "sublist p (a @ p @ b)"
  by (rule sublist_appendI)

lemma sublist_trans_append: "sublist p b \<Longrightarrow> sublist p (a @ b @ c)"
  by (meson sublist_appendI sublist_order.order_trans)

section \<open>Lists\<close>

text \<open>\<open>Vec::push\<close> guarded by \<open>contains\<close>, and the first index that satisfies a
  predicate (\<open>Iterator::position\<close>); \<open>List.find\<close> is \<open>Iterator::find\<close>.\<close>

fun position :: "('a \<Rightarrow> bool) \<Rightarrow> 'a list \<Rightarrow> nat option" where
  "position p [] = None"
| "position p (x # xs) = (if p x then Some 0 else map_option Suc (position p xs))"

lemma position_Some: "position p xs = Some i \<Longrightarrow> i < length xs \<and> p (xs ! i)"
  by (induction xs arbitrary: i) (auto split: if_splits simp: nth_Cons')

lemma position_None: "position p xs = None \<longleftrightarrow> (\<forall>x\<in>set xs. \<not> p x)"
  by (induction xs) auto

lemma position_first: "position p xs = Some i \<Longrightarrow> j < i \<Longrightarrow> \<not> p (xs ! j)"
proof (induction xs arbitrary: i j)
  case (Cons x xs)
  then show ?case by (cases j) (auto split: if_splits)
qed simp

lemma find_Some_iff_set: "List.find p xs = Some x \<Longrightarrow> x \<in> set xs \<and> p x"
  by (auto simp: find_Some_iff)

section \<open>State-and-error operations\<close>

text \<open>
  A method that takes \<open>&self\<close> over mutable stores and returns \<open>Result\<close> is a
  function from the state to the result and the new state. An error does not undo the
  effects before it; \<open>and_then\<close> is the \<open>?\<close> operator.
\<close>

type_synonym ('s, 'a) oper = "'s \<Rightarrow> 'a res \<times> 's"

definition ret :: "'a \<Rightarrow> ('s, 'a) oper" where
  "ret a s = (Inr a, s)"

definition fail :: "error \<Rightarrow> ('s, 'a) oper" where
  "fail e s = (Inl e, s)"

definition and_then :: "('s, 'a) oper \<Rightarrow> ('a \<Rightarrow> ('s, 'b) oper) \<Rightarrow> ('s, 'b) oper" where
  "and_then m f s = (case m s of (Inl e, s') \<Rightarrow> (Inl e, s') | (Inr a, s') \<Rightarrow> f a s')"

text \<open>Run an operation and hand its result, error or not, to the continuation: the shape of
  \<open>let result = (|| ...)(); match &result ...\<close>.\<close>

definition attempt :: "('s, 'a) oper \<Rightarrow> ('a res \<Rightarrow> ('s, 'b) oper) \<Rightarrow> ('s, 'b) oper" where
  "attempt m f s = (case m s of (r, s') \<Rightarrow> f r s')"

definition gets :: "('s \<Rightarrow> 'a) \<Rightarrow> ('s, 'a) oper" where
  "gets f s = (Inr (f s), s)"

definition modify :: "('s \<Rightarrow> 's) \<Rightarrow> ('s, unit) oper" where
  "modify f s = (Inr (), f s)"

definition lift_res :: "'a res \<Rightarrow> ('s, 'a) oper" where
  "lift_res r s = (r, s)"

definition ensure :: "bool \<Rightarrow> error \<Rightarrow> ('s, unit) oper" where
  "ensure b e s = (if b then (Inr (), s) else (Inl e, s))"

lemmas oper_defs [op_simps] = ret_def fail_def and_then_def attempt_def gets_def modify_def
  lift_res_def ensure_def

definition preserves :: "('s \<Rightarrow> bool) \<Rightarrow> ('s, 'a) oper \<Rightarrow> bool" where
  "preserves P m \<longleftrightarrow> (\<forall>s. P s \<longrightarrow> P (snd (m s)))"

lemma preservesD: "preserves P m \<Longrightarrow> P s \<Longrightarrow> m s = (r, s') \<Longrightarrow> P s'"
  by (auto simp: preserves_def)

lemma preserves_ret [preserves_intros]: "preserves P (ret a)"
  by (simp add: preserves_def ret_def)

lemma preserves_fail [preserves_intros]: "preserves P (fail e)"
  by (simp add: preserves_def fail_def)

lemma preserves_gets [preserves_intros]: "preserves P (gets f)"
  by (simp add: preserves_def gets_def)

lemma preserves_lift_res [preserves_intros]: "preserves P (lift_res r)"
  by (simp add: preserves_def lift_res_def)

lemma preserves_ensure [preserves_intros]: "preserves P (ensure b e)"
  by (simp add: preserves_def ensure_def)

lemma preserves_modify [preserves_intros]: "(\<And>s. P s \<Longrightarrow> P (f s)) \<Longrightarrow> preserves P (modify f)"
  by (simp add: preserves_def modify_def)

lemma preserves_and_then [preserves_intros]:
  "preserves P m \<Longrightarrow> (\<And>a. preserves P (f a)) \<Longrightarrow> preserves P (and_then m f)"
  unfolding preserves_def and_then_def by (auto split: prod.splits sum.splits)

lemma preserves_attempt [preserves_intros]:
  "preserves P m \<Longrightarrow> (\<And>r. preserves P (f r)) \<Longrightarrow> preserves P (attempt m f)"
  unfolding preserves_def attempt_def by (auto split: prod.splits)

lemma preserves_if [preserves_intros]:
  "preserves P m \<Longrightarrow> preserves P n \<Longrightarrow> preserves P (if b then m else n)"
  by simp

lemma preserves_case_option [preserves_intros]:
  "preserves P m \<Longrightarrow> (\<And>x. preserves P (f x)) \<Longrightarrow> preserves P (case x of None \<Rightarrow> m | Some y \<Rightarrow> f y)"
  by (cases x) auto

lemma preserves_case_sum [preserves_intros]:
  "(\<And>e. preserves P (f e)) \<Longrightarrow> (\<And>a. preserves P (g a)) \<Longrightarrow>
   preserves P (case r of Inl e \<Rightarrow> f e | Inr a \<Rightarrow> g a)"
  by (cases r) auto

text \<open>
  Pre- and postconditions: from a state with \<open>P\<close>, a normal return satisfies \<open>Q\<close> and an
  error return satisfies \<open>E\<close>.
\<close>

definition hoare ::
  "('s \<Rightarrow> bool) \<Rightarrow> ('s, 'a) oper \<Rightarrow> ('a \<Rightarrow> 's \<Rightarrow> bool) \<Rightarrow> (error \<Rightarrow> 's \<Rightarrow> bool) \<Rightarrow> bool" where
  "hoare P m Q E \<longleftrightarrow>
     (\<forall>s. P s \<longrightarrow> (case m s of (Inl e, s') \<Rightarrow> E e s' | (Inr a, s') \<Rightarrow> Q a s'))"

lemma hoare_ok: "hoare P m Q E \<Longrightarrow> P s \<Longrightarrow> m s = (Inr a, s') \<Longrightarrow> Q a s'"
  by (auto simp: hoare_def)

lemma hoare_err: "hoare P m Q E \<Longrightarrow> P s \<Longrightarrow> m s = (Inl e, s') \<Longrightarrow> E e s'"
  by (auto simp: hoare_def)

lemma hoareI:
  "(\<And>s a s'. P s \<Longrightarrow> m s = (Inr a, s') \<Longrightarrow> Q a s') \<Longrightarrow>
   (\<And>s e s'. P s \<Longrightarrow> m s = (Inl e, s') \<Longrightarrow> E e s') \<Longrightarrow> hoare P m Q E"
  by (auto simp: hoare_def split: prod.splits sum.splits)

lemma hoare_and_then [hoare_intros]:
  "hoare P m R E \<Longrightarrow> (\<And>a. hoare (R a) (f a) Q E) \<Longrightarrow> hoare P (and_then m f) Q E"
  by (rule hoareI) (auto simp: and_then_def split: prod.splits sum.splits dest: hoare_ok hoare_err)

lemma hoare_attempt [hoare_intros]:
  "hoare P m R F \<Longrightarrow> (\<And>a. hoare (R a) (f (Inr a)) Q E) \<Longrightarrow> (\<And>e. hoare (F e) (f (Inl e)) Q E) \<Longrightarrow>
   hoare P (attempt m f) Q E"
proof (rule hoareI)
  assume m: "hoare P m R F" and ok: "\<And>a. hoare (R a) (f (Inr a)) Q E"
    and err: "\<And>e. hoare (F e) (f (Inl e)) Q E"
  have both: "(\<forall>b. r' = Inr b \<longrightarrow> Q b s') \<and> (\<forall>e. r' = Inl e \<longrightarrow> E e s')"
    if P: "P s" and run: "attempt m f s = (r', s')" for s s' r'
  proof -
    obtain r t where mt: "m s = (r, t)" by fastforce
    show ?thesis
      using run mt hoare_ok [OF m P] hoare_err [OF m P] hoare_ok [OF ok] hoare_err [OF ok]
        hoare_ok [OF err] hoare_err [OF err]
      by (cases r) (simp_all add: attempt_def)
  qed
  show "Q a s'" if "P s" "attempt m f s = (Inr a, s')" for s a s' using both [OF that] by simp
  show "E e s'" if "P s" "attempt m f s = (Inl e, s')" for s e s' using both [OF that] by simp
qed

lemma hoare_ret: "(\<And>s. P s \<Longrightarrow> Q a s) \<Longrightarrow> hoare P (ret a) Q E"
  by (simp add: hoare_def ret_def)

lemma hoare_fail: "(\<And>s. P s \<Longrightarrow> E e s) \<Longrightarrow> hoare P (fail e) Q E"
  by (simp add: hoare_def fail_def)

lemma hoare_gets: "(\<And>s. P s \<Longrightarrow> Q (f s) s) \<Longrightarrow> hoare P (gets f) Q E"
  by (simp add: hoare_def gets_def)

lemma hoare_pre: "hoare P' m Q E \<Longrightarrow> (\<And>s. P s \<Longrightarrow> P' s) \<Longrightarrow> hoare P m Q E"
  by (auto simp: hoare_def)

lemma hoare_post:
  "hoare P m Q' E' \<Longrightarrow> (\<And>a s. Q' a s \<Longrightarrow> Q a s) \<Longrightarrow> (\<And>e s. E' e s \<Longrightarrow> E e s) \<Longrightarrow> hoare P m Q E"
  by (auto simp: hoare_def split: prod.splits sum.splits)

lemma hoare_preserves: "preserves P m \<longleftrightarrow> hoare P m (\<lambda>_. P) (\<lambda>_. P)"
proof -
  have "(case m s of (Inl e, s') \<Rightarrow> P s' | (Inr a, s') \<Rightarrow> P s') \<longleftrightarrow> P (snd (m s))" for s
    by (cases "m s", cases "fst (m s)") simp_all
  then show ?thesis unfolding preserves_def hoare_def by simp
qed

end
