(* ===== verification/Tables.thy ===== *)
theory Tables
  imports Prelude "HOL-Library.Word"
begin

text \<open>
  The SQL statements of \<open>pengu-mesh-state\<close> as list functions. A table is the list of its
  rows in rowid order; a unique column set is a key function. Each definition is the
  documented meaning of one statement form: \<open>INSERT\<close> (refused when a key is taken),
  \<open>INSERT ... ON CONFLICT(key) DO UPDATE\<close>, \<open>DELETE ... WHERE\<close> and
  \<open>UPDATE ... WHERE\<close> (with the number of rows changed), \<open>SELECT ... WHERE ... ORDER
  BY ... LIMIT\<close>. SQLite leaves the order of rows that tie under \<open>ORDER BY\<close> open;
  here ties stay in rowid order, and no property below depends on it.
\<close>

section \<open>Statements\<close>

definition unique_by :: "('r \<Rightarrow> 'k) \<Rightarrow> 'r list \<Rightarrow> bool" where
  "unique_by key rows \<longleftrightarrow> distinct (map key rows)"

definition sql_insert :: "('r \<Rightarrow> 'k) \<Rightarrow> 'r \<Rightarrow> 'r list \<Rightarrow> 'r list option" where
  "sql_insert key r rows = (if key r \<in> key ` set rows then None else Some (rows @ [r]))"

definition sql_upsert :: "('r \<Rightarrow> 'k) \<Rightarrow> ('r \<Rightarrow> 'r \<Rightarrow> 'r) \<Rightarrow> 'r \<Rightarrow> 'r list \<Rightarrow> 'r list" where
  "sql_upsert key upd r rows =
     (if key r \<in> key ` set rows
      then map (\<lambda>x. if key x = key r then upd x r else x) rows
      else rows @ [r])"

definition sql_delete :: "('r \<Rightarrow> bool) \<Rightarrow> 'r list \<Rightarrow> 'r list \<times> nat" where
  "sql_delete P rows = (filter (\<lambda>r. \<not> P r) rows, length (filter P rows))"

definition sql_update :: "('r \<Rightarrow> bool) \<Rightarrow> ('r \<Rightarrow> 'r) \<Rightarrow> 'r list \<Rightarrow> 'r list \<times> nat" where
  "sql_update P f rows = (map (\<lambda>r. if P r then f r else r) rows, length (filter P rows))"

definition sql_get :: "('r \<Rightarrow> bool) \<Rightarrow> 'r list \<Rightarrow> 'r option" where
  "sql_get P rows = List.find P rows"

definition order_asc :: "('r \<Rightarrow> 'k::linorder) \<Rightarrow> 'r list \<Rightarrow> 'r list" where
  "order_asc key rows = sort_key key rows"

definition order_desc :: "('r \<Rightarrow> 'k::linorder) \<Rightarrow> 'r list \<Rightarrow> 'r list" where
  "order_desc key rows = rev (sort_key key (rev rows))"

text \<open>\<open>LIMIT (limit as i64)\<close>: a negative limit means no limit.\<close>

definition sql_limit :: "64 word \<Rightarrow> 'r list \<Rightarrow> 'r list" where
  "sql_limit limit rows = (if sint limit < 0 then rows else take (unat limit) rows)"

lemma unat_lt64: "unat (w :: 64 word) < 2 ^ 64"
  using unsigned_less [of w] by simp

section \<open>Uniqueness is kept\<close>

lemma unique_by_Nil [simp]: "unique_by key []"
  by (simp add: unique_by_def)

lemma unique_by_append1:
  "unique_by key (rows @ [r]) \<longleftrightarrow> unique_by key rows \<and> key r \<notin> key ` set rows"
  by (auto simp: unique_by_def)

lemma unique_by_filter: "unique_by key rows \<Longrightarrow> unique_by key (filter P rows)"
  by (simp add: unique_by_def distinct_map_filter)

lemma unique_by_map:
  "(\<And>r. r \<in> set rows \<Longrightarrow> key (f r) = key r) \<Longrightarrow> unique_by key (map f rows) = unique_by key rows"
  by (simp add: unique_by_def comp_def cong: map_cong)

lemma unique_byD:
  "unique_by key rows \<Longrightarrow> r \<in> set rows \<Longrightarrow> s \<in> set rows \<Longrightarrow> key r = key s \<Longrightarrow> r = s"
  by (auto simp: unique_by_def distinct_map dest: inj_onD)

lemma unique_by_insert: "unique_by key rows \<Longrightarrow> sql_insert key r rows = Some rows' \<Longrightarrow> unique_by key rows'"
  by (auto simp: sql_insert_def unique_by_append1 split: if_splits)

lemma unique_by_upsert:
  assumes "unique_by key rows" and "\<And>x. key x = key r \<Longrightarrow> key (upd x r) = key r"
  shows "unique_by key (sql_upsert key upd r rows)"
  using assms by (auto simp: sql_upsert_def unique_by_append1 intro!: unique_by_map [THEN iffD2])

lemma unique_by_delete: "unique_by key rows \<Longrightarrow> unique_by key (fst (sql_delete P rows))"
  by (simp add: sql_delete_def unique_by_filter)

lemma unique_by_update:
  "unique_by key rows \<Longrightarrow> (\<And>r. key (f r) = key r) \<Longrightarrow> unique_by key (fst (sql_update P f rows))"
  by (simp add: sql_update_def unique_by_map)

section \<open>Reading after writing\<close>

lemma sql_get_Some: "sql_get P rows = Some r \<Longrightarrow> r \<in> set rows \<and> P r"
  by (auto simp: sql_get_def find_Some_iff)

lemma sql_get_None: "sql_get P rows = None \<longleftrightarrow> (\<forall>r\<in>set rows. \<not> P r)"
  by (auto simp: sql_get_def find_None_iff)

lemma find_append:
  "List.find P (xs @ ys) = (case List.find P xs of None \<Rightarrow> List.find P ys | Some x \<Rightarrow> Some x)"
  by (induction xs) auto

lemma sql_get_key:
  assumes "unique_by key rows" and "r \<in> set rows" and "key r = k"
  shows "sql_get (\<lambda>x. key x = k) rows = Some r"
proof (cases "sql_get (\<lambda>x. key x = k) rows")
  case None
  with assms show ?thesis by (auto simp: sql_get_None)
next
  case (Some s)
  with assms show ?thesis by (auto dest!: sql_get_Some dest: unique_byD)
qed

lemma find_key_None: "k \<notin> key ` set rows \<longleftrightarrow> List.find (\<lambda>x. key x = k) rows = None"
  by (auto simp: find_None_iff image_iff)

lemma sql_get_insert:
  "sql_insert key r rows = Some rows' \<Longrightarrow>
   sql_get (\<lambda>x. key x = k) rows' = (if k = key r then Some r else sql_get (\<lambda>x. key x = k) rows)"
  by (auto simp: sql_insert_def sql_get_def find_append find_key_None split: if_splits option.splits)

lemma find_map_upd:
  assumes "\<And>x. key x = k' \<Longrightarrow> key (f x) = k'"
  shows "List.find (\<lambda>x. key x = k) (map (\<lambda>x. if key x = k' then f x else x) rows) =
    map_option (\<lambda>x. if k = k' then f x else x) (List.find (\<lambda>x. key x = k) rows)"
  using assms by (induction rows) auto

lemma sql_get_upsert:
  assumes "\<And>x. key x = key r \<Longrightarrow> key (upd x r) = key r"
  shows "sql_get (\<lambda>x. key x = k) (sql_upsert key upd r rows) =
    (if k = key r then
       (case sql_get (\<lambda>x. key x = k) rows of None \<Rightarrow> Some r | Some old \<Rightarrow> Some (upd old r))
     else sql_get (\<lambda>x. key x = k) rows)"
proof (cases "key r \<in> key ` set rows")
  case True
  then have "sql_get (\<lambda>x. key x = key r) rows \<noteq> None"
    by (auto simp: sql_get_None)
  with True show ?thesis
    using find_map_upd [of key "key r" "\<lambda>x. upd x r" k rows, OF assms]
    by (auto simp: sql_upsert_def sql_get_def option.map_ident split: option.splits)
next
  case False
  then have "List.find (\<lambda>x. key x = key r) rows = None"
    by (simp add: find_key_None)
  with False show ?thesis
    by (auto simp: sql_upsert_def sql_get_def find_append split: option.splits)
qed

lemma sql_get_delete:
  "sql_get (\<lambda>x. key x = k) (fst (sql_delete (\<lambda>x. key x = d) rows)) =
   (if k = d then None else sql_get (\<lambda>x. key x = k) rows)"
  by (induction rows) (auto simp: sql_get_def sql_delete_def)

section \<open>Ordering and limits\<close>

lemma set_order_asc [simp]: "set (order_asc key rows) = set rows"
  by (simp add: order_asc_def)

lemma set_order_desc [simp]: "set (order_desc key rows) = set rows"
  by (simp add: order_desc_def)

lemma length_order_asc [simp]: "length (order_asc key rows) = length rows"
  by (simp add: order_asc_def)

lemma length_order_desc [simp]: "length (order_desc key rows) = length rows"
  by (simp add: order_desc_def)

lemma sorted_order_asc: "sorted (map key (order_asc key rows))"
  by (simp add: order_asc_def)

lemma sorted_order_desc: "sorted (rev (map key (order_desc key rows)))"
  by (simp add: order_desc_def rev_map)

lemma set_sql_limit: "set (sql_limit l rows) \<subseteq> set rows"
  by (auto simp: sql_limit_def dest: in_set_takeD)

lemma length_sql_limit: "0 \<le> sint l \<Longrightarrow> length (sql_limit l rows) \<le> unat l"
  by (simp add: sql_limit_def)

lemma first_order_asc:
  assumes "order_asc key rows = r # rest" and "s \<in> set rows"
  shows "key r \<le> key s"
proof -
  have "sorted (map key (r # rest))" using assms(1) sorted_order_asc [of key rows] by simp
  moreover have "s \<in> set (r # rest)" using assms set_order_asc [of key rows] by simp
  ultimately show ?thesis by auto
qed

lemma insort_key_last: "\<forall>y\<in>set xs. f y < f x \<Longrightarrow> insort_key f x xs = xs @ [x]"
  by (induction xs) auto

text \<open>Sorting a reversed list whose keys strictly increase gives the list back.\<close>

lemma sort_key_rev:
  "sorted_wrt (<) (map f xs) \<Longrightarrow> sort_key f (rev xs) = (xs :: 'a list)"
proof (induction xs rule: rev_induct)
  case (snoc x xs)
  then have "sort_key f (rev xs) = xs" and "\<forall>y\<in>set xs. f y < f x"
    by (auto simp: sorted_wrt_append)
  then show ?case by (simp add: insort_key_last)
qed simp

end
