(* ===== verification/Ids.thy ===== *)
theory Ids
  imports Prelude
begin

text \<open>
  Stable identifiers (\<open>crates/pengu-mesh-shared/src/id.rs\<close>): a kind prefix, an
  underscore, and the seed cleaned to lower-case letters, digits and underscores. Every
  record id of the runtime is built this way, so what the cleaning forgets decides which
  ids can collide.
\<close>

datatype id_kind =
    IdProfile | IdInstance | IdTab | IdRun | IdScenarioRun | IdScenarioStep
  | IdScenarioAssertion | IdLatencySample | IdEnvironmentFingerprint | IdLease | IdEvent
  | IdArtifact

fun id_prefix :: "id_kind \<Rightarrow> string" where
  "id_prefix IdProfile = ''prof''"
| "id_prefix IdInstance = ''inst''"
| "id_prefix IdTab = ''tab''"
| "id_prefix IdRun = ''run''"
| "id_prefix IdScenarioRun = ''scenario_run''"
| "id_prefix IdScenarioStep = ''scenario_step''"
| "id_prefix IdScenarioAssertion = ''scenario_assertion''"
| "id_prefix IdLatencySample = ''latency_sample''"
| "id_prefix IdEnvironmentFingerprint = ''environment_fingerprint''"
| "id_prefix IdLease = ''lease''"
| "id_prefix IdEvent = ''event''"
| "id_prefix IdArtifact = ''artifact''"

definition id_char :: "char \<Rightarrow> char" where
  "id_char ch = (if is_ascii_alphanumeric ch then ch else CHR ''_'')"

definition clean_seed :: "string \<Rightarrow> string" where
  "clean_seed seed =
     to_ascii_lowercase (trim_matches (\<lambda>c. c = CHR ''_'') (map id_char seed))"

definition stable_id :: "id_kind \<Rightarrow> string \<Rightarrow> string" where
  "stable_id kind seed = id_prefix kind @ ''_'' @ clean_seed seed"

text \<open>The characters an id may hold after cleaning.\<close>

definition id_body_char :: "char \<Rightarrow> bool" where
  "id_body_char c \<longleftrightarrow> is_ascii_digit c \<or> is_ascii_lower c \<or> c = CHR ''_''"

lemma to_ascii_lower_id_char: "id_body_char (to_ascii_lower (id_char c))"
proof -
  have "code_of (char_of (code_of c + 32)) = code_of c + 32" if "is_ascii_upper c"
    using that by (simp add: code_of_def is_ascii_upper_def)
  then show ?thesis
    by (auto simp: id_body_char_def to_ascii_lower_def id_char_def is_ascii_alphanumeric_def
        is_ascii_digit_def is_ascii_upper_def is_ascii_lower_def code_of_def)
qed

lemma clean_seed_chars: "c \<in> set (clean_seed s) \<Longrightarrow> id_body_char c"
  using set_trim_matches [of "\<lambda>c. c = CHR ''_''" "map id_char s"]
  by (auto simp: clean_seed_def to_ascii_lowercase_def intro!: to_ascii_lower_id_char)

lemma id_body_char_not_ws: "id_body_char c \<Longrightarrow> \<not> is_whitespace c"
  by (auto simp: id_body_char_def is_whitespace_def is_ascii_digit_def is_ascii_lower_def code_of_def)

lemma id_char_fix: "id_body_char c \<Longrightarrow> id_char c = c"
  by (auto simp: id_body_char_def id_char_def is_ascii_alphanumeric_def)

lemma to_ascii_lower_fix: "id_body_char c \<Longrightarrow> to_ascii_lower c = c"
  by (auto simp: id_body_char_def to_ascii_lower_def is_ascii_digit_def is_ascii_lower_def
      is_ascii_upper_def code_of_def)

lemma map_fix: "(\<And>c. c \<in> set s \<Longrightarrow> f c = c) \<Longrightarrow> map f s = s"
  by (simp add: map_idI)

lemma to_ascii_lower_underscore: "to_ascii_lower c = CHR ''_'' \<longleftrightarrow> c = CHR ''_''"
proof
  assume a: "to_ascii_lower c = CHR ''_''"
  show "c = CHR ''_''"
  proof (cases "is_ascii_upper c")
    case True
    then have "code_of (to_ascii_lower c) = code_of c + 32"
      by (simp add: code_of_def is_ascii_upper_def to_ascii_lower_def)
    moreover have "code_of (to_ascii_lower c) = 95" by (simp add: a code_of_def)
    ultimately have "code_of c = 63" by simp
    with True show ?thesis by (simp add: is_ascii_upper_def)
  next
    case False
    with a show ?thesis by (simp add: to_ascii_lower_def)
  qed
qed (simp add: to_ascii_lower_def is_ascii_upper_def code_of_def)

lemma dropWhile_map_lower:
  "dropWhile (\<lambda>c. c = CHR ''_'') (map to_ascii_lower s) =
   map to_ascii_lower (dropWhile (\<lambda>c. c = CHR ''_'') s)"
  by (induction s) (auto simp: to_ascii_lower_underscore)

lemma trim_matches_lower:
  "trim_matches (\<lambda>c. c = CHR ''_'') (to_ascii_lowercase s) =
   to_ascii_lowercase (trim_matches (\<lambda>c. c = CHR ''_'') s)"
  by (simp add: trim_matches_def to_ascii_lowercase_def dropWhile_map_lower rev_map)

text \<open>Cleaning an already cleaned seed changes nothing.\<close>

lemma clean_seed_idem: "clean_seed (clean_seed s) = clean_seed s"
proof -
  let ?u = "\<lambda>c. c = CHR ''_''"
  have chars: "\<And>c. c \<in> set (clean_seed s) \<Longrightarrow> id_body_char c" by (rule clean_seed_chars)
  have "map id_char (clean_seed s) = clean_seed s"
    by (rule map_fix) (simp add: chars id_char_fix)
  moreover have "trim_matches ?u (clean_seed s) = clean_seed s"
    by (simp add: clean_seed_def trim_matches_lower trim_matches_idem)
  moreover have "to_ascii_lowercase (clean_seed s) = clean_seed s"
    unfolding to_ascii_lowercase_def by (rule map_fix) (simp add: chars to_ascii_lower_fix)
  ultimately show ?thesis by (simp add: clean_seed_def [of "clean_seed s"])
qed

lemma id_prefix_all: "list_all id_body_char (id_prefix k)"
  by (induction k; code_simp)

lemma id_prefix_chars: "c \<in> set (id_prefix k) \<Longrightarrow> id_body_char c"
  using id_prefix_all [of k] by (simp add: list_all_iff)

lemma stable_id_chars: "c \<in> set (stable_id k s) \<Longrightarrow> id_body_char c"
  by (auto simp: stable_id_def dest: clean_seed_chars id_prefix_chars)
    (simp add: id_body_char_def)

lemma trim_stable_id [simp]: "trim (stable_id k s) = stable_id k s"
  by (rule trim_no_ws) (auto dest: stable_id_chars id_body_char_not_ws)

lemma stable_id_eq_iff: "stable_id k s = stable_id k t \<longleftrightarrow> clean_seed s = clean_seed t"
  by (simp add: stable_id_def)

end
