(* ===== verification/Types.thy ===== *)
theory Types
  imports Prelude "HOL-Library.Word"
begin

text \<open>
  The shared data model (\<open>crates/pengu-mesh-shared/src/types.rs\<close>, \<open>outcome.rs\<close>):
  enumerations with their wire names and the records that the state store, the runtime and
  the failure payloads exchange. A \<open>u64\<close>, \<open>usize\<close> or \<open>i64\<close> that is stored or
  cast is a 64-bit word, a \<open>u32\<close> a 32-bit word; a pure count is a \<open>nat\<close>.
  Timestamps are RFC 3339 text, as in the code. Field names carry a short prefix for the
  record they belong to, since Isabelle's fields share one name space.
\<close>

section \<open>JSON values\<close>

text \<open>\<open>serde_json::Value\<close>; numbers are the integers that the runtime emits.\<close>

datatype json =
    JNull
  | JBool bool
  | JNum int
  | JStr string
  | JArr "json list"
  | JObj "(string \<times> json) list"

definition json_opt_str :: "string option \<Rightarrow> json" where
  "json_opt_str o1 = (case o1 of None \<Rightarrow> JNull | Some s \<Rightarrow> JStr s)"

section \<open>Enumerations and their names\<close>

datatype outcome_code =
  CodeOk | NotReady | Conflict | Unsupported | Misconfigured | InvalidInput | NotFound | Internal

datatype browser_channel = Chrome | ChromeDev | Chromium

fun browser_channel_str :: "browser_channel \<Rightarrow> string" where
  "browser_channel_str Chrome = ''chrome''"
| "browser_channel_str ChromeDev = ''chrome-dev''"
| "browser_channel_str Chromium = ''chromium''"

datatype instance_mode = Managed | Attached

datatype instance_status = StatusStarting | StatusRunning | StatusAttached | StatusClosed | StatusError

fun instance_status_json :: "instance_status \<Rightarrow> json" where
  "instance_status_json StatusStarting = JStr ''starting''"
| "instance_status_json StatusRunning = JStr ''running''"
| "instance_status_json StatusAttached = JStr ''attached''"
| "instance_status_json StatusClosed = JStr ''closed''"
| "instance_status_json StatusError = JStr ''error''"

text \<open>The derived \<open>Debug\<close> form.\<close>

fun instance_status_debug :: "instance_status \<Rightarrow> string" where
  "instance_status_debug StatusStarting = ''Starting''"
| "instance_status_debug StatusRunning = ''Running''"
| "instance_status_debug StatusAttached = ''Attached''"
| "instance_status_debug StatusClosed = ''Closed''"
| "instance_status_debug StatusError = ''Error''"

datatype lease_resource_kind = ResInstance

fun lease_resource_kind_str :: "lease_resource_kind \<Rightarrow> string" where
  "lease_resource_kind_str ResInstance = ''instance''"

datatype lease_mode = Writer | Observer

fun lease_mode_str :: "lease_mode \<Rightarrow> string" where
  "lease_mode_str Writer = ''writer''"
| "lease_mode_str Observer = ''observer''"

fun lease_mode_debug :: "lease_mode \<Rightarrow> string" where
  "lease_mode_debug Writer = ''Writer''"
| "lease_mode_debug Observer = ''Observer''"

definition lease_mode_json :: "lease_mode \<Rightarrow> json" where
  "lease_mode_json m = JStr (lease_mode_str m)"

datatype run_status = RunActive | RunCompleted

datatype event_level = Info | Warning | ErrorLevel

section \<open>Records\<close>

record managed_profile =
  mp_id :: string
  mp_name :: string
  mp_channel :: browser_channel
  mp_path :: string

record browser_instance =
  bi_id :: string
  bi_name :: string
  bi_channel :: browser_channel
  bi_mode :: instance_mode
  bi_status :: instance_status
  bi_debug_http_url :: string
  bi_browser_ws_url :: "string option"
  bi_profile_id :: "string option"
  bi_profile_path :: "string option"
  bi_pid :: "32 word option"
  bi_last_error :: "string option"
  bi_created_at :: string
  bi_updated_at :: string

record lease_record =
  lr_id :: string
  lr_resource_kind :: lease_resource_kind
  lr_resource_id :: string
  lr_holder_id :: string
  lr_holder_label :: "string option"
  lr_mode :: lease_mode
  lr_granted_at :: string
  lr_expires_at :: string
  lr_last_heartbeat_at :: string

record browser_tab =
  bt_id :: string
  bt_instance_id :: string
  bt_target_id :: string
  bt_title :: string
  bt_url :: string
  bt_websocket_url :: string
  bt_active :: bool
  bt_created_at :: string
  bt_updated_at :: string

datatype attach_resolution_kind = ByDebugHttpUrl | ByBrowserWsUrl | ByName | ByNewInstance

datatype attach_outcome = OutcomeNewInstance | ReusedExistingInstance | ReclaimedStaleInstance

datatype attach_freshness = FreshNone | FreshLive | FreshStaleInstance | FreshStaleEndpoint

record attach_continuity_status =
  ac_outcome :: "attach_outcome option"
  ac_freshness :: attach_freshness
  ac_last_resolution :: "attach_resolution_kind option"
  ac_last_instance_id :: "string option"
  ac_last_debug_http_url :: "string option"
  ac_last_requested_cdp_url :: "string option"
  ac_last_browser_ws_url :: "string option"
  ac_reused_existing_instance :: bool
  ac_endpoint_refreshed :: bool
  ac_updated_at :: "string option"

definition attach_continuity_default :: attach_continuity_status where
  "attach_continuity_default =
     \<lparr>ac_outcome = None, ac_freshness = FreshNone, ac_last_resolution = None,
      ac_last_instance_id = None, ac_last_debug_http_url = None, ac_last_requested_cdp_url = None,
      ac_last_browser_ws_url = None, ac_reused_existing_instance = False,
      ac_endpoint_refreshed = False, ac_updated_at = None\<rparr>"

datatype artifact_kind =
  ArtSnapshot | ArtText | ArtScreenshot | ArtPdf | ArtTrace | ArtRecording

record normalized_region =
  nr_x_min :: "16 word"
  nr_y_min :: "16 word"
  nr_x_max :: "16 word"
  nr_y_max :: "16 word"

definition validate_region :: "normalized_region \<Rightarrow> unit res" where
  "validate_region r =
     (if \<not> nr_x_min r < nr_x_max r then Inl ''x_min must be less than x_max''
      else if \<not> nr_y_min r < nr_y_max r then Inl ''y_min must be less than y_max''
      else if \<not> nr_x_max r \<le> 999 then Inl ''x_max must be at most 999''
      else if \<not> nr_y_max r \<le> 999 then Inl ''y_max must be at most 999''
      else Inr ())"

record artifact_provenance =
  ap_source_artifact_id :: "string option"
  ap_crop_region :: "normalized_region option"
  ap_page_index :: "32 word option"

definition provenance_primary :: artifact_provenance where
  "provenance_primary = \<lparr>ap_source_artifact_id = None, ap_crop_region = None, ap_page_index = None\<rparr>"

record artifact_handle =
  ah_id :: string
  ah_run_id :: "string option"
  ah_instance_id :: string
  ah_tab_id :: string
  ah_kind :: artifact_kind
  ah_path :: string
  ah_mime_type :: string
  ah_bytes :: "64 word"
  ah_created_at :: string
  ah_checksum_sha256 :: "string option"
  ah_provenance :: artifact_provenance

record capture_run =
  cr_id :: string
  cr_entrypoint :: string
  cr_detail :: string
  cr_status :: run_status
  cr_started_at :: string
  cr_ended_at :: "string option"

record runtime_event =
  ev_schema_version :: nat
  ev_id :: string
  ev_run_id :: string
  ev_sequence :: nat
  ev_category :: string
  ev_action :: string
  ev_level :: event_level
  ev_message :: string
  ev_instance_id :: "string option"
  ev_tab_id :: "string option"
  ev_artifact_id :: "string option"
  ev_data :: json
  ev_timestamp :: string

record lease_acquire_payload =
  lap_operator_id :: string
  lap_lease :: lease_record
  lap_leases :: "lease_record list"
  lap_renewed :: bool
  lap_code :: outcome_code
  lap_message :: string

record lease_release_payload =
  lrp_operator_id :: string
  lrp_requested_resource_id :: string
  lrp_holder_id :: string
  lrp_released_count :: nat
  lrp_leases :: "lease_record list"
  lrp_code :: outcome_code
  lrp_message :: string

record lease_transfer_payload =
  ltp_operator_id :: string
  ltp_previous_holder_id :: string
  ltp_lease :: lease_record
  ltp_leases :: "lease_record list"
  ltp_code :: outcome_code
  ltp_message :: string

record lease_status_payload =
  lsp_operator_id :: string
  lsp_requested_resource_id :: "string option"
  lsp_leases :: "lease_record list"

section \<open>Operation outcomes\<close>

record 'a operation_outcome =
  oo_ok :: bool
  oo_code :: outcome_code
  oo_message :: string
  oo_timestamp :: string
  oo_data :: 'a

definition outcome_success :: "string \<Rightarrow> string \<Rightarrow> 'a \<Rightarrow> 'a operation_outcome" where
  "outcome_success now message data =
     \<lparr>oo_ok = True, oo_code = CodeOk, oo_message = message, oo_timestamp = now, oo_data = data\<rparr>"

definition outcome_failure ::
  "string \<Rightarrow> outcome_code \<Rightarrow> string \<Rightarrow> 'a \<Rightarrow> 'a operation_outcome" where
  "outcome_failure now code message data =
     \<lparr>oo_ok = False, oo_code = code, oo_message = message, oo_timestamp = now, oo_data = data\<rparr>"

end
