(* ===== verification/LeaseStore.thy ===== *)
theory LeaseStore
  imports Types Tables
begin

text \<open>
  The lease table of \<open>crates/pengu-mesh-state/src/lib.rs\<close>: one definition per statement
  sequence on \<open>leases\<close>. Its two unique keys are the primary key \<open>id\<close> and the index
  on \<open>(resource_kind, resource_id, holder_id, mode)\<close>. The enumeration columns hold
  the \<open>as_str\<close> names, which \<open>parse_lease_mode\<close> reads back, so the rows here keep the
  enumeration itself. \<open>now\<close> is the caller's clock reading.
\<close>

type_synonym lease_table = "lease_record list"

definition lease_identity ::
  "lease_record \<Rightarrow> lease_resource_kind \<times> string \<times> string \<times> lease_mode" where
  "lease_identity l = (lr_resource_kind l, lr_resource_id l, lr_holder_id l, lr_mode l)"

section \<open>Reading a row\<close>

text \<open>The JSON reader is \<open>serde_json::from_str\<close> at \<open>LeaseMode\<close>; it is tried first.\<close>

definition parse_lease_mode :: "(string \<Rightarrow> lease_mode option) \<Rightarrow> string \<Rightarrow> lease_mode" where
  "parse_lease_mode from_json value =
     (case from_json value of
        Some m \<Rightarrow> m
      | None \<Rightarrow> (if value = ''observer'' then Observer else Writer))"

definition parse_lease_resource_kind ::
  "(string \<Rightarrow> lease_resource_kind option) \<Rightarrow> string \<Rightarrow> lease_resource_kind" where
  "parse_lease_resource_kind from_json value =
     (case from_json value of Some k \<Rightarrow> k | None \<Rightarrow> ResInstance)"

section \<open>Statements\<close>

definition lease_active :: "string \<Rightarrow> lease_record \<Rightarrow> bool" where
  "lease_active now l \<longleftrightarrow> lr_expires_at l > now"

definition prune_expired_leases :: "string \<Rightarrow> lease_table \<Rightarrow> lease_table \<times> nat" where
  "prune_expired_leases now rows = sql_delete (\<lambda>l. lr_expires_at l \<le> now) rows"

text \<open>The upsert of a lease row: a row of another identity that holds the same \<open>id\<close>
  violates the primary key and aborts the statement.\<close>

definition renew_row :: "lease_record \<Rightarrow> lease_record \<Rightarrow> lease_record" where
  "renew_row old new = old\<lparr>lr_id := lr_id new, lr_holder_label := lr_holder_label new,
     lr_granted_at := lr_granted_at new, lr_expires_at := lr_expires_at new,
     lr_last_heartbeat_at := lr_last_heartbeat_at new\<rparr>"

definition lease_id_taken :: "lease_record \<Rightarrow> lease_table \<Rightarrow> bool" where
  "lease_id_taken l rows \<longleftrightarrow>
     (\<exists>r\<in>set rows. lr_id r = lr_id l \<and> lease_identity r \<noteq> lease_identity l)"

definition upsert_lease_row :: "error \<Rightarrow> lease_record \<Rightarrow> lease_table \<Rightarrow> lease_table res" where
  "upsert_lease_row context l rows =
     (if lease_id_taken l rows then Inl context
      else Inr (sql_upsert lease_identity renew_row l rows))"

definition acquire_context :: error where
  "acquire_context = ''upsert lease in acquire transaction''"

definition transfer_context :: error where
  "transfer_context = ''insert replacement writer lease''"

definition transfer_missing_message :: "string \<Rightarrow> error" where
  "transfer_missing_message from_holder_id =
     ''writer lease transfer requires an active writer lease for '' @ from_holder_id"

definition upsert_lease :: "lease_record \<Rightarrow> lease_table \<Rightarrow> lease_table res" where
  "upsert_lease l rows = upsert_lease_row ''upsert lease'' l rows"

definition writer_rows :: "lease_resource_kind \<Rightarrow> string \<Rightarrow> string \<Rightarrow> lease_table \<Rightarrow> lease_table" where
  "writer_rows kind resource_id now rows =
     order_asc lr_granted_at
       (filter (\<lambda>l. lr_resource_kind l = kind \<and> lr_resource_id l = resource_id \<and>
                    lr_mode l = Writer \<and> lease_active now l) rows)"

definition lease_held_message :: "lease_record \<Rightarrow> lease_record \<Rightarrow> error" where
  "lease_held_message lease active_writer =
     ''writer lease for '' @ lr_resource_id lease @ '' is held by '' @ lr_holder_id active_writer @
     '' until '' @ lr_expires_at active_writer"

text \<open>\<open>acquire_lease\<close> is one immediate transaction: an error rolls it back.\<close>

definition acquire_lease :: "lease_record \<Rightarrow> string \<Rightarrow> lease_table \<Rightarrow> (bool \<times> lease_table) res" where
  "acquire_lease lease now rows =
     (let pruned = fst (prune_expired_leases now rows);
          renewed = (\<exists>r\<in>set pruned. lease_identity r = lease_identity lease \<and> lease_active now r);
          store = map_ok (\<lambda>rows'. (renewed, rows'))
                    (upsert_lease_row acquire_context lease pruned)
      in if lr_mode lease = Writer
         then (case writer_rows (lr_resource_kind lease) (lr_resource_id lease) now pruned of
                 active_writer # _ \<Rightarrow>
                   (if lr_holder_id active_writer = lr_holder_id lease then store
                    else Inl (lease_held_message lease active_writer))
               | [] \<Rightarrow> store)
         else store)"

definition list_leases :: "string option \<Rightarrow> string \<Rightarrow> lease_table \<Rightarrow> lease_table" where
  "list_leases resource_id now rows =
     order_asc (\<lambda>l. (lr_resource_id l, lease_mode_str (lr_mode l), lr_granted_at l))
       (filter (\<lambda>l. lr_resource_kind l = ResInstance \<and>
                    (case resource_id of None \<Rightarrow> True | Some r \<Rightarrow> lr_resource_id l = r) \<and>
                    lease_active now l) rows)"

definition list_active_leases_for_holder :: "string \<Rightarrow> string \<Rightarrow> lease_table \<Rightarrow> lease_table" where
  "list_active_leases_for_holder holder_id now rows =
     order_asc (\<lambda>l. (lr_resource_id l, lease_mode_str (lr_mode l), lr_granted_at l))
       (filter (\<lambda>l. lr_holder_id l = holder_id \<and> lease_active now l) rows)"

definition get_writer_lease :: "string \<Rightarrow> string \<Rightarrow> lease_table \<Rightarrow> lease_record option" where
  "get_writer_lease resource_id now rows =
     (case writer_rows ResInstance resource_id now rows of [] \<Rightarrow> None | l # _ \<Rightarrow> Some l)"

definition delete_leases ::
  "string \<Rightarrow> string \<Rightarrow> lease_mode option \<Rightarrow> lease_table \<Rightarrow> lease_table \<times> nat" where
  "delete_leases resource_id holder_id mode rows =
     sql_delete (\<lambda>l. lr_resource_kind l = ResInstance \<and> lr_resource_id l = resource_id \<and>
                     lr_holder_id l = holder_id \<and>
                     (case mode of None \<Rightarrow> True | Some m \<Rightarrow> lr_mode l = m)) rows"

definition transfer_writer_lease ::
  "string \<Rightarrow> string \<Rightarrow> lease_record \<Rightarrow> string \<Rightarrow> lease_table \<Rightarrow> lease_table res" where
  "transfer_writer_lease resource_id from_holder_id replacement now rows =
     (let pruned = fst (prune_expired_leases now rows);
          (kept, deleted) = delete_leases resource_id from_holder_id (Some Writer) pruned
      in if deleted = 1
         then upsert_lease_row transfer_context replacement kept
         else Inl (transfer_missing_message from_holder_id))"

section \<open>The invariant\<close>

text \<open>Both unique keys hold, and every resource has at most one writer row.\<close>

definition single_writer :: "lease_table \<Rightarrow> bool" where
  "single_writer rows \<longleftrightarrow>
     (\<forall>a\<in>set rows. \<forall>b\<in>set rows.
        lr_mode a = Writer \<and> lr_mode b = Writer \<and> lr_resource_id a = lr_resource_id b
          \<longrightarrow> lr_holder_id a = lr_holder_id b)"

definition lease_inv :: "lease_table \<Rightarrow> bool" where
  "lease_inv rows \<longleftrightarrow> unique_by lr_id rows \<and> unique_by lease_identity rows \<and> single_writer rows"

lemma resource_kind_only [simp]: "lr_resource_kind l = ResInstance"
  by (cases "lr_resource_kind l") simp

lemma resource_kind_eq [simp]: "((a :: lease_resource_kind) = b) = True"
  by (cases a; cases b) simp

lemma lease_identity_iff:
  "lease_identity a = lease_identity b \<longleftrightarrow>
   lr_resource_id a = lr_resource_id b \<and> lr_holder_id a = lr_holder_id b \<and> lr_mode a = lr_mode b"
  by (simp add: lease_identity_def)

lemma renew_row_sel [simp]:
  "lr_id (renew_row old new) = lr_id new"
  "lr_resource_id (renew_row old new) = lr_resource_id old"
  "lr_holder_id (renew_row old new) = lr_holder_id old"
  "lr_mode (renew_row old new) = lr_mode old"
  "lr_expires_at (renew_row old new) = lr_expires_at new"
  "lr_granted_at (renew_row old new) = lr_granted_at new"
  "lr_holder_label (renew_row old new) = lr_holder_label new"
  by (simp_all add: renew_row_def)

lemma lease_identity_renew [simp]: "lease_identity (renew_row old new) = lease_identity old"
  by (simp add: lease_identity_iff)

lemma renew_row_same: "lease_identity old = lease_identity new \<Longrightarrow> renew_row old new = new"
  by (cases old; cases new) (auto simp: renew_row_def lease_identity_def)

lemma lease_inv_Nil [simp]: "lease_inv []"
  by (simp add: lease_inv_def single_writer_def)

lemma lease_inv_filter: "lease_inv rows \<Longrightarrow> lease_inv (filter P rows)"
  by (auto simp: lease_inv_def single_writer_def unique_by_filter)

lemma prune_eq: "fst (prune_expired_leases now rows) = filter (lease_active now) rows"
  by (simp add: prune_expired_leases_def sql_delete_def lease_active_def not_le cong: filter_cong)

lemma delete_leases_set:
  "set (fst (delete_leases res h mode rows)) =
   {l \<in> set rows. \<not> (lr_resource_id l = res \<and> lr_holder_id l = h \<and>
      (case mode of None \<Rightarrow> True | Some m \<Rightarrow> lr_mode l = m))}"
  by (auto simp: delete_leases_def sql_delete_def)

lemma lease_inv_prune: "lease_inv rows \<Longrightarrow> lease_inv (fst (prune_expired_leases now rows))"
  by (simp add: prune_eq lease_inv_filter)

lemma lease_inv_delete: "lease_inv rows \<Longrightarrow> lease_inv (fst (delete_leases r h m rows))"
  by (simp add: delete_leases_def sql_delete_def lease_inv_filter)

text \<open>The rows after a successful upsert: the row of the same identity is replaced.\<close>

lemma upsert_lease_row_set:
  assumes "upsert_lease_row ctx l rows = Inr rows'"
  shows "set rows' = insert l {r \<in> set rows. lease_identity r \<noteq> lease_identity l}"
proof (cases "lease_identity l \<in> lease_identity ` set rows")
  case True
  then show ?thesis using assms
    by (auto simp: upsert_lease_row_def sql_upsert_def renew_row_same image_iff split: if_splits)
next
  case False
  then have "lease_identity r \<noteq> lease_identity l" if "r \<in> set rows" for r
    using that by (metis imageI)
  with False show ?thesis using assms
    by (auto simp: upsert_lease_row_def sql_upsert_def split: if_splits)
qed

lemma upsert_lease_row_unique_identity:
  "unique_by lease_identity rows \<Longrightarrow> upsert_lease_row ctx l rows = Inr rows' \<Longrightarrow>
   unique_by lease_identity rows'"
  by (auto simp: upsert_lease_row_def split: if_splits intro: unique_by_upsert)

lemma upsert_lease_row_unique_id:
  assumes ids: "unique_by lr_id rows" and idents: "unique_by lease_identity rows"
    and ok: "upsert_lease_row ctx l rows = Inr rows'"
  shows "unique_by lr_id rows'"
proof -
  have free: "lr_id r \<noteq> lr_id l" if "r \<in> set rows" "lease_identity r \<noteq> lease_identity l" for r
    using ok that by (auto simp: upsert_lease_row_def lease_id_taken_def split: if_splits)
  show ?thesis
  proof (cases "lease_identity l \<in> lease_identity ` set rows")
    case True
    define f where "f = (\<lambda>x. if lease_identity x = lease_identity l then renew_row x l else x)"
    have "inj_on (lr_id \<circ> f) (set rows)"
    proof (rule inj_onI)
      fix x y
      assume xy: "x \<in> set rows" "y \<in> set rows" and eq: "(lr_id \<circ> f) x = (lr_id \<circ> f) y"
      consider "lease_identity x = lease_identity l" "lease_identity y = lease_identity l"
        | "lease_identity x = lease_identity l" "lease_identity y \<noteq> lease_identity l"
        | "lease_identity x \<noteq> lease_identity l" "lease_identity y = lease_identity l"
        | "lease_identity x \<noteq> lease_identity l" "lease_identity y \<noteq> lease_identity l"
        by blast
      then show "x = y"
      proof cases
        case 1 then show ?thesis using unique_byD [OF idents xy] by simp
      next
        case 2 then show ?thesis using eq free [OF xy(2)] by (simp add: f_def)
      next
        case 3 then show ?thesis using eq free [OF xy(1)] by (simp add: f_def)
      next
        case 4 then show ?thesis using eq unique_byD [OF ids xy] by (simp add: f_def)
      qed
    qed
    moreover have "distinct rows" using ids by (simp add: unique_by_def distinct_map)
    ultimately have "unique_by lr_id (map f rows)"
      by (simp add: unique_by_def distinct_map)
    with True ok show ?thesis
      by (auto simp: upsert_lease_row_def sql_upsert_def f_def split: if_splits)
  next
    case False
    then have "lr_id r \<noteq> lr_id l" if "r \<in> set rows" for r
    proof -
      have "lease_identity r \<noteq> lease_identity l" using False that by (metis imageI)
      with that show ?thesis by (rule free)
    qed
    then have "lr_id l \<notin> lr_id ` set rows" by (auto dest: sym)
    with False ok ids show ?thesis
      by (auto simp: upsert_lease_row_def sql_upsert_def unique_by_append1 split: if_splits)
  qed
qed

text \<open>An upsert keeps the invariant when no other holder has a writer row in the way.\<close>

lemma lease_inv_upsert:
  assumes inv: "lease_inv rows" and ok: "upsert_lease_row ctx l rows = Inr rows'"
    and writer: "lr_mode l = Writer \<Longrightarrow>
      \<forall>r\<in>set rows. lr_mode r = Writer \<and> lr_resource_id r = lr_resource_id l
        \<longrightarrow> lr_holder_id r = lr_holder_id l"
  shows "lease_inv rows'"
proof -
  have "single_writer rows'"
    unfolding single_writer_def upsert_lease_row_set [OF ok]
  proof (intro ballI impI, elim conjE insertE)
    fix a b :: lease_record
    assume m: "lr_mode a = Writer" "lr_mode b = Writer" and r: "lr_resource_id a = lr_resource_id b"
    {
      assume "a = l" "b = l"
      then show "lr_holder_id a = lr_holder_id b" by simp
    next
      assume "a = l" "b \<in> {r \<in> set rows. lease_identity r \<noteq> lease_identity l}"
      then show "lr_holder_id a = lr_holder_id b" using writer m r by simp
    next
      assume "a \<in> {r \<in> set rows. lease_identity r \<noteq> lease_identity l}" "b = l"
      then show "lr_holder_id a = lr_holder_id b" using writer m r by simp
    next
      assume "a \<in> {r \<in> set rows. lease_identity r \<noteq> lease_identity l}"
        "b \<in> {r \<in> set rows. lease_identity r \<noteq> lease_identity l}"
      then show "lr_holder_id a = lr_holder_id b"
        using inv m r unfolding lease_inv_def single_writer_def by blast
    }
  qed
  then show ?thesis
    using inv ok upsert_lease_row_unique_id upsert_lease_row_unique_identity
    unfolding lease_inv_def by blast
qed

end
