(* ===== verification/LeaseProtocol.thy ===== *)
theory LeaseProtocol
  imports LeaseStore
begin

text \<open>
  What the lease table promises. An abstract specification (a partial map from resources to
  the one holder that may write), the interface the runtime relies on as a locale, its
  interpretation on the table of \<open>LeaseStore\<close>, and the transition system in which any
  number of processes run the table's transactions in any order.
\<close>

section \<open>The outcome of each transaction\<close>

lemma writer_rows_set:
  "set (writer_rows k res now rows) =
   {r \<in> set rows. lr_resource_id r = res \<and> lr_mode r = Writer \<and> lease_active now r}"
  by (auto simp: writer_rows_def)

definition writer_free :: "string \<Rightarrow> string \<Rightarrow> string \<Rightarrow> lease_table \<Rightarrow> bool" where
  "writer_free res holder now rows \<longleftrightarrow>
     (\<forall>r\<in>set rows. lr_mode r = Writer \<and> lr_resource_id r = res \<and> lease_active now r
        \<longrightarrow> lr_holder_id r = holder)"

lemma writer_free_pruned:
  "writer_free res h now (filter (lease_active now) rows) = writer_free res h now rows"
  by (auto simp: writer_free_def)

lemma writer_free_rows:
  assumes inv: "lease_inv rows"
  shows "writer_free res h now rows \<longleftrightarrow>
    (case writer_rows k res now (filter (lease_active now) rows) of
       [] \<Rightarrow> True | w # _ \<Rightarrow> lr_holder_id w = h)"
proof -
  let ?w = "writer_rows k res now (filter (lease_active now) rows)"
  have set_w: "r \<in> set ?w \<longleftrightarrow> r \<in> set rows \<and> lr_resource_id r = res \<and> lr_mode r = Writer \<and>
      lease_active now r" for r
    by (auto simp: writer_rows_set)
  show ?thesis
  proof (cases ?w)
    case Nil
    then have "\<not> (r \<in> set rows \<and> lr_resource_id r = res \<and> lr_mode r = Writer \<and> lease_active now r)" for r
      using set_w [of r] by simp
    then show ?thesis using Nil by (auto simp: writer_free_def)
  next
    case (Cons w ws)
    then have w: "w \<in> set ?w" by simp
    have "lr_holder_id r = lr_holder_id w" if "r \<in> set ?w" for r
      using inv w that unfolding lease_inv_def single_writer_def set_w by blast
    then have "writer_free res h now rows \<longleftrightarrow> lr_holder_id w = h"
      using w unfolding writer_free_def set_w by metis
    then show ?thesis using Cons by simp
  qed
qed

lemma acquire_lease_eq:
  assumes inv: "lease_inv rows"
  shows "acquire_lease l now rows =
    (if lr_mode l = Writer \<and> \<not> writer_free (lr_resource_id l) (lr_holder_id l) now rows
     then Inl (lease_held_message l (hd (writer_rows ResInstance (lr_resource_id l) now
                 (filter (lease_active now) rows))))
     else map_ok (\<lambda>rows'. (\<exists>r\<in>set rows. lease_identity r = lease_identity l \<and> lease_active now r, rows'))
            (upsert_lease_row acquire_context l (filter (lease_active now) rows)))"
proof -
  have dup: "(\<exists>r\<in>set (filter (lease_active now) rows). lease_identity r = lease_identity l \<and> lease_active now r)
      \<longleftrightarrow> (\<exists>r\<in>set rows. lease_identity r = lease_identity l \<and> lease_active now r)"
    by auto
  show ?thesis
    using writer_free_rows [OF inv, of "lr_resource_id l" "lr_holder_id l" now "lr_resource_kind l"]
    by (cases "writer_rows ResInstance (lr_resource_id l) now (filter (lease_active now) rows)")
      (simp_all only: acquire_lease_def prune_eq Let_def dup resource_kind_only list.case, simp_all)
qed

lemma acquire_lease_ok_iff:
  assumes inv: "lease_inv rows"
  shows "acquire_lease l now rows = Inr (renewed, rows') \<longleftrightarrow>
    renewed = (\<exists>r\<in>set rows. lease_identity r = lease_identity l \<and> lease_active now r) \<and>
    (lr_mode l = Writer \<longrightarrow> writer_free (lr_resource_id l) (lr_holder_id l) now rows) \<and>
    upsert_lease_row acquire_context l (filter (lease_active now) rows) = Inr rows'"
  by (cases "upsert_lease_row acquire_context l (filter (lease_active now) rows)")
    (auto simp: acquire_lease_eq [OF inv])

lemma acquire_lease_rows:
  assumes "lease_inv rows" and "acquire_lease l now rows = Inr (b, rows')"
  shows "set rows' =
    insert l {r \<in> set rows. lease_active now r \<and> lease_identity r \<noteq> lease_identity l}"
proof -
  have "upsert_lease_row acquire_context l (filter (lease_active now) rows) = Inr rows'"
    using assms by (simp add: acquire_lease_ok_iff)
  from upsert_lease_row_set [OF this] show ?thesis by auto
qed

definition writer_row_of :: "string \<Rightarrow> string \<Rightarrow> lease_record \<Rightarrow> bool" where
  "writer_row_of res h r \<longleftrightarrow> lr_resource_id r = res \<and> lr_holder_id r = h \<and> lr_mode r = Writer"

lemma transfer_lease_eq:
  "transfer_writer_lease res h l now rows =
    (if length (filter (writer_row_of res h) (filter (lease_active now) rows)) = 1
     then upsert_lease_row transfer_context l
            (filter (\<lambda>r. \<not> writer_row_of res h r) (filter (lease_active now) rows))
     else Inl (transfer_missing_message h))"
  by (simp add: transfer_writer_lease_def prune_eq delete_leases_def sql_delete_def Let_def
      writer_row_of_def)

lemma transfer_ok_iff:
  "transfer_writer_lease res h l now rows = Inr rows' \<longleftrightarrow>
    length (filter (writer_row_of res h) (filter (lease_active now) rows)) = 1 \<and>
    upsert_lease_row transfer_context l
      (filter (\<lambda>r. \<not> writer_row_of res h r) (filter (lease_active now) rows)) = Inr rows'"
  by (simp add: transfer_lease_eq)

lemma transfer_ok_writer:
  assumes "transfer_writer_lease res h l now rows = Inr rows'"
  shows "\<exists>w\<in>set rows. writer_row_of res h w \<and> lease_active now w"
proof -
  have "filter (writer_row_of res h) (filter (lease_active now) rows) \<noteq> []"
    using assms unfolding transfer_ok_iff by (metis One_nat_def list.size(3) zero_neq_one)
  then obtain w where "w \<in> set (filter (writer_row_of res h) (filter (lease_active now) rows))"
    by (metis list.set_sel(1))
  then show ?thesis by auto
qed

lemma transfer_ok_rows:
  assumes "transfer_writer_lease res h l now rows = Inr rows'"
  shows "set rows' = insert l {r \<in> set rows. lease_active now r \<and> \<not> writer_row_of res h r \<and>
      lease_identity r \<noteq> lease_identity l}"
  using upsert_lease_row_set assms unfolding transfer_ok_iff by fastforce

section \<open>Every transaction keeps the invariant\<close>

lemma lease_inv_acquire:
  assumes inv: "lease_inv rows" and ok: "acquire_lease l now rows = Inr (b, rows')"
  shows "lease_inv rows'"
proof -
  from ok inv have free: "lr_mode l = Writer \<Longrightarrow> writer_free (lr_resource_id l) (lr_holder_id l) now rows"
    and up: "upsert_lease_row acquire_context l (filter (lease_active now) rows) = Inr rows'"
    by (simp_all add: acquire_lease_ok_iff)
  show ?thesis
    by (rule lease_inv_upsert [OF lease_inv_filter [OF inv] up])
      (use free in \<open>auto simp: writer_free_def\<close>)
qed

lemma lease_inv_transfer:
  assumes inv: "lease_inv rows" and ok: "transfer_writer_lease res h l now rows = Inr rows'"
    and res: "lr_resource_id l = res"
  shows "lease_inv rows'"
proof -
  have up: "upsert_lease_row transfer_context l
      (filter (\<lambda>r. \<not> writer_row_of res h r) (filter (lease_active now) rows)) = Inr rows'"
    using ok unfolding transfer_ok_iff by blast
  obtain w where w: "w \<in> set rows" "writer_row_of res h w" using transfer_ok_writer [OF ok] by blast
  have no_other: "writer_row_of res h r"
    if "r \<in> set rows" "lr_mode r = Writer" "lr_resource_id r = res" for r
    using inv w that unfolding lease_inv_def single_writer_def writer_row_of_def by metis
  show ?thesis
    by (rule lease_inv_upsert [OF lease_inv_filter [OF lease_inv_filter [OF inv]] up])
      (use no_other res in auto)
qed

section \<open>The abstract specification: one writer per resource\<close>

type_synonym writers = "string \<rightharpoonup> string"

definition writer_of :: "lease_table \<Rightarrow> writers" where
  "writer_of rows res =
     map_option lr_holder_id (List.find (\<lambda>l. lr_mode l = Writer \<and> lr_resource_id l = res) rows)"

lemma writer_of_Some:
  assumes "single_writer rows"
  shows "writer_of rows res = Some h \<longleftrightarrow>
    (\<exists>l\<in>set rows. lr_mode l = Writer \<and> lr_resource_id l = res \<and> lr_holder_id l = h)"
proof
  assume "writer_of rows res = Some h"
  then obtain w where "List.find (\<lambda>l. lr_mode l = Writer \<and> lr_resource_id l = res) rows = Some w"
    and "lr_holder_id w = h"
    unfolding writer_of_def by blast
  then show "\<exists>l\<in>set rows. lr_mode l = Writer \<and> lr_resource_id l = res \<and> lr_holder_id l = h"
    using find_Some_iff_set by fastforce
next
  assume "\<exists>l\<in>set rows. lr_mode l = Writer \<and> lr_resource_id l = res \<and> lr_holder_id l = h"
  then obtain l where l: "l \<in> set rows" "lr_mode l = Writer" "lr_resource_id l = res" "lr_holder_id l = h"
    by blast
  then obtain w where w: "List.find (\<lambda>l. lr_mode l = Writer \<and> lr_resource_id l = res) rows = Some w"
    by (cases "List.find (\<lambda>l. lr_mode l = Writer \<and> lr_resource_id l = res) rows")
      (auto simp: find_None_iff)
  from find_Some_iff_set [OF w] have "w \<in> set rows" "lr_mode w = Writer" "lr_resource_id w = res"
    by simp_all
  with l assms have "lr_holder_id w = h"
    unfolding single_writer_def by metis
  with w show "writer_of rows res = Some h" by (simp add: writer_of_def)
qed

text \<open>Expiry and release drop writers; a grant needs the resource to be free of other
  writers; a transfer needs the holder that gives the resource away.\<close>

definition expire :: "writers \<Rightarrow> writers \<Rightarrow> bool" where
  "expire m m' \<longleftrightarrow> m' \<subseteq>\<^sub>m m"

inductive writers_step :: "writers \<Rightarrow> writers \<Rightarrow> bool" where
  w_expire: "expire m m' \<Longrightarrow> writers_step m m'"
| w_grant: "expire m m' \<Longrightarrow> m' res = None \<or> m' res = Some h \<Longrightarrow> writers_step m (m'(res \<mapsto> h))"
| w_transfer: "expire m m' \<Longrightarrow> m' res = Some h \<Longrightarrow> writers_step m (m'(res \<mapsto> h'))"

section \<open>Processes running transactions in any order\<close>

text \<open>
  One step is one committed transaction of some process, at some clock reading: clocks need
  not agree or advance. A transaction that returns an error is rolled back and is no step.
  \<open>transfer_writer_lease\<close> is called with a replacement built for the same instance
  (\<open>lease_transfer\<close>).
\<close>

inductive lease_step :: "lease_table \<Rightarrow> lease_table \<Rightarrow> bool" where
  step_acquire: "acquire_lease l now rows = Inr (renewed, rows') \<Longrightarrow> lease_step rows rows'"
| step_prune: "prune_expired_leases now rows = (rows', n) \<Longrightarrow> lease_step rows rows'"
| step_delete: "delete_leases res h mode rows = (rows', n) \<Longrightarrow> lease_step rows rows'"
| step_transfer: "transfer_writer_lease res h l now rows = Inr rows' \<Longrightarrow> lr_resource_id l = res \<Longrightarrow>
    lr_mode l = Writer \<Longrightarrow> lease_step rows rows'"

inductive lease_reachable :: "lease_table \<Rightarrow> bool" where
  reach_empty: "lease_reachable []"
| reach_step: "lease_reachable rows \<Longrightarrow> lease_step rows rows' \<Longrightarrow> lease_reachable rows'"

inductive_cases lease_stepE: "lease_step rows rows'"

lemma lease_step_inv: "lease_step rows rows' \<Longrightarrow> lease_inv rows \<Longrightarrow> lease_inv rows'"
proof (elim lease_stepE)
  show "lease_inv rows'" if "lease_inv rows" "prune_expired_leases now rows = (rows', n)" for now n
    using lease_inv_prune [of rows now] that by simp
  show "lease_inv rows'" if "lease_inv rows" "delete_leases res h mode rows = (rows', n)" for res h mode n
    using lease_inv_delete [of rows res h mode] that by simp
qed (blast intro: lease_inv_acquire lease_inv_transfer)+

lemma lease_reachable_inv: "lease_reachable rows \<Longrightarrow> lease_inv rows"
  by (induction rule: lease_reachable.induct) (auto intro: lease_step_inv)

lemma lease_inv_single: "lease_inv rows \<Longrightarrow> single_writer rows"
  by (simp add: lease_inv_def)

section \<open>The table refines the specification\<close>

lemma writers_eqI: "(\<And>res h. m res = Some h \<longleftrightarrow> m' res = Some h) \<Longrightarrow> m = (m' :: writers)"
  by (rule ext) (metis not_Some_eq)

lemma expire_filter:
  assumes "single_writer rows"
  shows "expire (writer_of rows) (writer_of (filter P rows))"
proof -
  have "single_writer (filter P rows)" using assms by (simp add: single_writer_def)
  then have "writer_of rows res = Some h" if "writer_of (filter P rows) res = Some h" for res h
    using that unfolding writer_of_Some [OF assms] by (auto simp: writer_of_Some)
  then show ?thesis unfolding expire_def map_le_def by force
qed

text \<open>A table that holds the rows of another plus one writer row maps to a map update.\<close>

lemma writer_of_insert:
  assumes s: "single_writer rows" and s': "single_writer rows'"
    and eq: "set rows' = insert l {r \<in> set rows. lease_identity r \<noteq> lease_identity l}"
  shows "writer_of rows' =
    (if lr_mode l = Writer then (writer_of rows)(lr_resource_id l \<mapsto> lr_holder_id l) else writer_of rows)"
proof (rule writers_eqI)
  fix res h
  have other: "lr_holder_id r = lr_holder_id l"
    if "r \<in> set rows'" "lr_mode r = Writer" "lr_mode l = Writer" "lr_resource_id r = lr_resource_id l" for r
    using s' that eq unfolding single_writer_def by auto
  show "writer_of rows' res = Some h \<longleftrightarrow> (if lr_mode l = Writer
      then (writer_of rows)(lr_resource_id l \<mapsto> lr_holder_id l) else writer_of rows) res = Some h"
    using other unfolding writer_of_Some [OF s'] eq
    by (auto simp: writer_of_Some [OF s] lease_identity_iff)
qed

lemma lease_step_refines:
  assumes step: "lease_step rows rows'" and inv: "lease_inv rows"
  shows "writers_step (writer_of rows) (writer_of rows')"
  using step
proof (cases rule: lease_step.cases)
  case (step_acquire l now renewed)
  let ?p = "filter (lease_active now) rows"
  have up: "upsert_lease_row acquire_context l ?p = Inr rows'"
    and free: "lr_mode l = Writer \<Longrightarrow> writer_free (lr_resource_id l) (lr_holder_id l) now rows"
    using step_acquire inv by (simp_all add: acquire_lease_ok_iff)
  have s: "single_writer ?p" using lease_inv_filter [OF inv] by (rule lease_inv_single)
  have s': "single_writer rows'" using lease_inv_single [OF lease_inv_acquire [OF inv step_acquire]] .
  have ex: "expire (writer_of rows) (writer_of ?p)" using inv by (intro expire_filter lease_inv_single)
  have "writer_of ?p (lr_resource_id l) = None \<or> writer_of ?p (lr_resource_id l) = Some (lr_holder_id l)"
    if w: "lr_mode l = Writer"
  proof (cases "writer_of ?p (lr_resource_id l)")
    case (Some h)
    then show ?thesis using free [OF w] by (auto simp: writer_of_Some [OF s] writer_free_def)
  qed simp
  then show ?thesis
    using ex writer_of_insert [OF s s' upsert_lease_row_set [OF up]]
    by (auto intro: w_expire w_grant)
next
  case (step_prune now n)
  then have "rows' = filter (lease_active now) rows" using prune_eq [of now rows] by simp
  then show ?thesis using inv by (auto intro!: w_expire expire_filter lease_inv_single)
next
  case (step_delete res h mode n)
  then have "rows' = fst (delete_leases res h mode rows)" by simp
  then obtain P where "rows' = filter P rows" by (auto simp: delete_leases_def sql_delete_def)
  then show ?thesis using inv by (auto intro!: w_expire expire_filter lease_inv_single)
next
  case (step_transfer res h l now)
  let ?p = "filter (lease_active now) rows"
  let ?k = "filter (\<lambda>r. \<not> writer_row_of res h r) ?p"
  have up: "upsert_lease_row transfer_context l ?k = Inr rows'"
    using step_transfer(1) unfolding transfer_ok_iff by blast
  have s: "single_writer ?p" and k: "single_writer ?k"
    using inv by (auto intro!: lease_inv_single lease_inv_filter)
  have s': "single_writer rows'" using lease_inv_single [OF lease_inv_transfer [OF inv step_transfer(1,2)]] .
  have ex: "expire (writer_of rows) (writer_of ?p)" using inv by (intro expire_filter lease_inv_single)
  obtain w where "w \<in> set ?p" "writer_row_of res h w" using transfer_ok_writer [OF step_transfer(1)] by auto
  then have held: "writer_of ?p res = Some h" by (auto simp: writer_of_Some [OF s] writer_row_of_def)
  have "writer_of rows' = (writer_of ?k)(res \<mapsto> lr_holder_id l)"
    using writer_of_insert [OF k s' upsert_lease_row_set [OF up]] step_transfer(2,3) by simp
  also have "\<dots> = (writer_of ?p)(res \<mapsto> lr_holder_id l)"
  proof (rule writers_eqI)
    fix r g
    have "writer_of ?k r = Some g \<longleftrightarrow> writer_of ?p r = Some g" if "r \<noteq> res"
      using that unfolding writer_of_Some [OF s] writer_of_Some [OF k]
      by (auto simp: writer_row_of_def)
    then show "((writer_of ?k)(res \<mapsto> lr_holder_id l)) r = Some g \<longleftrightarrow>
        ((writer_of ?p)(res \<mapsto> lr_holder_id l)) r = Some g"
      by (auto simp del: filter_filter)
  qed
  finally show ?thesis using w_transfer [OF ex held] by simp
qed

section \<open>The interface the runtime relies on\<close>

text \<open>
  A lease provider: a store of lease rows with acquire, release and prune. The laws say which
  rows each operation leaves and when an acquire must fail; nothing is said of how the rows
  are stored.
\<close>

locale lease_provider =
  fixes inv :: "'t \<Rightarrow> bool" and rows :: "'t \<Rightarrow> lease_record set"
    and acquire :: "lease_record \<Rightarrow> string \<Rightarrow> 't \<Rightarrow> (bool \<times> 't) res"
    and prune :: "string \<Rightarrow> 't \<Rightarrow> 't \<times> nat"
    and release :: "string \<Rightarrow> string \<Rightarrow> lease_mode option \<Rightarrow> 't \<Rightarrow> 't \<times> nat"
  assumes inv_acquire: "inv t \<Longrightarrow> acquire l now t = Inr (b, t') \<Longrightarrow> inv t'"
    and inv_prune: "inv t \<Longrightarrow> inv (fst (prune now t))"
    and inv_release: "inv t \<Longrightarrow> inv (fst (release res h mode t))"
    and rows_acquire: "inv t \<Longrightarrow> acquire l now t = Inr (b, t') \<Longrightarrow>
      rows t' = insert l {r \<in> rows t. lease_active now r \<and> lease_identity r \<noteq> lease_identity l}"
    and acquire_needs_free: "inv t \<Longrightarrow> acquire l now t = Inr (b, t') \<Longrightarrow> lr_mode l = Writer \<Longrightarrow>
      r \<in> rows t \<Longrightarrow> writer_row_of (lr_resource_id l) h r \<Longrightarrow> lease_active now r \<Longrightarrow> h = lr_holder_id l"
    and acquire_renewed: "inv t \<Longrightarrow> acquire l now t = Inr (b, t') \<Longrightarrow>
      b = (\<exists>r\<in>rows t. lease_identity r = lease_identity l \<and> lease_active now r)"
    and rows_prune: "rows (fst (prune now t)) = {r \<in> rows t. lease_active now r}"
    and rows_release: "rows (fst (release res h mode t)) = {r \<in> rows t.
      \<not> (lr_resource_id r = res \<and> lr_holder_id r = h \<and> (mode = None \<or> mode = Some (lr_mode r)))}"
begin

lemma acquired_row: "inv t \<Longrightarrow> acquire l now t = Inr (b, t') \<Longrightarrow> l \<in> rows t'"
  by (simp add: rows_acquire)

lemma others_stay:
  "inv t \<Longrightarrow> acquire l now t = Inr (b, t') \<Longrightarrow> r \<in> rows t \<Longrightarrow> lease_active now r \<Longrightarrow>
   lr_holder_id r \<noteq> lr_holder_id l \<Longrightarrow> r \<in> rows t'"
  by (auto simp: rows_acquire lease_identity_iff)

text \<open>A granted writer lease locks every other holder out until it expires.\<close>

lemma excludes_until_expiry:
  assumes "inv t" and "acquire l now t = Inr (b, t')" and "lr_mode l = Writer"
    and "lr_mode l' = Writer" and "lr_resource_id l' = lr_resource_id l"
    and "lr_holder_id l' \<noteq> lr_holder_id l" and "now' < lr_expires_at l"
  shows "\<not> is_ok (acquire l' now' t')"
proof
  assume "is_ok (acquire l' now' t')"
  then obtain c t'' where "acquire l' now' t' = Inr (c, t'')" by (auto simp: is_ok_iff)
  then show False
    using acquire_needs_free [OF inv_acquire [OF assms(1,2)], of l' now' c t'' l "lr_holder_id l"]
      acquired_row [OF assms(1,2)] assms
    by (simp add: writer_row_of_def lease_active_def)
qed

text \<open>A second acquire of the same identity before expiry is a renewal.\<close>

lemma renews:
  assumes "inv t" and "acquire l now t = Inr (b, t')" and "lease_identity l' = lease_identity l"
    and "now' < lr_expires_at l" and "acquire l' now' t' = Inr (c, t'')"
  shows "c \<and> l' \<in> rows t''"
  using acquire_renewed [OF inv_acquire [OF assms(1,2)] assms(5)] acquired_row [OF assms(1,2)]
    acquired_row [OF inv_acquire [OF assms(1,2)] assms(5)] assms(3,4)
  by (auto simp: lease_active_def)

lemma released_gone:
  "r \<in> rows (fst (release res h None t)) \<Longrightarrow> \<not> (lr_resource_id r = res \<and> lr_holder_id r = h)"
  by (simp add: rows_release)

end

interpretation lp: lease_provider lease_inv set acquire_lease prune_expired_leases delete_leases
proof unfold_locales
  fix t :: lease_table and t' :: lease_table and l :: lease_record and now :: string and b :: bool
  assume inv: "lease_inv t" and ok: "acquire_lease l now t = Inr (b, t')"
  show "lease_inv t'" by (rule lease_inv_acquire [OF inv ok])
  show "set t' = insert l {r \<in> set t. lease_active now r \<and> lease_identity r \<noteq> lease_identity l}"
    by (rule acquire_lease_rows [OF inv ok])
  show "b = (\<exists>r\<in>set t. lease_identity r = lease_identity l \<and> lease_active now r)"
    using ok by (simp add: acquire_lease_ok_iff [OF inv])
  show "h = lr_holder_id l" if "lr_mode l = Writer" "r \<in> set t"
    "writer_row_of (lr_resource_id l) h r" "lease_active now r" for r h
    using ok that by (auto simp: acquire_lease_ok_iff [OF inv] writer_free_def writer_row_of_def)
next
  show "lease_inv (fst (prune_expired_leases now t))" if "lease_inv t" for now t
    using that by (rule lease_inv_prune)
  show "lease_inv (fst (delete_leases res h mode t))" if "lease_inv t" for res h mode t
    using that by (rule lease_inv_delete)
  show "set (fst (prune_expired_leases now t)) = {r \<in> set t. lease_active now r}" for now t
    by (auto simp: prune_eq)
  show "set (fst (delete_leases res h mode t)) = {r \<in> set t. \<not> (lr_resource_id r = res \<and>
      lr_holder_id r = h \<and> (mode = None \<or> mode = Some (lr_mode r)))}" for res h mode t
    by (cases mode) (auto simp: delete_leases_set)
qed

section \<open>Properties\<close>

text \<open>Claim C9. Whatever transactions any number of processes commit, in any order and with
  clocks that need not agree, no instance ever has writer rows of two different holders, and
  no lease id or lease identity occurs twice.\<close>

theorem reachable_single_writer:
  "lease_reachable rows \<Longrightarrow> single_writer rows \<and> unique_by lr_id rows \<and> unique_by lease_identity rows"
  by (drule lease_reachable_inv) (simp add: lease_inv_def)

definition sample_lease :: "string \<Rightarrow> lease_mode \<Rightarrow> string \<Rightarrow> lease_record" where
  "sample_lease h m expires =
     \<lparr>lr_id = ''lease_'' @ h @ lease_mode_str m, lr_resource_kind = ResInstance, lr_resource_id = ''i1'',
      lr_holder_id = h, lr_holder_label = None, lr_mode = m, lr_granted_at = ''10'',
      lr_expires_at = expires, lr_last_heartbeat_at = ''10''\<rparr>"

lemma sample_acquire:
  "acquire_lease (sample_lease ''a'' Writer ''20'') ''10'' [] = Inr (False, [sample_lease ''a'' Writer ''20''])"
  by code_simp

theorem reachable_single_writer_witness: "single_writer [sample_lease ''a'' Writer ''20'']"
  using reachable_single_writer [OF reach_step [OF reach_empty step_acquire [OF sample_acquire]]] by simp



text \<open>Claim C11. A granted writer lease is exclusive until it expires: as long as the clock of
  the next caller reads less than the expiry, \<open>acquire_lease\<close> refuses every other holder.\<close>

theorem acquire_excludes_until_expiry:
  assumes "lease_inv rows" and "acquire_lease l now rows = Inr (b, rows')" and "lr_mode l = Writer"
    and "lr_mode l' = Writer" and "lr_resource_id l' = lr_resource_id l"
    and "lr_holder_id l' \<noteq> lr_holder_id l" and "now' < lr_expires_at l"
  shows "\<not> is_ok (acquire_lease l' now' rows')"
  using assms by (rule lp.excludes_until_expiry)

theorem acquire_excludes_until_expiry_witness:
  "\<not> is_ok (acquire_lease (sample_lease ''b'' Writer ''30'') ''15'' [sample_lease ''a'' Writer ''20''])"
  by (rule acquire_excludes_until_expiry [OF lease_inv_Nil sample_acquire]) (simp_all add: sample_lease_def)

text \<open>Claim C8. The outcome of \<open>acquire_lease\<close>: it succeeds exactly when no other holder has
  an active writer lease in the way (for a writer request) and no other lease row has taken
  its id; then the row is stored, expired rows are gone, and the flag says whether it renewed
  an active lease of the same identity.\<close>

theorem acquire_lease_outcome:
  assumes "lease_inv rows"
  shows "case acquire_lease l now rows of
      Inr (renewed, rows') \<Rightarrow>
        renewed = (\<exists>r\<in>set rows. lease_identity r = lease_identity l \<and> lease_active now r) \<and>
        (lr_mode l = Writer \<longrightarrow> writer_free (lr_resource_id l) (lr_holder_id l) now rows) \<and>
        set rows' = insert l {r \<in> set rows. lease_active now r \<and> lease_identity r \<noteq> lease_identity l}
    | Inl e \<Rightarrow>
        (lr_mode l = Writer \<and> \<not> writer_free (lr_resource_id l) (lr_holder_id l) now rows) \<or>
        lease_id_taken l (filter (lease_active now) rows)"
proof (cases "acquire_lease l now rows")
  case (Inl e)
  then show ?thesis
    by (auto simp: acquire_lease_eq [OF assms] upsert_lease_row_def split: if_splits)
next
  case (Inr br)
  obtain b rows' where br: "br = (b, rows')" by fastforce
  from acquire_lease_rows [OF assms Inr [unfolded br]] acquire_lease_ok_iff [OF assms, THEN iffD1, OF Inr [unfolded br]]
  show ?thesis unfolding Inr br sum.case prod.case by blast
qed

theorem acquire_lease_outcome_witness:
  "writer_free ''i1'' ''b'' ''15'' [sample_lease ''a'' Writer ''20''] = False"
proof -
  have inv: "lease_inv [sample_lease ''a'' Writer ''20'']"
    using lease_inv_acquire [OF lease_inv_Nil sample_acquire] .
  have "\<not> is_ok (acquire_lease (sample_lease ''b'' Writer ''30'') ''15'' [sample_lease ''a'' Writer ''20''])"
    by code_simp
  then obtain e where
    "acquire_lease (sample_lease ''b'' Writer ''30'') ''15'' [sample_lease ''a'' Writer ''20''] = Inl e"
    by (cases "acquire_lease (sample_lease ''b'' Writer ''30'') ''15'' [sample_lease ''a'' Writer ''20'']")
      simp_all
  moreover have "\<not> lease_id_taken (sample_lease ''b'' Writer ''30'')
      (filter (lease_active ''15'') [sample_lease ''a'' Writer ''20''])"
    by code_simp
  ultimately show ?thesis
    using acquire_lease_outcome [OF inv, of "sample_lease ''b'' Writer ''30''" "''15''"]
    by (simp add: sample_lease_def)
qed

end
