(* ===== verification/RunStore.thy ===== *)
theory RunStore
  imports Types Tables Ids
begin

text \<open>
  Capture runs, the event log and the runtime identities of
  \<open>crates/pengu-mesh-state/src/lib.rs\<close>. Status and level columns hold the JSON name of
  the enumeration; the rows here keep the enumeration. What the code reads from the clock,
  from \<open>unique_suffix\<close> and from the process id is an argument of the operation.
\<close>

section \<open>Capture runs\<close>

type_synonym run_table = "capture_run list"

definition create_run ::
  "string \<Rightarrow> string \<Rightarrow> nat \<Rightarrow> string \<Rightarrow> string \<Rightarrow> run_table \<Rightarrow> (capture_run \<times> run_table) res" where
  "create_run entrypoint detail pid sfx now runs =
     (let run = \<lparr>cr_id = stable_id IdRun (entrypoint @ ''_'' @ show_nat pid @ ''_'' @ sfx),
                 cr_entrypoint = entrypoint, cr_detail = detail, cr_status = RunActive,
                 cr_started_at = now, cr_ended_at = None\<rparr>
      in (case sql_insert cr_id run runs of
            None \<Rightarrow> Inl ''insert run''
          | Some runs' \<Rightarrow> Inr (run, runs')))"

definition latest_active_run :: "string \<Rightarrow> run_table \<Rightarrow> capture_run option" where
  "latest_active_run entrypoint runs =
     (case sql_limit 1 (order_desc cr_started_at
             (filter (\<lambda>r. cr_entrypoint r = entrypoint \<and> cr_status r = RunActive) runs)) of
        [] \<Rightarrow> None | r # _ \<Rightarrow> Some r)"

definition get_run :: "string \<Rightarrow> run_table \<Rightarrow> capture_run option" where
  "get_run run_id runs = sql_get (\<lambda>r. cr_id r = run_id) runs"

definition list_runs :: "64 word \<Rightarrow> run_table \<Rightarrow> capture_run list" where
  "list_runs limit runs = sql_limit limit (order_desc cr_started_at runs)"

text \<open>\<open>complete_run\<close> returns the run it found and the table after the update.\<close>

definition complete_run ::
  "string \<Rightarrow> string option \<Rightarrow> string \<Rightarrow> run_table \<Rightarrow> capture_run option \<times> run_table" where
  "complete_run run_id detail now runs =
     (case get_run run_id runs of
        None \<Rightarrow> (None, runs)
      | Some run \<Rightarrow>
          (if cr_status run = RunCompleted then (Some run, runs)
           else
             (let run = run\<lparr>cr_detail := unwrap_or (cr_detail run) detail,
                            cr_status := RunCompleted, cr_ended_at := Some now\<rparr>
              in (Some run,
                  fst (sql_update (\<lambda>r. cr_id r = cr_id run)
                         (\<lambda>r. r\<lparr>cr_detail := cr_detail run, cr_status := cr_status run,
                                cr_ended_at := cr_ended_at run\<rparr>) runs)))))"

section \<open>The event log\<close>

text \<open>The \<open>AUTOINCREMENT\<close> counter is the next sequence number; it only moves on a
  successful insert.\<close>

record event_log =
  el_next :: nat
  el_rows :: "runtime_event list"

definition empty_event_log :: event_log where
  "empty_event_log = \<lparr>el_next = 1, el_rows = []\<rparr>"

definition append_event ::
  "string \<Rightarrow> string \<Rightarrow> string \<Rightarrow> event_level \<Rightarrow> string \<Rightarrow> string option \<Rightarrow> string option \<Rightarrow>
   string option \<Rightarrow> json \<Rightarrow> string \<Rightarrow> string \<Rightarrow> event_log \<Rightarrow> (runtime_event \<times> event_log) res" where
  "append_event run_id category action level message instance_id tab_id artifact_id data now sfx log =
     (let ev = \<lparr>ev_schema_version = 1,
                ev_id = stable_id IdEvent (run_id @ ''_'' @ category @ ''_'' @ action @ ''_'' @ sfx),
                ev_run_id = run_id, ev_sequence = el_next log, ev_category = category,
                ev_action = action, ev_level = level, ev_message = message,
                ev_instance_id = instance_id, ev_tab_id = tab_id, ev_artifact_id = artifact_id,
                ev_data = data, ev_timestamp = now\<rparr>
      in (case sql_insert ev_id ev (el_rows log) of
            None \<Rightarrow> Inl ''append event''
          | Some rows \<Rightarrow> Inr (ev, \<lparr>el_next = Suc (el_next log), el_rows = rows\<rparr>)))"

definition tail_events :: "string option \<Rightarrow> 64 word \<Rightarrow> event_log \<Rightarrow> runtime_event list" where
  "tail_events run_id limit log =
     rev (sql_limit limit (order_desc ev_sequence
       (filter (\<lambda>e. case run_id of None \<Rightarrow> True | Some r \<Rightarrow> ev_run_id e = r) (el_rows log))))"

definition list_events_for_run :: "string \<Rightarrow> event_log \<Rightarrow> runtime_event list" where
  "list_events_for_run run_id log =
     order_asc ev_sequence (filter (\<lambda>e. ev_run_id e = run_id) (el_rows log))"

section \<open>Runtime identities\<close>

record runtime_identity =
  ri_entrypoint :: string
  ri_operator_id :: string
  ri_created_at :: string
  ri_updated_at :: string

definition get_or_create_runtime_identity ::
  "string \<Rightarrow> string \<Rightarrow> runtime_identity list \<Rightarrow>
   ((runtime_identity \<times> bool) \<times> runtime_identity list) res" where
  "get_or_create_runtime_identity entrypoint now ids =
     (case sql_get (\<lambda>i. ri_entrypoint i = entrypoint) ids of
        Some identity \<Rightarrow>
          Inr ((identity\<lparr>ri_updated_at := now\<rparr>, True),
               fst (sql_update (\<lambda>i. ri_entrypoint i = entrypoint) (\<lambda>i. i\<lparr>ri_updated_at := now\<rparr>) ids))
      | None \<Rightarrow>
          (let identity = \<lparr>ri_entrypoint = entrypoint,
                           ri_operator_id = stable_id IdLease (''operator_'' @ entrypoint),
                           ri_created_at = now, ri_updated_at = now\<rparr>
           in (case sql_insert ri_entrypoint identity ids of
                 None \<Rightarrow> Inl ''insert runtime identity''
               | Some ids' \<Rightarrow> Inr ((identity, False), ids'))))"

section \<open>The log is append-only\<close>

text \<open>The interface every reader of the log relies on: rows in sequence order, new rows at
  the end.\<close>

definition log_inv :: "event_log \<Rightarrow> bool" where
  "log_inv log \<longleftrightarrow> unique_by ev_id (el_rows log) \<and>
     sorted_wrt (<) (map ev_sequence (el_rows log)) \<and>
     (\<forall>e\<in>set (el_rows log). ev_sequence e < el_next log)"

locale append_log =
  fixes rows :: "'l \<Rightarrow> 'e list" and inv :: "'l \<Rightarrow> bool" and seq :: "'e \<Rightarrow> nat"
    and append :: "'a \<Rightarrow> 'l \<Rightarrow> ('e \<times> 'l) res"
  assumes rows_append: "append a l = Inr (e, l') \<Longrightarrow> rows l' = rows l @ [e]"
    and inv_append: "inv l \<Longrightarrow> append a l = Inr (e, l') \<Longrightarrow> inv l'"
    and seq_increases: "inv l \<Longrightarrow> sorted_wrt (<) (map seq (rows l))"
begin

text \<open>Appending a whole list of requests, as far as it succeeds.\<close>

lemma prefix_after_append: "append a l = Inr (e, l') \<Longrightarrow> prefix (rows l) (rows l')"
  by (simp add: rows_append)

lemma new_row_is_last: "inv l \<Longrightarrow> append a l = Inr (e, l') \<Longrightarrow> d \<in> set (rows l) \<Longrightarrow> seq d < seq e"
  using seq_increases [OF inv_append, of l a e l'] by (simp add: rows_append sorted_wrt_append)

lemma rows_strict: "inv l \<Longrightarrow> sorted_wrt (<) (map seq (filter P (rows l)))"
  using seq_increases [of l] by (auto simp: sorted_wrt_map intro: sorted_wrt_filter)

lemma order_asc_rows: "inv l \<Longrightarrow> order_asc seq (filter P (rows l)) = filter P (rows l)"
  by (simp add: order_asc_def sort_key_id_if_sorted strict_sorted_imp_sorted rows_strict)

lemma order_desc_rows: "inv l \<Longrightarrow> order_desc seq (filter P (rows l)) = rev (filter P (rows l))"
  using sort_key_rev [OF rows_strict] by (simp add: order_desc_def)

end

lemma append_event_rows:
  assumes "append_event r c a lv m i t af d now sfx log = Inr (e, log')"
  shows "el_rows log' = el_rows log @ [e]" "el_next log' = Suc (el_next log)"
    "ev_sequence e = el_next log" "ev_id e \<notin> ev_id ` set (el_rows log)"
  using assms by (auto simp: append_event_def sql_insert_def Let_def split: if_splits)

lemma log_inv_empty [simp]: "log_inv empty_event_log"
  by (simp add: log_inv_def empty_event_log_def)

lemma log_inv_append:
  assumes "log_inv log" and "append_event r c a lv m i t af d now sfx log = Inr (e, log')"
  shows "log_inv log'"
  using assms(1) append_event_rows [OF assms(2)]
  by (auto simp: log_inv_def unique_by_append1 sorted_wrt_append less_SucI)

text \<open>The arguments of one append, so that the log is an instance of the interface.\<close>

type_synonym event_request = "string \<times> string \<times> string \<times> event_level \<times> string \<times> string option \<times>
  string option \<times> string option \<times> json \<times> string \<times> string"

definition append_request :: "event_request \<Rightarrow> event_log \<Rightarrow> (runtime_event \<times> event_log) res" where
  "append_request = (\<lambda>(r, c, a, lv, m, i, t, af, d, now, sfx). append_event r c a lv m i t af d now sfx)"

interpretation elog: append_log el_rows log_inv ev_sequence append_request
proof unfold_locales
  show "el_rows l' = el_rows l @ [e]" if "append_request a l = Inr (e, l')" for a l e l'
    using that by (auto simp: append_request_def append_event_rows split: prod.splits)
  show "log_inv l'" if "log_inv l" "append_request a l = Inr (e, l')" for a l e l'
    using that by (auto simp: append_request_def log_inv_append split: prod.splits)
  show "sorted_wrt (<) (map ev_sequence (el_rows l))" if "log_inv l" for l
    using that by (simp add: log_inv_def)
qed

section \<open>Properties\<close>

text \<open>Tailing the log returns the most recent \<open>limit\<close> events of the selected
  run (or of all runs) in the order they were appended: the reversed, limited, descending
  query is exactly the last rows of the log.\<close>

theorem tail_events_suffix:
  assumes "log_inv log" and "0 \<le> sint limit"
  shows "tail_events run_id limit log =
    (let evs = filter (\<lambda>e. case run_id of None \<Rightarrow> True | Some r \<Rightarrow> ev_run_id e = r) (el_rows log)
     in drop (length evs - unat limit) evs)"
  using assms by (simp add: tail_events_def elog.order_desc_rows sql_limit_def Let_def rev_take)

definition sample_append :: "string \<Rightarrow> event_log \<Rightarrow> event_log" where
  "sample_append sfx log =
     (case append_event ''run_1'' ''lease'' ''acquire'' Info [] None None None JNull [] sfx log of
        Inl _ \<Rightarrow> log | Inr r \<Rightarrow> snd r)"

definition sample_log :: event_log where
  "sample_log = fold sample_append [''a'', ''b'', ''c''] empty_event_log"

lemma sample_append_inv: "log_inv log \<Longrightarrow> log_inv (sample_append sfx log)"
  using log_inv_append [of log "''run_1''" "''lease''" "''acquire''" Info "[]" None None None JNull "[]" sfx]
  unfolding sample_append_def
  by (cases "append_event ''run_1'' ''lease'' ''acquire'' Info [] None None None JNull [] sfx log")
    (simp_all, metis prod.collapse)

lemma sample_log_inv: "log_inv sample_log"
  by (simp add: sample_log_def sample_append_inv)

theorem tail_events_suffix_witness:
  "map ev_sequence (tail_events None 2 sample_log) = [2, 3]"
proof -
  have seqs: "map ev_sequence (el_rows sample_log) = [1, 2, 3]" by code_simp
  from arg_cong [OF this, of length] have len: "length (el_rows sample_log) = 3" by simp
  have "tail_events None 2 sample_log = drop 1 (el_rows sample_log)"
    using tail_events_suffix [OF sample_log_inv, of 2 None] len by simp
  then show ?thesis using seqs by (simp add: drop_map [symmetric])
qed

end
