(* ===== verification/BrowserStore.thy ===== *)
theory BrowserStore
  imports Types Tables
begin

text \<open>
  Profiles, instances, tabs, artifacts and the attach-continuity row of
  \<open>crates/pengu-mesh-state/src/lib.rs\<close>. An upsert here overwrites every column but the
  key, so the new row replaces the old one in its place. The interface that readers use,
  "a get after a put", is the locale \<open>row_store\<close>, interpreted for each table that has both.
\<close>

section \<open>The interface of a keyed table\<close>

locale row_store =
  fixes get :: "'k \<Rightarrow> 't \<Rightarrow> 'v option" and put :: "'v \<Rightarrow> 't \<Rightarrow> 't" and key :: "'v \<Rightarrow> 'k"
    and inv :: "'t \<Rightarrow> bool"
  assumes get_put: "get k (put v t) = (if k = key v then Some v else get k t)"
    and inv_put: "inv t \<Longrightarrow> inv (put v t)"
begin

lemma get_put_same [simp]: "get (key v) (put v t) = Some v"
  by (simp add: get_put)

lemma get_put_other [simp]: "k \<noteq> key v \<Longrightarrow> get k (put v t) = get k t"
  by (simp add: get_put)

text \<open>After any sequence of puts a key reads the last value put under it.\<close>

lemma get_fold_put:
  "get k (fold put vs t) =
   (case List.find (\<lambda>v. key v = k) (rev vs) of None \<Rightarrow> get k t | Some v \<Rightarrow> Some v)"
proof (induction vs rule: rev_induct)
  case (snoc v vs)
  then show ?case by (auto simp: get_put)
qed simp

lemma inv_fold_put: "inv t \<Longrightarrow> inv (fold put vs t)"
  by (induction vs arbitrary: t) (auto intro: inv_put)

end

section \<open>Profiles\<close>

definition upsert_profile :: "managed_profile \<Rightarrow> managed_profile list \<Rightarrow> managed_profile list" where
  "upsert_profile profile profiles = sql_upsert mp_id (\<lambda>old new. new) profile profiles"

definition list_profiles :: "managed_profile list \<Rightarrow> managed_profile list" where
  "list_profiles profiles = order_asc mp_name profiles"

text \<open>Every text that is no known name reads as \<open>Chrome\<close>.\<close>

definition parse_channel :: "string \<Rightarrow> browser_channel" where
  "parse_channel value =
     (if value = ''chrome-dev'' then ChromeDev
      else if value = ''chromium'' then Chromium
      else Chrome)"

section \<open>Instances\<close>

text \<open>The \<open>pid\<close> column: \<open>i64::from\<close> on the way in, \<open>as u32\<close> on the way out.\<close>

definition pid_to_column :: "32 word option \<Rightarrow> 64 word option" where
  "pid_to_column pid = map_option ucast pid"

definition pid_from_column :: "64 word option \<Rightarrow> 32 word option" where
  "pid_from_column col = map_option ucast col"

definition upsert_instance :: "browser_instance \<Rightarrow> browser_instance list \<Rightarrow> browser_instance list" where
  "upsert_instance inst instances =
     sql_upsert bi_id (\<lambda>old new. new) inst instances"

definition list_instances :: "browser_instance list \<Rightarrow> browser_instance list" where
  "list_instances instances = order_desc bi_updated_at instances"

definition get_instance :: "string \<Rightarrow> browser_instance list \<Rightarrow> browser_instance option" where
  "get_instance instance_id instances = sql_get (\<lambda>i. bi_id i = instance_id) instances"

section \<open>Attach continuity\<close>

text \<open>One row, with scope \<open>global\<close>.\<close>

definition upsert_attach_continuity ::
  "attach_continuity_status \<Rightarrow> attach_continuity_status option \<Rightarrow> attach_continuity_status option" where
  "upsert_attach_continuity status row = Some status"

definition get_attach_continuity ::
  "attach_continuity_status option \<Rightarrow> attach_continuity_status option" where
  "get_attach_continuity row = row"

section \<open>Tabs\<close>

fun insert_tabs :: "browser_tab list \<Rightarrow> browser_tab list \<Rightarrow> browser_tab list res" where
  "insert_tabs [] rows = Inr rows"
| "insert_tabs (tab # tabs) rows =
     (case sql_insert bt_id tab rows of
        None \<Rightarrow> Inl ''insert tab''
      | Some rows' \<Rightarrow> insert_tabs tabs rows')"

definition replace_tabs :: "string \<Rightarrow> browser_tab list \<Rightarrow> browser_tab list \<Rightarrow> browser_tab list res" where
  "replace_tabs instance_id tabs rows =
     insert_tabs tabs (fst (sql_delete (\<lambda>t. bt_instance_id t = instance_id) rows))"

definition list_tabs :: "string option \<Rightarrow> browser_tab list \<Rightarrow> browser_tab list" where
  "list_tabs instance_id rows =
     order_desc (\<lambda>t. (bt_active t, bt_updated_at t))
       (filter (\<lambda>t. case instance_id of None \<Rightarrow> True | Some i \<Rightarrow> bt_instance_id t = i) rows)"

definition get_tab :: "string \<Rightarrow> browser_tab list \<Rightarrow> browser_tab option" where
  "get_tab tab_id rows = sql_get (\<lambda>t. bt_id t = tab_id) rows"

section \<open>Artifacts\<close>

definition upsert_artifact :: "artifact_handle \<Rightarrow> artifact_handle list \<Rightarrow> artifact_handle list" where
  "upsert_artifact artifact rows = sql_upsert ah_id (\<lambda>old new. new) artifact rows"

definition get_artifact :: "string \<Rightarrow> artifact_handle list \<Rightarrow> artifact_handle option" where
  "get_artifact artifact_id rows = sql_get (\<lambda>a. ah_id a = artifact_id) rows"

definition list_artifacts ::
  "string option \<Rightarrow> string option \<Rightarrow> artifact_handle list \<Rightarrow> artifact_handle list" where
  "list_artifacts instance_id run_id rows =
     (case (instance_id, run_id) of
        (Some i, Some r) \<Rightarrow>
          order_desc ah_created_at (filter (\<lambda>a. ah_instance_id a = i \<and> ah_run_id a = Some r) rows)
      | (Some i, None) \<Rightarrow> order_desc ah_created_at (filter (\<lambda>a. ah_instance_id a = i) rows)
      | (None, Some r) \<Rightarrow> order_desc ah_created_at (filter (\<lambda>a. ah_run_id a = Some r) rows)
      | (None, None) \<Rightarrow> order_desc ah_created_at rows)"

definition list_artifacts_for_run :: "string \<Rightarrow> artifact_handle list \<Rightarrow> artifact_handle list" where
  "list_artifacts_for_run run_id rows = list_artifacts None (Some run_id) rows"

section \<open>The tables implement the interface\<close>

lemma get_instance_upsert:
  "get_instance k (upsert_instance v t) = (if k = bi_id v then Some v else get_instance k t)"
  by (simp add: get_instance_def upsert_instance_def sql_get_upsert split: option.splits)

lemma get_artifact_upsert:
  "get_artifact k (upsert_artifact v t) = (if k = ah_id v then Some v else get_artifact k t)"
  by (simp add: get_artifact_def upsert_artifact_def sql_get_upsert split: option.splits)

interpretation instances: row_store get_instance upsert_instance bi_id "unique_by bi_id"
  proof unfold_locales
  show "get_instance k (upsert_instance v t) = (if k = bi_id v then Some v else get_instance k t)" for k v t
    by (rule get_instance_upsert)
  show "unique_by bi_id (upsert_instance v t)" if "unique_by bi_id t" for v t
    using that unfolding upsert_instance_def by (intro unique_by_upsert) auto
qed

interpretation artifacts: row_store get_artifact upsert_artifact ah_id "unique_by ah_id"
  proof unfold_locales
  show "get_artifact k (upsert_artifact v t) = (if k = ah_id v then Some v else get_artifact k t)" for k v t
    by (rule get_artifact_upsert)
  show "unique_by ah_id (upsert_artifact v t)" if "unique_by ah_id t" for v t
    using that unfolding upsert_artifact_def by (intro unique_by_upsert) auto
qed

lemma u32_i64_u32: "ucast (ucast (w :: 32 word) :: 64 word) = w"
  by transfer simp

lemma pid_column_round_trip: "pid_from_column (pid_to_column pid) = pid"
  by (cases pid) (simp_all add: pid_from_column_def pid_to_column_def u32_i64_u32)

lemma parse_channel_round_trip: "parse_channel (browser_channel_str c) = c"
  by (cases c) (simp_all add: parse_channel_def)

section \<open>Tab replacement\<close>

lemma insert_tabs_ok_iff:
  "insert_tabs tabs rows = Inr rows' \<longleftrightarrow>
   rows' = rows @ tabs \<and> distinct (map bt_id tabs) \<and> bt_id ` set tabs \<inter> bt_id ` set rows = {}"
proof (induction tabs arbitrary: rows)
  case Nil
  then show ?case by auto
next
  case (Cons t ts)
  then show ?case by (auto simp: sql_insert_def)
qed

lemma list_tabs_set:
  "set (list_tabs (Some i) rows) = {t \<in> set rows. bt_instance_id t = i}"
  by (auto simp: list_tabs_def)

text \<open>\<open>replace_tabs\<close> succeeds exactly when the new tab ids are distinct and none
  belongs to a tab of another instance; then the instance has exactly the new tabs, and the
  tabs of every other instance are unchanged. When it fails nothing is written.\<close>

theorem replace_tabs_exact:
  assumes own: "\<forall>t\<in>set tabs. bt_instance_id t = i"
  shows "(is_ok (replace_tabs i tabs rows) \<longleftrightarrow>
      distinct (map bt_id tabs) \<and>
      (\<forall>t\<in>set tabs. \<forall>r\<in>set rows. bt_id r = bt_id t \<longrightarrow> bt_instance_id r = i)) \<and>
    (\<forall>rows'. replace_tabs i tabs rows = Inr rows' \<longrightarrow>
      set (list_tabs (Some i) rows') = set tabs \<and>
      (\<forall>j. j \<noteq> i \<longrightarrow> set (list_tabs (Some j) rows') = set (list_tabs (Some j) rows)))"
proof (intro conjI allI impI)
  show "is_ok (replace_tabs i tabs rows) \<longleftrightarrow>
      distinct (map bt_id tabs) \<and>
      (\<forall>t\<in>set tabs. \<forall>r\<in>set rows. bt_id r = bt_id t \<longrightarrow> bt_instance_id r = i)"
    unfolding is_ok_iff replace_tabs_def insert_tabs_ok_iff sql_delete_def by force
next
  fix rows' assume "replace_tabs i tabs rows = Inr rows'"
  then show "set (list_tabs (Some i) rows') = set tabs"
    using own unfolding replace_tabs_def insert_tabs_ok_iff sql_delete_def list_tabs_set by auto
next
  fix rows' j assume "replace_tabs i tabs rows = Inr rows'" and "j \<noteq> i"
  then show "set (list_tabs (Some j) rows') = set (list_tabs (Some j) rows)"
    using own unfolding replace_tabs_def insert_tabs_ok_iff sql_delete_def list_tabs_set by auto
qed

definition sample_tab :: "string \<Rightarrow> browser_tab" where
  "sample_tab i = \<lparr>bt_id = i, bt_instance_id = ''i1'', bt_target_id = i, bt_title = '''', bt_url = '''',
     bt_websocket_url = '''', bt_active = True, bt_created_at = '''', bt_updated_at = ''''\<rparr>"

theorem replace_tabs_exact_witness:
  "set (list_tabs (Some ''i1'') [sample_tab ''b'', sample_tab ''c'']) = {sample_tab ''b'', sample_tab ''c''}"
proof -
  have own: "\<forall>t\<in>set [sample_tab ''b'', sample_tab ''c'']. bt_instance_id t = ''i1''"
    by (simp add: sample_tab_def)
  have "replace_tabs ''i1'' [sample_tab ''b'', sample_tab ''c''] [sample_tab ''a'', sample_tab ''b''] =
      Inr [sample_tab ''b'', sample_tab ''c'']"
    by code_simp
  with replace_tabs_exact [OF own, of "[sample_tab ''a'', sample_tab ''b'']"] show ?thesis by simp
qed

end
