(* ===== verification/CoreRuntime.thy ===== *)
theory CoreRuntime
  imports LeaseProtocol RunStore BrowserStore
begin

text \<open>
  The lease side of \<open>StageOneRuntime\<close> (\<open>crates/pengu-mesh-core/src/lib.rs\<close>): instance
  refresh, event recording, the lease handlers and the access check that guards every
  browser operation. A handler is a state-and-error operation on \<open>runtime\<close>; each
  \<open>?\<close> of the source is an \<open>and_then\<close>, each closure whose result is inspected is an
  \<open>attempt\<close>.

  What the code reads from outside is \<open>runtime_env\<close>: the clock and the unique suffix at
  each reading (\<open>rt_tick\<close> counts the readings), RFC 3339 arithmetic of the \<open>time\<close>
  crate, and the answer of a browser's debug endpoint.
\<close>

section \<open>State and environment\<close>

record runtime_env =
  en_clock :: "nat \<Rightarrow> string"
  en_suffix :: "nat \<Rightarrow> string"
  en_add_seconds :: "string \<Rightarrow> nat \<Rightarrow> string res"
  en_probe :: "nat \<Rightarrow> string \<Rightarrow> string res"

record runtime =
  rt_operator_id :: string
  rt_entrypoint :: string
  rt_capture_run :: capture_run
  rt_tick :: nat
  rt_leases :: lease_table
  rt_instances :: "browser_instance list"
  rt_events :: event_log

datatype required_lease = RequireWriter | RequireObserver

definition default_lease_ttl_seconds :: nat where
  "default_lease_ttl_seconds = 300"

definition utc_timestamp :: "runtime_env \<Rightarrow> (runtime, string) oper" where
  "utc_timestamp env s = (Inr (en_clock env (rt_tick s)), s\<lparr>rt_tick := Suc (rt_tick s)\<rparr>)"

definition unique_suffix :: "runtime_env \<Rightarrow> (runtime, string) oper" where
  "unique_suffix env s = (Inr (en_suffix env (rt_tick s)), s\<lparr>rt_tick := Suc (rt_tick s)\<rparr>)"

section \<open>Events\<close>

definition active_run_id :: "runtime \<Rightarrow> string option" where
  "active_run_id s =
     (if cr_status (rt_capture_run s) = RunActive then Some (cr_id (rt_capture_run s)) else None)"

definition store_append_event ::
  "string \<Rightarrow> string \<Rightarrow> string \<Rightarrow> event_level \<Rightarrow> string \<Rightarrow> string option \<Rightarrow> string option \<Rightarrow>
   string option \<Rightarrow> json \<Rightarrow> string \<Rightarrow> string \<Rightarrow> (runtime, runtime_event) oper" where
  "store_append_event run_id category action level message instance_id tab_id artifact_id data now sfx s =
     (case append_event run_id category action level message instance_id tab_id artifact_id data
             now sfx (rt_events s) of
        Inl e \<Rightarrow> (Inl e, s)
      | Inr (ev, log) \<Rightarrow> (Inr ev, s\<lparr>rt_events := log\<rparr>))"

definition record_event ::
  "runtime_env \<Rightarrow> string \<Rightarrow> string \<Rightarrow> event_level \<Rightarrow> string \<Rightarrow> string option \<Rightarrow> string option \<Rightarrow>
   string option \<Rightarrow> json \<Rightarrow> (runtime, runtime_event option) oper" where
  "record_event env category action level message instance_id tab_id artifact_id data =
     and_then (gets active_run_id) (\<lambda>active.
       case active of
         None \<Rightarrow> ret None
       | Some run_id \<Rightarrow>
           and_then (utc_timestamp env) (\<lambda>now.
           and_then (unique_suffix env) (\<lambda>sfx.
           and_then (store_append_event run_id category action level message instance_id tab_id
                       artifact_id data now sfx) (\<lambda>ev.
           ret (Some ev)))))"

section \<open>Refreshing instances\<close>

definition store_upsert_instance :: "browser_instance \<Rightarrow> (runtime, unit) oper" where
  "store_upsert_instance inst = modify (\<lambda>s. s\<lparr>rt_instances := upsert_instance inst (rt_instances s)\<rparr>)"

definition refreshed_instance :: "browser_instance \<Rightarrow> string res \<Rightarrow> string \<Rightarrow> browser_instance" where
  "refreshed_instance inst probed now =
     (case probed of
        Inr ws \<Rightarrow> inst\<lparr>bi_status := (if bi_mode inst = Attached then StatusAttached else StatusRunning),
                       bi_browser_ws_url := Some ws, bi_last_error := None, bi_updated_at := now\<rparr>
      | Inl error \<Rightarrow> inst\<lparr>bi_status := StatusClosed, bi_last_error := Some error,
                          bi_updated_at := now\<rparr>)"

definition refresh_message :: "browser_instance \<Rightarrow> string" where
  "refresh_message state =
     (case bi_last_error state of
        Some error \<Rightarrow> ''instance '' @ bi_id state @ '' refresh observed: '' @ error
      | None \<Rightarrow> ''instance '' @ bi_id state @ '' refresh observed '' @
                instance_status_debug (bi_status state))"

definition probe :: "runtime_env \<Rightarrow> browser_instance \<Rightarrow> (runtime, string res) oper" where
  "probe env inst s =
     (Inr (en_probe env (rt_tick s) (bi_debug_http_url inst)), s\<lparr>rt_tick := Suc (rt_tick s)\<rparr>)"

definition refresh_one :: "runtime_env \<Rightarrow> browser_instance \<Rightarrow> (runtime, browser_instance) oper" where
  "refresh_one env inst =
     and_then (probe env inst) (\<lambda>probed.
     and_then (utc_timestamp env) (\<lambda>now.
     let state = refreshed_instance inst probed now in
     and_then (store_upsert_instance state) (\<lambda>_.
     if bi_status state \<noteq> bi_status inst \<or> bi_last_error state \<noteq> bi_last_error inst
     then and_then (record_event env ''instance'' ''refresh''
            (if bi_status state \<in> {StatusClosed, StatusError} then Warning else Info)
            (refresh_message state) (Some (bi_id state)) None None
            (JObj [(''status'', instance_status_json (bi_status state)),
                   (''last_error'', json_opt_str (bi_last_error state))])) (\<lambda>_.
          ret state)
     else ret state)))"

fun refresh_loop :: "runtime_env \<Rightarrow> browser_instance list \<Rightarrow> (runtime, browser_instance list) oper" where
  "refresh_loop env [] = ret []"
| "refresh_loop env (inst # rest) =
     and_then (refresh_one env inst) (\<lambda>state.
     and_then (refresh_loop env rest) (\<lambda>states.
     ret (state # states)))"

definition refresh_instances :: "runtime_env \<Rightarrow> (runtime, browser_instance list) oper" where
  "refresh_instances env =
     and_then (gets (\<lambda>s. list_instances (rt_instances s))) (refresh_loop env)"

definition require_instance :: "runtime_env \<Rightarrow> string \<Rightarrow> (runtime, browser_instance) oper" where
  "require_instance env instance_id =
     and_then (refresh_instances env) (\<lambda>_.
     and_then (gets (\<lambda>s. get_instance instance_id (rt_instances s))) (\<lambda>found.
     lift_res (ok_or (''unknown instance '' @ instance_id) found)))"

section \<open>Leases\<close>

definition store_prune :: "string \<Rightarrow> (runtime, nat) oper" where
  "store_prune now s =
     (case prune_expired_leases now (rt_leases s) of
        (rows, n) \<Rightarrow> (Inr n, s\<lparr>rt_leases := rows\<rparr>))"

definition store_acquire :: "lease_record \<Rightarrow> string \<Rightarrow> (runtime, bool) oper" where
  "store_acquire lease now s =
     (case acquire_lease lease now (rt_leases s) of
        Inl e \<Rightarrow> (Inl e, s)
      | Inr (renewed, rows) \<Rightarrow> (Inr renewed, s\<lparr>rt_leases := rows\<rparr>))"

definition store_delete :: "string \<Rightarrow> string \<Rightarrow> lease_mode option \<Rightarrow> (runtime, nat) oper" where
  "store_delete instance_id holder_id mode s =
     (case delete_leases instance_id holder_id mode (rt_leases s) of
        (rows, n) \<Rightarrow> (Inr n, s\<lparr>rt_leases := rows\<rparr>))"

definition store_transfer :: "string \<Rightarrow> string \<Rightarrow> lease_record \<Rightarrow> string \<Rightarrow> (runtime, unit) oper" where
  "store_transfer instance_id from_holder replacement now s =
     (case transfer_writer_lease instance_id from_holder replacement now (rt_leases s) of
        Inl e \<Rightarrow> (Inl e, s)
      | Inr rows \<Rightarrow> (Inr (), s\<lparr>rt_leases := rows\<rparr>))"

definition active_leases :: "runtime_env \<Rightarrow> string option \<Rightarrow> (runtime, lease_record list) oper" where
  "active_leases env instance_id =
     and_then (utc_timestamp env) (\<lambda>now.
     and_then (store_prune now) (\<lambda>_.
     gets (\<lambda>s. list_leases instance_id now (rt_leases s))))"

definition lease_holder_id :: "runtime \<Rightarrow> string option \<Rightarrow> string" where
  "lease_holder_id s holder_id = unwrap_or (rt_operator_id s) holder_id"

definition lease_holder_label :: "runtime \<Rightarrow> string \<Rightarrow> string option" where
  "lease_holder_label s holder_id =
     (if holder_id = rt_operator_id s then Some (rt_entrypoint s) else None)"

definition lease_id_of :: "string \<Rightarrow> string \<Rightarrow> lease_mode \<Rightarrow> string" where
  "lease_id_of instance_id holder_id mode =
     stable_id IdLease (instance_id @ ''_'' @ holder_id @ ''_'' @ lease_mode_str mode)"

text \<open>\<open>u64::clamp\<close>; the second reading of \<open>granted_at\<close> by the \<open>time\<close> crate is part of
  \<open>en_add_seconds\<close>.\<close>

definition clamp :: "nat \<Rightarrow> nat \<Rightarrow> nat \<Rightarrow> nat" where
  "clamp lo hi n = (if n < lo then lo else if hi < n then hi else n)"

definition build_instance_lease ::
  "runtime_env \<Rightarrow> string \<Rightarrow> string \<Rightarrow> string option \<Rightarrow> lease_mode \<Rightarrow> nat \<Rightarrow> (runtime, lease_record) oper" where
  "build_instance_lease env instance_id holder_id holder_label mode ttl_seconds =
     and_then (utc_timestamp env) (\<lambda>granted_at.
     and_then (lift_res (en_add_seconds env granted_at (clamp 15 3600 ttl_seconds))) (\<lambda>expires_at.
     ret \<lparr>lr_id = lease_id_of instance_id holder_id mode,
          lr_resource_kind = ResInstance, lr_resource_id = instance_id,
          lr_holder_id = holder_id, lr_holder_label = holder_label, lr_mode = mode,
          lr_granted_at = granted_at, lr_expires_at = expires_at,
          lr_last_heartbeat_at = granted_at\<rparr>))"

definition lease_acquire_body ::
  "runtime_env \<Rightarrow> string \<Rightarrow> string \<Rightarrow> string option \<Rightarrow> lease_mode \<Rightarrow> nat \<Rightarrow>
   (runtime, lease_acquire_payload) oper" where
  "lease_acquire_body env instance_id holder_id holder_label mode ttl_seconds =
     and_then (utc_timestamp env) (\<lambda>now.
     and_then (build_instance_lease env instance_id holder_id holder_label mode ttl_seconds) (\<lambda>lease.
     and_then (store_acquire lease now) (\<lambda>renewed.
     and_then (active_leases env (Some instance_id)) (\<lambda>leases.
     and_then (gets rt_operator_id) (\<lambda>operator_id.
     ret \<lparr>lap_operator_id = operator_id, lap_lease = lease, lap_leases = leases,
          lap_renewed = renewed, lap_code = CodeOk,
          lap_message = (if renewed then ''renewed '' else ''acquired '') @ lease_mode_debug mode @
            '' lease for '' @ instance_id\<rparr>)))))"

definition lease_acquire ::
  "runtime_env \<Rightarrow> string \<Rightarrow> string \<Rightarrow> string option \<Rightarrow> lease_mode \<Rightarrow> nat \<Rightarrow>
   (runtime, lease_acquire_payload) oper" where
  "lease_acquire env instance_id holder_id holder_label mode ttl_seconds =
     and_then (require_instance env instance_id) (\<lambda>inst.
     attempt (lease_acquire_body env instance_id holder_id holder_label mode ttl_seconds) (\<lambda>result.
     case result of
       Inr payload \<Rightarrow>
         and_then (record_event env ''lease'' ''acquire'' Info
            (''acquired '' @ lease_mode_debug (lr_mode (lap_lease payload)) @ '' lease on '' @
             bi_name inst @ '' for '' @ lr_holder_id (lap_lease payload))
            (Some instance_id) None None
            (JObj [(''lease_id'', JStr (lr_id (lap_lease payload))),
                   (''holder_id'', JStr (lr_holder_id (lap_lease payload))),
                   (''holder_label'', json_opt_str (lr_holder_label (lap_lease payload))),
                   (''mode'', lease_mode_json (lr_mode (lap_lease payload))),
                   (''expires_at'', JStr (lr_expires_at (lap_lease payload)))])) (\<lambda>_.
         ret payload)
     | Inl error \<Rightarrow>
         and_then (record_event env ''lease'' ''acquire'' Warning
            (''lease acquire failed for '' @ instance_id @ '': '' @ error)
            (Some instance_id) None None
            (JObj [(''holder_id'', JStr holder_id), (''holder_label'', json_opt_str holder_label),
                   (''mode'', lease_mode_json mode), (''error'', JStr error)])) (\<lambda>_.
         fail error)))"

definition lease_release_body ::
  "runtime_env \<Rightarrow> string \<Rightarrow> string \<Rightarrow> lease_mode option \<Rightarrow> (runtime, lease_release_payload) oper" where
  "lease_release_body env instance_id holder_id mode =
     and_then (utc_timestamp env) (\<lambda>now.
     and_then (store_prune now) (\<lambda>_.
     and_then (store_delete instance_id holder_id mode) (\<lambda>released_count.
     and_then (active_leases env (Some instance_id)) (\<lambda>leases.
     and_then (gets rt_operator_id) (\<lambda>operator_id.
     ret \<lparr>lrp_operator_id = operator_id, lrp_requested_resource_id = instance_id,
          lrp_holder_id = holder_id, lrp_released_count = released_count, lrp_leases = leases,
          lrp_code = CodeOk,
          lrp_message = ''released '' @ show_nat released_count @ '' lease(s) for '' @ instance_id\<rparr>)))))"

definition lease_mode_opt_json :: "lease_mode option \<Rightarrow> json" where
  "lease_mode_opt_json mode = (case mode of None \<Rightarrow> JNull | Some m \<Rightarrow> lease_mode_json m)"

definition lease_release ::
  "runtime_env \<Rightarrow> string \<Rightarrow> string \<Rightarrow> lease_mode option \<Rightarrow> (runtime, lease_release_payload) oper" where
  "lease_release env instance_id holder_id mode =
     and_then (require_instance env instance_id) (\<lambda>_.
     attempt (lease_release_body env instance_id holder_id mode) (\<lambda>result.
     case result of
       Inr payload \<Rightarrow>
         and_then (record_event env ''lease'' ''release'' Info
            (''released '' @ show_nat (lrp_released_count payload) @ '' lease(s) on '' @
             instance_id @ '' for '' @ lrp_holder_id payload)
            (Some instance_id) None None
            (JObj [(''holder_id'', JStr (lrp_holder_id payload)),
                   (''released_count'', JNum (int (lrp_released_count payload))),
                   (''mode'', lease_mode_opt_json mode)])) (\<lambda>_.
         ret payload)
     | Inl error \<Rightarrow>
         and_then (record_event env ''lease'' ''release'' Warning
            (''lease release failed for '' @ instance_id @ '': '' @ error)
            (Some instance_id) None None
            (JObj [(''holder_id'', JStr holder_id), (''mode'', lease_mode_opt_json mode),
                   (''error'', JStr error)])) (\<lambda>_.
         fail error)))"

definition lease_transfer_body ::
  "runtime_env \<Rightarrow> string \<Rightarrow> string \<Rightarrow> string \<Rightarrow> string option \<Rightarrow> nat \<Rightarrow>
   (runtime, lease_transfer_payload) oper" where
  "lease_transfer_body env instance_id from_holder_id to_holder_id to_holder_label ttl_seconds =
     and_then (utc_timestamp env) (\<lambda>now.
     and_then (store_prune now) (\<lambda>_.
     and_then (build_instance_lease env instance_id to_holder_id to_holder_label Writer ttl_seconds)
       (\<lambda>replacement.
     and_then (store_transfer instance_id from_holder_id replacement now) (\<lambda>_.
     and_then (active_leases env (Some instance_id)) (\<lambda>leases.
     and_then (gets rt_operator_id) (\<lambda>operator_id.
     ret \<lparr>ltp_operator_id = operator_id, ltp_previous_holder_id = from_holder_id,
          ltp_lease = replacement, ltp_leases = leases, ltp_code = CodeOk,
          ltp_message = ''transferred writer lease for '' @ instance_id @ '' to '' @ to_holder_id\<rparr>))))))"

definition lease_transfer ::
  "runtime_env \<Rightarrow> string \<Rightarrow> string \<Rightarrow> string \<Rightarrow> string option \<Rightarrow> nat \<Rightarrow>
   (runtime, lease_transfer_payload) oper" where
  "lease_transfer env instance_id from_holder_id to_holder_id to_holder_label ttl_seconds =
     and_then (require_instance env instance_id) (\<lambda>_.
     attempt (lease_transfer_body env instance_id from_holder_id to_holder_id to_holder_label ttl_seconds)
       (\<lambda>result.
     case result of
       Inr payload \<Rightarrow>
         and_then (record_event env ''lease'' ''transfer'' Info
            (''transferred writer lease on '' @ instance_id @ '' from '' @ from_holder_id @ '' to '' @
             lr_holder_id (ltp_lease payload))
            (Some instance_id) None None
            (JObj [(''from_holder_id'', JStr from_holder_id),
                   (''to_holder_id'', JStr (lr_holder_id (ltp_lease payload))),
                   (''to_holder_label'', json_opt_str (lr_holder_label (ltp_lease payload))),
                   (''expires_at'', JStr (lr_expires_at (ltp_lease payload)))])) (\<lambda>_.
         ret payload)
     | Inl error \<Rightarrow>
         and_then (record_event env ''lease'' ''transfer'' Warning
            (''lease transfer failed for '' @ instance_id @ '': '' @ error)
            (Some instance_id) None None
            (JObj [(''from_holder_id'', JStr from_holder_id), (''to_holder_id'', JStr to_holder_id),
                   (''to_holder_label'', json_opt_str to_holder_label), (''error'', JStr error)])) (\<lambda>_.
         fail error)))"

definition lease_status :: "runtime_env \<Rightarrow> string option \<Rightarrow> (runtime, lease_status_payload) oper" where
  "lease_status env instance_id =
     and_then (case instance_id of
         None \<Rightarrow> ret ()
       | Some i \<Rightarrow> and_then (require_instance env i) (\<lambda>_. ret ())) (\<lambda>_.
     and_then (gets rt_operator_id) (\<lambda>operator_id.
     and_then (active_leases env instance_id) (\<lambda>leases.
     ret \<lparr>lsp_operator_id = operator_id, lsp_requested_resource_id = instance_id,
          lsp_leases = leases\<rparr>)))"

section \<open>The access check\<close>

definition grants_access :: "string \<Rightarrow> required_lease \<Rightarrow> lease_record \<Rightarrow> bool" where
  "grants_access holder_id required lease \<longleftrightarrow>
     (lr_holder_id lease = holder_id \<and> lr_mode lease = Writer) \<or>
     (lr_holder_id lease = holder_id \<and> required = RequireObserver \<and> lr_mode lease = Observer)"

definition writer_conflict_message :: "string \<Rightarrow> string \<Rightarrow> lease_record \<Rightarrow> error" where
  "writer_conflict_message action instance_id writer =
     action @ '' requires writer lease for '' @ instance_id @ ''; held by '' @ lr_holder_id writer @
     '' until '' @ lr_expires_at writer"

definition observer_conflict_message :: "string \<Rightarrow> string \<Rightarrow> error" where
  "observer_conflict_message action instance_id =
     action @ '' requires an explicit writer lease for '' @ instance_id @
     '' while observers are active''"

definition auto_acquire :: "runtime_env \<Rightarrow> string \<Rightarrow> string \<Rightarrow> lease_mode \<Rightarrow> (runtime, unit) oper" where
  "auto_acquire env instance_id holder_id mode =
     and_then (gets (\<lambda>s. lease_holder_label s holder_id)) (\<lambda>label.
     and_then (lease_acquire env instance_id holder_id label mode default_lease_ttl_seconds) (\<lambda>_.
     ret ()))"

definition lease_conflict ::
  "runtime_env \<Rightarrow> string \<Rightarrow> error \<Rightarrow> json \<Rightarrow> (runtime, unit) oper" where
  "lease_conflict env instance_id message data =
     and_then (record_event env ''lease'' ''conflict'' Warning message (Some instance_id) None None data)
       (\<lambda>_. fail message)"

definition refuse_or_grant ::
  "runtime_env \<Rightarrow> string \<Rightarrow> string \<Rightarrow> required_lease \<Rightarrow> string \<Rightarrow> lease_record list \<Rightarrow> (runtime, unit) oper" where
  "refuse_or_grant env instance_id holder_id required action leases =
     (if leases = [] then
        auto_acquire env instance_id holder_id
          (case required of RequireWriter \<Rightarrow> Writer | RequireObserver \<Rightarrow> Observer)
      else if required = RequireObserver then auto_acquire env instance_id holder_id Observer
      else
        (case List.find (\<lambda>l. lr_mode l = Writer) leases of
           Some writer \<Rightarrow>
             (if lr_holder_id writer = holder_id then ret ()
              else lease_conflict env instance_id (writer_conflict_message action instance_id writer)
                (JObj [(''action'', JStr action), (''holder_id'', JStr holder_id),
                       (''active_writer_holder_id'', JStr (lr_holder_id writer)),
                       (''active_writer_expires_at'', JStr (lr_expires_at writer))]))
         | None \<Rightarrow>
             (if leases \<noteq> [] then
                lease_conflict env instance_id (observer_conflict_message action instance_id)
                  (JObj [(''action'', JStr action), (''holder_id'', JStr holder_id),
                         (''observer_holders'',
                          JArr (map (\<lambda>l. JStr (lr_holder_id l))
                                  (filter (\<lambda>l. lr_mode l = Observer) leases)))])
              else ret ())))"

definition require_instance_access ::
  "runtime_env \<Rightarrow> string \<Rightarrow> string \<Rightarrow> required_lease \<Rightarrow> string \<Rightarrow> (runtime, unit) oper" where
  "require_instance_access env instance_id holder_id required action =
     and_then (active_leases env (Some instance_id)) (\<lambda>leases.
       case List.find (grants_access holder_id required) leases of
         Some existing \<Rightarrow>
           (if lr_mode existing = Writer \<or> required = RequireObserver then ret ()
            else refuse_or_grant env instance_id holder_id required action leases)
       | None \<Rightarrow> refuse_or_grant env instance_id holder_id required action leases)"

end
