(* ===== verification/CoreLeases.thy ===== *)
theory CoreLeases
  imports CoreRuntime
begin

text \<open>
  What the lease handlers and the access check of \<open>CoreRuntime\<close> guarantee. First the frame
  facts (which part of the state an operation may touch), then the effect of each handler
  body on the lease table, then the properties.
\<close>

section \<open>Frames and the runtime invariant\<close>

definition core_inv :: "runtime \<Rightarrow> bool" where
  "core_inv s \<longleftrightarrow> lease_inv (rt_leases s) \<and> log_inv (rt_events s)"

named_theorems frames

lemma leases_utc_timestamp [frames]: "preserves (\<lambda>s. P (rt_leases s)) (utc_timestamp env)"
  by (simp add: preserves_def utc_timestamp_def)

lemma leases_unique_suffix [frames]: "preserves (\<lambda>s. P (rt_leases s)) (unique_suffix env)"
  by (simp add: preserves_def unique_suffix_def)

lemma leases_store_append [frames]:
  "preserves (\<lambda>s. P (rt_leases s)) (store_append_event r c a l m i t f d now sfx)"
  by (auto simp: preserves_def store_append_event_def split: sum.splits prod.splits)

lemma leases_record_event [frames]:
  "preserves (\<lambda>s. P (rt_leases s)) (record_event env c a l m i t f d)"
  unfolding record_event_def by (intro preserves_intros frames)

lemma leases_probe [frames]: "preserves (\<lambda>s. P (rt_leases s)) (probe env inst)"
  by (simp add: preserves_def probe_def)

lemma leases_store_upsert [frames]: "preserves (\<lambda>s. P (rt_leases s)) (store_upsert_instance inst)"
  by (simp add: preserves_def store_upsert_instance_def modify_def)

lemma leases_refresh_one [frames]: "preserves (\<lambda>s. P (rt_leases s)) (refresh_one env inst)"
  unfolding refresh_one_def Let_def by (intro preserves_intros frames)

lemma leases_refresh_loop [frames]: "preserves (\<lambda>s. P (rt_leases s)) (refresh_loop env insts)"
  by (induction insts) (auto intro!: preserves_intros frames)

lemma leases_require_instance [frames]: "preserves (\<lambda>s. P (rt_leases s)) (require_instance env i)"
  unfolding require_instance_def refresh_instances_def by (intro preserves_intros frames)

text \<open>Only an appended event touches the log, and it keeps the log's invariant.\<close>

lemma core_store_append: "preserves core_inv (store_append_event r c a l m i t f d now sfx)"
  by (auto simp: preserves_def core_inv_def store_append_event_def intro: log_inv_append
      split: sum.splits prod.splits)

lemma core_utc: "preserves core_inv (utc_timestamp env)"
  by (simp add: preserves_def core_inv_def utc_timestamp_def)

lemma core_sfx: "preserves core_inv (unique_suffix env)"
  by (simp add: preserves_def core_inv_def unique_suffix_def)

lemma core_probe: "preserves core_inv (probe env inst)"
  by (simp add: preserves_def core_inv_def probe_def)

lemma core_upsert: "preserves core_inv (store_upsert_instance inst)"
  by (simp add: preserves_def core_inv_def store_upsert_instance_def modify_def)

lemma core_store_prune: "preserves core_inv (store_prune now)"
  using lease_inv_prune
  by (auto simp: preserves_def core_inv_def store_prune_def split: prod.splits) (metis fst_conv)

lemma core_store_delete: "preserves core_inv (store_delete i h m)"
  using lease_inv_delete
  by (auto simp: preserves_def core_inv_def store_delete_def split: prod.splits) (metis fst_conv)

lemma core_store_acquire: "preserves core_inv (store_acquire l now)"
  by (auto simp: preserves_def core_inv_def store_acquire_def intro: lease_inv_acquire
      split: sum.splits prod.splits)

lemma core_store_transfer:
  "lr_resource_id l = i \<Longrightarrow> preserves core_inv (store_transfer i h l now)"
  by (auto simp: preserves_def core_inv_def store_transfer_def intro: lease_inv_transfer
      split: sum.splits)

lemmas core_primitives = core_store_append core_utc core_sfx core_probe core_upsert core_store_prune
  core_store_delete core_store_acquire

lemma core_record_event: "preserves core_inv (record_event env c a l m i t f d)"
  unfolding record_event_def by (intro preserves_intros core_primitives)

lemma core_refresh_one: "preserves core_inv (refresh_one env inst)"
  unfolding refresh_one_def Let_def by (intro preserves_intros core_primitives core_record_event)

lemma core_refresh_loop: "preserves core_inv (refresh_loop env insts)"
  by (induction insts) (auto intro!: preserves_intros core_refresh_one)

lemma core_require_instance: "preserves core_inv (require_instance env i)"
  unfolding require_instance_def refresh_instances_def by (intro preserves_intros core_refresh_loop)

lemma core_active_leases: "preserves core_inv (active_leases env i)"
  unfolding active_leases_def by (intro preserves_intros core_primitives)

lemma core_build_lease: "preserves core_inv (build_instance_lease env i h lbl m ttl)"
  unfolding build_instance_lease_def by (intro preserves_intros core_primitives)

lemmas core_steps = core_primitives core_record_event core_require_instance core_active_leases
  core_build_lease

lemma core_lease_acquire: "preserves core_inv (lease_acquire env i h lbl m ttl)"
  unfolding lease_acquire_def lease_acquire_body_def by (intro preserves_intros core_steps)

lemma core_lease_release: "preserves core_inv (lease_release env i h m)"
  unfolding lease_release_def lease_release_body_def by (intro preserves_intros core_steps)

lemma core_lease_status: "preserves core_inv (lease_status env i)"
  unfolding lease_status_def by (intro preserves_intros core_steps)

section \<open>The lease a handler builds\<close>

lemma build_instance_lease_eq:
  "build_instance_lease env i h lbl m ttl s =
    (case en_add_seconds env (en_clock env (rt_tick s)) (clamp 15 3600 ttl) of
       Inl e \<Rightarrow> (Inl e, s\<lparr>rt_tick := Suc (rt_tick s)\<rparr>)
     | Inr expires \<Rightarrow>
         (Inr \<lparr>lr_id = lease_id_of i h m, lr_resource_kind = ResInstance, lr_resource_id = i,
               lr_holder_id = h, lr_holder_label = lbl, lr_mode = m,
               lr_granted_at = en_clock env (rt_tick s), lr_expires_at = expires,
               lr_last_heartbeat_at = en_clock env (rt_tick s)\<rparr>,
          s\<lparr>rt_tick := Suc (rt_tick s)\<rparr>))"
  by (simp add: build_instance_lease_def utc_timestamp_def op_simps split: sum.splits)

lemma active_leases_eq:
  "active_leases env i s =
    (let now = en_clock env (rt_tick s); rows = filter (lease_active now) (rt_leases s)
     in (Inr (list_leases i now rows), s\<lparr>rt_tick := Suc (rt_tick s), rt_leases := rows\<rparr>))"
  using prune_eq [of "en_clock env (rt_tick s)" "rt_leases s"]
  by (cases "prune_expired_leases (en_clock env (rt_tick s)) (rt_leases s)")
    (simp add: active_leases_def utc_timestamp_def store_prune_def op_simps Let_def)

lemma core_lease_transfer: "preserves core_inv (lease_transfer env i a b lbl ttl)"
proof -
  have "preserves core_inv
      (\<lambda>s. (and_then (build_instance_lease env i b lbl Writer ttl)
              (\<lambda>l. and_then (store_transfer i a l now) (f l))) s)"
    if "\<And>l u. preserves core_inv (f l u)" for now and f :: "lease_record \<Rightarrow> unit \<Rightarrow> (runtime, 'x) oper"
  proof -
    have "core_inv (snd (and_then (build_instance_lease env i b lbl Writer ttl)
              (\<lambda>l. and_then (store_transfer i a l now) (f l)) s))" if inv: "core_inv s" for s
    proof (cases "en_add_seconds env (en_clock env (rt_tick s)) (clamp 15 3600 ttl)")
      case (Inl e)
      then show ?thesis using inv by (simp add: and_then_def build_instance_lease_eq core_inv_def)
    next
      case (Inr x)
      let ?l = "\<lparr>lr_id = lease_id_of i b Writer, lr_resource_kind = ResInstance, lr_resource_id = i,
               lr_holder_id = b, lr_holder_label = lbl, lr_mode = Writer,
               lr_granted_at = en_clock env (rt_tick s), lr_expires_at = x,
               lr_last_heartbeat_at = en_clock env (rt_tick s)\<rparr>"
      have "preserves core_inv (and_then (store_transfer i a ?l now) (f ?l))"
        by (intro preserves_intros core_store_transfer \<open>\<And>l u. preserves core_inv (f l u)\<close>) simp
      then show ?thesis using inv Inr
        by (simp add: and_then_def [of "build_instance_lease env i b lbl Writer ttl"]
            build_instance_lease_eq preserves_def core_inv_def)
    qed
    then show ?thesis by (simp add: preserves_def)
  qed
  note replace = this
  show ?thesis
    unfolding lease_transfer_def lease_transfer_body_def
    by (intro preserves_intros core_steps replace [unfolded eta_contract_eq])
qed

section \<open>What a successful handler leaves in the table\<close>

text \<open>The clock does not jump past a lease between the reading that grants it and the next
  one: the shortest lease lasts 15 seconds.\<close>

definition clock_ok :: "runtime_env \<Rightarrow> bool" where
  "clock_ok env \<longleftrightarrow> (\<forall>i d e. en_add_seconds env (en_clock env i) d = Inr e \<longrightarrow> 15 \<le> d \<longrightarrow>
     en_clock env (Suc i) < e)"

lemma clamp_ge: "15 \<le> clamp 15 3600 d"
  by (simp add: clamp_def)

lemma record_event_leases: "record_event env c a l m i t f d s = (r, s') \<Longrightarrow> rt_leases s' = rt_leases s"
  using preservesD [OF leases_record_event [of "\<lambda>x. x = rt_leases s"]] by blast

lemma require_instance_leases: "require_instance env i s = (r, s') \<Longrightarrow> rt_leases s' = rt_leases s"
  using preservesD [OF leases_require_instance [of "\<lambda>x. x = rt_leases s"]] by blast

lemma lease_acquire_body_ok:
  assumes run: "lease_acquire_body env i h lbl m ttl s = (Inr p, s')"
  shows "\<exists>l rows. lap_lease p = l \<and> lr_resource_id l = i \<and> lr_holder_id l = h \<and> lr_mode l = m \<and>
    acquire_lease l (en_clock env (rt_tick s)) (rt_leases s) = Inr (lap_renewed p, rows) \<and>
    en_add_seconds env (en_clock env (Suc (rt_tick s))) (clamp 15 3600 ttl) = Inr (lr_expires_at l) \<and>
    rt_leases s' = filter (lease_active (en_clock env (Suc (Suc (rt_tick s))))) rows"
proof (cases "en_add_seconds env (en_clock env (Suc (rt_tick s))) (clamp 15 3600 ttl)")
  case (Inl e)
  then show ?thesis using run
    by (simp add: lease_acquire_body_def and_then_def utc_timestamp_def build_instance_lease_eq)
next
  case (Inr x)
  let ?l = "\<lparr>lr_id = lease_id_of i h m, lr_resource_kind = ResInstance, lr_resource_id = i,
               lr_holder_id = h, lr_holder_label = lbl, lr_mode = m,
               lr_granted_at = en_clock env (Suc (rt_tick s)), lr_expires_at = x,
               lr_last_heartbeat_at = en_clock env (Suc (rt_tick s))\<rparr>"
  show ?thesis
  proof (cases "acquire_lease ?l (en_clock env (rt_tick s)) (rt_leases s)")
    case (Inl e)
    then show ?thesis using run Inr
      by (simp add: lease_acquire_body_def and_then_def utc_timestamp_def build_instance_lease_eq
          store_acquire_def)
  next
    case ok: (Inr br)
    obtain b rows where br: "br = (b, rows)" by fastforce
    show ?thesis using run Inr ok br
      by (auto simp: lease_acquire_body_def and_then_def utc_timestamp_def build_instance_lease_eq
          store_acquire_def active_leases_eq Let_def gets_def ret_def)
  qed
qed

text \<open>After a successful acquire the holder's row is in the table.\<close>

lemma lease_acquire_body_grants:
  assumes inv: "lease_inv (rt_leases s)" and clock: "clock_ok env"
    and run: "lease_acquire_body env i h lbl m ttl s = (Inr p, s')"
  shows "lap_lease p \<in> set (rt_leases s') \<and> lr_resource_id (lap_lease p) = i \<and>
    lr_holder_id (lap_lease p) = h \<and> lr_mode (lap_lease p) = m"
proof -
  obtain l rows where l: "lap_lease p = l" "lr_resource_id l = i" "lr_holder_id l = h" "lr_mode l = m"
    and acq: "acquire_lease l (en_clock env (rt_tick s)) (rt_leases s) = Inr (lap_renewed p, rows)"
    and exp: "en_add_seconds env (en_clock env (Suc (rt_tick s))) (clamp 15 3600 ttl) = Inr (lr_expires_at l)"
    and rows: "rt_leases s' = filter (lease_active (en_clock env (Suc (Suc (rt_tick s))))) rows"
    using lease_acquire_body_ok [OF run] by blast
  have "l \<in> set rows" using acquire_lease_rows [OF inv acq] by simp
  moreover have "lease_active (en_clock env (Suc (Suc (rt_tick s)))) l"
    using clock exp clamp_ge unfolding clock_ok_def lease_active_def by blast
  ultimately show ?thesis using l rows by simp
qed

lemma lease_acquire_ok:
  assumes "lease_acquire env i h lbl m ttl s = (Inr p, s')"
  shows "\<exists>t t' inst. require_instance env i s = (Inr inst, t) \<and>
    lease_acquire_body env i h lbl m ttl t = (Inr p, t') \<and> rt_leases s' = rt_leases t'"
proof -
  obtain ri t where t: "require_instance env i s = (ri, t)" by fastforce
  obtain rb t' where t': "lease_acquire_body env i h lbl m ttl t = (rb, t')" by fastforce
  show ?thesis
  proof (cases ri)
    case (Inl e)
    then show ?thesis using assms t by (simp add: lease_acquire_def and_then_def)
  next
    case (Inr inst)
    show ?thesis
      using assms t t' Inr
      by (cases rb) (auto simp: lease_acquire_def and_then_def attempt_def ret_def fail_def
          dest: record_event_leases split: prod.splits sum.splits)
  qed
qed

lemma lease_acquire_grants:
  assumes inv: "core_inv s" and clock: "clock_ok env"
    and run: "lease_acquire env i h lbl m ttl s = (Inr p, s')"
  shows "lap_lease p \<in> set (rt_leases s') \<and> lr_resource_id (lap_lease p) = i \<and>
    lr_holder_id (lap_lease p) = h \<and> lr_mode (lap_lease p) = m"
proof -
  obtain inst t t' where t: "require_instance env i s = (Inr inst, t)"
    and body: "lease_acquire_body env i h lbl m ttl t = (Inr p, t')" and eq: "rt_leases s' = rt_leases t'"
    using lease_acquire_ok [OF run] by blast
  have "lease_inv (rt_leases t)"
    using inv require_instance_leases [OF t] by (simp add: core_inv_def)
  from lease_acquire_body_grants [OF this clock body] eq show ?thesis by simp
qed

section \<open>The access check\<close>

lemma list_leases_set:
  "set (list_leases (Some i) now rows) = {l \<in> set rows. lr_resource_id l = i \<and> lease_active now l}"
  by (auto simp: list_leases_def order_asc_def)

text \<open>The state after the check's own query.\<close>

definition pruned_state :: "runtime_env \<Rightarrow> runtime \<Rightarrow> runtime" where
  "pruned_state env s = s\<lparr>rt_tick := Suc (rt_tick s),
     rt_leases := filter (lease_active (en_clock env (rt_tick s))) (rt_leases s)\<rparr>"

definition seen_leases :: "runtime_env \<Rightarrow> string \<Rightarrow> runtime \<Rightarrow> lease_record list" where
  "seen_leases env i s = list_leases (Some i) (en_clock env (rt_tick s))
     (filter (lease_active (en_clock env (rt_tick s))) (rt_leases s))"

lemma active_leases_seen: "active_leases env (Some i) s = (Inr (seen_leases env i s), pruned_state env s)"
  by (simp add: active_leases_eq Let_def pruned_state_def seen_leases_def)

lemma seen_leases_set:
  "set (seen_leases env i s) =
   {l \<in> set (rt_leases s). lr_resource_id l = i \<and> lease_active (en_clock env (rt_tick s)) l}"
  by (auto simp: seen_leases_def list_leases_set)

lemma core_inv_pruned: "core_inv s \<Longrightarrow> core_inv (pruned_state env s)"
  by (simp add: core_inv_def pruned_state_def lease_inv_filter)

lemma require_access_unfold:
  "require_instance_access env i h req action s =
    (if \<exists>l\<in>set (seen_leases env i s). grants_access h req l then (Inr (), pruned_state env s)
     else refuse_or_grant env i h req action (seen_leases env i s) (pruned_state env s))"
proof (cases "List.find (grants_access h req) (seen_leases env i s)")
  case None
  then have "\<not> (\<exists>l\<in>set (seen_leases env i s). grants_access h req l)" by (auto simp: find_None_iff)
  with None show ?thesis
    by (simp add: require_instance_access_def and_then_def active_leases_seen)
next
  case (Some l)
  then have l: "l \<in> set (seen_leases env i s)" "grants_access h req l"
    using find_Some_iff_set [OF Some] by simp_all
  then have "lr_mode l = Writer \<or> req = RequireObserver" by (auto simp: grants_access_def)
  with l Some show ?thesis
    by (auto simp: require_instance_access_def and_then_def active_leases_seen ret_def)
qed

lemma writer_of_row:
  "lease_inv rows \<Longrightarrow> l \<in> set rows \<Longrightarrow> lr_mode l = Writer \<Longrightarrow> writer_of rows (lr_resource_id l) = Some (lr_holder_id l)"
  by (auto simp: writer_of_Some lease_inv_single)

lemma auto_acquire_grants:
  assumes inv: "core_inv s" and clock: "clock_ok env" and run: "auto_acquire env i h m s = (Inr u, s')"
  shows "\<exists>l\<in>set (rt_leases s'). lr_resource_id l = i \<and> lr_holder_id l = h \<and> lr_mode l = m"
proof -
  obtain lbl p where "lease_acquire env i h lbl m default_lease_ttl_seconds s = (Inr p, s')"
    using run by (auto simp: auto_acquire_def and_then_def gets_def ret_def split: prod.splits sum.splits)
  from lease_acquire_grants [OF inv clock this] show ?thesis by blast
qed

lemma core_auto_acquire: "preserves core_inv (auto_acquire env i h m)"
  unfolding auto_acquire_def by (intro preserves_intros core_lease_acquire)

lemma core_refuse_or_grant: "preserves core_inv (refuse_or_grant env i h req action leases)"
  unfolding refuse_or_grant_def lease_conflict_def
  by (intro preserves_intros core_auto_acquire core_record_event)

lemma core_require_access: "preserves core_inv (require_instance_access env i h req action)"
  unfolding require_instance_access_def
  by (intro preserves_intros core_active_leases core_refuse_or_grant)

lemma refuse_writer_ok:
  assumes "refuse_or_grant env i h RequireWriter action leases s = (Inr u, s')"
    and "\<not> (\<exists>l\<in>set leases. grants_access h RequireWriter l)"
  shows "leases = [] \<and> auto_acquire env i h Writer s = (Inr u, s')"
proof (cases "List.find (\<lambda>l. lr_mode l = Writer) leases")
  case None
  then show ?thesis using assms(1)
    by (auto simp: refuse_or_grant_def lease_conflict_def and_then_def fail_def
        split: if_splits prod.splits sum.splits)
next
  case (Some w)
  have w: "w \<in> set leases" "lr_mode w = Writer" using find_Some_iff_set [OF Some] by simp_all
  then have "lr_holder_id w \<noteq> h" using assms(2) by (auto simp: grants_access_def)
  then show ?thesis using assms(1) Some w
    by (auto simp: refuse_or_grant_def lease_conflict_def and_then_def fail_def
        split: if_splits prod.splits sum.splits)
qed

lemma refuse_when_held:
  assumes "leases \<noteq> []" and "\<not> (\<exists>l\<in>set leases. grants_access h RequireWriter l)"
    and run: "refuse_or_grant env i h RequireWriter action leases s = (r, s')"
  shows "(\<exists>e. r = Inl e) \<and> rt_leases s' = rt_leases s"
proof -
  have "\<exists>msg d. refuse_or_grant env i h RequireWriter action leases = lease_conflict env i msg d"
  proof (cases "List.find (\<lambda>l. lr_mode l = Writer) leases")
    case None
    then show ?thesis using assms(1) by (auto simp: refuse_or_grant_def)
  next
    case (Some w)
    then have "lr_holder_id w \<noteq> h" using assms(2) find_Some_iff_set [OF Some] by (auto simp: grants_access_def)
    then show ?thesis using Some assms(1) by (auto simp: refuse_or_grant_def)
  qed
  then show ?thesis using run
    by (auto simp: lease_conflict_def and_then_def fail_def dest: record_event_leases
        split: prod.splits sum.splits)
qed

section \<open>Transfer and release\<close>

lemma lease_transfer_body_ok:
  assumes run: "lease_transfer_body env i a b lbl ttl s = (Inr p, s')"
  shows "\<exists>l rows. ltp_lease p = l \<and> lr_resource_id l = i \<and> lr_holder_id l = b \<and> lr_mode l = Writer \<and>
    transfer_writer_lease i a l (en_clock env (rt_tick s))
      (filter (lease_active (en_clock env (rt_tick s))) (rt_leases s)) = Inr rows \<and>
    en_add_seconds env (en_clock env (Suc (rt_tick s))) (clamp 15 3600 ttl) = Inr (lr_expires_at l) \<and>
    rt_leases s' = filter (lease_active (en_clock env (Suc (Suc (rt_tick s))))) rows"
proof -
  let ?now = "en_clock env (rt_tick s)"
  obtain n where pr: "prune_expired_leases ?now (rt_leases s) = (filter (lease_active ?now) (rt_leases s), n)"
    using prune_eq [of ?now "rt_leases s"] by (metis prod.collapse)
  show ?thesis
  proof (cases "en_add_seconds env (en_clock env (Suc (rt_tick s))) (clamp 15 3600 ttl)")
    case (Inl e)
    then show ?thesis using run pr
      by (simp add: lease_transfer_body_def and_then_def utc_timestamp_def build_instance_lease_eq
          store_prune_def)
  next
    case (Inr x)
    let ?l = "\<lparr>lr_id = lease_id_of i b Writer, lr_resource_kind = ResInstance, lr_resource_id = i,
               lr_holder_id = b, lr_holder_label = lbl, lr_mode = Writer,
               lr_granted_at = en_clock env (Suc (rt_tick s)), lr_expires_at = x,
               lr_last_heartbeat_at = en_clock env (Suc (rt_tick s))\<rparr>"
    show ?thesis
      using run Inr pr
      by (cases "transfer_writer_lease i a ?l ?now (filter (lease_active ?now) (rt_leases s))")
        (auto simp: lease_transfer_body_def and_then_def utc_timestamp_def build_instance_lease_eq
          store_prune_def store_transfer_def active_leases_eq Let_def gets_def ret_def)
  qed
qed

lemma lease_transfer_ok:
  assumes "lease_transfer env i a b lbl ttl s = (Inr p, s')"
  shows "\<exists>t t' inst. require_instance env i s = (Inr inst, t) \<and>
    lease_transfer_body env i a b lbl ttl t = (Inr p, t') \<and> rt_leases s' = rt_leases t'"
proof -
  obtain ri t where t: "require_instance env i s = (ri, t)" by fastforce
  obtain rb t' where t': "lease_transfer_body env i a b lbl ttl t = (rb, t')" by fastforce
  show ?thesis
  proof (cases ri)
    case (Inl e)
    then show ?thesis using assms t by (simp add: lease_transfer_def and_then_def)
  next
    case (Inr inst)
    show ?thesis
      using assms t t' Inr
      by (cases rb) (auto simp: lease_transfer_def and_then_def attempt_def ret_def fail_def
          dest: record_event_leases split: prod.splits sum.splits)
  qed
qed

lemma lease_release_body_ok:
  assumes run: "lease_release_body env i h mode s = (Inr p, s')"
  shows "rt_leases s' = filter (lease_active (en_clock env (Suc (rt_tick s))))
      (fst (delete_leases i h mode (filter (lease_active (en_clock env (rt_tick s))) (rt_leases s)))) \<and>
    lrp_released_count p = snd (delete_leases i h mode
      (filter (lease_active (en_clock env (rt_tick s))) (rt_leases s)))"
proof -
  let ?now = "en_clock env (rt_tick s)"
  obtain n where pr: "prune_expired_leases ?now (rt_leases s) = (filter (lease_active ?now) (rt_leases s), n)"
    using prune_eq [of ?now "rt_leases s"] by (metis prod.collapse)
  show ?thesis
    using run pr
    by (cases "delete_leases i h mode (filter (lease_active ?now) (rt_leases s))")
      (auto simp: lease_release_body_def and_then_def utc_timestamp_def store_prune_def store_delete_def
        active_leases_eq Let_def gets_def ret_def)
qed

lemma lease_release_ok:
  assumes "lease_release env i h mode s = (Inr p, s')"
  shows "\<exists>t t' inst. require_instance env i s = (Inr inst, t) \<and>
    lease_release_body env i h mode t = (Inr p, t') \<and> rt_leases s' = rt_leases t'"
proof -
  obtain ri t where t: "require_instance env i s = (ri, t)" by fastforce
  obtain rb t' where t': "lease_release_body env i h mode t = (rb, t')" by fastforce
  show ?thesis
  proof (cases ri)
    case (Inl e)
    then show ?thesis using assms t by (simp add: lease_release_def and_then_def)
  next
    case (Inr inst)
    show ?thesis
      using assms t t' Inr
      by (cases rb) (auto simp: lease_release_def and_then_def attempt_def ret_def fail_def
          dest: record_event_leases split: prod.splits sum.splits)
  qed
qed

lemma lease_acquire_body_refused:
  assumes inv: "lease_inv (rt_leases s)" and w: "w \<in> set (rt_leases s)" "lr_resource_id w = i"
    "lr_mode w = Writer" "lr_holder_id w \<noteq> h" "lease_active (en_clock env (rt_tick s)) w"
    and run: "lease_acquire_body env i h lbl Writer ttl s = (r, s')"
  shows "(\<exists>e. r = Inl e) \<and> rt_leases s' = rt_leases s"
proof (cases "en_add_seconds env (en_clock env (Suc (rt_tick s))) (clamp 15 3600 ttl)")
  case (Inl e)
  then show ?thesis using run
    by (auto simp: lease_acquire_body_def and_then_def utc_timestamp_def build_instance_lease_eq)
next
  case (Inr x)
  let ?l = "\<lparr>lr_id = lease_id_of i h Writer, lr_resource_kind = ResInstance, lr_resource_id = i,
               lr_holder_id = h, lr_holder_label = lbl, lr_mode = Writer,
               lr_granted_at = en_clock env (Suc (rt_tick s)), lr_expires_at = x,
               lr_last_heartbeat_at = en_clock env (Suc (rt_tick s))\<rparr>"
  have "\<not> writer_free i h (en_clock env (rt_tick s)) (rt_leases s)"
    using w by (auto simp: writer_free_def)
  then obtain e where "acquire_lease ?l (en_clock env (rt_tick s)) (rt_leases s) = Inl e"
    by (simp add: acquire_lease_eq [OF inv])
  then show ?thesis using run Inr
    by (auto simp: lease_acquire_body_def and_then_def utc_timestamp_def build_instance_lease_eq
        store_acquire_def)
qed

section \<open>A concrete runtime\<close>

text \<open>One managed instance, a clock that ticks by growing, leases that expire after the next
  reading.\<close>

definition demo_env :: runtime_env where
  "demo_env = \<lparr>en_clock = (\<lambda>i. replicate (Suc i) CHR ''0''),
     en_suffix = (\<lambda>i. replicate (Suc i) CHR ''s''),
     en_add_seconds = (\<lambda>t d. Inr (t @ ''~'')),
     en_probe = (\<lambda>i url. Inr ''ws'')\<rparr>"

definition demo_instance :: browser_instance where
  "demo_instance = \<lparr>bi_id = ''i1'', bi_name = ''one'', bi_channel = Chrome, bi_mode = Managed,
     bi_status = StatusRunning, bi_debug_http_url = ''u'', bi_browser_ws_url = Some ''ws'',
     bi_profile_id = None, bi_profile_path = None, bi_pid = None, bi_last_error = None,
     bi_created_at = '''', bi_updated_at = ''''\<rparr>"

definition demo_state :: runtime where
  "demo_state = \<lparr>rt_operator_id = ''op'', rt_entrypoint = ''cli'',
     rt_capture_run = \<lparr>cr_id = ''r1'', cr_entrypoint = ''cli'', cr_detail = '''', cr_status = RunActive,
        cr_started_at = '''', cr_ended_at = None\<rparr>,
     rt_tick = 0, rt_leases = [], rt_instances = [demo_instance], rt_events = empty_event_log\<rparr>"

text \<open>The same runtime after the operator's first navigation.\<close>

definition demo_held :: runtime where
  "demo_held = snd (require_instance_access demo_env ''i1'' ''op'' RequireWriter ''nav'' demo_state)"

lemma demo_clock_ok: "clock_ok demo_env"
proof -
  have "replicate (Suc (Suc i)) CHR ''0'' < replicate (Suc i) CHR ''0'' @ ''~''" for i
    by (induction i) simp_all
  then show ?thesis by (simp add: clock_ok_def demo_env_def)
qed

lemma demo_inv: "core_inv demo_state"
  by (simp add: core_inv_def demo_state_def)

lemma demo_held_inv: "core_inv demo_held"
  using core_require_access demo_inv unfolding demo_held_def preserves_def by blast

lemma demo_held_ok:
  "require_instance_access demo_env ''i1'' ''op'' RequireWriter ''nav'' demo_state = (Inr (), demo_held)"
proof -
  have "fst (require_instance_access demo_env ''i1'' ''op'' RequireWriter ''nav'' demo_state) = Inr ()"
    by code_simp
  then show ?thesis unfolding demo_held_def by (metis prod.collapse)
qed

lemma demo_held_row:
  "\<exists>l. rt_leases demo_held = [l] \<and> lr_resource_id l = ''i1'' \<and> lr_holder_id l = ''op'' \<and>
     lr_mode l = Writer \<and> lr_expires_at l = ''00000~''"
proof -
  have "map (\<lambda>l. (lr_resource_id l, lr_holder_id l, lr_mode l, lr_expires_at l)) (rt_leases demo_held) =
      [(''i1'', ''op'', Writer, ''00000~'')]"
    by code_simp
  then obtain l where "rt_leases demo_held = [l]"
    "(lr_resource_id l, lr_holder_id l, lr_mode l, lr_expires_at l) = (''i1'', ''op'', Writer, ''00000~'')"
    by (cases "rt_leases demo_held") simp_all
  then show ?thesis by blast
qed

section \<open>Properties\<close>

text \<open>Every lease handler and the access check keep the runtime's invariant, on
  success and on error: both unique keys of the lease table hold, no instance has writer rows
  of two holders, and the event log stays strictly ordered with unique ids.\<close>

theorem handlers_keep_core_inv:
  "preserves core_inv (lease_acquire env i h lbl m ttl) \<and>
   preserves core_inv (lease_release env i h rm) \<and>
   preserves core_inv (lease_transfer env i h g lbl ttl) \<and>
   preserves core_inv (lease_status env oi) \<and>
   preserves core_inv (require_instance_access env i h req action)"
  by (intro conjI core_lease_acquire core_lease_release core_lease_transfer core_lease_status
      core_require_access)

text \<open>Claim C1. The guard of every mutating browser operation is sound: when
  \<open>require_instance_access\<close> lets a caller through for writing, the caller holds the
  instance's writer lease in the resulting table and no one else does.\<close>

theorem writer_access_exclusive:
  assumes inv: "core_inv s" and clock: "clock_ok env"
    and run: "require_instance_access env i h RequireWriter action s = (Inr u, s')"
  shows "writer_of (rt_leases s') i = Some h \<and>
    (\<forall>l\<in>set (rt_leases s'). lr_resource_id l = i \<and> lr_mode l = Writer \<longrightarrow> lr_holder_id l = h)"
proof -
  have inv': "core_inv s'" using core_require_access inv run by (rule preservesD)
  have "\<exists>l\<in>set (rt_leases s'). lr_resource_id l = i \<and> lr_holder_id l = h \<and> lr_mode l = Writer"
  proof (cases "\<exists>l\<in>set (seen_leases env i s). grants_access h RequireWriter l")
    case True
    then show ?thesis using run
      by (auto simp: require_access_unfold seen_leases_set grants_access_def pruned_state_def)
  next
    case False
    then have "refuse_or_grant env i h RequireWriter action (seen_leases env i s) (pruned_state env s) = (Inr u, s')"
      using run by (simp add: require_access_unfold)
    from refuse_writer_ok [OF this False]
    have "auto_acquire env i h Writer (pruned_state env s) = (Inr u, s')" by simp
    from auto_acquire_grants [OF core_inv_pruned [OF inv] clock this] show ?thesis .
  qed
  moreover have single: "single_writer (rt_leases s')"
    using inv' by (simp add: core_inv_def lease_inv_single)
  ultimately have own: "writer_of (rt_leases s') i = Some h" by (auto simp: writer_of_Some)
  have "lr_holder_id l = h" if "l \<in> set (rt_leases s')" "lr_resource_id l = i" "lr_mode l = Writer" for l
    using own writer_of_row [of "rt_leases s'" l] inv' that by (simp add: core_inv_def)
  with own show ?thesis by blast
qed

theorem writer_access_exclusive_witness: "writer_of (rt_leases demo_held) ''i1'' = Some ''op''"
  using writer_access_exclusive [OF demo_inv demo_clock_ok demo_held_ok] by blast

lemma access_refused_when_held:
  assumes "l \<in> set (rt_leases s)" and "lr_resource_id l = i"
    and "lease_active (en_clock env (rt_tick s)) l"
    and "\<And>w. w \<in> set (rt_leases s) \<Longrightarrow> writer_row_of i h w \<Longrightarrow> \<not> lease_active (en_clock env (rt_tick s)) w"
  shows "\<exists>e s'. require_instance_access env i h RequireWriter action s = (Inl e, s') \<and>
    rt_leases s' = filter (lease_active (en_clock env (rt_tick s))) (rt_leases s)"
proof -
  have none: "\<not> (\<exists>l\<in>set (seen_leases env i s). grants_access h RequireWriter l)"
    using assms(4) by (auto simp: seen_leases_set grants_access_def writer_row_of_def)
  have "l \<in> set (seen_leases env i s)" using assms(1-3) by (simp add: seen_leases_set)
  then have "seen_leases env i s \<noteq> []" by auto
  moreover obtain r s' where "refuse_or_grant env i h RequireWriter action (seen_leases env i s)
      (pruned_state env s) = (r, s')"
    by fastforce
  ultimately show ?thesis
    using none refuse_when_held [of "seen_leases env i s" h env i action "pruned_state env s" r s']
    by (auto simp: require_access_unfold pruned_state_def)
qed

text \<open>Claim C12. A caller that does not hold the writer lease is refused while anyone, writer
  or observer, has an active lease on the instance; the refusal removes expired leases and
  changes nothing else in the table.\<close>

theorem writer_access_refused:
  assumes "l \<in> set (rt_leases s)" and "lr_resource_id l = i"
    and "lease_active (en_clock env (rt_tick s)) l"
    and "\<And>w. w \<in> set (rt_leases s) \<Longrightarrow> writer_row_of i h w \<Longrightarrow> \<not> lease_active (en_clock env (rt_tick s)) w"
  shows "\<exists>e s'. require_instance_access env i h RequireWriter action s = (Inl e, s') \<and>
    rt_leases s' = filter (lease_active (en_clock env (rt_tick s))) (rt_leases s)"
  using assms by (rule access_refused_when_held)

theorem writer_access_refused_witness:
  "\<exists>e s'. require_instance_access demo_env ''i1'' ''agent'' RequireWriter ''nav'' demo_held = (Inl e, s')"
proof -
  obtain l where l: "rt_leases demo_held = [l]" "lr_resource_id l = ''i1''" "lr_holder_id l = ''op''"
    "lr_mode l = Writer" "lr_expires_at l = ''00000~''"
    using demo_held_row by blast
  have "en_clock demo_env (rt_tick demo_held) < ''00000~''" by code_simp
  then show ?thesis
    using writer_access_refused [of l demo_held "''i1''" demo_env "''agent''" "''nav''"] l
    by (auto simp: lease_active_def writer_row_of_def)
qed

lemma lease_acquire_blocked:
  assumes inv: "core_inv s" and w: "w \<in> set (rt_leases s)" "writer_row_of i g w" "g \<noteq> h"
    and active: "\<And>n. lease_active (en_clock env n) w"
  shows "\<not> is_ok (fst (lease_acquire env i h lbl Writer ttl s)) \<and>
    rt_leases (snd (lease_acquire env i h lbl Writer ttl s)) = rt_leases s"
proof -
  obtain ri t where t: "require_instance env i s = (ri, t)" by fastforce
  have same: "rt_leases t = rt_leases s" by (rule require_instance_leases [OF t])
  obtain rb t' where t': "lease_acquire_body env i h lbl Writer ttl t = (rb, t')" by fastforce
  have "(\<exists>e. rb = Inl e) \<and> rt_leases t' = rt_leases t"
    by (rule lease_acquire_body_refused [OF _ _ _ _ _ _ t'])
      (use inv w active same in \<open>auto simp: core_inv_def writer_row_of_def\<close>)
  then show ?thesis using t t' same
    by (cases ri) (auto simp: lease_acquire_def and_then_def attempt_def fail_def
        dest: record_event_leases split: prod.splits sum.splits)
qed

text \<open>While a holder's writer lease is active, \<open>lease_acquire\<close> for a writer lease
  by anyone else fails and leaves the lease table exactly as it was.\<close>

theorem acquire_refused_while_held:
  assumes inv: "core_inv s" and w: "w \<in> set (rt_leases s)" "writer_row_of i g w" "g \<noteq> h"
    and active: "\<And>n. lease_active (en_clock env n) w"
  shows "(\<exists>e. fst (lease_acquire env i h lbl Writer ttl s) = Inl e) \<and>
    rt_leases (snd (lease_acquire env i h lbl Writer ttl s)) = rt_leases s"
  using lease_acquire_blocked [OF assms, of lbl ttl]
  by (cases "fst (lease_acquire env i h lbl Writer ttl s)") auto

definition frozen_env :: runtime_env where
  "frozen_env = demo_env\<lparr>en_clock := (\<lambda>_. ''0'')\<rparr>"

theorem acquire_refused_while_held_witness:
  "\<exists>e. fst (lease_acquire frozen_env ''i1'' ''agent'' None Writer 300 demo_held) = Inl e"
proof -
  obtain l where l: "rt_leases demo_held = [l]" "lr_resource_id l = ''i1''" "lr_holder_id l = ''op''"
    "lr_mode l = Writer" "lr_expires_at l = ''00000~''"
    using demo_held_row by blast
  have "lease_active (en_clock frozen_env n) l" for n
    using l by (simp add: lease_active_def frozen_env_def)
  then show ?thesis
    using acquire_refused_while_held [OF demo_held_inv, of l "''i1''" "''op''" "''agent''" frozen_env] l
    by (simp add: writer_row_of_def)
qed

text \<open>Claim C13. A successful \<open>lease_transfer\<close> hands the instance over in one step: before it
  the giver was the writer, after it the receiver is, and no other instance changes writer
  except by expiry.\<close>

theorem transfer_hands_over:
  assumes inv: "core_inv s" and clock: "clock_ok env"
    and run: "lease_transfer env i a b lbl ttl s = (Inr p, s')"
  shows "writer_of (rt_leases s) i = Some a \<and> writer_of (rt_leases s') i = Some b \<and>
    (\<forall>j. j \<noteq> i \<longrightarrow> writer_of (rt_leases s') j = None \<or> writer_of (rt_leases s') j = writer_of (rt_leases s) j)"
proof -
  obtain inst t t' where t: "require_instance env i s = (Inr inst, t)"
    and body: "lease_transfer_body env i a b lbl ttl t = (Inr p, t')" and eq: "rt_leases s' = rt_leases t'"
    using lease_transfer_ok [OF run] by blast
  have same: "rt_leases t = rt_leases s" by (rule require_instance_leases [OF t])
  let ?p = "filter (lease_active (en_clock env (rt_tick t))) (rt_leases s)"
  obtain l rows where l: "lr_resource_id l = i" "lr_holder_id l = b" "lr_mode l = Writer"
    and tr: "transfer_writer_lease i a l (en_clock env (rt_tick t)) ?p = Inr rows"
    and exp: "en_add_seconds env (en_clock env (Suc (rt_tick t))) (clamp 15 3600 ttl) = Inr (lr_expires_at l)"
    and rows: "rt_leases t' = filter (lease_active (en_clock env (Suc (Suc (rt_tick t))))) rows"
    using lease_transfer_body_ok [OF body] same by metis
  have inv': "core_inv s'" using core_lease_transfer inv run by (rule preservesD)
  have leases: "lease_inv (rt_leases s)" "lease_inv (rt_leases s')" using inv inv' by (simp_all add: core_inv_def)
  have set_rows: "set rows = insert l {r \<in> set ?p. lease_active (en_clock env (rt_tick t)) r \<and>
      \<not> writer_row_of i a r \<and> lease_identity r \<noteq> lease_identity l}"
    by (rule transfer_ok_rows [OF tr])
  have "lease_active (en_clock env (Suc (Suc (rt_tick t)))) l"
    using clock exp clamp_ge unfolding clock_ok_def lease_active_def by blast
  then have "l \<in> set (rt_leases s')" using set_rows rows eq by simp
  then have after: "writer_of (rt_leases s') i = Some b"
    using writer_of_row [OF leases(2), of l] l by simp
  obtain w where w: "w \<in> set (rt_leases s)" "writer_row_of i a w"
    using transfer_ok_writer [OF tr] by auto
  then have before: "writer_of (rt_leases s) i = Some a"
    using writer_of_row [OF leases(1) w(1)] by (simp add: writer_row_of_def)
  have "writer_of (rt_leases s) j = Some g" if j: "j \<noteq> i" and s': "writer_of (rt_leases s') j = Some g" for j g
  proof -
    obtain r where r: "r \<in> set (rt_leases s')" "lr_mode r = Writer" "lr_resource_id r = j" "lr_holder_id r = g"
      using s' unfolding writer_of_Some [OF lease_inv_single [OF leases(2)]] by blast
    then have "r \<in> set (rt_leases s)" using j l set_rows rows eq by auto
    then show ?thesis using writer_of_row [OF leases(1), of r] r by simp
  qed
  then show ?thesis using before after by (metis not_Some_eq)
qed

lemma run_is_ok: "is_ok (fst r) \<Longrightarrow> \<exists>a. r = (Inr a, snd r)"
  by (cases r) (auto simp: is_ok_iff)

theorem transfer_hands_over_witness:
  "writer_of (rt_leases (snd (lease_transfer demo_env ''i1'' ''op'' ''agent'' None 300 demo_held))) ''i1''
     = Some ''agent''"
proof -
  have "is_ok (fst (lease_transfer demo_env ''i1'' ''op'' ''agent'' None 300 demo_held))" by code_simp
  from run_is_ok [OF this] show ?thesis
    using transfer_hands_over [OF demo_held_inv demo_clock_ok] by blast
qed

text \<open>Claim C14. A successful \<open>lease_release\<close> removes every lease of the holder on the instance
  that has the requested mode, keeps every other lease that has not expired and adds none;
  the count it reports is the number of active leases it removed.\<close>

theorem release_is_exact:
  assumes run: "lease_release env i h mode s = (Inr p, s')"
  shows "\<exists>n. rt_leases s' = filter (\<lambda>l. lease_active (en_clock env n) l \<and>
        lease_active (en_clock env (Suc n)) l \<and> \<not> (lr_resource_id l = i \<and> lr_holder_id l = h \<and> (mode = None \<or> mode = Some (lr_mode l))))
        (rt_leases s) \<and>
      lrp_released_count p = length (filter (\<lambda>l. lease_active (en_clock env n) l \<and>
        lr_resource_id l = i \<and> lr_holder_id l = h \<and> (mode = None \<or> mode = Some (lr_mode l)))
        (rt_leases s))"
proof -
  obtain inst t t' where t: "require_instance env i s = (Inr inst, t)"
    and body: "lease_release_body env i h mode t = (Inr p, t')" and eq: "rt_leases s' = rt_leases t'"
    using lease_release_ok [OF run] by blast
  have same: "rt_leases t = rt_leases s" by (rule require_instance_leases [OF t])
  have mode: "(case mode of None \<Rightarrow> True | Some m \<Rightarrow> lr_mode l = m) \<longleftrightarrow> mode = None \<or> mode = Some (lr_mode l)"
    for l by (cases mode) auto
  show ?thesis
    using lease_release_body_ok [OF body]
    by (intro exI [of _ "rt_tick t"])
      (simp add: eq same delete_leases_def sql_delete_def mode conj_commute conj_left_commute)
qed

theorem release_is_exact_witness:
  "rt_leases (snd (lease_release demo_env ''i1'' ''op'' None demo_held)) = []"
proof -
  have "is_ok (fst (lease_release demo_env ''i1'' ''op'' None demo_held))" by code_simp
  from run_is_ok [OF this] obtain p where
    run: "lease_release demo_env ''i1'' ''op'' None demo_held =
      (Inr p, snd (lease_release demo_env ''i1'' ''op'' None demo_held))"
    by blast
  obtain l where l: "rt_leases demo_held = [l]" "lr_resource_id l = ''i1''" "lr_holder_id l = ''op''"
    using demo_held_row by blast
  from release_is_exact [OF run] l show ?thesis by auto
qed

end
