(* ===== verification/TaskQueue.thy ===== *)
theory TaskQueue
  imports Tables "HOL-Library.Multiset"
begin

text \<open>
  The in-memory queue of \<open>crates/pengu-mesh-core/src/task_queue.rs\<close>: bounded admission,
  priority first, then the agent served longest ago, then arrival. \<open>HashMap\<close>s are maps,
  \<open>usize\<close>, \<open>u64\<close> and \<open>u8\<close> are words, an \<open>Instant\<close> is a number of ticks.
  The order in which tasks are preferred is an instance of the locale \<open>ranking\<close>, where the
  selection loop is proved once.
\<close>

section \<open>Selection by a ranking\<close>

text \<open>\<open>Vec::swap_remove\<close>: the last element takes the place of the removed one.\<close>

definition swap_remove :: "nat \<Rightarrow> 'a list \<Rightarrow> 'a \<times> 'a list" where
  "swap_remove i xs = (xs ! i, take (length xs - 1) (xs[i := last xs]))"

lemma mset_swap_remove:
  assumes "i < length xs"
  shows "add_mset (xs ! i) (mset (snd (swap_remove i xs))) = mset xs"
proof (cases xs rule: rev_cases)
  case Nil
  then show ?thesis using assms by simp
next
  case (snoc ys z)
  show ?thesis
  proof (cases "i = length ys")
    case True
    then show ?thesis using snoc by (simp add: swap_remove_def)
  next
    case False
    then have i: "i < length ys" using assms snoc by simp
    then have "ys ! i \<in># mset ys" by simp
    with i snoc show ?thesis
      by (simp add: swap_remove_def list_update_append nth_append mset_update)
  qed
qed

lemma set_swap_remove: "i < length xs \<Longrightarrow> set (snd (swap_remove i xs)) \<subseteq> set xs"
  by (metis mset_swap_remove mset_subset_eqD set_mset_mset subsetI multi_psub_of_add_self subset_mset.less_imp_le)

text \<open>A ranking: a strict weak order on candidates.\<close>

locale ranking =
  fixes beats :: "'a \<Rightarrow> 'a \<Rightarrow> bool"
  assumes asym: "beats a b \<Longrightarrow> \<not> beats b a"
    and weak: "beats a c \<Longrightarrow> beats a b \<or> beats b c"
begin

lemma irrefl: "\<not> beats a a"
  using asym by blast

lemma trans: "beats a b \<Longrightarrow> beats b c \<Longrightarrow> beats a c"
  using asym weak by blast

text \<open>The selection loop keeps an unbeaten index among those it has seen.\<close>

definition select :: "'a list \<Rightarrow> nat" where
  "select xs = fold (\<lambda>index best. if beats (xs ! index) (xs ! best) then index else best)
     [1..<length xs] 0"

lemma select_loop:
  assumes "0 < n" and "n \<le> length xs"
  defines "best \<equiv> fold (\<lambda>index best. if beats (xs ! index) (xs ! best) then index else best) [1..<n] 0"
  shows "best < n \<and> (\<forall>j<n. \<not> beats (xs ! j) (xs ! best))"
  using assms(1,2) unfolding best_def
proof (induction n rule: nat_induct_non_zero)
  case 1
  then show ?case using irrefl by simp
next
  case (Suc n)
  let ?b = "fold (\<lambda>index best. if beats (xs ! index) (xs ! best) then index else best) [1..<n] 0"
  have b: "?b < n" "\<And>j. j < n \<Longrightarrow> \<not> beats (xs ! j) (xs ! ?b)" using Suc by simp_all
  have step: "fold (\<lambda>index best. if beats (xs ! index) (xs ! best) then index else best) [1..<Suc n] 0 =
      (if beats (xs ! n) (xs ! ?b) then n else ?b)"
    using Suc.hyps by simp
  show ?case
  proof (cases "beats (xs ! n) (xs ! ?b)")
    case True
    have "\<not> beats (xs ! j) (xs ! n)" if "j < n" for j
      using True b(2) [OF that] trans by blast
    then show ?thesis unfolding step using True irrefl less_Suc_eq by auto
  next
    case False
    then show ?thesis unfolding step using b less_Suc_eq by auto
  qed
qed

lemma select_unbeaten:
  assumes "xs \<noteq> []"
  shows "select xs < length xs" and "x \<in> set xs \<Longrightarrow> \<not> beats x (xs ! select xs)"
  using select_loop [of "length xs" xs] assms
  by (auto simp: select_def in_set_conv_nth)

end

section \<open>The queue\<close>

record task_queue_config =
  tc_max_capacity :: "64 word"
  tc_max_per_agent :: "64 word"

record queued_task =
  qt_id :: string
  qt_agent_id :: string
  qt_priority :: "8 word"
  qt_enqueued_at :: nat

datatype queue_error = AtCapacity | AgentLimitReached

fun queue_error_text :: "queue_error \<Rightarrow> string" where
  "queue_error_text AtCapacity = ''queue is at capacity''"
| "queue_error_text AgentLimitReached = ''agent has reached its slot limit''"

record task_queue =
  tq_config :: task_queue_config
  tq_tasks :: "queued_task list"
  tq_agent_counts :: "string \<rightharpoonup> 64 word"
  tq_last_served :: "string \<rightharpoonup> 64 word"
  tq_next_service_order :: "64 word"

definition new_queue :: "task_queue_config \<Rightarrow> task_queue" where
  "new_queue config =
     \<lparr>tq_config = config, tq_tasks = [], tq_agent_counts = Map.empty,
      tq_last_served = Map.empty, tq_next_service_order = 0\<rparr>"

definition queue_agent_count :: "string \<Rightarrow> task_queue \<Rightarrow> 64 word" where
  "queue_agent_count agent_id q = unwrap_or 0 (tq_agent_counts q agent_id)"

definition enqueue :: "queued_task \<Rightarrow> task_queue \<Rightarrow> (queue_error + unit) \<times> task_queue" where
  "enqueue task q =
     (if of_nat (length (tq_tasks q)) \<ge> tc_max_capacity (tq_config q) then (Inl AtCapacity, q)
      else
        (let agent_count = unwrap_or 0 (tq_agent_counts q (qt_agent_id task))
         in if agent_count \<ge> tc_max_per_agent (tq_config q) then (Inl AgentLimitReached, q)
            else (Inr (),
              q\<lparr>tq_agent_counts := (tq_agent_counts q)(qt_agent_id task \<mapsto>
                   unwrap_or 0 (tq_agent_counts q (qt_agent_id task)) + 1),
                tq_tasks := tq_tasks q @ [task]\<rparr>)))"

datatype ordering = OrdLess | OrdEqual | OrdGreater

definition compare_agent_fairness :: "task_queue \<Rightarrow> string \<Rightarrow> string \<Rightarrow> ordering" where
  "compare_agent_fairness q candidate_agent current_best_agent =
     (case (tq_last_served q candidate_agent, tq_last_served q current_best_agent) of
        (None, None) \<Rightarrow> OrdEqual
      | (None, Some _) \<Rightarrow> OrdLess
      | (Some _, None) \<Rightarrow> OrdGreater
      | (Some candidate, Some current_best) \<Rightarrow>
          (if candidate < current_best then OrdLess
           else if candidate = current_best then OrdEqual else OrdGreater))"

definition candidate_beats :: "task_queue \<Rightarrow> queued_task \<Rightarrow> queued_task \<Rightarrow> bool" where
  "candidate_beats q candidate current_best =
     (if qt_priority candidate \<noteq> qt_priority current_best
      then qt_priority candidate > qt_priority current_best
      else
        (case compare_agent_fairness q (qt_agent_id candidate) (qt_agent_id current_best) of
           OrdLess \<Rightarrow> True
         | OrdGreater \<Rightarrow> False
         | OrdEqual \<Rightarrow>
             (if qt_enqueued_at candidate \<noteq> qt_enqueued_at current_best
              then qt_enqueued_at candidate < qt_enqueued_at current_best
              else if qt_agent_id candidate \<noteq> qt_agent_id current_best
              then qt_agent_id candidate < qt_agent_id current_best
              else qt_id candidate < qt_id current_best)))"

definition saturating_add_u64 :: "64 word \<Rightarrow> 64 word \<Rightarrow> 64 word" where
  "saturating_add_u64 a b = (if a + b < a then - 1 else a + b)"

definition record_service :: "string \<Rightarrow> task_queue \<Rightarrow> task_queue" where
  "record_service agent_id q =
     (let order = saturating_add_u64 (tq_next_service_order q) 1
      in q\<lparr>tq_next_service_order := order, tq_last_served := (tq_last_served q)(agent_id \<mapsto> order)\<rparr>)"

text \<open>\<open>saturating_sub(1)\<close>.\<close>

definition decrement_agent :: "string \<Rightarrow> task_queue \<Rightarrow> task_queue" where
  "decrement_agent agent_id q =
     (case tq_agent_counts q agent_id of
        None \<Rightarrow> q
      | Some n \<Rightarrow>
          (let n' = (if n = 0 then 0 else n - 1)
           in q\<lparr>tq_agent_counts := (tq_agent_counts q)(agent_id := (if n' = 0 then None else Some n'))\<rparr>))"

definition best_index :: "task_queue \<Rightarrow> nat" where
  "best_index q =
     fold (\<lambda>index best. if candidate_beats q (tq_tasks q ! index) (tq_tasks q ! best) then index else best)
       [1..<length (tq_tasks q)] 0"

definition dequeue :: "task_queue \<Rightarrow> queued_task option \<times> task_queue" where
  "dequeue q =
     (if tq_tasks q = [] then (None, q)
      else
        (case swap_remove (best_index q) (tq_tasks q) of (task, tasks) \<Rightarrow>
           (Some task,
            decrement_agent (qt_agent_id task)
              (record_service (qt_agent_id task) (q\<lparr>tq_tasks := tasks\<rparr>)))))"

definition cancel :: "string \<Rightarrow> task_queue \<Rightarrow> bool \<times> task_queue" where
  "cancel task_id q =
     (case position (\<lambda>t. qt_id t = task_id) (tq_tasks q) of
        Some pos \<Rightarrow>
          (case swap_remove pos (tq_tasks q) of (task, tasks) \<Rightarrow>
             (True, decrement_agent (qt_agent_id task) (q\<lparr>tq_tasks := tasks\<rparr>)))
      | None \<Rightarrow> (False, q))"

section \<open>The order is a ranking\<close>

text \<open>The preference of the code, as one lexicographic key.\<close>

definition rank_key :: "task_queue \<Rightarrow> queued_task \<Rightarrow> nat \<times> nat \<times> nat \<times> string \<times> string" where
  "rank_key q t = (255 - unat (qt_priority t),
     (case tq_last_served q (qt_agent_id t) of None \<Rightarrow> 0 | Some n \<Rightarrow> Suc (unat n)),
     qt_enqueued_at t, qt_agent_id t, qt_id t)"

lemma u8_le: "unat (w :: 8 word) \<le> 255"
proof -
  have "unat w < 2 ^ LENGTH(8)" by (rule unsigned_less)
  then show ?thesis by simp
qed

lemma rank_priority:
  "255 - unat (p :: 8 word) < 255 - unat (p' :: 8 word) \<longleftrightarrow> p' < p"
  "255 - unat (p :: 8 word) = 255 - unat (p' :: 8 word) \<longleftrightarrow> p = p'"
  using u8_le [of p] u8_le [of p'] by (auto simp: word_less_nat_alt word_unat_eq_iff)

lemma candidate_beats_key: "candidate_beats q a b \<longleftrightarrow> rank_key q a < rank_key q b"
proof -
  have "compare_agent_fairness q x y =
      (let f = (\<lambda>z. case tq_last_served q z of None \<Rightarrow> 0 | Some n \<Rightarrow> Suc (unat n))
       in if f x < f y then OrdLess else if f x = f y then OrdEqual else OrdGreater)" for x y
    by (simp add: compare_agent_fairness_def Let_def word_less_nat_alt word_unat_eq_iff split: option.splits)
  then show ?thesis
    by (auto simp: candidate_beats_def rank_key_def less_prod_def' Let_def rank_priority)
qed

interpretation queue_rank: ranking "candidate_beats q" for q
  by unfold_locales (auto simp: candidate_beats_key)

lemma best_index_select: "best_index q = queue_rank.select q (tq_tasks q)"
  by (simp add: best_index_def queue_rank.select_def)

lemma best_index_unbeaten:
  assumes "tq_tasks q \<noteq> []"
  shows "best_index q < length (tq_tasks q)"
    and "u \<in> set (tq_tasks q) \<Longrightarrow> \<not> candidate_beats q u (tq_tasks q ! best_index q)"
  using queue_rank.select_unbeaten [OF assms] by (simp_all add: best_index_select)

section \<open>The invariant\<close>

definition tasks_of :: "string \<Rightarrow> queued_task list \<Rightarrow> nat" where
  "tasks_of a ts = length (filter (\<lambda>t. qt_agent_id t = a) ts)"

definition queue_inv :: "task_queue \<Rightarrow> bool" where
  "queue_inv q \<longleftrightarrow>
     length (tq_tasks q) \<le> unat (tc_max_capacity (tq_config q)) \<and>
     (\<forall>a. tasks_of a (tq_tasks q) \<le> unat (tc_max_per_agent (tq_config q))) \<and>
     (\<forall>a. tq_agent_counts q a =
        (if tasks_of a (tq_tasks q) = 0 then None else Some (of_nat (tasks_of a (tq_tasks q))))) \<and>
     (\<forall>a n. tq_last_served q a = Some n \<longrightarrow> n \<le> tq_next_service_order q) \<and>
     (\<forall>a b n. tq_last_served q a = Some n \<longrightarrow> tq_last_served q b = Some n \<longrightarrow>
        a = b \<or> tq_next_service_order q = - 1)"

lemma tasks_of_mset: "mset xs = mset ys \<Longrightarrow> tasks_of a xs = tasks_of a ys"
  unfolding tasks_of_def by (metis mset_filter size_mset)

lemma tasks_of_Cons: "tasks_of a (t # ts) = (if qt_agent_id t = a then 1 else 0) + tasks_of a ts"
  by (simp add: tasks_of_def)

lemma tasks_of_append1: "tasks_of a (ts @ [t]) = tasks_of a ts + (if qt_agent_id t = a then 1 else 0)"
  by (simp add: tasks_of_def)

lemma tasks_of_le: "tasks_of a ts \<le> length ts"
  by (simp add: tasks_of_def)

lemma queue_count_exact:
  assumes "queue_inv q"
  shows "unat (unwrap_or 0 (tq_agent_counts q a)) = tasks_of a (tq_tasks q)"
proof -
  have "tasks_of a (tq_tasks q) \<le> unat (tc_max_per_agent (tq_config q))"
    using assms by (simp add: queue_inv_def)
  also have "\<dots> < 2 ^ 64" by (rule unat_lt64)
  finally have "unat (of_nat (tasks_of a (tq_tasks q)) :: 64 word) = tasks_of a (tq_tasks q)"
    by (simp add: unat_of_nat take_bit_eq_mod)
  then show ?thesis using assms by (simp add: queue_inv_def)
qed

lemma queue_length_exact:
  assumes "queue_inv q"
  shows "unat (of_nat (length (tq_tasks q)) :: 64 word) = length (tq_tasks q)"
proof -
  have "length (tq_tasks q) \<le> unat (tc_max_capacity (tq_config q))"
    using assms by (simp add: queue_inv_def)
  also have "\<dots> < 2 ^ 64" by (rule unat_lt64)
  finally show ?thesis by (simp add: unat_of_nat take_bit_eq_mod)
qed

lemma queue_inv_new: "queue_inv (new_queue config)"
  by (simp add: queue_inv_def new_queue_def tasks_of_def)

lemma enqueue_cases:
  assumes "queue_inv q"
  shows "enqueue t q =
    (if length (tq_tasks q) \<ge> unat (tc_max_capacity (tq_config q)) then (Inl AtCapacity, q)
     else if tasks_of (qt_agent_id t) (tq_tasks q) \<ge> unat (tc_max_per_agent (tq_config q))
     then (Inl AgentLimitReached, q)
     else (Inr (), q\<lparr>tq_agent_counts := (tq_agent_counts q)(qt_agent_id t \<mapsto>
                        of_nat (Suc (tasks_of (qt_agent_id t) (tq_tasks q)))),
                     tq_tasks := tq_tasks q @ [t]\<rparr>))"
proof -
  have "unwrap_or 0 (tq_agent_counts q (qt_agent_id t)) = of_nat (tasks_of (qt_agent_id t) (tq_tasks q))"
    using assms by (simp add: queue_inv_def)
  then show ?thesis
    using queue_length_exact [OF assms] queue_count_exact [OF assms, of "qt_agent_id t"]
    by (simp add: enqueue_def word_le_nat_alt Let_def add.commute)
qed

lemma queue_inv_enqueue:
  assumes inv: "queue_inv q"
  shows "queue_inv (snd (enqueue t q))"
  using inv unfolding enqueue_cases [OF inv]
  by (auto simp: queue_inv_def tasks_of_append1 not_le)

text \<open>Removing one task: the counts follow.\<close>

lemma decrement_agent_sel [simp]:
  "tq_tasks (decrement_agent a q) = tq_tasks q"
  "tq_config (decrement_agent a q) = tq_config q"
  "tq_last_served (decrement_agent a q) = tq_last_served q"
  "tq_next_service_order (decrement_agent a q) = tq_next_service_order q"
  by (simp_all add: decrement_agent_def Let_def split: option.splits)

lemma record_service_sel [simp]:
  "tq_tasks (record_service a q) = tq_tasks q"
  "tq_config (record_service a q) = tq_config q"
  "tq_agent_counts (record_service a q) = tq_agent_counts q"
  by (simp_all add: record_service_def Let_def)

lemma of_nat_minus_one: "0 < n \<Longrightarrow> (of_nat n :: 64 word) - 1 = of_nat (n - 1)"
  by (cases n) simp_all

lemma queue_inv_remove:
  assumes inv: "queue_inv q" and i: "i < length (tq_tasks q)"
    and rest: "tasks = snd (swap_remove i (tq_tasks q))" and t: "t = tq_tasks q ! i"
  shows "queue_inv (decrement_agent (qt_agent_id t) (q\<lparr>tq_tasks := tasks\<rparr>))"
proof -
  have ms: "mset (t # tasks) = mset (tq_tasks q)"
    using mset_swap_remove [OF i] rest t by simp
  have len: "length (tq_tasks q) = Suc (length tasks)"
    using ms by (metis length_Cons size_mset)
  have cnt: "tasks_of a (tq_tasks q) = (if qt_agent_id t = a then 1 else 0) + tasks_of a tasks" for a
    using tasks_of_mset [OF ms, of a] by (simp add: tasks_of_Cons)
  have pos: "unat (of_nat (tasks_of (qt_agent_id t) (tq_tasks q)) :: 64 word) =
      Suc (tasks_of (qt_agent_id t) tasks)"
    using queue_count_exact [OF inv, of "qt_agent_id t"] inv cnt [of "qt_agent_id t"]
    by (simp add: queue_inv_def)
  then have nz: "(of_nat (tasks_of (qt_agent_id t) (tq_tasks q)) :: 64 word) \<noteq> 0" by (metis unsigned_0 nat.distinct(1))
  let ?q = "decrement_agent (qt_agent_id t) (q\<lparr>tq_tasks := tasks\<rparr>)"
  have own: "tq_agent_counts q (qt_agent_id t) = Some (of_nat (Suc (tasks_of (qt_agent_id t) tasks)))"
    using inv cnt [of "qt_agent_id t"] by (simp add: queue_inv_def)
  have small: "Suc (tasks_of (qt_agent_id t) tasks) < 2 ^ 64"
    using pos cnt [of "qt_agent_id t"] unat_lt64 [of "of_nat (tasks_of (qt_agent_id t) (tq_tasks q))"] by simp
  have zero: "(of_nat (tasks_of (qt_agent_id t) tasks) :: 64 word) = 0 \<longleftrightarrow> tasks_of (qt_agent_id t) tasks = 0"
    using small by (auto simp: word_unat_eq_iff unat_of_nat take_bit_eq_mod)
  have counts: "tq_agent_counts ?q a =
      (if tasks_of a tasks = 0 then None else Some (of_nat (tasks_of a tasks)))" for a
  proof (cases "a = qt_agent_id t")
    case True
    then show ?thesis using own nz zero cnt [of "qt_agent_id t"]
      by (simp add: decrement_agent_def Let_def del: of_nat_Suc) (simp add: of_nat_Suc)
  next
    case False
    then show ?thesis using own inv cnt [of a]
      by (simp add: decrement_agent_def Let_def queue_inv_def)
  qed
  have "tasks_of a tasks \<le> unat (tc_max_per_agent (tq_config q))" for a
    using inv cnt [of a] unfolding queue_inv_def by (metis add_leD2 le_trans)
  moreover have "length tasks \<le> unat (tc_max_capacity (tq_config q))"
    using inv len by (simp add: queue_inv_def)
  ultimately show ?thesis using inv counts by (simp add: queue_inv_def)
qed

lemma queue_inv_cancel:
  assumes inv: "queue_inv q"
  shows "queue_inv (snd (cancel task_id q))"
proof (cases "position (\<lambda>t. qt_id t = task_id) (tq_tasks q)")
  case (Some i)
  then have i: "i < length (tq_tasks q)" using position_Some by blast
  show ?thesis using Some queue_inv_remove [OF inv i refl refl]
    by (simp add: cancel_def swap_remove_def)
qed (use inv in \<open>simp add: cancel_def\<close>)

lemma saturating_step:
  "n \<le> saturating_add_u64 n 1" "n \<noteq> - 1 \<Longrightarrow> n < saturating_add_u64 n 1"
proof -
  have m: "unat (- 1 :: 64 word) = 2 ^ 64 - 1" by (simp add: unsigned_minus_1_eq_mask mask_eq_exp_minus_1)
  have "unat n \<noteq> 2 ^ 64 - 1 \<or> n = - 1" using m by (metis word_unat_eq_iff)
  then have room: "n = - 1 \<or> unat n + 1 < 2 ^ 64" using unat_lt64 [of n] by linarith
  then have "n = - 1 \<or> unat (n + 1) = unat n + 1" by (auto simp: unat_word_ariths)
  then show "n \<le> saturating_add_u64 n 1" "n \<noteq> - 1 \<Longrightarrow> n < saturating_add_u64 n 1"
    using m by (auto simp: saturating_add_u64_def word_le_nat_alt word_less_nat_alt unat_word_ariths)
qed

lemma saturating_max: "saturating_add_u64 (- 1) 1 = - 1"
  by (simp add: saturating_add_u64_def word_less_nat_alt unsigned_minus_1_eq_mask mask_eq_exp_minus_1)

lemma queue_inv_record_service:
  assumes inv: "queue_inv q"
  shows "queue_inv (record_service a q)"
proof -
  let ?o = "saturating_add_u64 (tq_next_service_order q) 1"
  have le: "n \<le> ?o" if "tq_last_served q b = Some n" for b n
    using inv that saturating_step(1) order_trans unfolding queue_inv_def by blast
  have new: "?o = - 1 \<or> n \<noteq> ?o" if "tq_last_served q b = Some n" for b n
  proof -
    have "n \<le> tq_next_service_order q" using inv that by (auto simp: queue_inv_def)
    then show ?thesis using saturating_step [of "tq_next_service_order q"] by (auto simp: saturating_add_u64_def)
  qed
  have old: "b = c \<or> ?o = - 1" if "tq_last_served q b = Some n" "tq_last_served q c = Some n" for b c n
  proof -
    have "b = c \<or> tq_next_service_order q = - 1" using inv that by (auto simp: queue_inv_def)
    then show ?thesis by (auto simp: saturating_max)
  qed
  show ?thesis
    using inv le new old
    by (simp add: queue_inv_def record_service_def Let_def) metis
qed

lemma dequeue_eq:
  assumes "tq_tasks q \<noteq> []"
  shows "dequeue q =
    (let t = tq_tasks q ! best_index q
     in (Some t, decrement_agent (qt_agent_id t) (record_service (qt_agent_id t)
           (q\<lparr>tq_tasks := snd (swap_remove (best_index q) (tq_tasks q))\<rparr>))))"
  using assms by (simp add: dequeue_def swap_remove_def Let_def)

lemma decrement_record: "decrement_agent a (record_service b q) = record_service b (decrement_agent a q)"
  by (auto simp: decrement_agent_def record_service_def Let_def split: option.splits)

lemma queue_inv_dequeue:
  assumes inv: "queue_inv q"
  shows "queue_inv (snd (dequeue q))"
proof (cases "tq_tasks q = []")
  case False
  show ?thesis
    using queue_inv_record_service [OF queue_inv_remove [OF inv best_index_unbeaten(1) [OF False] refl refl]]
    by (simp add: dequeue_eq [OF False] Let_def decrement_record)
qed (use inv in \<open>simp add: dequeue_def\<close>)

lemma dequeue_Some:
  assumes "dequeue q = (Some t, q')"
  shows "tq_tasks q \<noteq> []" and "t \<in> set (tq_tasks q)"
    and "\<And>u. u \<in> set (tq_tasks q) \<Longrightarrow> \<not> candidate_beats q u t"
    and "mset (tq_tasks q) = add_mset t (mset (tq_tasks q'))"
    and "tq_last_served q' = (tq_last_served q)(qt_agent_id t \<mapsto> saturating_add_u64 (tq_next_service_order q) 1)"
    and "tq_next_service_order q' = saturating_add_u64 (tq_next_service_order q) 1"
    and "tq_config q' = tq_config q"
proof -
  show ne: "tq_tasks q \<noteq> []" using assms by (auto simp: dequeue_def)
  note b = best_index_unbeaten [OF ne]
  have t: "t = tq_tasks q ! best_index q"
    and q': "q' = decrement_agent (qt_agent_id t) (record_service (qt_agent_id t)
           (q\<lparr>tq_tasks := snd (swap_remove (best_index q) (tq_tasks q))\<rparr>))"
    using assms by (auto simp: dequeue_eq [OF ne] Let_def)
  show "t \<in> set (tq_tasks q)" using t b(1) by simp
  show "\<And>u. u \<in> set (tq_tasks q) \<Longrightarrow> \<not> candidate_beats q u t" using t b(2) by simp
  show "mset (tq_tasks q) = add_mset t (mset (tq_tasks q'))"
    using mset_swap_remove [OF b(1)] t q' by simp
  show "tq_last_served q' = (tq_last_served q)(qt_agent_id t \<mapsto> saturating_add_u64 (tq_next_service_order q) 1)"
    "tq_next_service_order q' = saturating_add_u64 (tq_next_service_order q) 1"
    "tq_config q' = tq_config q"
    using q' by (simp_all add: decrement_record) (simp_all add: record_service_def Let_def)
qed

section \<open>Any sequence of calls\<close>

datatype queue_call = CallEnqueue queued_task | CallDequeue | CallCancel string

fun queue_exec :: "queue_call \<Rightarrow> task_queue \<Rightarrow> task_queue" where
  "queue_exec (CallEnqueue t) q = snd (enqueue t q)"
| "queue_exec CallDequeue q = snd (dequeue q)"
| "queue_exec (CallCancel task_id) q = snd (cancel task_id q)"

lemma queue_inv_exec: "queue_inv q \<Longrightarrow> queue_inv (queue_exec c q)"
  by (cases c) (simp_all add: queue_inv_enqueue queue_inv_dequeue queue_inv_cancel)

lemma queue_inv_run: "queue_inv q \<Longrightarrow> queue_inv (fold queue_exec cs q)"
  by (induction cs arbitrary: q) (simp_all add: queue_inv_exec)

section \<open>Properties\<close>

text \<open>Claim C16. After any sequence of calls on a new queue the bounds of its configuration
  hold, the per-agent counters equal the numbers of queued tasks (an agent without tasks has
  no entry), and no two agents share a service order before the counter saturates.\<close>

theorem queue_inv_any_run: "queue_inv (fold queue_exec calls (new_queue config))"
  by (rule queue_inv_run [OF queue_inv_new])

text \<open>Claim C7. \<open>dequeue\<close> returns a queued task no other queued task beats, of the highest
  priority in the queue, and removes exactly that task; it returns nothing only when the queue
  is empty.\<close>

theorem dequeue_serves_best:
  "case dequeue q of
     (None, q') \<Rightarrow> tq_tasks q = [] \<and> q' = q
   | (Some t, q') \<Rightarrow> mset (tq_tasks q) = add_mset t (mset (tq_tasks q')) \<and>
       (\<forall>u\<in>set (tq_tasks q). \<not> candidate_beats q u t \<and> qt_priority u \<le> qt_priority t)"
proof (cases "dequeue q")
  case (Pair r q')
  show ?thesis
  proof (cases r)
    case None
    then show ?thesis using Pair by (auto simp: dequeue_def split: if_splits prod.splits)
  next
    case (Some t)
    then have d: "dequeue q = (Some t, q')" using Pair by simp
    have "qt_priority u \<le> qt_priority t" if "u \<in> set (tq_tasks q)" for u
      using dequeue_Some(3) [OF d that] by (auto simp: candidate_beats_def split: if_splits)
    then show ?thesis using d dequeue_Some(3,4) [OF d] by simp
  qed
qed

theorem dequeue_serves_best_witness:
  "fst (dequeue (new_queue \<lparr>tc_max_capacity = 1, tc_max_per_agent = 1\<rparr>)) = None"
  using dequeue_serves_best [of "new_queue \<lparr>tc_max_capacity = 1, tc_max_per_agent = 1\<rparr>"]
  by (simp add: dequeue_def new_queue_def)

text \<open>Claim C15. Fair service: an agent is served twice in a row only when no task of another
  agent with the second task's priority is waiting.\<close>

theorem dequeue_rotates_agents:
  assumes inv: "queue_inv q" and room: "tq_next_service_order q \<noteq> - 1"
    and first: "dequeue q = (Some t, q1)" and second: "dequeue q1 = (Some u, q2)"
    and again: "qt_agent_id u = qt_agent_id t"
  shows "v \<in> set (tq_tasks q1) \<Longrightarrow> qt_priority v = qt_priority u \<Longrightarrow> qt_agent_id v = qt_agent_id t"
proof (rule ccontr)
  assume v: "v \<in> set (tq_tasks q1)" "qt_priority v = qt_priority u" and other: "qt_agent_id v \<noteq> qt_agent_id t"
  let ?o = "saturating_add_u64 (tq_next_service_order q) 1"
  have served: "tq_last_served q1 (qt_agent_id u) = Some ?o"
    using dequeue_Some(5) [OF first] again by simp
  have "n < ?o" if "tq_last_served q1 (qt_agent_id v) = Some n" for n
  proof -
    have "n \<le> tq_next_service_order q"
      using that dequeue_Some(5) [OF first] other inv by (auto simp: queue_inv_def)
    then show ?thesis using saturating_step(2) [OF room] by simp
  qed
  then have "compare_agent_fairness q1 (qt_agent_id v) (qt_agent_id u) = OrdLess"
    by (cases "tq_last_served q1 (qt_agent_id v)") (simp_all add: compare_agent_fairness_def served)
  then have "candidate_beats q1 v u" using v(2) by (simp add: candidate_beats_def)
  then show False using dequeue_Some(3) [OF second v(1)] by simp
qed

definition sample_task :: "string \<Rightarrow> string \<Rightarrow> 8 word \<Rightarrow> queued_task" where
  "sample_task i a p = \<lparr>qt_id = i, qt_agent_id = a, qt_priority = p, qt_enqueued_at = 0\<rparr>"

definition sample_queue :: task_queue where
  "sample_queue = fold queue_exec
     [CallEnqueue (sample_task ''t1'' ''a'' 5), CallEnqueue (sample_task ''t2'' ''a'' 5),
      CallEnqueue (sample_task ''t3'' ''a'' 5)]
     (new_queue \<lparr>tc_max_capacity = 10, tc_max_per_agent = 5\<rparr>)"

theorem dequeue_rotates_agents_witness:
  "sample_task ''t3'' ''a'' 5 \<in> set (tq_tasks (snd (dequeue sample_queue))) \<and>
   qt_agent_id (sample_task ''t3'' ''a'' 5) = ''a''"
proof
  show v: "sample_task ''t3'' ''a'' 5 \<in> set (tq_tasks (snd (dequeue sample_queue)))" by code_simp
  have d1: "dequeue sample_queue = (Some (sample_task ''t1'' ''a'' 5), snd (dequeue sample_queue))"
  proof -
    have "fst (dequeue sample_queue) = Some (sample_task ''t1'' ''a'' 5)" by code_simp
    then show ?thesis by (metis prod.collapse)
  qed
  have d2: "dequeue (snd (dequeue sample_queue)) = (Some (sample_task ''t2'' ''a'' 5),
      snd (dequeue (snd (dequeue sample_queue))))"
  proof -
    have "fst (dequeue (snd (dequeue sample_queue))) = Some (sample_task ''t2'' ''a'' 5)" by code_simp
    then show ?thesis by (metis prod.collapse)
  qed
  have "queue_inv sample_queue" unfolding sample_queue_def by (rule queue_inv_run [OF queue_inv_new])
  moreover have "tq_next_service_order sample_queue \<noteq> - 1" by code_simp
  ultimately show "qt_agent_id (sample_task ''t3'' ''a'' 5) = ''a''"
    using dequeue_rotates_agents [OF _ _ d1 d2 _ v] by (simp add: sample_task_def)
qed

text \<open>Claim C17. Admission: a task is refused as \<open>AtCapacity\<close> exactly when the queue is full,
  otherwise as \<open>AgentLimitReached\<close> exactly when its agent already has its limit of queued
  tasks, and otherwise appended; a refusal changes nothing.\<close>

theorem enqueue_admission:
  assumes "queue_inv q"
  shows "(let full = unat (tc_max_capacity (tq_config q)) \<le> length (tq_tasks q);
              limit = unat (tc_max_per_agent (tq_config q)) \<le> tasks_of (qt_agent_id t) (tq_tasks q)
          in fst (enqueue t q) = (if full then Inl AtCapacity else if limit then Inl AgentLimitReached else Inr ())
             \<and> tq_tasks (snd (enqueue t q)) = (if full \<or> limit then tq_tasks q else tq_tasks q @ [t])
             \<and> (full \<or> limit \<longrightarrow> snd (enqueue t q) = q))"
  by (simp add: enqueue_cases [OF assms] Let_def)

theorem enqueue_admission_witness:
  "fst (enqueue (sample_task ''t'' ''b'' 1) (new_queue \<lparr>tc_max_capacity = 1, tc_max_per_agent = 0\<rparr>))
     = Inl AgentLimitReached"
  using enqueue_admission [OF queue_inv_new [of "\<lparr>tc_max_capacity = 1, tc_max_per_agent = 0\<rparr>"],
      of "sample_task ''t'' ''b'' 1"]
  by (simp add: new_queue_def)

end
