(* ===== verification/Allocation.thy ===== *)
theory Allocation
  imports Tables "HOL-Library.Multiset"
begin

unbundle bit_operations_syntax

text \<open>
  Instance allocation, \<open>crates/pengu-mesh-core/src/allocation.rs\<close>: the trait
  \<open>AllocationPolicy\<close> as the locale \<open>allocation_policy\<close> and its three implementations. A
  policy's \<open>select\<close> takes and returns its state. \<open>usize\<close> and \<open>u64\<close> are 64-bit
  words; the load, which no policy reads, is kept as the bit pattern of its \<open>f64\<close>.
\<close>

section \<open>Candidates and errors\<close>

record candidate =
  ca_instance_id :: string
  ca_load :: "64 word"
  ca_available :: bool

datatype allocation_error = NoCandidates | NoneAvailable

fun allocation_error_text :: "allocation_error \<Rightarrow> string" where
  "allocation_error_text NoCandidates = ''no candidate instances available''"
| "allocation_error_text NoneAvailable = ''no candidate instances are currently available''"

type_synonym selection = "allocation_error + string"

definition available_candidates :: "candidate list \<Rightarrow> candidate list" where
  "available_candidates candidates = filter ca_available candidates"

section \<open>The three policies\<close>

definition fcfs_select :: "unit \<Rightarrow> candidate list \<Rightarrow> selection \<times> unit" where
  "fcfs_select st candidates =
     (if candidates = [] then Inl NoCandidates
      else (case List.find ca_available candidates of
              Some c \<Rightarrow> Inr (ca_instance_id c)
            | None \<Rightarrow> Inl NoneAvailable), ())"

text \<open>The state is \<open>last_index\<close>.\<close>

definition round_robin_new :: "64 word" where
  "round_robin_new = 0"

definition round_robin_select :: "64 word \<Rightarrow> candidate list \<Rightarrow> selection \<times> 64 word" where
  "round_robin_select last_index candidates =
     (if candidates = [] then (Inl NoCandidates, last_index)
      else
        (let available = available_candidates candidates
         in if available = [] then (Inl NoneAvailable, last_index)
            else
              (let idx = unat last_index mod length available
               in (Inr (ca_instance_id (available ! idx)), last_index + 1))))"

definition next_u64 :: "64 word \<Rightarrow> 64 word" where
  "next_u64 state = state * 6364136223846793005 + 1442695040888963407"

definition random_select :: "64 word \<Rightarrow> candidate list \<Rightarrow> selection \<times> 64 word" where
  "random_select state candidates =
     (if candidates = [] then (Inl NoCandidates, state)
      else
        (let available = available_candidates candidates
         in if available = [] then (Inl NoneAvailable, state)
            else
              (let state = next_u64 state;
                   idx = unat state mod length available
               in (Inr (ca_instance_id (available ! idx)), state))))"

text \<open>The seed from the clock's nanoseconds and the process-wide counter.\<close>

definition default_random_seed :: "64 word \<Rightarrow> 64 word \<Rightarrow> 64 word" where
  "default_random_seed nanos counter = nanos XOR (counter * 0x9E3779B97F4A7C15)"

section \<open>The factory\<close>

text \<open>A boxed policy is one of the three with its state; \<open>policy_select\<close> is the dynamic
  dispatch.\<close>

datatype policy = Fcfs | RoundRobin "64 word" | RandomPolicy "64 word"

definition supported_policy_names :: "string list" where
  "supported_policy_names = [''fcfs'', ''round_robin'', ''random'']"

definition create_policy :: "64 word \<Rightarrow> string \<Rightarrow> string + policy" where
  "create_policy seed name =
     (if name = ''fcfs'' then Inr Fcfs
      else if name = ''round_robin'' then Inr (RoundRobin round_robin_new)
      else if name = ''random'' then Inr (RandomPolicy seed)
      else Inl name)"

fun policy_select :: "policy \<Rightarrow> candidate list \<Rightarrow> selection \<times> policy" where
  "policy_select Fcfs cs = apsnd (\<lambda>_. Fcfs) (fcfs_select () cs)"
| "policy_select (RoundRobin i) cs = apsnd RoundRobin (round_robin_select i cs)"
| "policy_select (RandomPolicy st) cs = apsnd RandomPolicy (random_select st cs)"

section \<open>The interface\<close>

locale allocation_policy =
  fixes select :: "'s \<Rightarrow> candidate list \<Rightarrow> selection \<times> 's"
  assumes select_empty: "select st [] = (Inl NoCandidates, st)"
    and select_none: "cs \<noteq> [] \<Longrightarrow> available_candidates cs = [] \<Longrightarrow> select st cs = (Inl NoneAvailable, st)"
    and select_some: "available_candidates cs \<noteq> [] \<Longrightarrow>
      \<exists>c st'. c \<in> set cs \<and> ca_available c \<and> select st cs = (Inr (ca_instance_id c), st')"
begin

lemma picks: "fst (select st cs) = Inr i \<Longrightarrow> \<exists>c. c \<in> set cs \<and> ca_available c \<and> ca_instance_id c = i"
  using select_empty [of st] select_none [of cs st] select_some [of cs st]
  by (cases "cs = []"; cases "available_candidates cs = []") auto

lemma succeeds_iff: "is_ok (fst (select st cs)) \<longleftrightarrow> (\<exists>c\<in>set cs. ca_available c)"
proof
  assume "is_ok (fst (select st cs))"
  then show "\<exists>c\<in>set cs. ca_available c" using picks [of st cs] by (auto simp: is_ok_iff)
next
  assume "\<exists>c\<in>set cs. ca_available c"
  then have "available_candidates cs \<noteq> []" by (auto simp: available_candidates_def filter_empty_conv)
  with select_some [of cs st] show "is_ok (fst (select st cs))" by (auto simp: is_ok_iff)
qed

lemma error_keeps_state: "\<not> is_ok (fst (select st cs)) \<Longrightarrow> snd (select st cs) = st"
  using select_empty select_none [of cs st] succeeds_iff [of st cs]
  by (cases "cs = []") (auto simp: available_candidates_def filter_empty_conv)

lemma no_candidates_iff: "fst (select st cs) = Inl NoCandidates \<longleftrightarrow> cs = []"
  using select_empty [of st] select_none [of cs st] select_some [of cs st]
  by (cases "cs = []"; cases "available_candidates cs = []") auto

end

lemma nth_available: "cs' = available_candidates cs \<Longrightarrow> cs' \<noteq> [] \<Longrightarrow>
  cs' ! (n mod length cs') \<in> set cs \<and> ca_available (cs' ! (n mod length cs'))"
  using nth_mem [of "n mod length cs'" cs'] by (simp add: available_candidates_def)

interpretation fcfs: allocation_policy fcfs_select
proof unfold_locales
  show "fcfs_select st cs = (Inl NoneAvailable, st)" if "cs \<noteq> []" "available_candidates cs = []" for st cs
  proof -
    have "List.find ca_available cs = None"
      using that by (auto simp: available_candidates_def filter_empty_conv find_None_iff)
    then show ?thesis using that by (simp add: fcfs_select_def)
  qed
  show "\<exists>c st'. c \<in> set cs \<and> ca_available c \<and> fcfs_select st cs = (Inr (ca_instance_id c), st')"
    if "available_candidates cs \<noteq> []" for st cs
  proof -
    have "List.find ca_available cs \<noteq> None"
      using that by (auto simp: available_candidates_def filter_empty_conv find_None_iff)
    then obtain c where c: "List.find ca_available cs = Some c" by blast
    then have "cs \<noteq> []" by auto
    with find_Some_iff_set [OF c] c show ?thesis by (auto simp: fcfs_select_def)
  qed
qed (simp add: fcfs_select_def)

interpretation round_robin: allocation_policy round_robin_select
proof unfold_locales
  show "\<exists>c st'. c \<in> set cs \<and> ca_available c \<and> round_robin_select st cs = (Inr (ca_instance_id c), st')"
    if "available_candidates cs \<noteq> []" for st cs
  proof -
    have "cs \<noteq> []" using that by (auto simp: available_candidates_def)
    with that nth_available [OF refl that, of "unat st"] show ?thesis
      by (auto simp: round_robin_select_def Let_def)
  qed
qed (simp_all add: round_robin_select_def)

interpretation random: allocation_policy random_select
proof unfold_locales
  show "\<exists>c st'. c \<in> set cs \<and> ca_available c \<and> random_select st cs = (Inr (ca_instance_id c), st')"
    if "available_candidates cs \<noteq> []" for st cs
  proof -
    have "cs \<noteq> []" using that by (auto simp: available_candidates_def)
    with that nth_available [OF refl that, of "unat (next_u64 st)"] show ?thesis
      by (auto simp: random_select_def Let_def)
  qed
qed (simp_all add: random_select_def)

interpretation boxed: allocation_policy policy_select
proof unfold_locales
  show "policy_select p [] = (Inl NoCandidates, p)" for p
    by (cases p) (simp_all add: fcfs.select_empty round_robin.select_empty random.select_empty)
  show "policy_select p cs = (Inl NoneAvailable, p)" if "cs \<noteq> []" "available_candidates cs = []" for p cs
    by (cases p) (simp_all add: fcfs.select_none [OF that] round_robin.select_none [OF that]
        random.select_none [OF that])
  show "\<exists>c p'. c \<in> set cs \<and> ca_available c \<and> policy_select p cs = (Inr (ca_instance_id c), p')"
    if "available_candidates cs \<noteq> []" for p cs
  proof (cases p)
    case Fcfs
    then show ?thesis using fcfs.select_some [OF that, of "()"] by force
  next
    case (RoundRobin i)
    then show ?thesis using round_robin.select_some [OF that, of i] by force
  next
    case (RandomPolicy st)
    then show ?thesis using random.select_some [OF that, of st] by force
  qed
qed

section \<open>Runs of a policy\<close>

fun select_times :: "('s \<Rightarrow> candidate list \<Rightarrow> selection \<times> 's) \<Rightarrow> nat \<Rightarrow> 's \<Rightarrow> candidate list \<Rightarrow> selection list" where
  "select_times sel 0 st cs = []"
| "select_times sel (Suc n) st cs = (case sel st cs of (r, st') \<Rightarrow> r # select_times sel n st' cs)"

lemma round_robin_step:
  "available_candidates cs \<noteq> [] \<Longrightarrow> round_robin_select i cs =
    (Inr (ca_instance_id (available_candidates cs ! (unat i mod length (available_candidates cs)))), i + 1)"
  by (auto simp: round_robin_select_def Let_def available_candidates_def)

lemma round_robin_times:
  assumes "available_candidates cs \<noteq> []" and "unat i + n \<le> 2 ^ 64"
  shows "select_times round_robin_select n i cs =
    map (\<lambda>j. Inr (ca_instance_id (available_candidates cs ! (j mod length (available_candidates cs)))))
      [unat i..<unat i + n]"
  using assms(2)
proof (induction n arbitrary: i)
  case (Suc n)
  have upt: "[unat i..<unat i + Suc n] = unat i # [Suc (unat i)..<Suc (unat i) + n]"
    by (simp add: upt_conv_Cons del: upt_Suc)
  show ?case
  proof (cases n)
    case 0
    then show ?thesis by (simp add: round_robin_step [OF assms(1)])
  next
    case (Suc m)
    then have nxt: "unat (i + 1) = Suc (unat i)" using Suc.prems by (simp add: unat_word_ariths)
    have "select_times round_robin_select n (i + 1) cs =
      map (\<lambda>j. Inr (ca_instance_id (available_candidates cs ! (j mod length (available_candidates cs)))))
        [Suc (unat i)..<Suc (unat i) + n]"
      using Suc.IH [of "i + 1"] Suc.prems unfolding nxt by simp
    then show ?thesis unfolding upt by (simp add: round_robin_step [OF assms(1)] del: upt_Suc)
  qed
qed simp

lemma mod_window: "0 < k \<Longrightarrow> mset (map (\<lambda>j. j mod k) [i..<i + k]) = mset [0..<k]"
proof (induction i)
  case (Suc i)
  have "[Suc i..<Suc i + k] = [Suc i..<i + k] @ [i + k]" using Suc.prems by simp
  moreover have "[i..<i + k] = i # [Suc i..<i + k]" using Suc.prems by (simp add: upt_conv_Cons)
  ultimately show ?case using Suc by simp
next
  case 0
  have "map (\<lambda>j. j mod k) [0..<k] = map (\<lambda>j. j) [0..<k]" by (rule map_cong) auto
  then show ?case by simp
qed

section \<open>Properties\<close>

text \<open>Claim C24. Every policy the factory builds answers the same way: it fails with
  \<open>NoCandidates\<close> on an empty list, with \<open>NoneAvailable\<close> when no candidate is available,
  and otherwise returns the id of an available candidate; an error leaves its state alone.\<close>

theorem policies_pick_available:
  "(is_ok (fst (policy_select p cs)) \<longleftrightarrow> (\<exists>c. c \<in> set cs \<and> ca_available c)) \<and>
   (fst (policy_select p cs) = Inl NoCandidates \<longleftrightarrow> cs = []) \<and>
   (case policy_select p cs of
      (Inl e, p') \<Rightarrow> p' = p
    | (Inr i, p') \<Rightarrow> \<exists>c. c \<in> set cs \<and> ca_available c \<and> ca_instance_id c = i)"
proof -
  have ok: "is_ok (fst (policy_select p cs)) \<longleftrightarrow> (\<exists>c\<in>set cs. ca_available c)" by (rule boxed.succeeds_iff)
  have nc: "fst (policy_select p cs) = Inl NoCandidates \<longleftrightarrow> cs = []" by (rule boxed.no_candidates_iff)
  have "case policy_select p cs of (Inl e, p') \<Rightarrow> p' = p
      | (Inr i, p') \<Rightarrow> \<exists>c. c \<in> set cs \<and> ca_available c \<and> ca_instance_id c = i"
    using boxed.picks [of p cs] boxed.error_keeps_state [of p cs]
    by (cases "policy_select p cs"; cases "fst (policy_select p cs)") simp_all
  with ok nc show ?thesis by blast
qed

text \<open>Round-robin is fair: any window of as many consecutive selections as there are
  available candidates returns every one of them exactly once, from any position of the
  counter that does not wrap within the window.\<close>

theorem round_robin_fair:
  assumes "k = length (available_candidates cs)" and "0 < k" and "unat i + k \<le> 2 ^ 64"
  shows "mset (select_times round_robin_select k i cs) =
    mset (map (\<lambda>c. Inr (ca_instance_id c)) (available_candidates cs))"
proof -
  let ?av = "available_candidates cs" and ?f = "\<lambda>c. Inr (ca_instance_id c) :: selection"
  have ne: "?av \<noteq> []" using assms(1,2) by auto
  have "select_times round_robin_select k i cs = map (\<lambda>j. ?f (?av ! j)) (map (\<lambda>j. j mod k) [unat i..<unat i + k])"
    using round_robin_times [OF ne assms(3)] assms(1) by simp
  then have "mset (select_times round_robin_select k i cs) = image_mset (\<lambda>j. ?f (?av ! j)) (mset [0..<k])"
    using mod_window [OF assms(2), of "unat i"] by (metis mset_map)
  also have "\<dots> = mset (map ?f (map ((!) ?av) [0..<k]))" by (simp add: comp_def)
  finally show ?thesis using assms(1) by (simp only: map_nth)
qed

definition sample_candidates :: "candidate list" where
  "sample_candidates =
     [\<lparr>ca_instance_id = ''a'', ca_load = 0, ca_available = True\<rparr>,
      \<lparr>ca_instance_id = ''b'', ca_load = 0, ca_available = False\<rparr>,
      \<lparr>ca_instance_id = ''c'', ca_load = 0, ca_available = True\<rparr>]"

theorem round_robin_fair_witness:
  "mset (select_times round_robin_select 2 5 sample_candidates) = {#Inr ''a'', Inr ''c''#}"
  using round_robin_fair [of 2 sample_candidates 5]
  by (simp add: sample_candidates_def available_candidates_def)

text \<open>The random policy is not random between two candidates: the low bit of its
  generator flips at every step, so with two available candidates consecutive selections
  strictly alternate whatever the seed.\<close>

theorem random_two_alternates:
  assumes "available_candidates cs = [x, y]" and "ca_instance_id x \<noteq> ca_instance_id y"
  shows "fst (random_select st cs) \<noteq> fst (random_select (snd (random_select st cs)) cs)"
proof -
  have ne: "cs \<noteq> []" using assms by (auto simp: available_candidates_def)
  have odd_next: "odd (next_u64 s) \<longleftrightarrow> even s" for s :: "64 word"
    by (simp add: next_u64_def)
  have "even (unat w) \<longleftrightarrow> even w" for w :: "64 word"
    using bit_unsigned_iff [where ?'a = nat, of w 0] by (simp add: bit_0)
  then have parity: "unat w mod 2 = (if even w then 0 else 1)" for w :: "64 word"
    by (simp add: mod2_eq_if)
  show ?thesis
    using ne assms odd_next [of st] odd_next [of "next_u64 st"]
    by (cases "even st") (simp_all add: random_select_def Let_def parity numeral_2_eq_2 [symmetric])
qed

theorem random_two_alternates_witness:
  "fst (random_select 7 sample_candidates) \<noteq> fst (random_select (snd (random_select 7 sample_candidates)) sample_candidates)"
  using random_two_alternates [of sample_candidates _ _ 7]
  by (simp add: sample_candidates_def available_candidates_def)

end
