(* ===== verification/Threshold.thy ===== *)
theory Threshold
  imports Tables "HOL-Library.Log_Nat"
begin

text \<open>
  Latency budgets, \<open>crates/pengu-mesh-core/src/threshold.rs\<close>. The percentile index is
  computed there in \<open>f64\<close>; here a non-negative \<open>f64\<close> is its exact value in units of
  \<open>2 ^ - 52\<close>, and each operation is rounded to 53 significant bits, ties to even, as IEEE 754
  prescribes. The theorems show that this arithmetic finds the exact nearest rank for every
  list of fewer than \<open>2 ^ 40\<close> samples.
\<close>

section \<open>Rounding\<close>

definition f64_round :: "nat \<Rightarrow> nat" where
  "f64_round q =
     (if q < 2 ^ 53 then q
      else
        (let s = 2 ^ (floorlog 2 q - 53); d = q div s; r = q mod s
         in s * (if s < 2 * r \<or> (s = 2 * r \<and> odd d) then Suc d else d)))"

text \<open>The product of a constant below one, given in units of \<open>2 ^ - 52\<close>, and a converted
  integer; then the ceiling.\<close>

definition f64_mult_nat :: "nat \<Rightarrow> nat \<Rightarrow> nat" where
  "f64_mult_nat m n = f64_round (m * f64_round n)"

definition f64_ceil :: "nat \<Rightarrow> nat" where
  "f64_ceil q = (q + (2 ^ 52 - 1)) div 2 ^ 52"

text \<open>The constants \<open>0.50\<close>, \<open>0.95\<close> and \<open>0.99\<close> of the source, as the nearest \<open>f64\<close>.\<close>

definition f64_050 :: nat where
  "f64_050 = 2251799813685248"

definition f64_095 :: nat where
  "f64_095 = 4278419646001971"

definition f64_099 :: nat where
  "f64_099 = 4458563631096791"

section \<open>The component\<close>

record performance_threshold =
  pt_name :: string
  pt_metric :: string
  pt_max_ms :: "64 word"
  pt_p50_ms :: "64 word option"
  pt_p95_ms :: "64 word option"
  pt_p99_ms :: "64 word option"

record threshold_violation =
  tv_threshold_name :: string
  tv_metric :: string
  tv_expected_ms :: "64 word"
  tv_actual_ms :: "64 word"
  tv_percentile :: string

record threshold_result =
  tr_threshold_name :: string
  tr_metric :: string
  tr_passed :: bool
  tr_violations :: "threshold_violation list"
  tr_samples_evaluated :: nat

definition percentile :: "64 word list \<Rightarrow> nat \<Rightarrow> 64 word" where
  "percentile sorted_samples p =
     (if sorted_samples = [] then 0
      else
        (let idx = f64_ceil (f64_mult_nat p (length sorted_samples)) - 1;
             idx = min idx (length sorted_samples - 1)
         in sorted_samples ! idx))"

definition check_budget ::
  "performance_threshold \<Rightarrow> string \<Rightarrow> 64 word \<Rightarrow> 64 word \<Rightarrow> threshold_violation list" where
  "check_budget threshold label budget actual =
     (if actual > budget
      then [\<lparr>tv_threshold_name = pt_name threshold, tv_metric = pt_metric threshold,
             tv_expected_ms = budget, tv_actual_ms = actual, tv_percentile = label\<rparr>]
      else [])"

definition check_percentile ::
  "performance_threshold \<Rightarrow> string \<Rightarrow> 64 word option \<Rightarrow> 64 word list \<Rightarrow> nat \<Rightarrow> threshold_violation list" where
  "check_percentile threshold label budget sorted_samples p =
     (case budget of
        None \<Rightarrow> []
      | Some b \<Rightarrow> check_budget threshold label b (percentile sorted_samples p))"

definition evaluate_threshold :: "performance_threshold \<Rightarrow> 64 word list \<Rightarrow> threshold_result" where
  "evaluate_threshold threshold samples =
     (if samples = [] then
        \<lparr>tr_threshold_name = pt_name threshold, tr_metric = pt_metric threshold, tr_passed = True,
         tr_violations = [], tr_samples_evaluated = 0\<rparr>
      else
        (let sorted_samples = sort samples;
             violations =
               check_budget threshold ''max'' (pt_max_ms threshold)
                 (sorted_samples ! (length sorted_samples - 1)) @
               check_percentile threshold ''p50'' (pt_p50_ms threshold) sorted_samples f64_050 @
               check_percentile threshold ''p95'' (pt_p95_ms threshold) sorted_samples f64_095 @
               check_percentile threshold ''p99'' (pt_p99_ms threshold) sorted_samples f64_099
         in \<lparr>tr_threshold_name = pt_name threshold, tr_metric = pt_metric threshold,
             tr_passed = (violations = []), tr_violations = violations,
             tr_samples_evaluated = length samples\<rparr>))"

definition evaluate_thresholds ::
  "performance_threshold list \<Rightarrow> (string \<rightharpoonup> 64 word list) \<Rightarrow> threshold_result list" where
  "evaluate_thresholds thresholds samples_by_metric =
     map (\<lambda>t. evaluate_threshold t (unwrap_or [] (samples_by_metric (pt_metric t)))) thresholds"

section \<open>The rounding error\<close>

lemma round_to_multiple:
  fixes s r d :: nat
  assumes "r < s"
  defines "f \<equiv> s * (if s < 2 * r \<or> (s = 2 * r \<and> odd d) then Suc d else d)"
  shows "s dvd f \<and> 2 * f \<le> 2 * (s * d + r) + s \<and> 2 * (s * d + r) \<le> 2 * f + s"
  using assms by (cases "s < 2 * r \<or> (s = 2 * r \<and> odd d)") (auto simp: algebra_simps)

lemma f64_round_bounds:
  assumes "2 ^ 53 \<le> q"
  shows "\<exists>e. 2 ^ (52 + e) \<le> q \<and> 2 ^ e dvd f64_round q \<and>
    2 * f64_round q \<le> 2 * q + 2 ^ e \<and> 2 * q \<le> 2 * f64_round q + 2 ^ e"
proof -
  define e where "e = floorlog 2 q - 53"
  have q: "0 < q" using assms by (metis gr0I le_zero_eq power_not_zero zero_neq_numeral)
  have up: "q < 2 ^ floorlog 2 q" and low: "2 ^ (floorlog 2 q - 1) \<le> q"
    using floorlog_bounds [OF q, of 2] by simp_all
  from assms up have "(2 :: nat) ^ 53 < 2 ^ floorlog 2 q" by (rule le_less_trans)
  then have "53 < floorlog 2 q" by (rule power_less_imp_less_exp [rotated]) simp
  then have "floorlog 2 q - 1 = 52 + e" by (simp add: e_def)
  with low have "2 ^ (52 + e) \<le> q" by simp
  moreover have "f64_round q = 2 ^ e * (if 2 ^ e < 2 * (q mod 2 ^ e) \<or> (2 ^ e = 2 * (q mod 2 ^ e) \<and>
      odd (q div 2 ^ e)) then Suc (q div 2 ^ e) else q div 2 ^ e)"
    using assms unfolding f64_round_def Let_def e_def by simp
  moreover have "q mod 2 ^ e < 2 ^ e" by simp
  ultimately show ?thesis
    using round_to_multiple [of "q mod 2 ^ e" "2 ^ e" "q div 2 ^ e"] by (metis mult_div_mod_eq)
qed

text \<open>Rounding stays between a grid point above and a bound below.\<close>

lemma f64_round_le:
  assumes "q \<le> k * 2 ^ 52" and "q < 2 ^ 92"
  shows "f64_round q \<le> k * 2 ^ 52"
proof (cases "q < 2 ^ 53")
  case True
  then show ?thesis using assms by (simp add: f64_round_def)
next
  case False
  then obtain e where e: "2 ^ (52 + e) \<le> q" "2 ^ e dvd f64_round q" "2 * f64_round q \<le> 2 * q + 2 ^ e"
    using f64_round_bounds [of q] by (meson not_le)
  have "(2 :: nat) ^ (52 + e) < 2 ^ 92" using e(1) assms(2) by (rule le_less_trans)
  then have "52 + e < 92" by (rule power_less_imp_less_exp [rotated]) simp
  then have "(2 :: nat) ^ e dvd 2 ^ 52" by (intro le_imp_power_dvd) simp
  then have "(2 :: nat) ^ e dvd k * 2 ^ 52" by (rule dvd_mult)
  with e(2) obtain a b where a: "f64_round q = 2 ^ e * a" and b: "k * 2 ^ 52 = 2 ^ e * b"
    by (metis dvdE)
  show ?thesis
  proof (rule ccontr)
    assume "\<not> f64_round q \<le> k * 2 ^ 52"
    then have "b < a" unfolding a b by simp
    then have "2 ^ e * Suc b \<le> 2 ^ e * a" by (intro mult_le_mono2) simp
    then have "k * 2 ^ 52 + 2 ^ e \<le> f64_round q" unfolding a b by simp
    moreover have "(0 :: nat) < 2 ^ e" by simp
    ultimately show False using e(3) assms(1) by linarith
  qed
qed

lemma f64_round_ge:
  assumes "q < 2 ^ 92"
  shows "2 * q \<le> 2 * f64_round q + 2 ^ 40"
proof (cases "q < 2 ^ 53")
  case True
  then show ?thesis by (simp add: f64_round_def)
next
  case False
  then obtain e where e: "2 ^ (52 + e) \<le> q" "2 * q \<le> 2 * f64_round q + 2 ^ e"
    using f64_round_bounds [of q] by (meson not_le)
  have "(2 :: nat) ^ (52 + e) < 2 ^ 92" using e(1) assms by (rule le_less_trans)
  then have "52 + e < 92" by (rule power_less_imp_less_exp [rotated]) simp
  then have "(2 :: nat) ^ e \<le> 2 ^ 40" by (intro power_increasing) simp_all
  with e(2) show ?thesis by linarith
qed

section \<open>Nearest rank\<close>

text \<open>A constant \<open>m\<close> stands for the fraction \<open>a / b\<close> when it is at most 4 units of
  \<open>2 ^ - 52 / b\<close> below it.\<close>

definition stands_for :: "nat \<Rightarrow> nat \<Rightarrow> nat \<Rightarrow> bool" where
  "stands_for m a b \<longleftrightarrow> b * m \<le> a * 2 ^ 52 \<and> a * 2 ^ 52 \<le> b * m + 4 \<and> 0 < a \<and> a < b \<and> b \<le> 100"

lemma constants_stand_for:
  "stands_for f64_050 1 2" "stands_for f64_095 19 20" "stands_for f64_099 99 100"
  by (simp_all add: stands_for_def f64_050_def f64_095_def f64_099_def)

text \<open>The ceiling of the rounded product is the exact rank \<open>\<lceil>a n / b\<rceil>\<close>.\<close>

lemma f64_rank:
  assumes m: "stands_for m a b" and n: "0 < n" "n < 2 ^ 40"
    and k: "a * n \<le> k * b" "k * b < a * n + b"
  shows "f64_ceil (f64_mult_nat m n) = k"
proof -
  have ab: "0 < a" "a < b" "b \<le> 100" and mlo: "a * 2 ^ 52 \<le> b * m + 4" and mhi: "b * m \<le> a * 2 ^ 52"
    using m by (simp_all add: stands_for_def)
  have b0: "0 < b" using ab by simp
  have "f64_round n = n" using n by (simp add: f64_round_def)
  then have prod: "f64_mult_nat m n = f64_round (m * n)" by (simp add: f64_mult_nat_def)
  have "b * m < b * 2 ^ 52" using mhi ab by (metis le_less_trans mult_less_mono1 zero_less_numeral zero_less_power)
  then have "m < 2 ^ 52" by simp
  then have "m * n \<le> 2 ^ 52 * n" by simp
  also have "\<dots> < 2 ^ 52 * 2 ^ 40" using n by simp
  finally have small: "m * n < 2 ^ 92" by simp
  have "b * (m * n) \<le> a * 2 ^ 52 * n" using mhi by (metis mult.assoc mult_le_mono1)
  also have "\<dots> = (a * n) * 2 ^ 52" by simp
  also have "\<dots> \<le> (k * b) * 2 ^ 52" using k(1) by (rule mult_le_mono1)
  finally have "b * (m * n) \<le> b * (k * 2 ^ 52)" by (simp add: mult.commute mult.left_commute)
  then have "m * n \<le> k * 2 ^ 52" using b0 by simp
  then have hi: "f64_round (m * n) \<le> k * 2 ^ 52" using small by (rule f64_round_le)
  have near: "2 * (m * n) \<le> 2 * f64_round (m * n) + 2 ^ 40" using small by (rule f64_round_ge)
  have "a * 2 ^ 52 * n \<le> (b * m + 4) * n" using mlo by (rule mult_le_mono1)
  then have lo: "(a * n) * 2 ^ 52 \<le> b * (m * n) + 4 * n" by (simp add: algebra_simps)
  have "(k * b + 1) * 2 ^ 52 \<le> (a * n + b) * 2 ^ 52" using k(2) by (intro mult_le_mono1) simp
  then have "k * b * 2 ^ 52 + 2 ^ 52 \<le> (a * n) * 2 ^ 52 + b * 2 ^ 52" by (simp add: algebra_simps)
  with lo have "k * b * 2 ^ 52 + 2 ^ 52 \<le> b * (m * n) + 4 * n + b * 2 ^ 52" by linarith
  moreover have "b * (2 * (m * n)) \<le> b * (2 * f64_round (m * n) + 2 ^ 40)" using near by (rule mult_le_mono2)
  ultimately have "2 * (k * b * 2 ^ 52) + 2 * 2 ^ 52 \<le> b * (2 * f64_round (m * n)) + b * 2 ^ 40 + 8 * n + 2 * (b * 2 ^ 52)"
    by (simp add: algebra_simps)
  moreover have "b * 2 ^ 40 + 8 * n < 2 * 2 ^ 52" using n ab by simp
  ultimately have "2 * (k * b * 2 ^ 52) < b * (2 * f64_round (m * n)) + 2 * (b * 2 ^ 52)" by linarith
  then have "b * (k * 2 ^ 52) < b * (f64_round (m * n) + 2 ^ 52)" by (simp add: algebra_simps)
  then have lo': "k * 2 ^ 52 < f64_round (m * n) + 2 ^ 52" using b0 by simp
  have "(f64_round (m * n) + (2 ^ 52 - 1)) div 2 ^ 52 = k"
    by (rule div_nat_eqI) (use hi lo' in \<open>simp_all add: algebra_simps\<close>)
  then show ?thesis by (simp add: f64_ceil_def prod)
qed

definition count_within :: "64 word list \<Rightarrow> 64 word \<Rightarrow> nat" where
  "count_within samples v = length (filter (\<lambda>x. x \<le> v) samples)"

lemma count_within_sort: "count_within (sort samples) v = count_within samples v"
  unfolding count_within_def by (metis filter_sort length_sort)

lemma sorted_rank_le:
  assumes "sorted xs" and "0 < k" and "k \<le> length xs"
  shows "xs ! (k - 1) \<le> v \<longleftrightarrow> k \<le> count_within xs v"
proof -
  let ?S = "{i. i < length xs \<and> xs ! i \<le> v}"
  have card: "count_within xs v = card ?S" by (simp add: count_within_def length_filter_conv_card)
  show ?thesis
  proof
    assume le: "xs ! (k - 1) \<le> v"
    have "{0..<k} \<subseteq> ?S"
    proof
      fix i assume "i \<in> {0..<k}"
      then have "i \<le> k - 1" "i < length xs" using assms by auto
      then have "xs ! i \<le> xs ! (k - 1)" using assms by (intro sorted_nth_mono) auto
      then show "i \<in> ?S" using le \<open>i < length xs\<close> by auto
    qed
    then have "card {0..<k} \<le> card ?S" by (intro card_mono) auto
    then show "k \<le> count_within xs v" using card by simp
  next
    assume k: "k \<le> count_within xs v"
    show "xs ! (k - 1) \<le> v"
    proof (rule ccontr)
      assume gt: "\<not> xs ! (k - 1) \<le> v"
      have "?S \<subseteq> {0..<k - 1}"
      proof
        fix i assume i: "i \<in> ?S"
        have "xs ! (k - 1) \<le> xs ! i" if "k - 1 \<le> i" using that i assms by (intro sorted_nth_mono) auto
        then show "i \<in> {0..<k - 1}" using i gt by (cases "k - 1 \<le> i") auto
      qed
      then have "card ?S \<le> card {0..<k - 1}" by (intro card_mono) auto
      then show False using k card assms(2) by simp
    qed
  qed
qed

lemma percentile_le_iff:
  assumes m: "stands_for m a b" and s: "sorted xs" and ne: "xs \<noteq> []" and n: "length xs < 2 ^ 40"
  shows "percentile xs m \<le> v \<longleftrightarrow> a * length xs \<le> b * count_within xs v"
proof -
  let ?n = "length xs"
  have ab: "0 < a" "a < b" using m by (simp_all add: stands_for_def)
  define k where "k = (a * ?n + (b - 1)) div b"
  have n0: "0 < ?n" using ne by simp
  have up: "k * b \<le> a * ?n + (b - 1)" unfolding k_def by (rule div_times_less_eq_dividend)
  have "a * ?n + (b - 1) < k * b + b"
    using ab mod_less_divisor [of b "a * ?n + (b - 1)"] div_mult_mod_eq [of "a * ?n + (b - 1)" b]
    unfolding k_def by linarith
  then have low: "a * ?n \<le> k * b" using ab by linarith
  have rank: "f64_ceil (f64_mult_nat m ?n) = k"
    by (rule f64_rank [OF m n0 n low]) (use up ab in linarith)
  have "0 < k * b" using low ab n0 by (metis le_less_trans less_le_trans mult_pos_pos)
  then have k0: "0 < k" by (cases k) simp_all
  have "k * b < Suc ?n * b"
  proof -
    have "a * ?n \<le> b * ?n" using ab by simp
    then have "k * b \<le> b * ?n + (b - 1)" using up by linarith
    then show ?thesis using ab by (simp add: mult.commute)
  qed
  then have "k < Suc ?n" by (rule mult_less_cancel2 [THEN iffD1, THEN conjunct2])
  then have kn: "k \<le> ?n" by simp
  have "percentile xs m = xs ! (k - 1)"
    using ne kn by (simp add: percentile_def rank Let_def min_def)
  then have "percentile xs m \<le> v \<longleftrightarrow> k \<le> count_within xs v" using sorted_rank_le [OF s k0 kn] by simp
  also have "\<dots> \<longleftrightarrow> a * ?n \<le> b * count_within xs v"
  proof
    assume "k \<le> count_within xs v"
    then have "k * b \<le> count_within xs v * b" by (rule mult_le_mono1)
    with low have "a * ?n \<le> count_within xs v * b" by (rule order_trans)
    then show "a * ?n \<le> b * count_within xs v" by (simp only: mult.commute)
  next
    assume "a * ?n \<le> b * count_within xs v"
    then have "k * b < Suc (count_within xs v) * b" using up ab by (simp add: algebra_simps)
    then have "k < Suc (count_within xs v)" by (rule mult_less_cancel2 [THEN iffD1, THEN conjunct2])
    then show "k \<le> count_within xs v" by simp
  qed
  finally show ?thesis .
qed

lemma check_percentile_Nil:
  assumes "stands_for m a b" and "samples \<noteq> []" and "length samples < 2 ^ 40"
  shows "check_percentile t label budget (sort samples) m = [] \<longleftrightarrow>
    (case budget of None \<Rightarrow> True | Some v \<Rightarrow> a * length samples \<le> b * count_within samples v)"
proof -
  have ne: "sort samples \<noteq> []" using assms(2) by (metis length_0_conv length_sort)
  have le: "percentile (sort samples) m \<le> v \<longleftrightarrow> a * length samples \<le> b * count_within samples v" for v
    using percentile_le_iff [OF assms(1) sorted_sort ne] assms(3) by (simp add: count_within_sort)
  show ?thesis
    by (cases budget) (auto simp: check_percentile_def check_budget_def le [symmetric])
qed

lemma sort_last_Max:
  assumes "samples \<noteq> []"
  shows "sort samples ! (length (sort samples) - 1) = Max (set samples)"
proof -
  have ne: "sort samples \<noteq> []" using assms by (metis length_0_conv length_sort)
  have "sort samples ! (length (sort samples) - 1) = last (sort samples)"
    using ne by (simp add: last_conv_nth)
  also have "\<dots> = Max (set (sort samples))"
  proof (rule Max_eqI [symmetric])
    show "last (sort samples) \<in> set (sort samples)" using ne by (rule last_in_set)
    show "x \<le> last (sort samples)" if "x \<in> set (sort samples)" for x
      using that ne sorted_sort [of samples]
      by (metis append_butlast_last_id in_set_conv_decomp_last last_appendR last_in_set list.distinct(1)
          sorted_append set_append UnE empty_set empty_iff insert_iff list.set(2) order_refl)
  qed simp
  finally show ?thesis by simp
qed

section \<open>Properties\<close>

text \<open>Claim C23. A threshold passes exactly when every sample is within the maximum and, for
  each percentile budget it declares, at least that share of the samples is within the budget:
  the floating-point index never drops or adds a rank (for fewer than \<open>2 ^ 40\<close> samples).\<close>

theorem threshold_passes_iff:
  assumes "length samples < 2 ^ 40"
  shows "tr_passed (evaluate_threshold t samples) \<longleftrightarrow>
    (\<forall>s\<in>set samples. s \<le> pt_max_ms t) \<and>
    (\<forall>b. pt_p50_ms t = Some b \<longrightarrow> length samples \<le> 2 * count_within samples b) \<and>
    (\<forall>b. pt_p95_ms t = Some b \<longrightarrow> 19 * length samples \<le> 20 * count_within samples b) \<and>
    (\<forall>b. pt_p99_ms t = Some b \<longrightarrow> 99 * length samples \<le> 100 * count_within samples b)"
proof (cases "samples = []")
  case True
  then show ?thesis by (simp add: evaluate_threshold_def)
next
  case False
  have max: "check_budget t ''max'' (pt_max_ms t) (sort samples ! (length (sort samples) - 1)) = [] \<longleftrightarrow>
      (\<forall>s\<in>set samples. s \<le> pt_max_ms t)"
    unfolding sort_last_Max [OF False]
  proof -
    have "(Max (set samples) \<le> pt_max_ms t) = (\<forall>s\<in>set samples. s \<le> pt_max_ms t)"
      by (rule Max_le_iff) (use False in simp_all)
    then show "check_budget t ''max'' (pt_max_ms t) (Max (set samples)) = [] \<longleftrightarrow>
        (\<forall>s\<in>set samples. s \<le> pt_max_ms t)"
      by (auto simp: check_budget_def not_less simp del: Max_le_iff)
  qed
  have passed: "tr_passed (evaluate_threshold t samples) \<longleftrightarrow>
      check_budget t ''max'' (pt_max_ms t) (sort samples ! (length (sort samples) - 1)) = [] \<and>
      check_percentile t ''p50'' (pt_p50_ms t) (sort samples) f64_050 = [] \<and>
      check_percentile t ''p95'' (pt_p95_ms t) (sort samples) f64_095 = [] \<and>
      check_percentile t ''p99'' (pt_p99_ms t) (sort samples) f64_099 = []"
    using False by (simp add: evaluate_threshold_def Let_def)
  show ?thesis
    unfolding passed max constants_stand_for [THEN check_percentile_Nil, OF False assms]
    by (simp split: option.splits)
qed

definition sample_threshold :: performance_threshold where
  "sample_threshold = \<lparr>pt_name = ''nav'', pt_metric = ''navigate'', pt_max_ms = 90,
     pt_p50_ms = Some 20, pt_p95_ms = Some 50, pt_p99_ms = None\<rparr>"

theorem threshold_passes_iff_witness:
  "tr_passed (evaluate_threshold sample_threshold [80, 10, 20, 30]) = False"
  using threshold_passes_iff [of "[80, 10, 20, 30]" sample_threshold]
  by (simp add: sample_threshold_def count_within_def)

text \<open>The report of a threshold is complete: it passes exactly when it lists no
  violation, each violation names a declared budget that is exceeded by the value reported
  with it, and the number of samples is reported.\<close>

theorem threshold_report_exact:
  "(tr_passed (evaluate_threshold t samples) \<longleftrightarrow> tr_violations (evaluate_threshold t samples) = []) \<and>
   tr_samples_evaluated (evaluate_threshold t samples) = length samples \<and>
   (v \<in> set (tr_violations (evaluate_threshold t samples)) \<longrightarrow>
     tv_expected_ms v < tv_actual_ms v \<and> tv_metric v = pt_metric t \<and>
     (tv_percentile v, Some (tv_expected_ms v)) \<in> {(''max'', Some (pt_max_ms t)), (''p50'', pt_p50_ms t),
       (''p95'', pt_p95_ms t), (''p99'', pt_p99_ms t)})"
  by (auto simp: evaluate_threshold_def Let_def check_budget_def check_percentile_def
      split: if_splits option.splits)

theorem threshold_report_exact_witness:
  "tr_samples_evaluated (evaluate_threshold sample_threshold [80, 10, 20, 30]) = 4"
  using threshold_report_exact [of sample_threshold "[80, 10, 20, 30]"] by simp

end
