(* ===== verification/AutoRestart.thy ===== *)
theory AutoRestart
  imports Tables
begin

text \<open>
  The restart policy of managed browsers, \<open>crates/pengu-mesh-core/src/autorestart.rs\<close>.
  An \<open>Instant\<close> is a number of nanoseconds; each operation that reads the clock takes the
  reading. \<open>f64::powi\<close> has no specified precision, so the scaled delay
  \<open>(initial as f64) * factor.powi(exponent) as u64\<close> is a parameter; the factor is kept as
  the bit pattern of its \<open>f64\<close>. \<open>attempts += 1\<close> is the wrapping addition of release
  builds.
\<close>

record restart_config =
  rc_max_restarts :: "32 word"
  rc_initial_delay_ms :: "64 word"
  rc_max_delay_ms :: "64 word"
  rc_backoff_factor :: "64 word"
  rc_stable_period_ms :: "64 word"

text \<open>\<open>2.0\<close> has the bit pattern \<open>0x4000000000000000\<close>.\<close>

definition default_restart_config :: restart_config where
  "default_restart_config =
     \<lparr>rc_max_restarts = 3, rc_initial_delay_ms = 2000, rc_max_delay_ms = 60000,
      rc_backoff_factor = 0x4000000000000000, rc_stable_period_ms = 300000\<rparr>"

datatype restart_decision = Restart "64 word" | GiveUp string

record restart_tracker =
  rk_attempts :: "32 word"
  rk_last_crash_at :: "nat option"
  rk_last_start_at :: "nat option"
  rk_config :: restart_config

definition new_tracker :: "restart_config \<Rightarrow> restart_tracker" where
  "new_tracker config =
     \<lparr>rk_attempts = 0, rk_last_crash_at = None, rk_last_start_at = None, rk_config = config\<rparr>"

definition record_start :: "nat \<Rightarrow> restart_tracker \<Rightarrow> restart_tracker" where
  "record_start now t = t\<lparr>rk_last_start_at := Some now\<rparr>"

text \<open>\<open>now.duration_since(start).as_millis() as u64\<close>: the duration is zero when the clock
  reads earlier than the start.\<close>

definition uptime_ms :: "nat \<Rightarrow> nat \<Rightarrow> 64 word" where
  "uptime_ms now start = of_nat ((now - start) div 1000000)"

definition record_crash :: "nat \<Rightarrow> restart_tracker \<Rightarrow> restart_tracker" where
  "record_crash now t =
     (let attempts =
        (case rk_last_start_at t of
           Some start \<Rightarrow>
             (if uptime_ms now start \<ge> rc_stable_period_ms (rk_config t) then 0 else rk_attempts t)
         | None \<Rightarrow> rk_attempts t)
      in t\<lparr>rk_attempts := attempts + 1, rk_last_crash_at := Some now\<rparr>)"

definition give_up_reason :: "restart_tracker \<Rightarrow> string" where
  "give_up_reason t =
     ''exceeded max restarts ('' @ show_nat (unat (rk_attempts t)) @ '' of '' @
     show_nat (unat (rc_max_restarts (rk_config t))) @ '')''"

definition should_restart ::
  "(64 word \<Rightarrow> 64 word \<Rightarrow> int \<Rightarrow> 64 word) \<Rightarrow> restart_tracker \<Rightarrow> restart_decision" where
  "should_restart powi_delay t =
     (if rk_attempts t > rc_max_restarts (rk_config t) then GiveUp (give_up_reason t)
      else
        (let exponent = (if rk_attempts t = 0 then 0 else rk_attempts t - 1);
             delay = powi_delay (rc_initial_delay_ms (rk_config t)) (rc_backoff_factor (rk_config t))
                       (sint exponent)
         in Restart (min delay (rc_max_delay_ms (rk_config t)))))"

definition reset_tracker :: "restart_tracker \<Rightarrow> restart_tracker" where
  "reset_tracker t = t\<lparr>rk_attempts := 0, rk_last_crash_at := None, rk_last_start_at := None\<rparr>"

section \<open>Histories\<close>

datatype tracker_event = Started nat | Crashed nat | WasReset

fun tracker_step :: "tracker_event \<Rightarrow> restart_tracker \<Rightarrow> restart_tracker" where
  "tracker_step (Started now) t = record_start now t"
| "tracker_step (Crashed now) t = record_crash now t"
| "tracker_step WasReset t = reset_tracker t"

definition run_tracker :: "tracker_event list \<Rightarrow> restart_tracker \<Rightarrow> restart_tracker" where
  "run_tracker events t = fold tracker_step events t"

text \<open>A crash of a start that has not been up for the stable period.\<close>

definition rapid_crash :: "nat \<Rightarrow> restart_tracker \<Rightarrow> bool" where
  "rapid_crash now t \<longleftrightarrow>
     (\<forall>start. rk_last_start_at t = Some start \<longrightarrow> uptime_ms now start < rc_stable_period_ms (rk_config t))"

text \<open>The rapid crashes in a row: restarts between them keep the count.\<close>

inductive rapid_run :: "restart_tracker \<Rightarrow> nat \<Rightarrow> restart_tracker \<Rightarrow> bool" where
  rapid_none: "rapid_run t 0 t"
| rapid_start: "rapid_run t n u \<Longrightarrow> rapid_run t n (record_start now u)"
| rapid_next: "rapid_run t n u \<Longrightarrow> rapid_crash now u \<Longrightarrow> rapid_run t (Suc n) (record_crash now u)"

lemma record_crash_sel [simp]:
  "rk_config (record_crash now t) = rk_config t" "rk_last_start_at (record_crash now t) = rk_last_start_at t"
  "rk_config (record_start now t) = rk_config t" "rk_attempts (record_start now t) = rk_attempts t"
  "rk_last_start_at (record_start now t) = Some now"
  "rk_config (new_tracker config) = config" "rk_last_start_at (new_tracker config) = None"
  by (simp_all add: record_crash_def record_start_def new_tracker_def Let_def)

lemma record_crash_rapid: "rapid_crash now t \<Longrightarrow> rk_attempts (record_crash now t) = rk_attempts t + 1"
  by (auto simp: record_crash_def rapid_crash_def Let_def not_le split: option.splits)

lemma rapid_run_attempts:
  "rapid_run t n u \<Longrightarrow> rk_attempts u = rk_attempts t + of_nat n \<and> rk_config u = rk_config t"
  by (induction rule: rapid_run.induct) (simp_all add: record_crash_rapid)

section \<open>Properties\<close>

text \<open>Claim C28. The restart budget: after \<open>n\<close> rapid crashes in a row, with any restarts
  between them, a fresh tracker allows another restart exactly when \<open>n\<close> does not exceed
  \<open>max_restarts\<close>, and then never waits longer than \<open>max_delay_ms\<close>.\<close>

theorem restart_budget:
  assumes run: "rapid_run (new_tracker config) n t" and n: "n < 2 ^ 32"
  shows "case should_restart powi_delay t of
      GiveUp _ \<Rightarrow> unat (rc_max_restarts config) < n
    | Restart delay \<Rightarrow> n \<le> unat (rc_max_restarts config) \<and> delay \<le> rc_max_delay_ms config"
proof -
  have att: "rk_attempts t = of_nat n" and cfg: "rk_config t = config"
    using rapid_run_attempts [OF run] by (simp_all add: new_tracker_def)
  have "unat (of_nat n :: 32 word) = n" using n by (simp add: unat_of_nat take_bit_eq_mod)
  then have "rk_attempts t > rc_max_restarts (rk_config t) \<longleftrightarrow> unat (rc_max_restarts config) < n"
    by (simp add: att cfg word_less_nat_alt)
  then show ?thesis by (auto simp: should_restart_def Let_def cfg)
qed

lemma sample_rapid_run: "rapid_run (new_tracker default_restart_config) 4
   (record_crash 4 (record_crash 3 (record_crash 2 (record_start 1 (record_crash 0
     (new_tracker default_restart_config))))))"
proof -
  have period: "rc_stable_period_ms default_restart_config = 300000"
    by (simp add: default_restart_config_def)
  have "rapid_run (new_tracker default_restart_config) (Suc (Suc (Suc (Suc 0))))
     (record_crash 4 (record_crash 3 (record_crash 2 (record_start 1 (record_crash 0
       (new_tracker default_restart_config))))))"
    by (intro rapid_start rapid_next rapid_none) (simp_all add: rapid_crash_def uptime_ms_def period)
  then show ?thesis by (simp add: eval_nat_numeral)
qed

theorem restart_budget_witness:
  "\<exists>reason. should_restart (\<lambda>i f e. i) (record_crash 4 (record_crash 3 (record_crash 2 (record_start 1
     (record_crash 0 (new_tracker default_restart_config)))))) = GiveUp reason"
  using restart_budget [OF sample_rapid_run, of "\<lambda>i f e. i"]
  by (auto simp: default_restart_config_def split: restart_decision.splits)

text \<open>A crash after a stable run counts as the first one: the counter restarts at
  one whatever it was, so an instance with a positive budget is restarted, after the initial
  delay (when \<open>powi\<close> with exponent zero leaves the delay as it is).\<close>

theorem stable_run_restarts_budget:
  assumes up: "rk_last_start_at t = Some start"
    and stable: "rc_stable_period_ms (rk_config t) \<le> uptime_ms now start"
    and budget: "rc_max_restarts (rk_config t) \<noteq> 0"
    and powi_0: "\<And>i f. powi_delay i f 0 = i"
  shows "rk_attempts (record_crash now t) = 1 \<and>
    should_restart powi_delay (record_crash now t) =
      Restart (min (rc_initial_delay_ms (rk_config t)) (rc_max_delay_ms (rk_config t)))"
proof -
  have "rk_attempts (record_crash now t) = 1" using up stable by (simp add: record_crash_def)
  then show ?thesis using budget powi_0 by (simp add: should_restart_def)
qed

theorem stable_run_restarts_budget_witness:
  "rk_attempts (record_crash 300000000000 ((new_tracker default_restart_config)
     \<lparr>rk_attempts := 3, rk_last_start_at := Some 0\<rparr>)) = 1"
  using stable_run_restarts_budget [of "(new_tracker default_restart_config)
     \<lparr>rk_attempts := 3, rk_last_start_at := Some 0\<rparr>" 0 300000000000 "\<lambda>i f e. i"]
  by (simp add: new_tracker_def default_restart_config_def uptime_ms_def)

end
