(* ===== verification/Webhook.thy ===== *)
theory Webhook
  imports Types Tables
begin

unbundle bit_operations_syntax

text \<open>
  Webhook delivery, \<open>crates/pengu-mesh-core/src/webhook.rs\<close>: the target check against
  local and private hosts, and the retry loop. The URL parser of the \<open>url\<close> crate, the JSON
  serialiser and the HTTP client are parameters: \<open>parse\<close> gives scheme and host of a text,
  \<open>serialise\<close> the body, \<open>post\<close> the answer to each attempt. An IPv4 address is a 32-bit
  word, an IPv6 address a 128-bit word; the address classes are those of \<open>std::net\<close>.
\<close>

section \<open>Types\<close>

datatype webhook_error = InvalidUrl | InvalidScheme | SsrfBlocked

fun webhook_error_text :: "webhook_error \<Rightarrow> string" where
  "webhook_error_text InvalidUrl = ''invalid webhook URL''"
| "webhook_error_text InvalidScheme = ''only http and https schemes are allowed''"
| "webhook_error_text SsrfBlocked =
     ''webhook URL resolves to a blocked local, private, or loopback host''"

record webhook_config =
  wc_url :: string
  wc_timeout_ms :: "64 word"
  wc_max_retries :: "32 word"

definition webhook_config_new :: "string \<Rightarrow> webhook_config" where
  "webhook_config_new url = \<lparr>wc_url = url, wc_timeout_ms = 5000, wc_max_retries = 2\<rparr>"

record webhook_payload =
  wp_event :: string
  wp_task_id :: string
  wp_state :: string
  wp_timestamp :: string
  wp_data :: "json option"

record webhook_delivery_result =
  wr_status_code :: "16 word option"
  wr_success :: bool
  wr_attempts :: "32 word"
  wr_error :: "string option"

datatype host = HostIpv4 "32 word" | HostIpv6 "128 word" | HostDomain string

record parsed_url =
  pu_scheme :: string
  pu_host :: "host option"

section \<open>Address classes\<close>

definition octet :: "32 word \<Rightarrow> nat \<Rightarrow> nat" where
  "octet a i = unat (drop_bit (8 * (3 - i)) a) mod 256"

definition v4_is_private :: "32 word \<Rightarrow> bool" where
  "v4_is_private a \<longleftrightarrow>
     octet a 0 = 10 \<or>
     (octet a 0 = 172 \<and> 16 \<le> octet a 1 \<and> octet a 1 \<le> 31) \<or>
     (octet a 0 = 192 \<and> octet a 1 = 168)"

definition v4_is_loopback :: "32 word \<Rightarrow> bool" where
  "v4_is_loopback a \<longleftrightarrow> octet a 0 = 127"

definition v4_is_link_local :: "32 word \<Rightarrow> bool" where
  "v4_is_link_local a \<longleftrightarrow> octet a 0 = 169 \<and> octet a 1 = 254"

definition v4_is_broadcast :: "32 word \<Rightarrow> bool" where
  "v4_is_broadcast a \<longleftrightarrow> a = 0xFFFFFFFF"

definition v4_is_unspecified :: "32 word \<Rightarrow> bool" where
  "v4_is_unspecified a \<longleftrightarrow> a = 0"

definition v6_is_loopback :: "128 word \<Rightarrow> bool" where
  "v6_is_loopback a \<longleftrightarrow> a = 1"

definition v6_is_unique_local :: "128 word \<Rightarrow> bool" where
  "v6_is_unique_local a \<longleftrightarrow> drop_bit 121 a = 0x7E"

definition v6_is_unicast_link_local :: "128 word \<Rightarrow> bool" where
  "v6_is_unicast_link_local a \<longleftrightarrow> drop_bit 118 a = 0x3FA"

definition v6_is_unspecified :: "128 word \<Rightarrow> bool" where
  "v6_is_unspecified a \<longleftrightarrow> a = 0"

definition is_blocked_ipv4 :: "32 word \<Rightarrow> bool" where
  "is_blocked_ipv4 a \<longleftrightarrow> v4_is_private a \<or> v4_is_loopback a \<or> v4_is_link_local a \<or>
     v4_is_broadcast a \<or> v4_is_unspecified a"

definition is_blocked_ipv6 :: "128 word \<Rightarrow> bool" where
  "is_blocked_ipv6 a \<longleftrightarrow> v6_is_loopback a \<or> v6_is_unique_local a \<or> v6_is_unicast_link_local a \<or>
     v6_is_unspecified a"

fun is_blocked_host :: "host \<Rightarrow> bool" where
  "is_blocked_host (HostIpv4 a) = is_blocked_ipv4 a"
| "is_blocked_host (HostIpv6 a) = is_blocked_ipv6 a"
| "is_blocked_host (HostDomain domain) =
     (let domain = to_ascii_lowercase domain
      in domain = ''localhost'' \<or> ends_with domain ''.localhost'')"

definition validate_webhook_url ::
  "(string \<Rightarrow> parsed_url option) \<Rightarrow> string \<Rightarrow> webhook_error + unit" where
  "validate_webhook_url parse url =
     (case parse url of
        None \<Rightarrow> Inl InvalidUrl
      | Some parsed \<Rightarrow>
          (if pu_scheme parsed \<notin> {''http'', ''https''} then Inl InvalidScheme
           else
             (case pu_host parsed of
                None \<Rightarrow> Inl InvalidUrl
              | Some h \<Rightarrow> (if is_blocked_host h then Inl SsrfBlocked else Inr ()))))"

section \<open>Delivery\<close>

text \<open>The attempts \<open>attempt..=total_n\<close> with the last status and error seen.\<close>

definition status_is_2xx :: "16 word \<Rightarrow> bool" where
  "status_is_2xx status \<longleftrightarrow> 200 \<le> status \<and> status < 300"

definition non_2xx_message :: "16 word \<Rightarrow> string" where
  "non_2xx_message status = ''non-2xx status: '' @ show_nat (unat status)"

fun attempt_loop ::
  "(nat \<Rightarrow> 16 word res) \<Rightarrow> nat list \<Rightarrow> 32 word \<Rightarrow> 16 word option \<Rightarrow> string option \<Rightarrow>
   webhook_delivery_result" where
  "attempt_loop post [] total_n last_status last_error =
     \<lparr>wr_status_code = last_status, wr_success = False, wr_attempts = total_n, wr_error = last_error\<rparr>"
| "attempt_loop post (attempt_no # rest) total_n last_status last_error =
     (case post attempt_no of
        Inr status \<Rightarrow>
          (if status_is_2xx status
           then \<lparr>wr_status_code = Some status, wr_success = True, wr_attempts = of_nat attempt_no,
                 wr_error = None\<rparr>
           else attempt_loop post rest total_n (Some status) (Some (non_2xx_message status)))
      | Inl error \<Rightarrow> attempt_loop post rest total_n last_status (Some error))"

definition delivery_failed :: "string \<Rightarrow> webhook_delivery_result" where
  "delivery_failed error =
     \<lparr>wr_status_code = None, wr_success = False, wr_attempts = 0, wr_error = Some error\<rparr>"

definition deliver_webhook_inner ::
  "(string \<Rightarrow> parsed_url option) \<Rightarrow> (webhook_payload \<Rightarrow> string res) \<Rightarrow> (string \<Rightarrow> nat \<Rightarrow> 16 word res) \<Rightarrow>
   webhook_config \<Rightarrow> webhook_payload \<Rightarrow> bool \<Rightarrow> webhook_delivery_result" where
  "deliver_webhook_inner parse serialise post config payload validate_url =
     (case (if validate_url then validate_webhook_url parse (wc_url config) else Inr ()) of
        Inl e \<Rightarrow> delivery_failed (webhook_error_text e)
      | Inr _ \<Rightarrow>
          (case serialise payload of
             Inl e \<Rightarrow> delivery_failed (''failed to serialize payload: '' @ e)
           | Inr body \<Rightarrow>
               (let total_attempts = 1 + wc_max_retries config
                in attempt_loop (post body) [1..<Suc (unat total_attempts)] total_attempts None None)))"

definition deliver_webhook ::
  "(string \<Rightarrow> parsed_url option) \<Rightarrow> (webhook_payload \<Rightarrow> string res) \<Rightarrow> (string \<Rightarrow> nat \<Rightarrow> 16 word res) \<Rightarrow>
   webhook_config \<Rightarrow> webhook_payload \<Rightarrow> webhook_delivery_result" where
  "deliver_webhook parse serialise post config payload =
     deliver_webhook_inner parse serialise post config payload True"

section \<open>The retry loop\<close>

definition delivered :: "16 word res \<Rightarrow> bool" where
  "delivered answer \<longleftrightarrow> (\<exists>status. answer = Inr status \<and> status_is_2xx status)"

lemma attempt_loop_fails:
  "(\<And>n. n \<in> set ns \<Longrightarrow> \<not> delivered (post n)) \<Longrightarrow>
   wr_success (attempt_loop post ns total_n ls le) = False \<and>
   wr_attempts (attempt_loop post ns total_n ls le) = total_n"
  by (induction ns arbitrary: ls le) (auto simp: delivered_def split: sum.splits)

lemma attempt_loop_skip:
  "(\<And>n. n \<in> set ns \<Longrightarrow> \<not> delivered (post n)) \<Longrightarrow>
   \<exists>ls' le'. attempt_loop post (ns @ ms) total_n ls le = attempt_loop post ms total_n ls' le'"
proof (induction ns arbitrary: ls le)
  case (Cons n ns)
  have rest: "\<exists>ls' le'. attempt_loop post (ns @ ms) total_n ls'' le'' = attempt_loop post ms total_n ls' le'" for ls'' le''
    using Cons by simp
  show ?case
  proof (cases "post n")
    case (Inl e)
    then show ?thesis using rest by simp
  next
    case (Inr status)
    then have "\<not> status_is_2xx status" using Cons.prems [of n] by (auto simp: delivered_def)
    then show ?thesis using rest Inr by simp
  qed
qed auto

lemma attempt_loop_first:
  assumes "\<And>n. n \<in> set ns \<Longrightarrow> \<not> delivered (post n)" and "delivered (post k)"
  shows "wr_success (attempt_loop post (ns @ k # ms) total_n ls le) \<and>
    wr_attempts (attempt_loop post (ns @ k # ms) total_n ls le) = of_nat k"
proof -
  obtain ls' le' where "attempt_loop post (ns @ k # ms) total_n ls le = attempt_loop post (k # ms) total_n ls' le'"
    using attempt_loop_skip [where ns = ns and post = post and ms = "k # ms", OF assms(1)] by blast
  then show ?thesis using assms(2) by (auto simp: delivered_def)
qed

section \<open>Blocked addresses as networks\<close>

text \<open>An address block in CIDR form.\<close>

definition in_block :: "32 word \<Rightarrow> 32 word \<Rightarrow> nat \<Rightarrow> bool" where
  "in_block a net len \<longleftrightarrow> unat a div 2 ^ (32 - len) = unat net div 2 ^ (32 - len)"

lemma octet_div: "octet a i = unat a div 2 ^ (8 * (3 - i)) mod 256"
  unfolding octet_def unat_drop_bit_eq by (simp add: drop_bit_eq_div)

lemma unat_lt32: "unat (a :: 32 word) < 4294967296"
proof -
  have "unat a < 2 ^ LENGTH(32)" by (rule unsigned_less)
  then show ?thesis by simp
qed

lemma octet_first: "octet a 0 = unat a div 16777216"
proof -
  have "unat a div 16777216 < 256" using unat_lt32 [of a] by (simp add: less_mult_imp_div_less)
  then show ?thesis by (simp add: octet_div)
qed

lemma octets_two: "octet a 0 = unat a div 65536 div 256" "octet a 1 = unat a div 65536 mod 256"
  by (simp_all add: octet_first) (simp_all add: octet_div div_mult2_eq [symmetric])

lemma pair_of_octets: "octet a 0 = x \<and> octet a 1 = y \<longleftrightarrow> unat a div 65536 = x * 256 + y \<and> y < 256"
  unfolding octets_two by auto

lemma private_172: "octet a 0 = 172 \<and> 16 \<le> octet a 1 \<and> octet a 1 \<le> 31 \<longleftrightarrow> unat a div 1048576 = 2753"
proof -
  have "unat a div 1048576 = unat a div 65536 div 16" by (simp add: div_mult2_eq [symmetric])
  moreover have "m div 256 = 172 \<and> 16 \<le> m mod 256 \<and> m mod 256 \<le> 31 \<longleftrightarrow> m div 16 = 2753" for m :: nat
  proof -
    define p r u v where "p = m div 256" and "r = m mod 256" and "u = m div 16" and "v = m mod 16"
    have "256 * p + r = 16 * u + v" by (simp add: p_def r_def u_def v_def)
    moreover have "r < 256" "v < 16" by (simp_all add: r_def v_def)
    ultimately have eq: "256 * p + r = 16 * u + v" and small: "r < 256" "v < 16" by simp_all
    have "p = 172 \<and> 16 \<le> r \<and> r \<le> 31 \<longleftrightarrow> u = 2753"
    proof
      assume "p = 172 \<and> 16 \<le> r \<and> r \<le> 31"
      then have "u < 2754" "2752 < u" using eq small by linarith+
      then show "u = 2753" by simp
    next
      assume u: "u = 2753"
      then have "p < 173" "171 < p" using eq small by linarith+
      then have p: "p = 172" by simp
      have "r = 16 + v" using eq unfolding p u by simp
      with p show "p = 172 \<and> 16 \<le> r \<and> r \<le> 31" using eq small u by simp
    qed
    then show ?thesis by (simp add: p_def r_def u_def)
  qed
  ultimately show ?thesis unfolding octets_two by metis
qed

lemma blocked_ipv4_blocks:
  "is_blocked_ipv4 a \<longleftrightarrow>
    in_block a 0x0A000000 8 \<or> in_block a 0xAC100000 12 \<or> in_block a 0xC0A80000 16 \<or>
    in_block a 0x7F000000 8 \<or> in_block a 0xA9FE0000 16 \<or> a = 0xFFFFFFFF \<or> a = 0"
proof -
  have net: "in_block a 0x0A000000 8 \<longleftrightarrow> octet a 0 = 10" "in_block a 0x7F000000 8 \<longleftrightarrow> octet a 0 = 127"
    by (simp_all add: in_block_def octet_first)
  have pair: "in_block a 0xC0A80000 16 \<longleftrightarrow> octet a 0 = 192 \<and> octet a 1 = 168"
    "in_block a 0xA9FE0000 16 \<longleftrightarrow> octet a 0 = 169 \<and> octet a 1 = 254"
    unfolding pair_of_octets by (simp_all add: in_block_def)
  have mid: "in_block a 0xAC100000 12 \<longleftrightarrow> octet a 0 = 172 \<and> 16 \<le> octet a 1 \<and> octet a 1 \<le> 31"
    unfolding private_172 by (simp add: in_block_def)
  show ?thesis
    unfolding net pair mid is_blocked_ipv4_def v4_is_private_def v4_is_loopback_def v4_is_link_local_def
      v4_is_broadcast_def v4_is_unspecified_def
    by blast
qed

section \<open>Properties\<close>

text \<open>The target check accepts a URL exactly when it parses, has scheme \<open>http\<close> or
  \<open>https\<close> and a host, and the host is no IPv4 address of the private, loopback or
  link-local networks, the broadcast or the unspecified address, no IPv6 loopback,
  unspecified, unique-local or link-local address, and no \<open>localhost\<close> name.\<close>

theorem webhook_target_check:
  "is_ok (validate_webhook_url parse url) \<longleftrightarrow>
    (\<exists>p h. parse url = Some p \<and> pu_scheme p \<in> {''http'', ''https''} \<and> pu_host p = Some h \<and>
      (case h of
         HostIpv4 a \<Rightarrow> \<not> (in_block a 0x0A000000 8 \<or> in_block a 0xAC100000 12 \<or> in_block a 0xC0A80000 16 \<or>
           in_block a 0x7F000000 8 \<or> in_block a 0xA9FE0000 16 \<or> a = 0xFFFFFFFF \<or> a = 0)
       | HostIpv6 a \<Rightarrow> a \<noteq> 0 \<and> a \<noteq> 1 \<and> drop_bit 121 a \<noteq> 0x7E \<and> drop_bit 118 a \<noteq> 0x3FA
       | HostDomain d \<Rightarrow> to_ascii_lowercase d \<noteq> ''localhost'' \<and>
           \<not> ends_with (to_ascii_lowercase d) ''.localhost''))"
proof -
  have host: "\<not> is_blocked_host h \<longleftrightarrow> (case h of
         HostIpv4 a \<Rightarrow> \<not> (in_block a 0x0A000000 8 \<or> in_block a 0xAC100000 12 \<or> in_block a 0xC0A80000 16 \<or>
           in_block a 0x7F000000 8 \<or> in_block a 0xA9FE0000 16 \<or> a = 0xFFFFFFFF \<or> a = 0)
       | HostIpv6 a \<Rightarrow> a \<noteq> 0 \<and> a \<noteq> 1 \<and> drop_bit 121 a \<noteq> 0x7E \<and> drop_bit 118 a \<noteq> 0x3FA
       | HostDomain d \<Rightarrow> to_ascii_lowercase d \<noteq> ''localhost'' \<and>
           \<not> ends_with (to_ascii_lowercase d) ''.localhost'')" for h
    by (cases h) (auto simp: blocked_ipv4_blocks is_blocked_ipv6_def v6_is_loopback_def v6_is_unique_local_def
        v6_is_unicast_link_local_def v6_is_unspecified_def Let_def)
  show ?thesis
    unfolding host [symmetric] is_ok_iff validate_webhook_url_def
    by (auto split: option.splits if_splits)
qed

text \<open>The check does not see through IPv4-mapped IPv6 addresses: no address of the
  form \<open>::ffff:a.b.c.d\<close> is blocked, so \<open>::ffff:127.0.0.1\<close> and every private address
  behind that prefix pass.\<close>

theorem mapped_ipv4_not_blocked:
  "is_blocked_host (HostIpv6 (0xFFFF00000000 + ucast (a :: 32 word))) = False"
proof -
  let ?w = "0xFFFF00000000 + ucast a :: 128 word"
  have u: "unat (ucast a :: 128 word) = unat a" by (simp add: unsigned_ucast_eq take_bit_nat_eq_self_iff less_trans [OF unat_lt32])
  have w: "unat ?w = 0xFFFF00000000 + unat a"
    using unat_lt32 [of a] by (simp add: unat_word_ariths u)
  have "unat (drop_bit 121 ?w) = 0" "unat (drop_bit 118 ?w) = 0"
    using unat_lt32 [of a] unfolding unat_drop_bit_eq w by (simp_all add: drop_bit_eq_div)
  then have "drop_bit 121 ?w = 0" "drop_bit 118 ?w = 0" by (simp_all add: unsigned_eq_0_iff)
  moreover have "?w \<noteq> 0"
  proof
    assume "?w = 0"
    then have "unat ?w = 0" by (simp only: unsigned_0)
    with w show False by simp
  qed
  moreover have "?w \<noteq> 1"
  proof
    assume "?w = 1"
    then have "unat ?w = 1" by (simp only: unsigned_1)
    with w show False by simp
  qed
  ultimately show ?thesis
    by (simp add: is_blocked_ipv6_def v6_is_loopback_def v6_is_unique_local_def
        v6_is_unicast_link_local_def v6_is_unspecified_def)
qed

text \<open>Claim C27. Delivery stops at the first 2xx answer and reports its attempt number; when no
  attempt within the budget of \<open>1 + max_retries\<close> is answered so, it fails after exactly that
  many attempts.\<close>

theorem delivery_retry_budget:
  fixes post :: "string \<Rightarrow> nat \<Rightarrow> 16 word res"
  assumes ok: "is_ok (validate_webhook_url parse (wc_url config))"
    and body: "serialise payload = Inr body"
    and small: "wc_max_retries config \<noteq> - 1"
  defines "r \<equiv> deliver_webhook parse serialise post config payload"
    and "budget \<equiv> Suc (unat (wc_max_retries config))"
  shows "(wr_success r \<longleftrightarrow> (\<exists>k. 1 \<le> k \<and> k \<le> budget \<and> delivered (post body k))) \<and>
    (wr_success r \<longrightarrow> wr_attempts r =
       of_nat (LEAST k. 1 \<le> k \<and> delivered (post body k))) \<and>
    (\<not> wr_success r \<longrightarrow> wr_attempts r = of_nat budget)"
proof -
  have totl: "unat (1 + wc_max_retries config) = budget"
    using small unfolding budget_def by (metis add.commute unatSuc add_eq_0_iff)
  then have totl': "1 + wc_max_retries config = of_nat budget" by (metis of_nat_unat ucast_id)
  have "r = attempt_loop (post body) [1..<Suc (unat (1 + wc_max_retries config))]
      (1 + wc_max_retries config) None None"
    using ok body
    by (auto simp: r_def deliver_webhook_def deliver_webhook_inner_def is_ok_iff Let_def simp del: upt_Suc)
  then have r: "r = attempt_loop (post body) [1..<Suc budget] (of_nat budget) None None"
    unfolding totl unfolding totl' .
  show ?thesis
  proof (cases "\<exists>k. 1 \<le> k \<and> k \<le> budget \<and> delivered (post body k)")
    case False
    then have none: "\<And>n. n \<in> set [1..<Suc budget] \<Longrightarrow> \<not> delivered (post body n)" by auto
    have "wr_success r = False \<and> wr_attempts r = of_nat budget"
      unfolding r by (rule attempt_loop_fails) (rule none)
    then show ?thesis using False by blast
  next
    case True
    define k where "k = (LEAST k. 1 \<le> k \<and> delivered (post body k))"
    obtain j where j: "1 \<le> j \<and> j \<le> budget \<and> delivered (post body j)" using True by blast
    then have k: "1 \<le> k \<and> delivered (post body k)" "k \<le> j"
      unfolding k_def by (rule_tac [1] LeastI2 [of _ j], auto intro: Least_le)
    have before: "\<not> delivered (post body n)" if "n \<in> set [1..<k]" for n
      using that not_less_Least [of n "\<lambda>k. 1 \<le> k \<and> delivered (post body k)"] by (auto simp: k_def)
    have "k \<le> budget" using k j by simp
    then have "[1..<Suc budget] = [1..<k] @ k # [Suc k..<Suc budget]"
      using upt_add_eq_append [of 1 k "Suc budget - k"] k(1) by (simp add: upt_conv_Cons)
    then have split: "r = attempt_loop (post body) ([1..<k] @ k # [Suc k..<Suc budget]) (of_nat budget) None None"
      unfolding r by (simp only:)
    have "wr_success r \<and> wr_attempts r = of_nat k"
      unfolding split by (rule attempt_loop_first [OF before]) (use k(1) in simp_all)
    then show ?thesis using True by (simp add: k_def)
  qed
qed

definition sample_webhook :: webhook_config where
  "sample_webhook = webhook_config_new ''https://example.com/h''"

definition sample_payload :: webhook_payload where
  "sample_payload = \<lparr>wp_event = ''task.completed'', wp_task_id = ''t'', wp_state = ''completed'',
     wp_timestamp = ''0'', wp_data = None\<rparr>"

theorem delivery_retry_budget_witness:
  "wr_attempts (deliver_webhook (\<lambda>u. Some \<lparr>pu_scheme = ''https'', pu_host = Some (HostDomain ''example.com'')\<rparr>)
     (\<lambda>p. Inr ''{}'') (\<lambda>b n. Inr 500) sample_webhook sample_payload) = 3"
proof -
  let ?parse = "\<lambda>u :: string. Some \<lparr>pu_scheme = ''https'', pu_host = Some (HostDomain ''example.com'')\<rparr>"
  have ok: "is_ok (validate_webhook_url ?parse (wc_url sample_webhook))" by code_simp
  have small: "wc_max_retries sample_webhook \<noteq> - 1" by (simp add: sample_webhook_def webhook_config_new_def)
  have "\<not> delivered (Inr 500)" by (simp add: delivered_def status_is_2xx_def)
  then show ?thesis
    using delivery_retry_budget [of ?parse sample_webhook "\<lambda>p. Inr ''{}''" sample_payload "''{}''" "\<lambda>b n. Inr 500", OF ok refl small]
    by (simp add: sample_webhook_def webhook_config_new_def)
qed

end
