(* ===== verification/HttpWire.thy ===== *)
theory HttpWire
  imports Tables
begin

text \<open>
  The request reader and response writer of the daemon, \<open>crates/pengu-mesh-http/src/lib.rs\<close>.
  A connection is the list of the results its \<open>read\<close> calls return; the end of the list is
  the end of the stream. Bytes are characters and texts are byte lists: white space and upper
  case are those of ASCII. The query decoder of the \<open>url\<close> crate is the parameter
  \<open>form_parse\<close>.
\<close>

section \<open>Requests and responses\<close>

record http_request =
  hr_method :: string
  hr_path :: string
  hr_query :: "string \<rightharpoonup> string"
  hr_body :: string

record http_response =
  hs_status :: "16 word"
  hs_content_type :: string
  hs_body :: string

definition json_response :: "string \<Rightarrow> http_response" where
  "json_response body = \<lparr>hs_status = 200, hs_content_type = ''application/json'', hs_body = body\<rparr>"

definition with_status :: "http_response \<Rightarrow> 16 word \<Rightarrow> http_response" where
  "with_status response status = response\<lparr>hs_status := status\<rparr>"

definition status_text :: "16 word \<Rightarrow> string" where
  "status_text status =
     (if status = 200 then ''OK''
      else if status = 400 then ''Bad Request''
      else if status = 409 then ''Conflict''
      else if status = 404 then ''Not Found''
      else if status = 405 then ''Method Not Allowed''
      else if status = 500 then ''Internal Server Error''
      else ''OK'')"

abbreviation cr :: char where "cr \<equiv> CHR 0x0D"
abbreviation lf :: char where "lf \<equiv> CHR 0x0A"

definition crlf :: string where
  "crlf = [cr, lf]"

definition write_response :: "http_response \<Rightarrow> string" where
  "write_response response =
     ''HTTP/1.1 '' @ show_nat (unat (hs_status response)) @ '' '' @ status_text (hs_status response) @ crlf @
     ''Content-Type: '' @ hs_content_type response @ crlf @
     ''Content-Length: '' @ show_nat (length (hs_body response)) @ crlf @
     ''Connection: close'' @ crlf @ crlf @ hs_body response"

section \<open>Parsing\<close>

text \<open>\<open>buffer.windows(4).position(..)\<close>.\<close>

definition windows :: "nat \<Rightarrow> 'a list \<Rightarrow> 'a list list" where
  "windows n xs = map (\<lambda>i. take n (drop i xs)) [0..<length xs + 1 - n]"

definition find_header_end :: "string \<Rightarrow> nat option" where
  "find_header_end buffer = position (\<lambda>window. window = crlf @ crlf) (windows 4 buffer)"

text \<open>\<open>split\<close> on a two-character separator, and \<open>split_once\<close> on one character.\<close>

fun split_crlf :: "string \<Rightarrow> string list" where
  "split_crlf [] = [[]]"
| "split_crlf [c] = [[c]]"
| "split_crlf (c # d # cs) =
     (if c = cr \<and> d = lf then [] # split_crlf cs
      else (case split_crlf (d # cs) of [] \<Rightarrow> [[c]] | w # ws \<Rightarrow> (c # w) # ws))"

definition split_once :: "char \<Rightarrow> string \<Rightarrow> (string \<times> string) option" where
  "split_once sep s =
     (if sep \<in> set s then Some (takeWhile (\<lambda>c. c \<noteq> sep) s, tl (dropWhile (\<lambda>c. c \<noteq> sep) s)) else None)"

text \<open>\<open>str::from_utf8\<close> accepts well-formed sequences only.\<close>

definition byte_in :: "nat \<Rightarrow> nat \<Rightarrow> char \<Rightarrow> bool" where
  "byte_in lo hi c \<longleftrightarrow> lo \<le> code_of c \<and> code_of c \<le> hi"

fun is_utf8 :: "string \<Rightarrow> bool" where
  "is_utf8 [] = True"
| "is_utf8 (a # s) =
     (if byte_in 0 127 a then is_utf8 s
      else if byte_in 194 223 a then
        (case s of b # s' \<Rightarrow> byte_in 128 191 b \<and> is_utf8 s' | _ \<Rightarrow> False)
      else if byte_in 224 239 a then
        (case s of b # c # s' \<Rightarrow>
             byte_in (if code_of a = 224 then 160 else 128) (if code_of a = 237 then 159 else 191) b \<and>
             byte_in 128 191 c \<and> is_utf8 s'
         | _ \<Rightarrow> False)
      else if byte_in 240 244 a then
        (case s of b # c # d # s' \<Rightarrow>
             byte_in (if code_of a = 240 then 144 else 128) (if code_of a = 244 then 143 else 191) b \<and>
             byte_in 128 191 c \<and> byte_in 128 191 d \<and> is_utf8 s'
         | _ \<Rightarrow> False)
      else False)"

text \<open>\<open>str::parse::<usize>\<close>: an optional plus sign and digits, below \<open>2 ^ 64\<close>.\<close>

definition digits_value :: "string \<Rightarrow> int" where
  "digits_value s = foldl (\<lambda>n c. n * 10 + (int (code_of c) - 48)) 0 s"

definition parse_usize :: "string \<Rightarrow> nat option" where
  "parse_usize s =
     (let digits = (case s of CHR ''+'' # ds \<Rightarrow> ds | _ \<Rightarrow> s)
      in if digits = [] \<or> \<not> list_all is_ascii_digit digits \<or> digits_value digits \<ge> 2 ^ 64 then None
         else Some (nat (digits_value digits)))"

definition parse_target ::
  "(string \<Rightarrow> (string \<times> string) list) \<Rightarrow> string \<Rightarrow> string \<times> (string \<rightharpoonup> string)" where
  "parse_target form_parse target =
     (case unwrap_or (target, []) (split_once CHR ''?'' target) of
        (path, query) \<Rightarrow> (path, map_of (rev (form_parse query))))"

text \<open>The header lines after the request line; the last \<open>Content-Length\<close> wins.\<close>

fun content_length_of :: "string list \<Rightarrow> nat \<Rightarrow> nat res" where
  "content_length_of [] content_length = Inr content_length"
| "content_length_of (line # lines) content_length =
     (if line = [] then content_length_of lines content_length
      else
        (case split_once CHR '':'' line of
           None \<Rightarrow> content_length_of lines content_length
         | Some (name, value) \<Rightarrow>
             (if eq_ignore_ascii_case name ''content-length''
              then (case parse_usize (trim value) of
                      None \<Rightarrow> Inl ''parse content-length''
                    | Some n \<Rightarrow> content_length_of lines n)
              else content_length_of lines content_length)))"

record request_head =
  rh_method :: string
  rh_target :: string
  rh_content_length :: nat

definition parse_head :: "string \<Rightarrow> request_head res" where
  "parse_head header_bytes =
     (if \<not> is_utf8 header_bytes then Inl ''request headers are not utf-8''
      else
        (case split_crlf header_bytes of
           [] \<Rightarrow> Inl ''missing request line''
         | request_line # lines \<Rightarrow>
             (case split_whitespace request_line of
                [] \<Rightarrow> Inl ''missing request method''
              | [method] \<Rightarrow> Inl ''missing request target''
              | method # target # _ \<Rightarrow>
                  (case content_length_of lines 0 of
                     Inl e \<Rightarrow> Inl e
                   | Inr n \<Rightarrow> Inr \<lparr>rh_method = to_ascii_uppercase method, rh_target = target,
                                  rh_content_length = n\<rparr>))))"

section \<open>Reading from the connection\<close>

fun read_head :: "string res list \<Rightarrow> string \<Rightarrow> (string \<times> nat \<times> string res list) res" where
  "read_head [] buffer = Inl ''unexpected eof while reading request''"
| "read_head (Inl e # reads) buffer = Inl ''read request bytes''"
| "read_head (Inr chunk # reads) buffer =
     (if chunk = [] then Inl ''unexpected eof while reading request''
      else
        (let buffer = buffer @ chunk
         in case find_header_end buffer of
              Some index \<Rightarrow> Inr (buffer, index, reads)
            | None \<Rightarrow>
                (if length buffer \<le> 1024 * 1024 then read_head reads buffer
                 else Inl ''request headers too large'')))"

fun read_body :: "string res list \<Rightarrow> nat \<Rightarrow> string \<Rightarrow> string res" where
  "read_body [] content_length body =
     (if length body < content_length then Inl ''unexpected eof while reading request body'' else Inr body)"
| "read_body (r # reads) content_length body =
     (if length body < content_length
      then (case r of
              Inl e \<Rightarrow> Inl ''read request body''
            | Inr chunk \<Rightarrow>
                (if chunk = [] then Inl ''unexpected eof while reading request body''
                 else read_body reads content_length (body @ chunk)))
      else Inr body)"

definition read_request ::
  "(string \<Rightarrow> (string \<times> string) list) \<Rightarrow> string res list \<Rightarrow> http_request res" where
  "read_request form_parse reads =
     (case read_head reads [] of
        Inl e \<Rightarrow> Inl e
      | Inr (buffer, header_end, reads) \<Rightarrow>
          (case parse_head (take header_end buffer) of
             Inl e \<Rightarrow> Inl e
           | Inr head \<Rightarrow>
               (case read_body reads (rh_content_length head) (drop (header_end + 4) buffer) of
                  Inl e \<Rightarrow> Inl e
                | Inr body \<Rightarrow>
                    (case parse_target form_parse (rh_target head) of
                       (path, query) \<Rightarrow>
                         Inr \<lparr>hr_method = rh_method head, hr_path = path, hr_query = query,
                              hr_body = take (rh_content_length head) body\<rparr>))))"

section \<open>The whole stream at once\<close>

text \<open>The specification: the request a byte stream carries, however it is cut into reads.\<close>

definition request_of_bytes ::
  "(string \<Rightarrow> (string \<times> string) list) \<Rightarrow> string \<Rightarrow> http_request res" where
  "request_of_bytes form_parse bytes =
     (case find_header_end bytes of
        None \<Rightarrow> Inl ''unexpected eof while reading request''
      | Some i \<Rightarrow>
          (case parse_head (take i bytes) of
             Inl e \<Rightarrow> Inl e
           | Inr head \<Rightarrow>
               (if length (drop (i + 4) bytes) < rh_content_length head
                then Inl ''unexpected eof while reading request body''
                else
                  (case parse_target form_parse (rh_target head) of
                     (path, query) \<Rightarrow>
                       Inr \<lparr>hr_method = rh_method head, hr_path = path, hr_query = query,
                            hr_body = take (rh_content_length head) (drop (i + 4) bytes)\<rparr>))))"

lemma crlf_length [simp]: "length crlf = 2"
  by (simp add: crlf_def)

lemma find_header_end_Some:
  assumes "find_header_end s = Some i"
  shows "i + 4 \<le> length s" and "take 4 (drop i s) = crlf @ crlf"
    and "\<And>j. j < i \<Longrightarrow> take 4 (drop j s) \<noteq> crlf @ crlf"
proof -
  note p = assms [unfolded find_header_end_def]
  have i: "i < length s + 1 - 4" "windows 4 s ! i = crlf @ crlf"
    using position_Some [OF p] by (simp_all add: windows_def)
  show "i + 4 \<le> length s" using i(1) by simp
  show "take 4 (drop i s) = crlf @ crlf" using i by (simp add: windows_def)
  show "take 4 (drop j s) \<noteq> crlf @ crlf" if "j < i" for j
    using position_first [OF p that] i(1) that by (simp add: windows_def)
qed

lemma find_header_end_iff:
  "find_header_end s = Some i \<longleftrightarrow>
    i + 4 \<le> length s \<and> take 4 (drop i s) = crlf @ crlf \<and> (\<forall>j<i. take 4 (drop j s) \<noteq> crlf @ crlf)"
proof
  assume "find_header_end s = Some i"
  then show "i + 4 \<le> length s \<and> take 4 (drop i s) = crlf @ crlf \<and> (\<forall>j<i. take 4 (drop j s) \<noteq> crlf @ crlf)"
    using find_header_end_Some by blast
next
  assume a: "i + 4 \<le> length s \<and> take 4 (drop i s) = crlf @ crlf \<and> (\<forall>j<i. take 4 (drop j s) \<noteq> crlf @ crlf)"
  then have "crlf @ crlf \<in> set (windows 4 s)"
    unfolding windows_def set_map by (intro image_eqI [of _ _ i]) auto
  then have "find_header_end s \<noteq> None" unfolding find_header_end_def position_None by blast
  then obtain k where k: "find_header_end s = Some k" by blast
  from find_header_end_Some [OF this] a have "k = i" by (metis nat_neq_iff)
  with k show "find_header_end s = Some i" by simp
qed

lemma find_header_end_append:
  assumes "find_header_end s = Some i"
  shows "find_header_end (s @ t) = Some i"
  using find_header_end_Some [OF assms] unfolding find_header_end_iff
  by (auto simp: take_append)

lemma read_head_chunks:
  assumes "\<And>c. c \<in> set cs \<Longrightarrow> c \<noteq> []" and "length (buffer @ concat cs) \<le> 1024 * 1024"
    and "find_header_end buffer = None"
  shows "case find_header_end (buffer @ concat cs) of
      None \<Rightarrow> read_head (map Inr cs) buffer = Inl ''unexpected eof while reading request''
    | Some i \<Rightarrow> \<exists>as bs. concat cs = concat as @ concat bs \<and> set bs \<subseteq> set cs \<and>
        find_header_end (buffer @ concat as) = Some i \<and>
        read_head (map Inr cs) buffer = Inr (buffer @ concat as, i, map Inr bs)"
  using assms
proof (induction cs arbitrary: buffer)
  case Nil
  then show ?case by simp
next
  case (Cons c cs)
  have c: "c \<noteq> []" using Cons.prems(1) by simp
  show ?case
  proof (cases "find_header_end (buffer @ c)")
    case (Some i)
    then have "find_header_end (buffer @ concat (c # cs)) = Some i"
      using find_header_end_append [of "buffer @ c" i "concat cs"] by simp
    moreover have "read_head (map Inr (c # cs)) buffer = Inr (buffer @ concat [c], i, map Inr cs)"
      using Some c by simp
    ultimately show ?thesis using Some
      by (simp del: read_head.simps) (rule exI [of _ "[c]"], auto)
  next
    case None
    have le: "length (buffer @ c) \<le> 1024 * 1024" using Cons.prems(2) by simp
    have step: "read_head (map Inr (c # cs)) buffer = read_head (map Inr cs) (buffer @ c)"
      using None c le by (simp add: Let_def)
    have IH: "case find_header_end ((buffer @ c) @ concat cs) of
      None \<Rightarrow> read_head (map Inr cs) (buffer @ c) = Inl ''unexpected eof while reading request''
    | Some i \<Rightarrow> \<exists>as bs. concat cs = concat as @ concat bs \<and> set bs \<subseteq> set cs \<and>
        find_header_end ((buffer @ c) @ concat as) = Some i \<and>
        read_head (map Inr cs) (buffer @ c) = Inr ((buffer @ c) @ concat as, i, map Inr bs)"
      by (rule Cons.IH) (use Cons.prems None in auto)
    show ?thesis
    proof (cases "find_header_end ((buffer @ c) @ concat cs)")
      case None
      then show ?thesis using IH step by simp
    next
      case (Some i)
      then obtain as bs where "concat cs = concat as @ concat bs" "set bs \<subseteq> set cs"
        "find_header_end ((buffer @ c) @ concat as) = Some i"
        "read_head (map Inr cs) (buffer @ c) = Inr ((buffer @ c) @ concat as, i, map Inr bs)"
        using IH by auto
      then show ?thesis using Some step
        by (simp del: read_head.simps) (rule exI [of _ "c # as"], auto)
    qed
  qed
qed

lemma read_body_chunks:
  assumes "\<And>c. c \<in> set cs \<Longrightarrow> c \<noteq> []"
  shows "if length (body @ concat cs) < n
    then read_body (map Inr cs) n body = Inl ''unexpected eof while reading request body''
    else \<exists>body'. read_body (map Inr cs) n body = Inr body' \<and> take n body' = take n (body @ concat cs)"
  using assms
proof (induction cs arbitrary: body)
  case (Cons c cs)
  have IH: "if length ((body @ c) @ concat cs) < n
    then read_body (map Inr cs) n (body @ c) = Inl ''unexpected eof while reading request body''
    else \<exists>body'. read_body (map Inr cs) n (body @ c) = Inr body' \<and> take n body' = take n ((body @ c) @ concat cs)"
    by (rule Cons.IH) (use Cons.prems in auto)
  have c: "c \<noteq> []" using Cons.prems by simp
  show ?case
  proof (cases "length body < n")
    case True
    then have step: "read_body (map Inr (c # cs)) n body = read_body (map Inr cs) n (body @ c)"
      using c by simp
    have all: "(body @ c) @ concat cs = body @ concat (c # cs)" by simp
    show ?thesis using IH unfolding step all .
  next
    case False
    then show ?thesis by simp
  qed
qed simp

lemma find_header_end_empty [simp]: "find_header_end [] = None"
  by (simp add: find_header_end_def windows_def)

section \<open>Properties\<close>

text \<open>Claim C25. The reader does not depend on how the network cuts a request: for every
  sequence of non-empty reads of up to 1 MiB in all, \<open>read_request\<close> returns what the one-shot
  parser returns on the concatenated bytes, errors included.\<close>

theorem read_request_ignores_chunking:
  assumes ne: "\<And>c. c \<in> set cs \<Longrightarrow> c \<noteq> []" and small: "length (concat cs) \<le> 1024 * 1024"
  shows "read_request form_parse (map Inr cs) = request_of_bytes form_parse (concat cs)"
proof (cases "find_header_end (concat cs)")
  case None
  then show ?thesis
    using read_head_chunks [where buffer = "[]" and cs = cs, OF ne] small
    by (simp add: read_request_def request_of_bytes_def)
next
  case (Some i)
  then obtain as bs where cut: "concat cs = concat as @ concat bs" and bs: "set bs \<subseteq> set cs"
    and head: "find_header_end (concat as) = Some i"
    and run: "read_head (map Inr cs) [] = Inr (concat as, i, map Inr bs)"
    using read_head_chunks [where buffer = "[]" and cs = cs, OF ne] small by auto
  have i: "i + 4 \<le> length (concat as)" using find_header_end_Some(1) [OF head] .
  then have takes: "take i (concat as) = take i (concat cs)"
    and drops: "drop (i + 4) (concat as) @ concat bs = drop (i + 4) (concat cs)"
    by (simp_all add: cut)
  show ?thesis
  proof (cases "parse_head (take i (concat cs))")
    case (Inl e)
    then show ?thesis by (simp add: read_request_def request_of_bytes_def run Some takes)
  next
    case (Inr h)
    have body: "if length (drop (i + 4) (concat cs)) < rh_content_length h
      then read_body (map Inr bs) (rh_content_length h) (drop (i + 4) (concat as)) =
        Inl ''unexpected eof while reading request body''
      else \<exists>b. read_body (map Inr bs) (rh_content_length h) (drop (i + 4) (concat as)) = Inr b \<and>
        take (rh_content_length h) b = take (rh_content_length h) (drop (i + 4) (concat cs))"
      unfolding drops [symmetric] by (rule read_body_chunks) (use ne bs in auto)
    show ?thesis
    proof (cases "length (drop (i + 4) (concat cs)) < rh_content_length h")
      case True
      then show ?thesis using body Inr
        by (simp only: read_request_def request_of_bytes_def run Some takes if_True sum.case option.case prod.case)
    next
      case False
      then obtain b where b: "read_body (map Inr bs) (rh_content_length h) (drop (i + 4) (concat as)) = Inr b"
        "take (rh_content_length h) b = take (rh_content_length h) (drop (i + 4) (concat cs))"
        using body by auto
      then show ?thesis using False Inr
        by (simp only: read_request_def request_of_bytes_def run Some takes if_False sum.case option.case prod.case)
    qed
  qed
qed

definition sample_request :: string where
  "sample_request = ''post /a?x HTTP/1.1'' @ crlf @ ''Content-Length: 2'' @ crlf @ crlf @ ''hi''"

theorem read_request_ignores_chunking_witness:
  "map_ok hr_body (read_request (\<lambda>q. []) [Inr (take 30 sample_request), Inr (drop 30 sample_request)])
     = Inr ''hi''"
proof -
  have "read_request (\<lambda>q. []) (map Inr [take 30 sample_request, drop 30 sample_request]) =
      request_of_bytes (\<lambda>q. []) (concat [take 30 sample_request, drop 30 sample_request])"
    by (rule read_request_ignores_chunking) (auto simp: sample_request_def crlf_def)
  moreover have "map_ok hr_body (request_of_bytes (\<lambda>q. []) sample_request) = Inr ''hi''" by code_simp
  ultimately show ?thesis by simp
qed

end
