(* ===== verification/HttpProxy.thy ===== *)
theory HttpProxy
  imports Tables
begin

text \<open>
  The reverse proxy helper, \<open>crates/pengu-mesh-http/src/proxy.rs\<close>: which headers pass, how
  errors are classified, and the forwarding step. The \<open>url\<close> and \<open>ureq\<close> crates are the
  parameters \<open>join_url\<close> (parse the target and join the path), \<open>build\<close> (check method, URL
  and headers), \<open>run\<close> (send and receive) and \<open>read_to_vec\<close>.
\<close>

type_synonym headers = "(string \<times> string) list"

record proxy_config =
  px_target_url :: string
  px_timeout_ms :: "64 word"
  px_preserve_host :: bool

definition proxy_config_default :: proxy_config where
  "proxy_config_default = \<lparr>px_target_url = [], px_timeout_ms = 30000, px_preserve_host = False\<rparr>"

record proxy_request =
  pq_method :: string
  pq_path :: string
  pq_headers :: headers
  pq_body :: "string option"

record proxy_response =
  pr_status :: "16 word"
  pr_headers :: headers
  pr_body :: string

datatype proxy_error =
  InvalidTarget string | InvalidRequest string | ConnectionFailed string | ProxyTimeout | UpstreamError string

fun proxy_error_text :: "proxy_error \<Rightarrow> string" where
  "proxy_error_text (InvalidTarget msg) = ''invalid target: '' @ msg"
| "proxy_error_text (InvalidRequest msg) = ''invalid request: '' @ msg"
| "proxy_error_text (ConnectionFailed msg) = ''connection failed: '' @ msg"
| "proxy_error_text ProxyTimeout = ''upstream request timed out''"
| "proxy_error_text (UpstreamError msg) = ''upstream error: '' @ msg"

definition build_proxy_url :: "(string \<Rightarrow> string \<Rightarrow> string res) \<Rightarrow> proxy_config \<Rightarrow> string \<Rightarrow> proxy_error + string" where
  "build_proxy_url join_url config path =
     (case join_url (px_target_url config) path of
        Inl e \<Rightarrow> Inl (InvalidTarget e)
      | Inr url \<Rightarrow> Inr url)"

definition is_websocket_upgrade :: "headers \<Rightarrow> bool" where
  "is_websocket_upgrade headers \<longleftrightarrow>
     list_ex (\<lambda>(name, value). eq_ignore_ascii_case name ''connection'' \<and>
        list_ex (\<lambda>token. eq_ignore_ascii_case (trim token) ''upgrade'') (split_on (\<lambda>c. c = CHR '','') value))
       headers \<and>
     list_ex (\<lambda>(name, value). eq_ignore_ascii_case name ''upgrade'' \<and>
        eq_ignore_ascii_case (trim value) ''websocket'') headers"

definition hop_by_hop_headers :: "string list" where
  "hop_by_hop_headers =
     [''connection'', ''keep-alive'', ''proxy-authenticate'', ''proxy-authorization'',
      ''proxy-connection'', ''te'', ''trailer'', ''trailers'', ''transfer-encoding'', ''upgrade'']"

definition push_connection_tokens :: "string list \<Rightarrow> string \<Rightarrow> string list" where
  "push_connection_tokens tokens value =
     tokens @ map to_ascii_lowercase
       (filter (\<lambda>token. token \<noteq> []) (map trim (split_on (\<lambda>c. c = CHR '','') value)))"

definition connection_header_tokens :: "headers \<Rightarrow> string list" where
  "connection_header_tokens headers =
     foldl (\<lambda>tokens (name, value).
        if eq_ignore_ascii_case name ''connection'' then push_connection_tokens tokens value else tokens)
       [] headers"

definition is_hop_by_hop_header :: "string \<Rightarrow> string list \<Rightarrow> bool" where
  "is_hop_by_hop_header name connection_tokens \<longleftrightarrow>
     list_ex (\<lambda>h. eq_ignore_ascii_case name h) hop_by_hop_headers \<or>
     list_ex (\<lambda>token. eq_ignore_ascii_case name token) connection_tokens"

text \<open>The loop over the request headers.\<close>

definition forwarded_headers :: "proxy_config \<Rightarrow> headers \<Rightarrow> headers" where
  "forwarded_headers config headers =
     (let tokens = connection_header_tokens headers
      in filter (\<lambda>(name, value). \<not> is_hop_by_hop_header name tokens \<and>
                   (px_preserve_host config \<or> \<not> eq_ignore_ascii_case name ''host'')) headers)"

section \<open>Errors of the client\<close>

datatype io_error_kind =
  TimedOut | ConnectionRefused | ConnectionReset | ConnectionAborted | NotConnected | AddrInUse |
  AddrNotAvailable | BrokenPipe | UnexpectedEof | OtherKind

datatype ureq_error =
  UreqBadUri string | UreqHttp string | UreqTimeout | UreqHostNotFound | UreqConnectionFailed |
  UreqConnectProxyFailed string | UreqIo io_error_kind string | UreqOther string

definition classify_io_error :: "io_error_kind \<Rightarrow> string \<Rightarrow> proxy_error" where
  "classify_io_error kind message =
     (if kind = TimedOut then ProxyTimeout
      else if kind \<in> {ConnectionRefused, ConnectionReset, ConnectionAborted, NotConnected, AddrInUse,
                      AddrNotAvailable, BrokenPipe, UnexpectedEof}
      then ConnectionFailed message
      else UpstreamError (''io error: '' @ message))"

fun classify_ureq_error :: "ureq_error \<Rightarrow> proxy_error" where
  "classify_ureq_error (UreqBadUri message) = InvalidTarget message"
| "classify_ureq_error (UreqHttp message) = InvalidRequest message"
| "classify_ureq_error UreqTimeout = ProxyTimeout"
| "classify_ureq_error UreqHostNotFound = ConnectionFailed ''host not found''"
| "classify_ureq_error UreqConnectionFailed = ConnectionFailed ''upstream connection failed''"
| "classify_ureq_error (UreqConnectProxyFailed message) = ConnectionFailed message"
| "classify_ureq_error (UreqIo kind message) = classify_io_error kind message"
| "classify_ureq_error (UreqOther message) = UpstreamError message"

section \<open>Forwarding\<close>

text \<open>What the client returns: status, headers (names and values as texts) and the body
  still to be read.\<close>

record upstream_response =
  ur_status :: "16 word"
  ur_headers :: headers
  ur_body :: "string res"

definition into_proxy_response :: "upstream_response \<Rightarrow> proxy_error + proxy_response" where
  "into_proxy_response response =
     (let tokens = connection_header_tokens (ur_headers response);
          headers = filter (\<lambda>(name, value). \<not> is_hop_by_hop_header name tokens) (ur_headers response)
      in (case ur_body response of
            Inl e \<Rightarrow> Inl (UpstreamError (''failed to read response body: '' @ e))
          | Inr body \<Rightarrow> Inr \<lparr>pr_status = ur_status response, pr_headers = headers, pr_body = body\<rparr>))"

definition forward_request ::
  "(string \<Rightarrow> string \<Rightarrow> string res) \<Rightarrow> (string \<Rightarrow> string \<Rightarrow> headers \<Rightarrow> unit res) \<Rightarrow>
   (string \<Rightarrow> string \<Rightarrow> headers \<Rightarrow> string option \<Rightarrow> ureq_error + upstream_response) \<Rightarrow>
   proxy_config \<Rightarrow> proxy_request \<Rightarrow> proxy_error + proxy_response" where
  "forward_request join_url build run config request =
     (case build_proxy_url join_url config (pq_path request) of
        Inl e \<Rightarrow> Inl e
      | Inr url \<Rightarrow>
          (let headers = forwarded_headers config (pq_headers request)
           in (case build (pq_method request) url headers of
                 Inl e \<Rightarrow> Inl (InvalidRequest e)
               | Inr _ \<Rightarrow>
                   (case run (pq_method request) url headers (pq_body request) of
                      Inl e \<Rightarrow> Inl (classify_ureq_error e)
                    | Inr response \<Rightarrow> into_proxy_response response))))"

section \<open>Connection tokens\<close>

text \<open>A header is named by a \<open>Connection\<close> header when its name is, up to case, one of the
  comma-separated tokens of such a header.\<close>

definition named_by_connection :: "headers \<Rightarrow> string \<Rightarrow> bool" where
  "named_by_connection headers name \<longleftrightarrow>
     (\<exists>(n, v)\<in>set headers. eq_ignore_ascii_case n ''connection'' \<and>
        (\<exists>t\<in>set (split_on (\<lambda>c. c = CHR '','') v). trim t \<noteq> [] \<and> eq_ignore_ascii_case name (trim t)))"

lemma lower_char_idem: "to_ascii_lower (to_ascii_lower c) = to_ascii_lower c"
proof (cases "is_ascii_upper c")
  case True
  then have "code_of c + 32 < 256" "90 < code_of c + 32" by (auto simp: is_ascii_upper_def)
  then have "\<not> is_ascii_upper (char_of (code_of c + 32))" by (simp add: is_ascii_upper_def code_of_def)
  then show ?thesis using True by (simp add: to_ascii_lower_def)
qed (simp add: to_ascii_lower_def)

lemma lower_lower [simp]: "to_ascii_lowercase (to_ascii_lowercase s) = to_ascii_lowercase s"
  by (simp add: to_ascii_lowercase_def lower_char_idem)

lemma foldl_tokens:
  "foldl (\<lambda>tokens (name, value).
      if eq_ignore_ascii_case name ''connection'' then push_connection_tokens tokens value else tokens) acc hs =
   acc @ concat (map (\<lambda>(name, value).
      if eq_ignore_ascii_case name ''connection'' then push_connection_tokens [] value else []) hs)"
proof (induction hs arbitrary: acc)
  case (Cons h hs)
  have push: "push_connection_tokens acc v = acc @ push_connection_tokens [] v" for acc v
    by (simp add: push_connection_tokens_def)
  obtain n v where h: "h = (n, v)" by fastforce
  show ?case
    unfolding h using Cons.IH push [of acc v] by simp
qed simp

lemma set_connection_tokens:
  "token \<in> set (connection_header_tokens headers) \<longleftrightarrow>
   (\<exists>(n, v)\<in>set headers. eq_ignore_ascii_case n ''connection'' \<and>
      (\<exists>t\<in>set (split_on (\<lambda>c. c = CHR '','') v). trim t \<noteq> [] \<and> token = to_ascii_lowercase (trim t)))"
proof -
  have push: "token \<in> set (push_connection_tokens [] v) \<longleftrightarrow>
      (\<exists>t\<in>set (split_on (\<lambda>c. c = CHR '','') v). trim t \<noteq> [] \<and> token = to_ascii_lowercase (trim t))" for v
    unfolding push_connection_tokens_def by auto
  show ?thesis
    unfolding connection_header_tokens_def foldl_tokens
    by (simp add: push split_def if_distrib [of set] if_distrib [of "\<lambda>A. token \<in> A"] cong: if_cong) blast
qed

lemma token_named:
  "list_ex (\<lambda>token. eq_ignore_ascii_case name token) (connection_header_tokens headers) \<longleftrightarrow>
   named_by_connection headers name"
  unfolding list_ex_iff named_by_connection_def set_connection_tokens Bex_def
  by (simp add: eq_ignore_ascii_case_def split_def) (metis lower_lower)

lemma hop_by_hop_lower: "map to_ascii_lowercase hop_by_hop_headers = hop_by_hop_headers"
  by code_simp

lemma fixed_hop_by_hop:
  "list_ex (\<lambda>h. eq_ignore_ascii_case name h) hop_by_hop_headers \<longleftrightarrow>
   to_ascii_lowercase name \<in> set hop_by_hop_headers"
proof -
  have "to_ascii_lowercase h = h" if "h \<in> set hop_by_hop_headers" for h
    using hop_by_hop_lower that by (metis list.map_ident map_eq_conv)
  then show ?thesis by (auto simp: list_ex_iff eq_ignore_ascii_case_def)
qed

lemma host_name: "eq_ignore_ascii_case name ''host'' \<longleftrightarrow> to_ascii_lowercase name = ''host''"
proof -
  have "to_ascii_lowercase ''host'' = ''host''" by code_simp
  then show ?thesis by (simp add: eq_ignore_ascii_case_def)
qed

lemma forwarded_header_iff:
  "(n, v) \<in> set (forwarded_headers config headers) \<longleftrightarrow>
    (n, v) \<in> set headers \<and> to_ascii_lowercase n \<notin> set hop_by_hop_headers \<and>
    \<not> named_by_connection headers n \<and> (px_preserve_host config \<or> to_ascii_lowercase n \<noteq> ''host'')"
  by (auto simp: forwarded_headers_def Let_def is_hop_by_hop_header_def fixed_hop_by_hop token_named host_name)

text \<open>What is left names no connection header, so nothing more is dropped.\<close>

lemma forwarded_no_connection:
  assumes "(n, v) \<in> set (forwarded_headers config headers)"
  shows "\<not> eq_ignore_ascii_case n ''connection''"
proof
  assume "eq_ignore_ascii_case n ''connection''"
  then have "to_ascii_lowercase n = to_ascii_lowercase ''connection''" by (simp add: eq_ignore_ascii_case_def)
  also have "\<dots> = ''connection''" by code_simp
  finally show False using assms by (simp add: forwarded_header_iff hop_by_hop_headers_def)
qed

lemma forwarded_names_none: "\<not> named_by_connection (forwarded_headers config headers) name"
  using forwarded_no_connection unfolding named_by_connection_def by fast

section \<open>Properties\<close>

text \<open>Claim C26. The proxy forwards exactly the end-to-end headers, in order: no hop-by-hop
  header, none that a \<open>Connection\<close> header names, in any letter case, and \<open>Host\<close> only when it
  is preserved. Forwarding the result again changes nothing, and it is never a WebSocket
  upgrade request.\<close>

theorem proxy_forwards_end_to_end:
  "((n, v) \<in> set (forwarded_headers config headers) \<longleftrightarrow>
      (n, v) \<in> set headers \<and> to_ascii_lowercase n \<notin> set hop_by_hop_headers \<and>
      \<not> named_by_connection headers n \<and> \<not> (to_ascii_lowercase n = ''host'' \<and> \<not> px_preserve_host config)) \<and>
   subseq (forwarded_headers config headers) headers \<and>
   forwarded_headers config (forwarded_headers config headers) = forwarded_headers config headers \<and>
   is_websocket_upgrade (forwarded_headers config headers) = False"
proof -
  have "forwarded_headers config (forwarded_headers config headers) =
      filter (\<lambda>h. h \<in> set (forwarded_headers config (forwarded_headers config headers)))
        (forwarded_headers config headers)"
    unfolding forwarded_headers_def [of config "forwarded_headers config headers"] Let_def
    by (rule filter_cong) auto
  also have "\<dots> = forwarded_headers config headers"
    by (rule filter_True) (auto simp: forwarded_header_iff forwarded_names_none)
  finally have idem: "forwarded_headers config (forwarded_headers config headers) = forwarded_headers config headers" .
  have sub: "subseq (forwarded_headers config headers) headers"
    by (simp add: forwarded_headers_def Let_def)
  have ws: "is_websocket_upgrade (forwarded_headers config headers) = False"
    using forwarded_no_connection [of _ _ config headers] by (auto simp: is_websocket_upgrade_def list_ex_iff)
  show ?thesis using sub idem ws by (auto simp: forwarded_header_iff)
qed

end
