(* ===== verification/ScenarioStore.thy ===== *)
theory ScenarioStore
  imports Types Tables
begin

text \<open>
  The scenario evidence tables of \<open>crates/pengu-mesh-state/src/lib.rs\<close>: runs, steps,
  assertions, latency samples and environment fingerprints. Whether the SQLite build enforces
  the declared foreign keys is decided outside the source, so it is the field
  \<open>sd_foreign_keys\<close> of the database. A sample is kept as the bit pattern of its \<open>f64\<close>.
\<close>

section \<open>Rows\<close>

record scenario_run =
  sr_id :: string
  sr_scenario_name :: string
  sr_scenario_family :: string
  sr_scenario_version :: string
  sr_tool_surface :: string
  sr_runtime_root :: "string option"
  sr_commit_sha :: "string option"
  sr_branch_name :: "string option"
  sr_platform :: string
  sr_started_at :: string
  sr_finished_at :: "string option"
  sr_status :: string
  sr_summary_path :: "string option"

record scenario_step =
  st_id :: string
  st_run_id :: string
  st_ordinal :: int
  st_step_name :: string
  st_step_kind :: string
  st_command_line :: "string option"
  st_started_at :: string
  st_finished_at :: "string option"
  st_status :: string
  st_error_code :: "string option"

record scenario_assertion =
  sa_id :: string
  sa_run_id :: string
  sa_step_id :: "string option"
  sa_assertion_name :: string
  sa_expected_value :: "string option"
  sa_actual_value :: "string option"
  sa_status :: string
  sa_failure_category :: "string option"
  sa_notes :: "string option"

record latency_sample =
  ls_id :: string
  ls_run_id :: string
  ls_step_id :: "string option"
  ls_metric_name :: string
  ls_sample_ms :: "64 word"
  ls_capture_method :: "string option"

record environment_fingerprint =
  ef_id :: string
  ef_run_id :: string
  ef_platform :: string
  ef_arch :: string
  ef_os_version :: "string option"
  ef_rust_version :: "string option"
  ef_cargo_version :: "string option"
  ef_chrome_channel :: "string option"
  ef_chrome_version :: "string option"

record scenario_db =
  sd_foreign_keys :: bool
  sd_runs :: "scenario_run list"
  sd_steps :: "scenario_step list"
  sd_assertions :: "scenario_assertion list"
  sd_samples :: "latency_sample list"
  sd_fingerprints :: "environment_fingerprint list"

definition empty_scenario_db :: "bool \<Rightarrow> scenario_db" where
  "empty_scenario_db fk =
     \<lparr>sd_foreign_keys = fk, sd_runs = [], sd_steps = [], sd_assertions = [], sd_samples = [],
      sd_fingerprints = []\<rparr>"

section \<open>Foreign keys\<close>

definition run_exists :: "scenario_db \<Rightarrow> string \<Rightarrow> bool" where
  "run_exists db run_id \<longleftrightarrow> list_ex (\<lambda>r. sr_id r = run_id) (sd_runs db)"

definition step_exists :: "scenario_db \<Rightarrow> string \<Rightarrow> bool" where
  "step_exists db step_id \<longleftrightarrow> list_ex (\<lambda>s. st_id s = step_id) (sd_steps db)"

text \<open>The references a row makes, or every reference when they are not enforced.\<close>

definition references_ok :: "scenario_db \<Rightarrow> string \<Rightarrow> string option \<Rightarrow> bool" where
  "references_ok db run_id step_id \<longleftrightarrow> \<not> sd_foreign_keys db \<or>
     (run_exists db run_id \<and> (case step_id of None \<Rightarrow> True | Some s \<Rightarrow> step_exists db s))"

section \<open>Runs\<close>

definition insert_scenario_run :: "scenario_run \<Rightarrow> scenario_db \<Rightarrow> scenario_db res" where
  "insert_scenario_run run db =
     (case sql_insert sr_id run (sd_runs db) of
        None \<Rightarrow> Inl ''insert scenario run''
      | Some runs \<Rightarrow> Inr (db\<lparr>sd_runs := runs\<rparr>))"

definition get_scenario_run :: "string \<Rightarrow> scenario_db \<Rightarrow> scenario_run option" where
  "get_scenario_run run_id db = sql_get (\<lambda>r. sr_id r = run_id) (sd_runs db)"

definition list_scenario_runs :: "string option \<Rightarrow> 64 word \<Rightarrow> scenario_db \<Rightarrow> scenario_run list" where
  "list_scenario_runs family limit db =
     sql_limit limit (order_desc sr_started_at
       (filter (\<lambda>r. case family of None \<Rightarrow> True | Some f \<Rightarrow> sr_scenario_family r = f) (sd_runs db)))"

definition update_scenario_run :: "scenario_run \<Rightarrow> scenario_db \<Rightarrow> scenario_db" where
  "update_scenario_run run db =
     db\<lparr>sd_runs := fst (sql_update (\<lambda>r. sr_id r = sr_id run) (\<lambda>_. run) (sd_runs db))\<rparr>"

section \<open>Steps\<close>

definition insert_step_row :: "error \<Rightarrow> scenario_step \<Rightarrow> scenario_db \<Rightarrow> scenario_db res" where
  "insert_step_row context step db =
     (if \<not> references_ok db (st_run_id step) None then Inl context
      else
        (case sql_insert st_id step (sd_steps db) of
           None \<Rightarrow> Inl context
         | Some steps \<Rightarrow> Inr (db\<lparr>sd_steps := steps\<rparr>)))"

definition insert_scenario_step :: "scenario_step \<Rightarrow> scenario_db \<Rightarrow> scenario_db res" where
  "insert_scenario_step step db = insert_step_row ''insert scenario step'' step db"

definition list_scenario_steps :: "string \<Rightarrow> scenario_db \<Rightarrow> scenario_step list" where
  "list_scenario_steps run_id db =
     order_asc (\<lambda>s. (st_ordinal s, st_started_at s, st_id s))
       (filter (\<lambda>s. st_run_id s = run_id) (sd_steps db))"

definition get_scenario_step :: "string \<Rightarrow> scenario_db \<Rightarrow> scenario_step option" where
  "get_scenario_step step_id db = sql_get (\<lambda>s. st_id s = step_id) (sd_steps db)"

text \<open>\<open>COALESCE(MAX(ordinal), 0) + 1\<close>. A sum beyond \<open>i64\<close> becomes a REAL, which reading as
  \<open>i64\<close> refuses.\<close>

definition next_ordinal_value :: "string \<Rightarrow> scenario_db \<Rightarrow> int" where
  "next_ordinal_value run_id db =
     (case map st_ordinal (filter (\<lambda>s. st_run_id s = run_id) (sd_steps db)) of
        [] \<Rightarrow> 0 | n # ns \<Rightarrow> foldl max n ns) + 1"

definition read_ordinal :: "error \<Rightarrow> string \<Rightarrow> scenario_db \<Rightarrow> int res" where
  "read_ordinal context run_id db =
     (if next_ordinal_value run_id db > 9223372036854775807 then Inl context
      else Inr (next_ordinal_value run_id db))"

definition next_scenario_step_ordinal :: "string \<Rightarrow> scenario_db \<Rightarrow> int res" where
  "next_scenario_step_ordinal run_id db = read_ordinal ''select next scenario step ordinal'' run_id db"

definition create_scenario_step ::
  "string \<Rightarrow> string \<Rightarrow> string \<Rightarrow> string \<Rightarrow> string option \<Rightarrow> string \<Rightarrow> scenario_db \<Rightarrow>
   (scenario_step \<times> scenario_db) res" where
  "create_scenario_step step_id run_id step_name step_kind command_line started_at db =
     (case read_ordinal ''select next scenario step ordinal in transaction'' run_id db of
        Inl e \<Rightarrow> Inl e
      | Inr ordinal \<Rightarrow>
          (let step = \<lparr>st_id = step_id, st_run_id = run_id, st_ordinal = ordinal,
                       st_step_name = step_name, st_step_kind = step_kind,
                       st_command_line = command_line, st_started_at = started_at,
                       st_finished_at = None, st_status = ''running'', st_error_code = None\<rparr>
           in map_ok (\<lambda>db'. (step, db')) (insert_step_row ''insert scenario step in transaction'' step db)))"

definition update_scenario_step :: "scenario_step \<Rightarrow> scenario_db \<Rightarrow> scenario_db res" where
  "update_scenario_step step db =
     (if step_exists db (st_id step) \<and> \<not> references_ok db (st_run_id step) None
      then Inl ''update scenario step''
      else Inr (db\<lparr>sd_steps := fst (sql_update (\<lambda>s. st_id s = st_id step) (\<lambda>_. step) (sd_steps db))\<rparr>))"

section \<open>Assertions, samples, fingerprints\<close>

definition insert_scenario_assertion :: "scenario_assertion \<Rightarrow> scenario_db \<Rightarrow> scenario_db res" where
  "insert_scenario_assertion assertion db =
     (if \<not> references_ok db (sa_run_id assertion) (sa_step_id assertion)
      then Inl ''insert scenario assertion''
      else
        (case sql_insert sa_id assertion (sd_assertions db) of
           None \<Rightarrow> Inl ''insert scenario assertion''
         | Some rows \<Rightarrow> Inr (db\<lparr>sd_assertions := rows\<rparr>)))"

text \<open>The left join on the step: rows without one sort last.\<close>

definition joined_ordinal :: "string option \<Rightarrow> scenario_db \<Rightarrow> int" where
  "joined_ordinal step_id db =
     (case step_id of
        None \<Rightarrow> 2147483647
      | Some i \<Rightarrow> (case get_scenario_step i db of None \<Rightarrow> 2147483647 | Some s \<Rightarrow> st_ordinal s))"

definition list_scenario_assertions :: "string \<Rightarrow> scenario_db \<Rightarrow> scenario_assertion list" where
  "list_scenario_assertions run_id db =
     order_asc (\<lambda>a. joined_ordinal (sa_step_id a) db)
       (filter (\<lambda>a. sa_run_id a = run_id) (sd_assertions db))"

definition insert_latency_sample :: "latency_sample \<Rightarrow> scenario_db \<Rightarrow> scenario_db res" where
  "insert_latency_sample sample db =
     (if \<not> references_ok db (ls_run_id sample) (ls_step_id sample) then Inl ''insert latency sample''
      else
        (case sql_insert ls_id sample (sd_samples db) of
           None \<Rightarrow> Inl ''insert latency sample''
         | Some rows \<Rightarrow> Inr (db\<lparr>sd_samples := rows\<rparr>)))"

definition list_latency_samples :: "string \<Rightarrow> scenario_db \<Rightarrow> latency_sample list" where
  "list_latency_samples run_id db =
     order_asc (\<lambda>l. joined_ordinal (ls_step_id l) db)
       (filter (\<lambda>l. ls_run_id l = run_id) (sd_samples db))"

text \<open>The table has two unique keys.\<close>

definition insert_environment_fingerprint :: "environment_fingerprint \<Rightarrow> scenario_db \<Rightarrow> scenario_db res" where
  "insert_environment_fingerprint fingerprint db =
     (if \<not> references_ok db (ef_run_id fingerprint) None \<or>
         ef_run_id fingerprint \<in> ef_run_id ` set (sd_fingerprints db)
      then Inl ''insert environment fingerprint''
      else
        (case sql_insert ef_id fingerprint (sd_fingerprints db) of
           None \<Rightarrow> Inl ''insert environment fingerprint''
         | Some rows \<Rightarrow> Inr (db\<lparr>sd_fingerprints := rows\<rparr>)))"

definition get_environment_fingerprint :: "string \<Rightarrow> scenario_db \<Rightarrow> environment_fingerprint option" where
  "get_environment_fingerprint run_id db = sql_get (\<lambda>f. ef_run_id f = run_id) (sd_fingerprints db)"

section \<open>The evidence invariant\<close>

text \<open>Keys are unique; every step, assertion and sample belongs to a run, and a step it names
  belongs to the same run; the steps of a run are numbered \<open>1, 2, ...\<close> in the order they were
  created; a finished run has no unfinished step.\<close>

definition steps_of :: "string \<Rightarrow> scenario_db \<Rightarrow> scenario_step list" where
  "steps_of run_id db = filter (\<lambda>s. st_run_id s = run_id) (sd_steps db)"

definition evidence_belongs :: "scenario_db \<Rightarrow> string \<Rightarrow> string option \<Rightarrow> bool" where
  "evidence_belongs db run_id step_id \<longleftrightarrow> run_id \<in> sr_id ` set (sd_runs db) \<and>
     (\<forall>i. step_id = Some i \<longrightarrow> (\<exists>s\<in>set (sd_steps db). st_id s = i \<and> st_run_id s = run_id))"

definition numbered :: "scenario_step list \<Rightarrow> bool" where
  "numbered steps \<longleftrightarrow> map st_ordinal steps = map int [1..<Suc (length steps)]"

definition scenario_inv :: "scenario_db \<Rightarrow> bool" where
  "scenario_inv db \<longleftrightarrow>
     unique_by sr_id (sd_runs db) \<and> unique_by st_id (sd_steps db) \<and>
     (\<forall>r\<in>set (sd_runs db). trim (sr_id r) = sr_id r) \<and>
     (\<forall>s\<in>set (sd_steps db). trim (st_id s) = st_id s \<and> st_run_id s \<in> sr_id ` set (sd_runs db)) \<and>
     (\<forall>i. numbered (steps_of i db)) \<and>
     (\<forall>r\<in>set (sd_runs db). sr_finished_at r \<noteq> None \<longrightarrow>
        (\<forall>s\<in>set (steps_of (sr_id r) db). st_finished_at s \<noteq> None)) \<and>
     (\<forall>a\<in>set (sd_assertions db). evidence_belongs db (sa_run_id a) (sa_step_id a)) \<and>
     (\<forall>l\<in>set (sd_samples db). evidence_belongs db (ls_run_id l) (ls_step_id l))"

lemma scenario_inv_empty: "scenario_inv (empty_scenario_db fk)"
  by (simp add: scenario_inv_def empty_scenario_db_def steps_of_def numbered_def)

lemma foldl_max_upt: "foldl max 1 (map int [2..<Suc (Suc n)]) = int (Suc n)"
  by (induction n) simp_all

lemma next_ordinal_counts:
  assumes "numbered (steps_of i db)"
  shows "next_ordinal_value i db = int (Suc (length (steps_of i db)))"
proof (cases "length (steps_of i db)")
  case 0
  then show ?thesis by (simp add: next_ordinal_value_def steps_of_def)
next
  case (Suc n)
  then have "map st_ordinal (steps_of i db) = 1 # map int [2..<Suc (Suc n)]"
    using assms by (simp add: numbered_def upt_conv_Cons numeral_2_eq_2 del: upt_Suc)
  then show ?thesis
    using Suc foldl_max_upt [of n] by (simp add: next_ordinal_value_def steps_of_def del: upt_Suc)
qed

section \<open>Statements that keep the invariant\<close>

lemma steps_of_set: "s \<in> set (steps_of i db) \<longleftrightarrow> s \<in> set (sd_steps db) \<and> st_run_id s = i"
  by (auto simp: steps_of_def)

lemma steps_of_other [simp]:
  "steps_of i (db\<lparr>sd_runs := x\<rparr>) = steps_of i db"
  "steps_of i (db\<lparr>sd_assertions := as\<rparr>) = steps_of i db"
  "steps_of i (db\<lparr>sd_samples := ls\<rparr>) = steps_of i db"
  "steps_of i (db\<lparr>sd_fingerprints := fs\<rparr>) = steps_of i db"
  by (simp_all add: steps_of_def)

lemma evidence_belongs_other [simp]:
  "evidence_belongs (db\<lparr>sd_assertions := as\<rparr>) = evidence_belongs db"
  "evidence_belongs (db\<lparr>sd_samples := ls\<rparr>) = evidence_belongs db"
  "evidence_belongs (db\<lparr>sd_fingerprints := fs\<rparr>) = evidence_belongs db"
  by (simp_all add: evidence_belongs_def fun_eq_iff)

lemma evidence_belongs_cong:
  "sr_id ` set (sd_runs db) \<subseteq> sr_id ` set (sd_runs db') \<Longrightarrow>
   (\<And>s. s \<in> set (sd_steps db) \<Longrightarrow>
      \<exists>s'\<in>set (sd_steps db'). st_id s' = st_id s \<and> st_run_id s' = st_run_id s) \<Longrightarrow>
   evidence_belongs db r i \<Longrightarrow> evidence_belongs db' r i"
  unfolding evidence_belongs_def by (metis subsetD)

lemma numbered_append1:
  "numbered xs \<Longrightarrow> st_ordinal s = int (Suc (length xs)) \<Longrightarrow> numbered (xs @ [s])"
  by (simp add: numbered_def)

lemma scenario_invD:
  assumes "scenario_inv db"
  shows "unique_by sr_id (sd_runs db)" "unique_by st_id (sd_steps db)"
    "\<And>r. r \<in> set (sd_runs db) \<Longrightarrow> trim (sr_id r) = sr_id r"
    "\<And>s. s \<in> set (sd_steps db) \<Longrightarrow> trim (st_id s) = st_id s"
    "\<And>s. s \<in> set (sd_steps db) \<Longrightarrow> st_run_id s \<in> sr_id ` set (sd_runs db)"
    "numbered (steps_of i db)"
    "\<And>r s. r \<in> set (sd_runs db) \<Longrightarrow> sr_finished_at r \<noteq> None \<Longrightarrow> s \<in> set (sd_steps db) \<Longrightarrow>
       st_run_id s = sr_id r \<Longrightarrow> st_finished_at s \<noteq> None"
    "\<And>a. a \<in> set (sd_assertions db) \<Longrightarrow> evidence_belongs db (sa_run_id a) (sa_step_id a)"
    "\<And>l. l \<in> set (sd_samples db) \<Longrightarrow> evidence_belongs db (ls_run_id l) (ls_step_id l)"
  using assms by (simp_all add: scenario_inv_def steps_of_set)

lemma scenario_invI:
  assumes "unique_by sr_id (sd_runs db)" and "unique_by st_id (sd_steps db)"
    and "\<And>r. r \<in> set (sd_runs db) \<Longrightarrow> trim (sr_id r) = sr_id r"
    and "\<And>s. s \<in> set (sd_steps db) \<Longrightarrow> trim (st_id s) = st_id s"
    and "\<And>s. s \<in> set (sd_steps db) \<Longrightarrow> st_run_id s \<in> sr_id ` set (sd_runs db)"
    and "\<And>i. numbered (steps_of i db)"
    and "\<And>r s. r \<in> set (sd_runs db) \<Longrightarrow> sr_finished_at r \<noteq> None \<Longrightarrow> s \<in> set (sd_steps db) \<Longrightarrow>
       st_run_id s = sr_id r \<Longrightarrow> st_finished_at s \<noteq> None"
    and "\<And>a. a \<in> set (sd_assertions db) \<Longrightarrow> evidence_belongs db (sa_run_id a) (sa_step_id a)"
    and "\<And>l. l \<in> set (sd_samples db) \<Longrightarrow> evidence_belongs db (ls_run_id l) (ls_step_id l)"
  shows "scenario_inv db"
  using assms by (simp add: scenario_inv_def steps_of_set)

lemma scenario_inv_insert_run:
  assumes inv: "scenario_inv db" and ins: "insert_scenario_run run db = Inr db'"
    and run: "trim (sr_id run) = sr_id run" "sr_finished_at run = None"
  shows "scenario_inv db'"
proof -
  note D = scenario_invD [OF inv]
  have fresh: "sr_id run \<notin> sr_id ` set (sd_runs db)" and db': "db' = db\<lparr>sd_runs := sd_runs db @ [run]\<rparr>"
    using ins by (auto simp: insert_scenario_run_def sql_insert_def split: if_splits)
  have ev: "evidence_belongs db r i \<Longrightarrow> evidence_belongs db' r i" for r i
    by (rule evidence_belongs_cong) (auto simp: db')
  show ?thesis
  proof (rule scenario_invI)
    show "unique_by sr_id (sd_runs db')" using D(1) fresh by (simp add: db' unique_by_append1)
    show "trim (sr_id r) = sr_id r" if "r \<in> set (sd_runs db')" for r using that D(3) run(1) by (auto simp: db')
    show "st_finished_at s \<noteq> None" if "r \<in> set (sd_runs db')" "sr_finished_at r \<noteq> None"
      "s \<in> set (sd_steps db')" "st_run_id s = sr_id r" for r s
    proof -
      have "r \<in> set (sd_runs db)" using that(1,2) run(2) by (auto simp: db')
      moreover have "s \<in> set (sd_steps db)" using that(3) by (simp add: db')
      ultimately show ?thesis using D(7) that(2,4) by blast
    qed
  qed (use D ev [unfolded db'] in \<open>auto simp: db'\<close>)
qed

lemma scenario_inv_create_step:
  assumes inv: "scenario_inv db" and ok: "create_scenario_step i run_id n k c t db = Inr (step, db')"
    and i: "trim i = i" and r: "r \<in> set (sd_runs db)" "sr_id r = run_id" "sr_finished_at r = None"
  shows "scenario_inv db'"
proof -
  note D = scenario_invD [OF inv]
  have step: "st_id step = i" "st_run_id step = run_id" "st_ordinal step = int (Suc (length (steps_of run_id db)))"
    and fresh: "i \<notin> st_id ` set (sd_steps db)" and db': "db' = db\<lparr>sd_steps := sd_steps db @ [step]\<rparr>"
    using ok next_ordinal_counts [OF D(6)]
    by (auto simp: create_scenario_step_def read_ordinal_def insert_step_row_def sql_insert_def Let_def
        split: if_splits)
  have ev: "evidence_belongs db r i \<Longrightarrow> evidence_belongs db' r i" for r i
    by (rule evidence_belongs_cong) (auto simp: db')
  have steps: "steps_of j db' = (if j = run_id then steps_of j db @ [step] else steps_of j db)" for j
    by (simp add: steps_of_def db' step)
  show ?thesis
  proof (rule scenario_invI)
    show "unique_by st_id (sd_steps db')" using D(2) fresh step(1) by (simp add: db' unique_by_append1)
    show "numbered (steps_of j db')" for j
      using numbered_append1 [OF D(6) step(3)] D(6) by (simp add: steps)
    show "st_finished_at s \<noteq> None" if "r' \<in> set (sd_runs db')" "sr_finished_at r' \<noteq> None"
      "s \<in> set (sd_steps db')" "st_run_id s = sr_id r'" for r' s
    proof -
      have r': "r' \<in> set (sd_runs db)" using that(1) by (simp add: db')
      have "sr_id r' \<noteq> run_id" using unique_byD [OF D(1) r' r(1)] r(2,3) that(2) by auto
      then have "s \<in> set (sd_steps db)" using that(3,4) step(2) by (auto simp: db')
      then show ?thesis using D(7) r' that(2,4) by blast
    qed
  qed (use D ev [unfolded db'] i step imageI [of r _ sr_id, OF r(1)] r(2) in \<open>auto simp: db'\<close>)
qed

lemma scenario_inv_insert_assertion:
  assumes inv: "scenario_inv db" and ins: "insert_scenario_assertion a db = Inr db'"
    and own: "evidence_belongs db (sa_run_id a) (sa_step_id a)"
  shows "scenario_inv db'"
proof -
  have db': "db' = db\<lparr>sd_assertions := sd_assertions db @ [a]\<rparr>"
    using ins by (auto simp: insert_scenario_assertion_def sql_insert_def split: if_splits)
  show ?thesis by (rule scenario_invI) (use scenario_invD [OF inv] own in \<open>auto simp: db'\<close>)
qed

lemma scenario_inv_insert_sample:
  assumes inv: "scenario_inv db" and ins: "insert_latency_sample l db = Inr db'"
    and own: "evidence_belongs db (ls_run_id l) (ls_step_id l)"
  shows "scenario_inv db'"
proof -
  have db': "db' = db\<lparr>sd_samples := sd_samples db @ [l]\<rparr>"
    using ins by (auto simp: insert_latency_sample_def sql_insert_def split: if_splits)
  show ?thesis by (rule scenario_invI) (use scenario_invD [OF inv] own in \<open>auto simp: db'\<close>)
qed

lemma scenario_inv_fingerprint:
  assumes inv: "scenario_inv db" and ins: "insert_environment_fingerprint f db = Inr db'"
  shows "scenario_inv db'"
proof -
  obtain rows where db': "db' = db\<lparr>sd_fingerprints := rows\<rparr>"
    using ins by (auto simp: insert_environment_fingerprint_def split: if_splits option.splits)
  show ?thesis by (rule scenario_invI) (use scenario_invD [OF inv] in \<open>auto simp: db'\<close>)
qed

text \<open>An update writes one row back under its own id.\<close>

lemma set_update_row:
  "x \<in> set (fst (sql_update (\<lambda>s. key s = key new) (\<lambda>_. new) rows)) \<longleftrightarrow>
   (x = new \<and> (\<exists>y\<in>set rows. key y = key new)) \<or> (x \<in> set rows \<and> key x \<noteq> key new)"
  by (auto simp: sql_update_def image_iff split: if_splits)

lemma filter_update_row:
  assumes "unique_by key rows" and "old \<in> set rows" and "key old = key new" and "P old = P new" and "f old = f new"
  shows "map f (filter P (fst (sql_update (\<lambda>s. key s = key new) (\<lambda>_. new) rows))) = map f (filter P rows)"
proof -
  have "filter P (map (\<lambda>r. if key r = key new then new else r) rs) =
      map (\<lambda>r. if key r = key new then new else r) (filter P rs)" if "set rs \<subseteq> set rows" for rs
    using that unique_byD [OF assms(1) _ assms(2)] assms(3,4) by (induction rs) auto
  then have "filter P (fst (sql_update (\<lambda>s. key s = key new) (\<lambda>_. new) rows)) =
      map (\<lambda>r. if key r = key new then new else r) (filter P rows)"
    by (simp add: sql_update_def)
  then show ?thesis using unique_byD [OF assms(1) _ assms(2)] assms(3,5) by auto
qed

lemma unique_by_update_row:
  "unique_by key rows \<Longrightarrow> unique_by key (fst (sql_update (\<lambda>s. key s = key new) (\<lambda>_. new) rows))"
  unfolding sql_update_def by (simp add: unique_by_map)

lemma scenario_inv_update_step:
  assumes inv: "scenario_inv db" and ok: "update_scenario_step new db = Inr db'"
    and old: "old \<in> set (sd_steps db)" "st_id old = st_id new" "st_run_id old = st_run_id new"
      "st_ordinal old = st_ordinal new"
    and ended: "st_finished_at new \<noteq> None"
  shows "scenario_inv db'"
proof -
  have db': "db' = db\<lparr>sd_steps := fst (sql_update (\<lambda>s. st_id s = st_id new) (\<lambda>_. new) (sd_steps db))\<rparr>"
    using ok by (auto simp: update_scenario_step_def split: if_splits)
  note D = scenario_invD [OF inv]
  note uniq = D(2)
  have rows: "x \<in> set (sd_steps db') \<longleftrightarrow> x = new \<or> (x \<in> set (sd_steps db) \<and> st_id x \<noteq> st_id new)" for x
    using old(1,2) by (auto simp: db' set_update_row image_iff intro: sym)
  have ev: "evidence_belongs db r i \<Longrightarrow> evidence_belongs db' r i" for r i
  proof (rule evidence_belongs_cong)
    show "\<exists>s'\<in>set (sd_steps db'). st_id s' = st_id s \<and> st_run_id s' = st_run_id s"
      if "s \<in> set (sd_steps db)" for s
      using that rows old unique_byD [OF uniq that old(1)] by (cases "st_id s = st_id new") auto
  qed (simp_all add: db')
  have ordinals: "map st_ordinal (steps_of j db') = map st_ordinal (steps_of j db)" for j
    unfolding steps_of_def db'
    using filter_update_row [OF uniq old(1,2), of "\<lambda>s. st_run_id s = j" st_ordinal] old(3,4) by simp
  then have "length (steps_of j db') = length (steps_of j db)" for j by (metis length_map)
  then have num: "numbered (steps_of j db')" for j using D(6) by (simp add: numbered_def ordinals)
  show ?thesis
  proof (rule scenario_invI)
    show "unique_by st_id (sd_steps db')" unfolding db' using unique_by_update_row [OF uniq, of new] by simp
    show "trim (st_id s) = st_id s" if "s \<in> set (sd_steps db')" for s
      using that D(4) [OF old(1)] D(4) [of s] old(2) rows [of s] by auto
    show "st_run_id s \<in> sr_id ` set (sd_runs db')" if "s \<in> set (sd_steps db')" for s
      using that D(5) [OF old(1)] D(5) [of s] old(3) rows [of s] by (auto simp: db')
    show "st_finished_at s \<noteq> None" if "r \<in> set (sd_runs db')" "sr_finished_at r \<noteq> None"
      "s \<in> set (sd_steps db')" "st_run_id s = sr_id r" for r s
      using that ended rows [of s] D(7) [of r s] by (auto simp: db')
  qed (use D ev [unfolded db'] num [unfolded db'] in \<open>auto simp: db'\<close>)
qed

lemma scenario_inv_update_run:
  assumes inv: "scenario_inv db" and old: "old \<in> set (sd_runs db)" "sr_id old = sr_id new"
    and ended: "\<forall>s\<in>set (steps_of (sr_id new) db). st_finished_at s \<noteq> None"
  shows "scenario_inv (update_scenario_run new db)"
proof -
  let ?db = "update_scenario_run new db"
  have rows: "x \<in> set (sd_runs ?db) \<longleftrightarrow> x = new \<or> (x \<in> set (sd_runs db) \<and> sr_id x \<noteq> sr_id new)" for x
    using old by (auto simp: update_scenario_run_def set_update_row image_iff intro: sym)
  have steps: "steps_of i ?db = steps_of i db" for i by (simp add: steps_of_def update_scenario_run_def)
  have other: "sd_steps ?db = sd_steps db" "sd_assertions ?db = sd_assertions db" "sd_samples ?db = sd_samples db"
    by (simp_all add: update_scenario_run_def)
  have ids: "sr_id ` set (sd_runs ?db) = sr_id ` set (sd_runs db)"
  proof -
    have "x \<in> sr_id ` set (sd_runs ?db) \<longleftrightarrow> x \<in> sr_id ` set (sd_runs db)" for x
      unfolding image_iff Bex_def rows using old by metis
    then show ?thesis by blast
  qed
  have ev: "evidence_belongs ?db r i = evidence_belongs db r i" for r i
    by (simp add: evidence_belongs_def ids other)
  note D = scenario_invD [OF inv]
  show ?thesis
  proof (rule scenario_invI)
    show "unique_by sr_id (sd_runs ?db)"
      using unique_by_update_row [OF D(1), of new] by (simp add: update_scenario_run_def)
    show "trim (sr_id r) = sr_id r" if "r \<in> set (sd_runs ?db)" for r
      using that D(3) [OF old(1)] D(3) [of r] old(2) rows [of r] by auto
    show "st_finished_at s \<noteq> None" if "r \<in> set (sd_runs ?db)" "sr_finished_at r \<noteq> None"
      "s \<in> set (sd_steps ?db)" "st_run_id s = sr_id r" for r s
      using that ended rows [of r] D(7) [of r s] by (auto simp: other steps_of_set)
  qed (use D in \<open>simp_all add: ev steps other ids\<close>)
qed

end
