(* ===== verification/ScenarioRecorder.thy ===== *)
theory ScenarioRecorder
  imports ScenarioStore Ids
begin

unbundle bit_operations_syntax

text \<open>
  The scenario recorder, \<open>crates/pengu-mesh-core/src/scenario_recorder.rs\<close>: the guarded
  operations that write evidence, as state-and-error operations on the database, the reading
  counter and the process-wide id counter. What it reads from outside (clock, process id,
  commands, environment variables, installed browsers) is \<open>recorder_env\<close>. Each operation
  is one uninterrupted run here; the theorem on the race at the end shows what two processes
  can do between its check and its write.
\<close>

section \<open>Environment and state\<close>

record browser_install_info =
  ii_channel :: browser_channel
  ii_binary_path :: string
  ii_installed :: bool

record recorder_env =
  rv_clock :: "nat \<Rightarrow> string"
  rv_nanos :: "nat \<Rightarrow> string"
  rv_pid :: nat
  rv_command :: "string \<Rightarrow> string list \<Rightarrow> string option \<Rightarrow> (bool \<times> string \<times> string) option"
  rv_env :: "string \<Rightarrow> string option"
  rv_installs :: "browser_install_info list"
  rv_os :: string
  rv_arch :: string
  rv_workspace_root :: "string option"
  rv_root_dir :: string

record recorder_state =
  rs_db :: scenario_db
  rs_tick :: nat
  rs_counter :: "64 word"

type_synonym 'a recording = "(recorder_state, 'a) oper"

definition timestamp_now :: "recorder_env \<Rightarrow> string recording" where
  "timestamp_now env s = (Inr (rv_clock env (rs_tick s)), s\<lparr>rs_tick := Suc (rs_tick s)\<rparr>)"

definition next_record_id :: "recorder_env \<Rightarrow> id_kind \<Rightarrow> string \<Rightarrow> string recording" where
  "next_record_id env kind seed s =
     (Inr (stable_id kind (seed @ ''_'' @ rv_nanos env (rs_tick s) @ ''_'' @ show_nat (rv_pid env) @ ''_'' @
             show_nat (unat (rs_counter s)))),
      s\<lparr>rs_tick := Suc (rs_tick s), rs_counter := rs_counter s + 1\<rparr>)"

text \<open>A store call: an error is reported under the caller's context.\<close>

definition store_call :: "error \<Rightarrow> (scenario_db \<Rightarrow> ('a \<times> scenario_db) res) \<Rightarrow> 'a recording" where
  "store_call context f s =
     (case f (rs_db s) of
        Inl e \<Rightarrow> (Inl context, s)
      | Inr (a, db) \<Rightarrow> (Inr a, s\<lparr>rs_db := db\<rparr>))"

definition store_do :: "error \<Rightarrow> (scenario_db \<Rightarrow> scenario_db res) \<Rightarrow> unit recording" where
  "store_do context f = store_call context (\<lambda>db. map_ok (\<lambda>db'. ((), db')) (f db))"

section \<open>Guards\<close>

definition ensure_present :: "string \<Rightarrow> string \<Rightarrow> unit recording" where
  "ensure_present label value = ensure (trim value \<noteq> []) (label @ '' must not be empty'')"

definition run_active :: "scenario_run \<Rightarrow> bool" where
  "run_active run \<longleftrightarrow> sr_finished_at run = None \<and> sr_status run = ''running''"

definition step_active :: "scenario_step \<Rightarrow> bool" where
  "step_active step \<longleftrightarrow> st_finished_at step = None \<and> st_status step = ''running''"

definition finished_message :: "string \<Rightarrow> string \<Rightarrow> string \<Rightarrow> error" where
  "finished_message what i status = ''scenario '' @ what @ '' '' @ i @ '' is already finished with status '' @ status"

definition find_run :: "string \<Rightarrow> scenario_run recording" where
  "find_run run_id =
     and_then (gets (\<lambda>s. get_scenario_run run_id (rs_db s))) (\<lambda>found.
     lift_res (ok_or (''unknown scenario run '' @ run_id) found))"

definition find_step :: "string \<Rightarrow> scenario_step recording" where
  "find_step step_id =
     and_then (gets (\<lambda>s. get_scenario_step step_id (rs_db s))) (\<lambda>found.
     lift_res (ok_or (''unknown scenario step '' @ step_id) found))"

definition ensure_run_active :: "string \<Rightarrow> unit recording" where
  "ensure_run_active run_id =
     and_then (find_run run_id) (\<lambda>run.
     ensure (run_active run) (finished_message ''run'' run_id (sr_status run)))"

definition ensure_step_belongs_to_run :: "string \<Rightarrow> string \<Rightarrow> unit recording" where
  "ensure_step_belongs_to_run step_id run_id =
     and_then (find_step step_id) (\<lambda>step.
     ensure (st_run_id step = run_id)
       (''scenario step '' @ step_id @ '' does not belong to run '' @ run_id))"

definition ensure_step_active :: "string \<Rightarrow> unit recording" where
  "ensure_step_active step_id =
     and_then (find_step step_id) (\<lambda>step.
     ensure (step_active step) (finished_message ''step'' step_id (st_status step)))"

definition trimmed_opt :: "string option \<Rightarrow> string option" where
  "trimmed_opt v = (case v of None \<Rightarrow> None | Some s \<Rightarrow> (if trim s = [] then None else Some (trim s)))"

definition or_else :: "'a option \<Rightarrow> 'a option \<Rightarrow> 'a option" where
  "or_else a b = (case a of None \<Rightarrow> b | Some x \<Rightarrow> Some x)"

definition guard_step :: "string option \<Rightarrow> string \<Rightarrow> unit recording" where
  "guard_step step_id run_id =
     (case step_id of
        None \<Rightarrow> ret ()
      | Some i \<Rightarrow> and_then (ensure_step_belongs_to_run i run_id) (\<lambda>_. ensure_step_active i))"

section \<open>Operations\<close>

definition record_seed :: "recorder_env \<Rightarrow> string \<Rightarrow> string \<Rightarrow> string" where
  "record_seed env run_id name = run_id @ ''_'' @ name @ ''_'' @ show_nat (rv_pid env)"

definition record_step ::
  "recorder_env \<Rightarrow> string \<Rightarrow> string \<Rightarrow> string \<Rightarrow> string option \<Rightarrow> scenario_step recording" where
  "record_step env run_id name kind command_line =
     and_then (ensure_present ''run id'' run_id) (\<lambda>_.
     and_then (ensure_present ''step name'' name) (\<lambda>_.
     and_then (ensure_present ''step kind'' kind) (\<lambda>_.
     and_then (ensure_run_active run_id) (\<lambda>_.
     and_then (next_record_id env IdScenarioStep (record_seed env run_id name)) (\<lambda>i.
     and_then (timestamp_now env) (\<lambda>now.
     store_call ''insert scenario step''
       (create_scenario_step i (trim run_id) (trim name) (trim kind) (trimmed_opt command_line) now)))))))"

definition create_assertion_record ::
  "recorder_env \<Rightarrow> string \<Rightarrow> string option \<Rightarrow> string \<Rightarrow> string option \<Rightarrow> string option \<Rightarrow> string \<Rightarrow>
   string option \<Rightarrow> string option \<Rightarrow> scenario_assertion recording" where
  "create_assertion_record env run_id step_id name expected actual status failure_category notes =
     and_then (ensure_present ''run id'' run_id) (\<lambda>_.
     and_then (ensure_present ''assertion name'' name) (\<lambda>_.
     and_then (ensure_present ''assertion status'' status) (\<lambda>_.
     and_then (ensure_run_active run_id) (\<lambda>_.
     and_then (guard_step step_id run_id) (\<lambda>_.
     and_then (next_record_id env IdScenarioAssertion (record_seed env run_id name)) (\<lambda>i.
     let assertion = \<lparr>sa_id = i, sa_run_id = trim run_id, sa_step_id = map_option trim step_id,
           sa_assertion_name = trim name, sa_expected_value = trimmed_opt expected,
           sa_actual_value = trimmed_opt actual, sa_status = trim status,
           sa_failure_category = trimmed_opt failure_category, sa_notes = trimmed_opt notes\<rparr>
     in and_then (store_do ''insert scenario assertion'' (insert_scenario_assertion assertion)) (\<lambda>_.
        ret assertion)))))))"

text \<open>\<open>sample_ms >= 0.0\<close> on the bit pattern: not NaN, and positive or a zero.\<close>

definition f64_ge_zero :: "64 word \<Rightarrow> bool" where
  "f64_ge_zero b \<longleftrightarrow> b AND 0x7FFFFFFFFFFFFFFF \<le> 0x7FF0000000000000 \<and>
     (b AND 0x8000000000000000 = 0 \<or> b AND 0x7FFFFFFFFFFFFFFF = 0)"

definition create_latency_record ::
  "recorder_env \<Rightarrow> string \<Rightarrow> string option \<Rightarrow> string \<Rightarrow> 64 word \<Rightarrow> string option \<Rightarrow> latency_sample recording" where
  "create_latency_record env run_id step_id metric sample_ms capture_method =
     and_then (ensure_present ''run id'' run_id) (\<lambda>_.
     and_then (ensure_present ''metric name'' metric) (\<lambda>_.
     and_then (ensure (f64_ge_zero sample_ms) ''sample_ms must be non-negative'') (\<lambda>_.
     and_then (ensure_run_active run_id) (\<lambda>_.
     and_then (guard_step step_id run_id) (\<lambda>_.
     and_then (next_record_id env IdLatencySample (record_seed env run_id metric)) (\<lambda>i.
     let sample = \<lparr>ls_id = i, ls_run_id = trim run_id, ls_step_id = map_option trim step_id,
           ls_metric_name = trim metric, ls_sample_ms = sample_ms,
           ls_capture_method = trimmed_opt capture_method\<rparr>
     in and_then (store_do ''insert latency sample'' (insert_latency_sample sample)) (\<lambda>_.
        ret sample)))))))"

definition finish_step_record ::
  "recorder_env \<Rightarrow> string \<Rightarrow> string \<Rightarrow> string option \<Rightarrow> scenario_step recording" where
  "finish_step_record env step_id status error_code =
     and_then (ensure_present ''step id'' step_id) (\<lambda>_.
     and_then (ensure_present ''step status'' status) (\<lambda>_.
     and_then (find_step step_id) (\<lambda>step.
     and_then (ensure (step_active step) (finished_message ''step'' step_id (st_status step))) (\<lambda>_.
     and_then (timestamp_now env) (\<lambda>now.
     let step' = step\<lparr>st_finished_at := Some now, st_status := trim status,
                      st_error_code := or_else (trimmed_opt error_code) (st_error_code step)\<rparr>
     in and_then (store_do ''finish scenario step'' (update_scenario_step step')) (\<lambda>_.
        ret step'))))))"

definition finish_run_record ::
  "recorder_env \<Rightarrow> string \<Rightarrow> string \<Rightarrow> string option \<Rightarrow> scenario_run recording" where
  "finish_run_record env run_id status summary_path =
     and_then (ensure_present ''run id'' run_id) (\<lambda>_.
     and_then (ensure_present ''run status'' status) (\<lambda>_.
     and_then (find_run run_id) (\<lambda>run.
     and_then (ensure (run_active run) (finished_message ''run'' run_id (sr_status run))) (\<lambda>_.
     and_then (gets (\<lambda>s. list_scenario_steps run_id (rs_db s))) (\<lambda>steps.
     and_then (ensure (list_all (\<lambda>s. st_finished_at s \<noteq> None) steps)
        (''scenario run '' @ run_id @ '' still has active steps'')) (\<lambda>_.
     and_then (timestamp_now env) (\<lambda>now.
     let run' = run\<lparr>sr_finished_at := Some now, sr_status := trim status,
                    sr_summary_path := or_else (trimmed_opt summary_path) (sr_summary_path run)\<rparr>
     in and_then (store_do ''finish scenario run'' (\<lambda>db. Inr (update_scenario_run run' db))) (\<lambda>_.
        ret run'))))))))"

text \<open>\<open>StepRecorder::assert_eq\<close>, \<open>assert_true\<close> and \<open>latency\<close>.\<close>

definition assert_eq :: "recorder_env \<Rightarrow> scenario_step \<Rightarrow> string \<Rightarrow> string \<Rightarrow> string \<Rightarrow> bool recording" where
  "assert_eq env step name expected actual =
     and_then (ensure_present ''assertion name'' name) (\<lambda>_.
     let passed = (expected = actual)
     in and_then (create_assertion_record env (st_run_id step) (Some (st_id step)) name (Some expected)
            (Some actual) (if passed then ''passed'' else ''failed'')
            (if passed then None else Some ''mismatch'') None) (\<lambda>_.
        ret passed))"

definition assert_true :: "recorder_env \<Rightarrow> scenario_step \<Rightarrow> string \<Rightarrow> bool \<Rightarrow> bool recording" where
  "assert_true env step name value =
     and_then (ensure_present ''assertion name'' name) (\<lambda>_.
     and_then (create_assertion_record env (st_run_id step) (Some (st_id step)) name (Some ''true'')
            (Some (if value then ''true'' else ''false'')) (if value then ''passed'' else ''failed'')
            (if value then None else Some ''false'') None) (\<lambda>_.
     ret value))"

definition step_latency :: "recorder_env \<Rightarrow> scenario_step \<Rightarrow> string \<Rightarrow> 64 word \<Rightarrow> unit recording" where
  "step_latency env step metric ms =
     and_then (create_latency_record env (st_run_id step) (Some (st_id step)) metric ms (Some ''wall_clock''))
       (\<lambda>_. ret ())"

section \<open>The environment fingerprint\<close>

definition command_output :: "recorder_env \<Rightarrow> string \<Rightarrow> string list \<Rightarrow> string option \<Rightarrow> string option" where
  "command_output env program args dir =
     (case rv_command env program args dir of
        None \<Rightarrow> None
      | Some (success, stdout, stderr) \<Rightarrow>
          (if \<not> success then None
           else if trim stdout \<noteq> [] then Some (trim stdout)
           else if trim stderr = [] then None
           else Some (trim stderr)))"

definition git_output :: "recorder_env \<Rightarrow> string list \<Rightarrow> string option" where
  "git_output env args =
     (case rv_workspace_root env of None \<Rightarrow> None | Some dir \<Rightarrow> command_output env ''git'' args (Some dir))"

definition extract_version_token :: "string \<Rightarrow> string option" where
  "extract_version_token txt =
     List.find (\<lambda>token. CHR ''.'' \<in> set token \<and> list_ex is_ascii_digit token) (split_whitespace txt)"

definition first_installed_browser_details :: "recorder_env \<Rightarrow> string option \<times> string option" where
  "first_installed_browser_details env =
     (case List.find ii_installed (rv_installs env) of
        None \<Rightarrow> (None, None)
      | Some install \<Rightarrow>
          (Some (browser_channel_str (ii_channel install)),
           map_option (\<lambda>txt. unwrap_or txt (extract_version_token txt))
             (command_output env (ii_binary_path install) [''--version''] None)))"

definition env_nonblank :: "recorder_env \<Rightarrow> string \<Rightarrow> string option" where
  "env_nonblank env var =
     (case rv_env env var of None \<Rightarrow> None | Some v \<Rightarrow> (if trim v = [] then None else Some v))"

definition capture_environment_fingerprint ::
  "recorder_env \<Rightarrow> string \<Rightarrow> environment_fingerprint recording" where
  "capture_environment_fingerprint env run_id =
     (let platform = (case command_output env ''uname'' [''-s''] None of
            Some v \<Rightarrow> to_ascii_lowercase v | None \<Rightarrow> rv_os env);
          arch = unwrap_or (rv_arch env) (command_output env ''uname'' [''-m''] None);
          os_version = or_else (command_output env ''uname'' [''-s'', ''-r''] None)
            (command_output env ''uname'' [''-r''] None);
          rust_version = or_else (env_nonblank env ''RUST_VERSION'')
            (command_output env ''rustc'' [''--version''] None);
          cargo_version = or_else (env_nonblank env ''CARGO_VERSION'')
            (command_output env ''cargo'' [''--version''] None);
          (chrome_channel, chrome_version) = first_installed_browser_details env
      in and_then (next_record_id env IdEnvironmentFingerprint (run_id @ ''_environment'')) (\<lambda>i.
         ret \<lparr>ef_id = i, ef_run_id = run_id, ef_platform = platform, ef_arch = arch,
              ef_os_version = os_version, ef_rust_version = rust_version,
              ef_cargo_version = cargo_version, ef_chrome_channel = chrome_channel,
              ef_chrome_version = chrome_version\<rparr>))"

definition new_recorder ::
  "recorder_env \<Rightarrow> string \<Rightarrow> string \<Rightarrow> string \<Rightarrow> string \<Rightarrow> scenario_run recording" where
  "new_recorder env name family version surface =
     and_then (ensure_present ''scenario name'' name) (\<lambda>_.
     and_then (ensure_present ''scenario family'' family) (\<lambda>_.
     and_then (ensure_present ''scenario version'' version) (\<lambda>_.
     and_then (ensure_present ''tool surface'' surface) (\<lambda>_.
     and_then (next_record_id env IdScenarioRun
        (family @ ''_'' @ name @ ''_'' @ version @ ''_'' @ show_nat (rv_pid env))) (\<lambda>run_id.
     and_then (capture_environment_fingerprint env run_id) (\<lambda>fingerprint.
     and_then (timestamp_now env) (\<lambda>now.
     let run = \<lparr>sr_id = run_id, sr_scenario_name = trim name, sr_scenario_family = trim family,
           sr_scenario_version = trim version, sr_tool_surface = trim surface,
           sr_runtime_root = Some (rv_root_dir env),
           sr_commit_sha = git_output env [''rev-parse'', ''HEAD''],
           sr_branch_name = git_output env [''rev-parse'', ''--abbrev-ref'', ''HEAD''],
           sr_platform = ef_platform fingerprint, sr_started_at = now, sr_finished_at = None,
           sr_status = ''running'', sr_summary_path = None\<rparr>
     in and_then (store_do ''insert initial scenario run'' (insert_scenario_run run)) (\<lambda>_.
        and_then (store_do ''insert scenario environment fingerprint''
           (insert_environment_fingerprint fingerprint)) (\<lambda>_.
        ret run)))))))))"

section \<open>Preconditions and effects of the steps\<close>

definition evidence_inv :: "recorder_state \<Rightarrow> bool" where
  "evidence_inv s \<longleftrightarrow> scenario_inv (rs_db s)"

text \<open>A precondition that speaks of the database only.\<close>

definition on_db :: "(recorder_state \<Rightarrow> bool) \<Rightarrow> bool" where
  "on_db P \<longleftrightarrow> (\<forall>s t. rs_db s = rs_db t \<longrightarrow> P s \<longrightarrow> P t) \<and> (\<forall>s. P s \<longrightarrow> evidence_inv s)"

named_theorems recorder_rules

lemma on_db_inv [recorder_rules]: "on_db evidence_inv"
  by (simp add: on_db_def evidence_inv_def)

lemma on_db_conj [recorder_rules]: "on_db P \<Longrightarrow> on_db (\<lambda>s. P s \<and> Q (rs_db s))"
  unfolding on_db_def by (intro conjI allI impI) (elim conjE, metis)+

lemma hoare_present [recorder_rules]:
  "on_db P \<Longrightarrow> hoare P (ensure_present label v) (\<lambda>_. P) (\<lambda>_. evidence_inv)"
  by (auto simp: hoare_def ensure_present_def ensure_def on_db_def)

lemma hoare_ensure [recorder_rules]:
  "on_db P \<Longrightarrow> hoare P (ensure b e) (\<lambda>_ s. P s \<and> b) (\<lambda>_. evidence_inv)"
  by (auto simp: hoare_def ensure_def on_db_def)

lemmas get_row = sql_get_Some

lemma ok_or_Inr: "ok_or e v = Inr r \<longleftrightarrow> v = Some r"
  by (cases v) simp_all

lemma map_ok_Inr: "map_ok f v = Inr r \<longleftrightarrow> (\<exists>a. v = Inr a \<and> r = f a)"
  by (cases v) auto

lemma hoare_find_run [recorder_rules]:
  "on_db P \<Longrightarrow> hoare P (find_run i) (\<lambda>r s. P s \<and> (r \<in> set (sd_runs (rs_db s)) \<and> sr_id r = i)) (\<lambda>_. evidence_inv)"
  by (rule hoareI)
    (auto simp: find_run_def and_then_def gets_def lift_res_def on_db_def get_scenario_run_def
      ok_or_Inr dest: get_row)

lemma hoare_find_step [recorder_rules]:
  "on_db P \<Longrightarrow> hoare P (find_step i) (\<lambda>r s. P s \<and> (r \<in> set (sd_steps (rs_db s)) \<and> st_id r = i)) (\<lambda>_. evidence_inv)"
  by (rule hoareI)
    (auto simp: find_step_def and_then_def gets_def lift_res_def on_db_def get_scenario_step_def
      ok_or_Inr dest: get_row)

lemma on_dbD: "on_db P \<Longrightarrow> P s \<Longrightarrow> rs_db t = rs_db s \<Longrightarrow> P t"
  unfolding on_db_def by metis

lemma hoare_timestamp [recorder_rules]:
  "on_db P \<Longrightarrow> hoare P (timestamp_now env) (\<lambda>_. P) (\<lambda>_. evidence_inv)"
  by (rule hoareI) (auto simp: timestamp_now_def elim: on_dbD)

lemma hoare_next_id [recorder_rules]:
  "on_db P \<Longrightarrow> hoare P (next_record_id env k seed) (\<lambda>i s. P s \<and> trim i = i) (\<lambda>_. evidence_inv)"
  unfolding hoare_def next_record_id_def on_db_def by simp

lemma hoare_store_call:
  assumes "on_db P" and "\<And>s a db. P s \<Longrightarrow> f (rs_db s) = Inr (a, db) \<Longrightarrow> scenario_inv db"
  shows "hoare P (store_call ctx f) (\<lambda>_. evidence_inv) (\<lambda>_. evidence_inv)"
proof (rule hoareI)
  show "evidence_inv s'" if "P s" "store_call ctx f s = (Inr a, s')" for s a s'
    using that assms(2) by (auto simp: store_call_def evidence_inv_def split: sum.splits prod.splits)
  show "evidence_inv s'" if "P s" "store_call ctx f s = (Inl e, s')" for s e s'
    using that assms(1) by (auto simp: store_call_def on_db_def split: sum.splits prod.splits)
qed

lemma hoare_store_do:
  assumes "on_db P" and "\<And>s db. P s \<Longrightarrow> f (rs_db s) = Inr db \<Longrightarrow> scenario_inv db"
  shows "hoare P (store_do ctx f) (\<lambda>_. evidence_inv) (\<lambda>_. evidence_inv)"
  unfolding store_do_def
  by (rule hoare_store_call [OF assms(1)])
    (use assms(2) in \<open>auto simp: map_ok_Inr\<close>)

lemma hoare_end [recorder_rules]: "hoare evidence_inv (ret a) (\<lambda>_. evidence_inv) (\<lambda>_. evidence_inv)"
  by (rule hoare_ret)

lemma hoare_store_then:
  assumes "on_db P" and "hoare evidence_inv m Q (\<lambda>_. evidence_inv)"
    and "\<And>s db. P s \<Longrightarrow> f (rs_db s) = Inr db \<Longrightarrow> scenario_inv db"
  shows "hoare P (and_then (store_do ctx f) (\<lambda>_. m)) Q (\<lambda>_. evidence_inv)"
  by (rule hoare_and_then [OF hoare_store_do [OF assms(1,3)] assms(2)])

definition active_run :: "string \<Rightarrow> scenario_db \<Rightarrow> bool" where
  "active_run i db \<longleftrightarrow> (\<exists>r\<in>set (sd_runs db). sr_id r = i \<and> run_active r)"

definition owned_step :: "string option \<Rightarrow> string \<Rightarrow> scenario_db \<Rightarrow> bool" where
  "owned_step step_id run_id db \<longleftrightarrow>
     (\<forall>i. step_id = Some i \<longrightarrow> (\<exists>s\<in>set (sd_steps db). st_id s = i \<and> st_run_id s = run_id))"

lemma hoare_weak:
  "hoare P m Q' (\<lambda>_. evidence_inv) \<Longrightarrow> (\<And>a s. Q' a s \<Longrightarrow> Q a s) \<Longrightarrow> hoare P m Q (\<lambda>_. evidence_inv)"
  by (erule hoare_post)

lemma hoare_run_active [recorder_rules]:
  assumes "on_db P"
  shows "hoare P (ensure_run_active i) (\<lambda>_ s. P s \<and> active_run i (rs_db s)) (\<lambda>_. evidence_inv)"
  unfolding ensure_run_active_def
  by (rule hoare_and_then [OF hoare_find_run [OF assms]], rule hoare_weak, rule hoare_ensure, rule on_db_conj, rule assms)
    (auto simp: active_run_def)

lemma hoare_guard_step [recorder_rules]:
  assumes "on_db P"
  shows "hoare P (guard_step step_id run_id) (\<lambda>_ s. P s \<and> owned_step step_id run_id (rs_db s)) (\<lambda>_. evidence_inv)"
proof (cases step_id)
  case None
  then show ?thesis by (auto simp: guard_step_def owned_step_def intro: hoare_ret)
next
  case (Some i)
  have belongs: "hoare P (ensure_step_belongs_to_run i run_id)
      (\<lambda>_ s. P s \<and> owned_step (Some i) run_id (rs_db s)) (\<lambda>_. evidence_inv)"
    unfolding ensure_step_belongs_to_run_def
    by (rule hoare_and_then [OF hoare_find_step [OF assms]], rule hoare_weak, rule hoare_ensure, rule on_db_conj, rule assms)
      (auto simp: owned_step_def)
  have kept: "hoare Q (ensure_step_active i) (\<lambda>_. Q) (\<lambda>_. evidence_inv)" if "on_db Q" for Q
    unfolding ensure_step_active_def
    by (rule hoare_and_then [OF hoare_find_step [OF that]], rule hoare_weak, rule hoare_ensure, rule on_db_conj, rule that)
      simp
  show ?thesis unfolding Some guard_step_def option.case
    by (rule hoare_and_then [OF belongs]) (rule kept [OF on_db_conj [OF assms]])
qed

lemma active_run_trim:
  assumes "scenario_inv db" and "active_run run_id db"
  shows "trim run_id = run_id" "run_id \<in> sr_id ` set (sd_runs db)"
  using assms scenario_invD(3) [OF assms(1)] by (auto simp: active_run_def)

lemma owned_evidence:
  assumes inv: "scenario_inv db" and run: "active_run run_id db" and own: "owned_step step_id run_id db"
  shows "evidence_belongs db (trim run_id) (map_option trim step_id)"
  using active_run_trim [OF inv run] own scenario_invD(4) [OF inv]
  by (cases step_id) (fastforce simp: evidence_belongs_def owned_step_def)+

section \<open>Every operation keeps the invariant\<close>

lemma keeps_record_step: "hoare evidence_inv (record_step env r n k c) (\<lambda>_. evidence_inv) (\<lambda>_. evidence_inv)"
proof -
  have step: "scenario_inv db'"
    if "evidence_inv s \<and> active_run r (rs_db s)" "trim i = i"
      "create_scenario_step i (trim r) n' k' c' t (rs_db s) = Inr (a, db')" for s i n' k' c' t a db'
  proof -
    have inv: "scenario_inv (rs_db s)" and act: "active_run r (rs_db s)"
      using that(1) by (simp_all add: evidence_inv_def)
    obtain run where "run \<in> set (sd_runs (rs_db s))" "sr_id run = r" "sr_finished_at run = None"
      using act unfolding active_run_def run_active_def by blast
    then show ?thesis
      using scenario_inv_create_step [OF inv that(3) that(2)] active_run_trim [OF inv act] by auto
  qed
  show ?thesis unfolding record_step_def
    by (rule hoare_and_then recorder_rules hoare_store_call)+ (elim conjE, rule step, (rule conjI | assumption)+)
qed

lemma keeps_create_assertion:
  "hoare evidence_inv (create_assertion_record env r st n ex ac status fc notes)
     (\<lambda>_. evidence_inv) (\<lambda>_. evidence_inv)"
proof -
  have step: "scenario_inv db'"
    if "evidence_inv s" "active_run r (rs_db s)" "owned_step st r (rs_db s)"
      "insert_scenario_assertion a (rs_db s) = Inr db'" "sa_run_id a = trim r" "sa_step_id a = map_option trim st"
    for s a db'
    using scenario_inv_insert_assertion [OF _ that(4)] owned_evidence [OF _ that(2,3)] that(1,5,6)
    by (simp add: evidence_inv_def)
  show ?thesis unfolding create_assertion_record_def Let_def
    by (rule hoare_store_then hoare_and_then recorder_rules)+ (elim conjE, rule step, (assumption | simp)+)
qed

lemma keeps_create_latency:
  "hoare evidence_inv (create_latency_record env r st m v cm) (\<lambda>_. evidence_inv) (\<lambda>_. evidence_inv)"
proof -
  have step: "scenario_inv db'"
    if "evidence_inv s" "active_run r (rs_db s)" "owned_step st r (rs_db s)"
      "insert_latency_sample l (rs_db s) = Inr db'" "ls_run_id l = trim r" "ls_step_id l = map_option trim st"
    for s l db'
    using scenario_inv_insert_sample [OF _ that(4)] owned_evidence [OF _ that(2,3)] that(1,5,6)
    by (simp add: evidence_inv_def)
  show ?thesis unfolding create_latency_record_def Let_def
    by (rule hoare_store_then hoare_and_then recorder_rules)+ (elim conjE, rule step, (assumption | simp)+)
qed

lemma keeps_finish_step:
  "hoare evidence_inv (finish_step_record env i status ec) (\<lambda>_. evidence_inv) (\<lambda>_. evidence_inv)"
proof -
  have step: "scenario_inv db'"
    if "evidence_inv s" "old \<in> set (sd_steps (rs_db s))"
      "update_scenario_step (old\<lparr>st_finished_at := Some t, st_status := x, st_error_code := y\<rparr>) (rs_db s) = Inr db'"
    for s old t x y db'
    using that(1) by (intro scenario_inv_update_step [OF _ that(3,2)]) (simp_all add: evidence_inv_def)
  show ?thesis unfolding finish_step_record_def Let_def
    by (rule hoare_store_then hoare_and_then recorder_rules)+ (elim conjE, rule step, (assumption | simp)+)
qed

lemma hoare_gets_db [recorder_rules]:
  "on_db P \<Longrightarrow> hoare P (gets (\<lambda>s. f (rs_db s))) (\<lambda>a s. P s \<and> a = f (rs_db s)) (\<lambda>_. evidence_inv)"
  by (rule hoare_gets) simp

lemma set_list_scenario_steps: "set (list_scenario_steps i db) = set (steps_of i db)"
  by (simp add: list_scenario_steps_def steps_of_def)

lemma keeps_finish_run:
  "hoare evidence_inv (finish_run_record env i status sp) (\<lambda>_. evidence_inv) (\<lambda>_. evidence_inv)"
proof -
  have step: "scenario_inv db'"
    if "evidence_inv s" "old \<in> set (sd_runs (rs_db s))" "sr_id old = i"
      "list_all (\<lambda>x. st_finished_at x \<noteq> None) (list_scenario_steps i (rs_db s))"
      "db' = update_scenario_run (old\<lparr>sr_finished_at := Some t, sr_status := x, sr_summary_path := y\<rparr>) (rs_db s)"
    for s old t x y db'
    unfolding that(5) using that(1-4)
    by (intro scenario_inv_update_run [OF _ that(2)])
      (simp_all add: evidence_inv_def list_all_iff set_list_scenario_steps)
  show ?thesis unfolding finish_run_record_def Let_def
    by (rule hoare_store_then hoare_and_then recorder_rules)+ (elim conjE, rule step, (assumption | simp)+)
qed

lemma keeps_assert_eq: "hoare evidence_inv (assert_eq env step n ex ac) (\<lambda>_. evidence_inv) (\<lambda>_. evidence_inv)"
  unfolding assert_eq_def Let_def by (rule hoare_and_then recorder_rules keeps_create_assertion)+

lemma keeps_assert_true: "hoare evidence_inv (assert_true env step n v) (\<lambda>_. evidence_inv) (\<lambda>_. evidence_inv)"
  unfolding assert_true_def Let_def by (rule hoare_and_then recorder_rules keeps_create_assertion)+

lemma keeps_step_latency: "hoare evidence_inv (step_latency env step m v) (\<lambda>_. evidence_inv) (\<lambda>_. evidence_inv)"
  unfolding step_latency_def by (rule hoare_and_then recorder_rules keeps_create_latency)+

lemma hoare_fingerprint [recorder_rules]:
  assumes "on_db P"
  shows "hoare P (capture_environment_fingerprint env i) (\<lambda>_. P) (\<lambda>_. evidence_inv)"
proof -
  obtain f where "capture_environment_fingerprint env i =
      and_then (next_record_id env IdEnvironmentFingerprint (i @ ''_environment'')) (\<lambda>j. ret (f j))"
    unfolding capture_environment_fingerprint_def Let_def by (simp add: case_prod_beta)
  then show ?thesis
    by (simp only:) (rule hoare_and_then [OF hoare_next_id [OF assms] hoare_ret], simp)
qed

lemma keeps_new_recorder: "hoare evidence_inv (new_recorder env n f v t) (\<lambda>_. evidence_inv) (\<lambda>_. evidence_inv)"
  unfolding new_recorder_def Let_def
  by (rule hoare_store_then hoare_and_then recorder_rules)+
    (auto simp: evidence_inv_def elim!: scenario_inv_insert_run [rotated] scenario_inv_fingerprint [rotated])

section \<open>Properties\<close>

lemmas recorder_operations = keeps_new_recorder keeps_record_step keeps_create_assertion keeps_create_latency
  keeps_finish_step keeps_finish_run keeps_assert_eq keeps_assert_true keeps_step_latency

text \<open>Claim C18. Whatever its arguments and whatever it reads from its environment, every
  operation of the recorder leaves an evidence database in which run and step ids are unique,
  the steps of each run are numbered 1, 2, 3 in the order they were created, a finished run has
  only finished steps, and every assertion and latency sample belongs to an existing run and to
  a step of that same run; the error paths included.\<close>

theorem recorder_keeps_evidence_inv:
  "preserves evidence_inv (new_recorder env n f v t) \<and>
   preserves evidence_inv (record_step env r n k c) \<and>
   preserves evidence_inv (create_assertion_record env r st n ex ac status fc notes) \<and>
   preserves evidence_inv (create_latency_record env r st m ms cm) \<and>
   preserves evidence_inv (finish_step_record env i status ec) \<and>
   preserves evidence_inv (finish_run_record env r status sp) \<and>
   preserves evidence_inv (assert_eq env step n x y) \<and>
   preserves evidence_inv (assert_true env step n b) \<and>
   preserves evidence_inv (step_latency env step m ms)"
  unfolding hoare_preserves by (intro conjI recorder_operations)

text \<open>A finished run: the row found by its id is not active.\<close>

definition sealed :: "string \<Rightarrow> recorder_state \<Rightarrow> bool" where
  "sealed r s \<longleftrightarrow> list_all (\<lambda>run. sr_id run = r \<longrightarrow> \<not> run_active run) (sd_runs (rs_db s))"

definition refuses :: "(recorder_state \<Rightarrow> bool) \<Rightarrow> 'a recording \<Rightarrow> bool" where
  "refuses P m \<longleftrightarrow> hoare P m (\<lambda>_ _. False) (\<lambda>_ s. P s)"

lemma refuses_then:
  assumes "hoare P m (\<lambda>_. P) (\<lambda>_. P)" and "\<And>a. refuses P (f a)"
  shows "refuses P (and_then m f)"
  using assms unfolding refuses_def by (rule hoare_and_then)

lemma refuses_now: "refuses P m \<Longrightarrow> refuses P (and_then m f)"
  unfolding refuses_def by (rule hoare_and_then) (assumption, simp add: hoare_def)

lemma pure_present: "hoare P (ensure_present label v) (\<lambda>_. P) (\<lambda>_. P)"
  by (simp add: hoare_def ensure_present_def ensure_def)

lemma pure_ensure: "hoare P (ensure b e) (\<lambda>_. P) (\<lambda>_. P)"
  by (simp add: hoare_def ensure_def)

lemma refuses_sealed: "refuses (\<lambda>s. sealed r s \<and> rs_db s = db) (ensure_run_active r)"
  unfolding refuses_def
  by (rule hoareI)
    (auto simp: ensure_run_active_def find_run_def and_then_def gets_def lift_res_def ensure_def
      get_scenario_run_def ok_or_Inr sealed_def list_all_iff dest!: get_row split: sum.splits if_splits)

lemma refuses_finish:
  "refuses (\<lambda>s. sealed r s \<and> rs_db s = db)
     (and_then (find_run r) (\<lambda>run. and_then (ensure (run_active run) (e run)) (k run)))"
  unfolding refuses_def
  by (rule hoareI)
    (auto simp: find_run_def and_then_def gets_def lift_res_def ensure_def
      get_scenario_run_def ok_or_Inr sealed_def list_all_iff dest!: get_row split: sum.splits if_splits)

lemma refuses_run:
  assumes "sealed r s" and "refuses (\<lambda>t. sealed r t \<and> rs_db t = rs_db s) m"
  shows "\<exists>e s'. m s = (Inl e, s') \<and> rs_db s' = rs_db s"
  using assms unfolding refuses_def hoare_def by (cases "m s", cases "fst (m s)") auto

lemmas refuses_rules = refuses_then [OF pure_present] refuses_then [OF pure_ensure]
  refuses_finish refuses_now [OF refuses_sealed]

text \<open>Claim C20. A run that is no longer running is sealed: recording a step, an assertion or a
  latency sample under it, or finishing it a second time, is an error and leaves the database
  exactly as it was.\<close>

theorem finished_run_sealed:
  assumes "sealed r s"
  shows "(\<exists>e s'. record_step env r n k c s = (Inl e, s') \<and> rs_db s' = rs_db s) \<and>
    (\<exists>e s'. create_assertion_record env r st n ex ac status fc notes s = (Inl e, s') \<and> rs_db s' = rs_db s) \<and>
    (\<exists>e s'. create_latency_record env r st m ms cm s = (Inl e, s') \<and> rs_db s' = rs_db s) \<and>
    (\<exists>e s'. finish_run_record env r status sp s = (Inl e, s') \<and> rs_db s' = rs_db s)"
  unfolding record_step_def create_assertion_record_def create_latency_record_def finish_run_record_def
  by (intro conjI; rule refuses_run [OF assms], (rule refuses_rules)+)

text \<open>A recorder in a bare environment, on an empty database.\<close>

definition bare_env :: recorder_env where
  "bare_env = \<lparr>rv_clock = show_nat, rv_nanos = show_nat, rv_pid = 7, rv_command = (\<lambda>_ _ _. None),
     rv_env = (\<lambda>_. None), rv_installs = [], rv_os = ''linux'', rv_arch = ''x86_64'',
     rv_workspace_root = None, rv_root_dir = ''/rt''\<rparr>"

definition bare_run :: "string \<Rightarrow> string option \<Rightarrow> string \<Rightarrow> scenario_run" where
  "bare_run i finished status = \<lparr>sr_id = i, sr_scenario_name = ''n'', sr_scenario_family = ''f'',
     sr_scenario_version = ''v'', sr_tool_surface = ''t'', sr_runtime_root = None, sr_commit_sha = None,
     sr_branch_name = None, sr_platform = ''linux'', sr_started_at = ''0'', sr_finished_at = finished,
     sr_status = status, sr_summary_path = None\<rparr>"

definition bare_state :: "scenario_run list \<Rightarrow> recorder_state" where
  "bare_state runs =
     \<lparr>rs_db = (empty_scenario_db True)\<lparr>sd_runs := runs\<rparr>, rs_tick = 0, rs_counter = 0\<rparr>"

theorem finished_run_sealed_witness:
  "(\<exists>e s'. record_step bare_env ''r'' ''n'' ''k'' None (bare_state [bare_run ''r'' (Some ''1'') ''passed'']) = (Inl e, s') \<and>
      rs_db s' = rs_db (bare_state [bare_run ''r'' (Some ''1'') ''passed'']))"
proof -
  have "sealed ''r'' (bare_state [bare_run ''r'' (Some ''1'') ''passed''])"
    by (simp add: sealed_def bare_state_def bare_run_def run_active_def)
  from finished_run_sealed [OF this] show ?thesis by blast
qed

lemma finish_run_unfold:
  "finish_run_record env r status sp s = (Inr run', s') \<longleftrightarrow>
     trim r \<noteq> [] \<and> trim status \<noteq> [] \<and>
     (\<exists>run. get_scenario_run r (rs_db s) = Some run \<and> run_active run \<and>
       list_all (\<lambda>s. st_finished_at s \<noteq> None) (list_scenario_steps r (rs_db s)) \<and>
       run' = run\<lparr>sr_finished_at := Some (rv_clock env (rs_tick s)), sr_status := trim status,
                  sr_summary_path := or_else (trimmed_opt sp) (sr_summary_path run)\<rparr> \<and>
       s' = s\<lparr>rs_tick := Suc (rs_tick s), rs_db := update_scenario_run run' (rs_db s)\<rparr>)"
  by (cases "get_scenario_run r (rs_db s)")
    (auto simp: finish_run_record_def ensure_present_def find_run_def and_then_def gets_def lift_res_def
      ensure_def timestamp_now_def store_do_def store_call_def ret_def Let_def)

lemma get_run_active:
  assumes "evidence_inv s" and "active_run r (rs_db s)"
  obtains run where "get_scenario_run r (rs_db s) = Some run" "run_active run" "sr_id run = r"
    "run \<in> set (sd_runs (rs_db s))"
proof -
  have "unique_by sr_id (sd_runs (rs_db s))" using scenario_invD(1) assms(1) by (simp add: evidence_inv_def)
  moreover obtain run where "run \<in> set (sd_runs (rs_db s))" "run_active run" "sr_id run = r"
    using assms(2) unfolding active_run_def by blast
  ultimately show thesis using sql_get_key that unfolding get_scenario_run_def by metis
qed

lemma finish_run_active_steps:
  assumes "get_scenario_run r (rs_db s) = Some run" and "run_active run"
    and "trim r \<noteq> []" and "trim status \<noteq> []"
    and "\<not> list_all (\<lambda>x. st_finished_at x \<noteq> None) (list_scenario_steps r (rs_db s))"
  shows "finish_run_record env r status sp s = (Inl (''scenario run '' @ r @ '' still has active steps''), s)"
  using assms
  by (simp add: finish_run_record_def ensure_present_def find_run_def and_then_def gets_def lift_res_def
      ensure_def)

lemma sealed_after_finish:
  assumes "sr_id new = r" and "sr_finished_at new \<noteq> None" and "rs_db s' = update_scenario_run new db"
  shows "sealed r s'"
  using assms by (auto simp: sealed_def list_all_iff update_scenario_run_def sql_update_def run_active_def)

lemma get_other_run:
  "i \<noteq> sr_id new \<Longrightarrow> get_scenario_run i (update_scenario_run new db) = get_scenario_run i db"
  unfolding get_scenario_run_def update_scenario_run_def sql_update_def sql_get_def
  by (simp add: find_map_upd option.map_ident)

text \<open>Claim C19. Finishing an active run: while one of its steps is unfinished the call is refused
  and nothing changes; once all are finished it succeeds, stamps the run with the clock, seals
  it, and touches no other run and no step, assertion or sample.\<close>

theorem finish_run_waits_for_steps:
  assumes "evidence_inv s" and "active_run r (rs_db s)" and "trim r \<noteq> []" and "trim status \<noteq> []"
  shows "if list_ex (\<lambda>x. st_run_id x = r \<and> st_finished_at x = None) (sd_steps (rs_db s))
    then finish_run_record env r status sp s = (Inl (''scenario run '' @ r @ '' still has active steps''), s)
    else (\<exists>run' s'. finish_run_record env r status sp s = (Inr run', s') \<and> sealed r s' \<and>
       sr_finished_at run' = Some (rv_clock env (rs_tick s)) \<and> sr_status run' = trim status \<and>
       get_scenario_run r (rs_db s') = Some run' \<and>
       (\<forall>i. i = r \<or> get_scenario_run i (rs_db s') = get_scenario_run i (rs_db s)) \<and>
       rs_db s' = (rs_db s)\<lparr>sd_runs := sd_runs (rs_db s')\<rparr>)"
proof -
  obtain run where run: "get_scenario_run r (rs_db s) = Some run" "run_active run" "sr_id run = r"
    "run \<in> set (sd_runs (rs_db s))"
    using get_run_active [OF assms(1,2)] by blast
  have open_steps: "list_ex (\<lambda>x. st_run_id x = r \<and> st_finished_at x = None) (sd_steps (rs_db s)) \<longleftrightarrow>
      \<not> list_all (\<lambda>x. st_finished_at x \<noteq> None) (list_scenario_steps r (rs_db s))"
    by (auto simp: list_ex_iff list_all_iff set_list_scenario_steps steps_of_def)
  let ?new = "run\<lparr>sr_finished_at := Some (rv_clock env (rs_tick s)), sr_status := trim status,
    sr_summary_path := or_else (trimmed_opt sp) (sr_summary_path run)\<rparr>"
  let ?s' = "s\<lparr>rs_tick := Suc (rs_tick s), rs_db := update_scenario_run ?new (rs_db s)\<rparr>"
  show ?thesis
  proof (cases "list_ex (\<lambda>x. st_run_id x = r \<and> st_finished_at x = None) (sd_steps (rs_db s))")
    case True
    then show ?thesis using finish_run_active_steps [OF run(1,2) assms(3,4)] open_steps by simp
  next
    case False
    then have ok: "finish_run_record env r status sp s = (Inr ?new, ?s')"
      unfolding finish_run_unfold using run open_steps assms(3,4) by simp
    have sealed: "sealed r ?s'" by (rule sealed_after_finish [of ?new]) (simp_all add: run(3))
    have uniq: "unique_by sr_id (sd_runs (update_scenario_run ?new (rs_db s)))"
      using unique_by_update_row [of sr_id "sd_runs (rs_db s)" ?new] scenario_invD(1) assms(1)
      by (simp add: update_scenario_run_def evidence_inv_def)
    have got: "get_scenario_run r (update_scenario_run ?new (rs_db s)) = Some ?new"
      unfolding get_scenario_run_def
      by (rule sql_get_key [OF uniq])
        (use run(3,4) in \<open>auto simp: update_scenario_run_def sql_update_def image_iff\<close>)
    show ?thesis using False ok sealed got get_other_run [of _ ?new "rs_db s"] run(3)
      by (auto simp: update_scenario_run_def)
  qed
qed

theorem finish_run_waits_for_steps_witness:
  "\<exists>run' s'. finish_run_record bare_env ''r'' ''passed'' None (bare_state [bare_run ''r'' None ''running'']) = (Inr run', s') \<and>
     sealed ''r'' s'"
proof -
  let ?s = "bare_state [bare_run ''r'' None ''running'']"
  have trim_r: "trim ''r'' = ''r''" by code_simp
  have "evidence_inv ?s"
    by (simp add: evidence_inv_def scenario_inv_def bare_state_def bare_run_def empty_scenario_db_def
        steps_of_def numbered_def unique_by_def trim_r)
  moreover have "active_run ''r'' (rs_db ?s)"
    by (simp add: active_run_def bare_state_def bare_run_def run_active_def)
  moreover have "trim ''r'' \<noteq> []" "trim ''passed'' \<noteq> []" by code_simp+
  moreover have "\<not> list_ex (\<lambda>x. st_run_id x = ''r'' \<and> st_finished_at x = None) (sd_steps (rs_db ?s))"
    by (simp add: bare_state_def empty_scenario_db_def)
  ultimately show ?thesis using finish_run_waits_for_steps [of ?s "''r''" "''passed''" bare_env None] by auto
qed

text \<open>What an assertion record holds: nothing before the insert touches the database.\<close>

definition db_is :: "scenario_db \<Rightarrow> recorder_state \<Rightarrow> bool" where
  "db_is db s \<longleftrightarrow> rs_db s = db"

lemma pure_gets: "hoare P (gets f) (\<lambda>_. P) (\<lambda>_ _. True)"
  by (simp add: hoare_def gets_def)

lemma pure_lift: "hoare P (lift_res r) (\<lambda>_. P) (\<lambda>_ _. True)"
  by (rule hoareI) (auto simp: lift_res_def split: sum.splits)

lemma pure_ensures: "hoare P (ensure b e) (\<lambda>_. P) (\<lambda>_ _. True)"
  by (simp add: hoare_def ensure_def)

lemma pure_run_active: "hoare P (ensure_run_active r) (\<lambda>_. P) (\<lambda>_ _. True)"
  unfolding ensure_run_active_def find_run_def
  by (rule hoare_and_then pure_gets pure_lift pure_ensures)+

lemma pure_guard_step: "hoare P (guard_step st r) (\<lambda>_. P) (\<lambda>_ _. True)"
  unfolding guard_step_def ensure_step_belongs_to_run_def ensure_step_active_def find_step_def
  by (cases st) (simp_all, (rule hoare_and_then hoare_ret pure_gets pure_lift pure_ensures | assumption)+)

lemma pure_next_id: "hoare (db_is db) (next_record_id env k seed) (\<lambda>_. db_is db) (\<lambda>_ _. True)"
  by (simp add: hoare_def next_record_id_def db_is_def)

lemmas pure_rules = pure_next_id pure_run_active pure_guard_step pure_ensures [folded ensure_present_def]

lemma create_assertion_ok:
  "hoare (db_is db) (create_assertion_record env r st n ex ac status fc notes)
     (\<lambda>a s. sd_assertions (rs_db s) = sd_assertions db @ [a] \<and> sa_status a = trim status \<and>
       sa_expected_value a = trimmed_opt ex \<and> sa_actual_value a = trimmed_opt ac \<and>
       sa_failure_category a = trimmed_opt fc \<and> sa_run_id a = trim r \<and> sa_step_id a = map_option trim st)
     (\<lambda>_ _. True)"
proof -
  have ins: "hoare (db_is db) (and_then (store_do ctx (insert_scenario_assertion a)) (\<lambda>_. ret a))
      (\<lambda>b s. b = a \<and> sd_assertions (rs_db s) = sd_assertions db @ [a]) (\<lambda>_ _. True)" for ctx a
    by (rule hoareI)
      (auto simp: db_is_def and_then_def store_do_def store_call_def map_ok_Inr ret_def
        insert_scenario_assertion_def sql_insert_def split: sum.splits if_splits option.splits)
  show ?thesis unfolding create_assertion_record_def Let_def ensure_present_def
    by (rule hoare_and_then pure_next_id pure_run_active pure_guard_step pure_ensures
        hoare_post [OF ins])+ auto
qed

text \<open>A text comparison that is recorded is recorded for what it was: \<open>assert_eq\<close> appends
  exactly one assertion for its step, whose status is passed exactly when the two texts are
  equal, with the trimmed texts as expected and actual values and the category mismatch exactly
  when they differ. Equality is decided before trimming, so texts that differ in surrounding
  white space alone are stored as a mismatch between equal values.\<close>

theorem assert_eq_records_verdict:
  assumes "assert_eq env step n expected actual s = (Inr verdict, s')"
  shows "(verdict \<longleftrightarrow> expected = actual) \<and>
    (\<exists>a. sd_assertions (rs_db s') = sd_assertions (rs_db s) @ [a] \<and>
       sa_run_id a = trim (st_run_id step) \<and> sa_step_id a = Some (trim (st_id step)) \<and>
       sa_status a = (if verdict then ''passed'' else ''failed'') \<and>
       sa_failure_category a = (if verdict then None else Some ''mismatch'') \<and>
       sa_expected_value a = trimmed_opt (Some expected) \<and> sa_actual_value a = trimmed_opt (Some actual))"
proof -
  have words: "trim ''passed'' = ''passed''" "trim ''failed'' = ''failed''" "trim ''mismatch'' = ''mismatch''"
    by code_simp+
  have spec: "hoare (db_is (rs_db s)) (assert_eq env step n expected actual)
      (\<lambda>v s'. (v \<longleftrightarrow> expected = actual) \<and>
        (\<exists>a. sd_assertions (rs_db s') = sd_assertions (rs_db s) @ [a] \<and>
           sa_run_id a = trim (st_run_id step) \<and> sa_step_id a = Some (trim (st_id step)) \<and>
           sa_status a = (if v then ''passed'' else ''failed'') \<and>
           sa_failure_category a = (if v then None else Some ''mismatch'') \<and>
           sa_expected_value a = trimmed_opt (Some expected) \<and>
           sa_actual_value a = trimmed_opt (Some actual))) (\<lambda>_ _. True)"
    unfolding assert_eq_def Let_def ensure_present_def
    by (rule hoare_and_then pure_ensures create_assertion_ok)+
      (rule hoare_ret, cases "expected = actual", auto simp: words trimmed_opt_def)
  show ?thesis by (rule hoare_ok [OF spec _ assms]) (simp add: db_is_def)
qed

definition bare_step :: scenario_step where
  "bare_step = \<lparr>st_id = ''s'', st_run_id = ''r'', st_ordinal = 1, st_step_name = ''n'', st_step_kind = ''k'',
     st_command_line = None, st_started_at = ''0'', st_finished_at = None, st_status = ''running'',
     st_error_code = None\<rparr>"

definition step_state :: recorder_state where
  "step_state = \<lparr>rs_db = (empty_scenario_db True)\<lparr>sd_runs := [bare_run ''r'' None ''running''],
     sd_steps := [bare_step]\<rparr>, rs_tick = 0, rs_counter = 0\<rparr>"

theorem assert_eq_records_verdict_witness:
  "\<exists>s' a. assert_eq bare_env bare_step ''n'' ''a '' ''a'' step_state = (Inr False, s') \<and>
     sd_assertions (rs_db s') = [a] \<and> sa_failure_category a = Some ''mismatch'' \<and>
     sa_expected_value a = Some ''a'' \<and> sa_actual_value a = Some ''a''"
proof -
  have "fst (assert_eq bare_env bare_step ''n'' ''a '' ''a'' step_state) = Inr False" by code_simp
  then obtain s' where run: "assert_eq bare_env bare_step ''n'' ''a '' ''a'' step_state = (Inr False, s')"
    by (metis prod.collapse)
  have none: "sd_assertions (rs_db step_state) = []" by (simp add: step_state_def empty_scenario_db_def)
  have texts: "trimmed_opt (Some ''a '') = Some ''a''" "trimmed_opt (Some ''a'') = Some ''a''" by code_simp+
  show ?thesis using assert_eq_records_verdict [OF run] run none texts by auto
qed

text \<open>The check that a run is still running and the write that relies on it are separate
  transactions. There is a database in which two processes interleave so that a step is created
  in a run that was finished after the check: the check succeeds, the other process's update of
  the run commits, the insert commits, and the result breaks the evidence invariant although
  every database before the insert satisfies it.\<close>

theorem step_insert_races_finish:
  "\<exists>s s1 db1 step db2.
     evidence_inv s \<and> ensure_run_active ''r'' s = (Inr (), s1) \<and>
     (\<exists>run' s2. finish_run_record bare_env ''r'' ''passed'' None s1 = (Inr run', s2) \<and> rs_db s2 = db1) \<and>
     scenario_inv db1 \<and>
     create_scenario_step ''s'' ''r'' ''n'' ''k'' None ''5'' db1 = Inr (step, db2) \<and> \<not> scenario_inv db2"
proof -
  let ?s = "bare_state [bare_run ''r'' None ''running'']"
  let ?f = "finish_run_record bare_env ''r'' ''passed'' None ?s"
  let ?db1 = "rs_db (snd ?f)"
  let ?c = "create_scenario_step ''s'' ''r'' ''n'' ''k'' None ''5'' ?db1"
  have trim_r: "trim ''r'' = ''r''" by code_simp
  have inv: "evidence_inv ?s"
    by (simp add: evidence_inv_def scenario_inv_def bare_state_def bare_run_def empty_scenario_db_def
        steps_of_def numbered_def unique_by_def trim_r)
  have check: "ensure_run_active ''r'' ?s = (Inr (), ?s)" by code_simp
  have ok: "\<not> isl (fst ?f)" by code_simp
  have inv1: "evidence_inv (snd ?f)"
    using inv keeps_finish_run [unfolded hoare_preserves [symmetric]] by (simp add: preserves_def)
  have runs: "sd_runs ?db1 = [bare_run ''r'' (Some ''0'') ''passed'']" by code_simp
  have "sd_foreign_keys ?db1" "sd_steps ?db1 = []" by code_simp+
  then obtain step db2 where made: "?c = Inr (step, db2)" "step \<in> set (sd_steps db2)" "st_run_id step = ''r''"
    "st_finished_at step = None" "sd_runs db2 = sd_runs ?db1"
    using runs
    by (auto simp: create_scenario_step_def read_ordinal_def next_ordinal_value_def insert_step_row_def
        references_ok_def run_exists_def sql_insert_def Let_def bare_run_def)
  have "\<not> scenario_inv db2"
    using scenario_invD(7) [of db2 "bare_run ''r'' (Some ''0'') ''passed''" step] made runs
    by (auto simp: bare_run_def)
  moreover obtain run' where "?f = (Inr run', snd ?f)" using ok by (cases "fst ?f") (auto simp: prod_eq_iff)
  ultimately show ?thesis using inv inv1 check made(1) unfolding evidence_inv_def by blast
qed

end
