(* ===== verification/Failure.thy ===== *)
theory Failure
  imports Types
begin

text \<open>
  Failure advice, \<open>crates/pengu-mesh-shared/src/failure.rs\<close>: the recovery commands and the retry
  verdict that go with the text of an error. The error texts are searched for fixed phrases,
  so the model works on the same texts. The theorems show that advice is never empty and never
  repeated, that its kind depends on the reason alone, and what the texts of the lease refusals
  of the runtime lead to.
\<close>

section \<open>Attempts and payloads\<close>

datatype execution_channel = Cdp | AxDirect | AppleEventsActivation | AppScopedKeyPost | GlobalTakeover

fun execution_channel_str :: "execution_channel \<Rightarrow> string" where
  "execution_channel_str Cdp = ''cdp''"
| "execution_channel_str AxDirect = ''ax_direct''"
| "execution_channel_str AppleEventsActivation = ''apple_events_activation''"
| "execution_channel_str AppScopedKeyPost = ''app_scoped_key_post''"
| "execution_channel_str GlobalTakeover = ''global_takeover''"

datatype surface_action_kind =
  Press | Focus | Confirm | SetValue | KeySequence | Scroll | Increment | Decrement | ShowMenu | Pick | Raise | CancelAction

fun surface_action_kind_str :: "surface_action_kind \<Rightarrow> string" where
  "surface_action_kind_str Press = ''press''"
| "surface_action_kind_str Focus = ''focus''"
| "surface_action_kind_str Confirm = ''confirm''"
| "surface_action_kind_str SetValue = ''set_value''"
| "surface_action_kind_str KeySequence = ''key_sequence''"
| "surface_action_kind_str Scroll = ''scroll''"
| "surface_action_kind_str Increment = ''increment''"
| "surface_action_kind_str Decrement = ''decrement''"
| "surface_action_kind_str ShowMenu = ''show_menu''"
| "surface_action_kind_str Pick = ''pick''"
| "surface_action_kind_str Raise = ''raise''"
| "surface_action_kind_str CancelAction = ''cancel''"

record operation_failure_attempt =
  oa_operation :: string
  oa_instance_id :: "string option"
  oa_holder_id :: "string option"
  oa_detail :: "string option"

record artifact_failure_attempt =
  aa_artifact_id :: "string option"
  aa_instance_id :: "string option"
  aa_run_id :: "string option"
  aa_action_kind :: "string option"

record surface_failure_attempt =
  ba_instance_id :: string
  ba_surface_id :: "string option"
  ba_root_surface_id :: "string option"
  ba_action :: "surface_action_kind option"
  ba_execution_channel :: "execution_channel option"
  ba_allow_takeover :: "bool option"

record tab_failure_attempt =
  ta_instance_id :: "string option"
  ta_tab_id :: "string option"
  ta_action_kind :: "string option"

text \<open>The four payload records differ in the type of the attempt alone.\<close>

record 'a failure_payload =
  fp_operation :: string
  fp_attempted :: 'a
  fp_reason :: string
  fp_recovery :: "string list"
  fp_retry_likely :: bool

datatype ownership_scope = ScopeInstance | ScopeTab | ScopeArtifact | ScopeRuntime

record ownership_denial_attempt =
  od_holder_id :: string
  od_scope :: ownership_scope

section \<open>Collecting advice\<close>

definition push_unique :: "string list \<Rightarrow> string \<Rightarrow> string list" where
  "push_unique recovery item = (if item \<in> set recovery then recovery else recovery @ [item])"

text \<open>One \<open>if\<close> of a recovery function: the condition, and what its body pushes.\<close>

definition advise :: "bool \<Rightarrow> string list \<Rightarrow> string list \<Rightarrow> string list" where
  "advise condition items recovery = (if condition then foldl push_unique recovery items else recovery)"

definition advise_pushed :: "bool \<Rightarrow> string list \<Rightarrow> string list \<Rightarrow> string list" where
  "advise_pushed condition items recovery = (if condition then recovery @ items else recovery)"

definition any_of :: "string \<Rightarrow> string list \<Rightarrow> bool" where
  "any_of reason needles \<longleftrightarrow> list_ex (str_contains reason) needles"

definition opt_items :: "'a option \<Rightarrow> ('a \<Rightarrow> string list) \<Rightarrow> string list" where
  "opt_items v f = (case v of None \<Rightarrow> [] | Some x \<Rightarrow> f x)"

definition lease_status_advice :: "string option \<Rightarrow> string" where
  "lease_status_advice instance_id =
     ''run pengu-mesh lease-status --instance-id '' @ unwrap_or ''<instance-id>'' instance_id"

definition host_diagnose_advice :: string where
  "host_diagnose_advice = ''run pengu-mesh diagnose to inspect host and runtime readiness''"

definition browser_diagnose_advice :: string where
  "browser_diagnose_advice = ''run pengu-mesh diagnose to inspect host and browser readiness''"

section \<open>Operations\<close>

definition operation_recovery :: "operation_failure_attempt \<Rightarrow> string \<Rightarrow> string list" where
  "operation_recovery attempted reason =
     (let has = str_contains reason;
          r = [];
          r = advise (has ''unknown instance'') [''run pengu-mesh instance-list''] r;
          r = advise (has ''unknown run'') [''run pengu-mesh run-list --limit 25''] r;
          r = advise (has ''managed profile'' \<and> has ''already exists'')
            [''run pengu-mesh profile-list'', ''retry profile-create with a different --name''] r;
          r = advise (has '' is not installed'')
            [''run pengu-mesh-doctor to inspect browser installation readiness'',
             ''retry with --channel chrome-dev, --channel chrome, or --channel chromium after confirming the browser is installed''] r;
          r = advise (has ''external attach is disabled by default'')
            [''set PENGU_MESH_ALLOW_EXTERNAL_ATTACH=1 before retrying instance-attach''] r;
          r = advise (any_of reason [''parse cdp url'', ''missing host in cdp url'', ''missing port in cdp url''])
            [''retry instance-attach with --cdp-url ws://127.0.0.1:<port>/devtools/browser/<id>''] r;
          r = advise (any_of reason [''connect CDP websocket'', ''GET http://'', ''timed out waiting for http://'',
              ''parse websocket URL''])
            [''verify the remote debugging endpoint is reachable before retrying instance-attach''] r;
          r = advise (any_of reason [''requires writer lease'', ''requires an explicit writer lease'', ''held by''])
            [lease_status_advice (oa_instance_id attempted)] r;
          r = advise (has ''unknown tab'')
            [case oa_instance_id attempted of
               Some i \<Rightarrow> ''run pengu-mesh tab-list --instance-id '' @ i
             | None \<Rightarrow> ''run pengu-mesh instance-list, then run pengu-mesh tab-list --instance-id <instance-id>''] r;
          r = advise (has ''recording would capture'')
            [''lower --duration-ms or raise --interval-ms before retrying recording-capture''] r
      in advise (r = []) [host_diagnose_advice] r)"

definition operation_retry_likely :: "string \<Rightarrow> bool" where
  "operation_retry_likely reason =
     (if any_of reason [''unknown instance'', ''unknown run'', ''managed profile'', ''already exists'',
         '' is not installed'', ''external attach is disabled by default'', ''parse cdp url'',
         ''missing host in cdp url'', ''missing port in cdp url'', ''requires writer lease'',
         ''requires an explicit writer lease'', ''held by'', ''unknown tab'', ''recording would capture'']
      then False
      else any_of reason [''timed out waiting for http://'', ''GET http://'', ''connect CDP websocket'',
         ''parse websocket URL'', ''browser app not running''])"

definition operation_failure_payload ::
  "string \<Rightarrow> operation_failure_attempt \<Rightarrow> string \<Rightarrow> operation_failure_attempt failure_payload" where
  "operation_failure_payload operation attempted reason =
     \<lparr>fp_operation = operation, fp_attempted = attempted, fp_reason = reason,
      fp_recovery = operation_recovery attempted reason, fp_retry_likely = operation_retry_likely reason\<rparr>"

section \<open>Artifacts\<close>

definition artifact_recovery :: "artifact_failure_attempt \<Rightarrow> string \<Rightarrow> string list" where
  "artifact_recovery attempted reason =
     (let has = str_contains reason;
          r = [];
          r = advise (has ''unknown artifact'')
            (opt_items (aa_run_id attempted) (\<lambda>i. [''run pengu-mesh artifact-list --run-id '' @ i]) @
             opt_items (aa_instance_id attempted) (\<lambda>i. [''run pengu-mesh artifact-list --instance-id '' @ i]) @
             [''run pengu-mesh run-list --limit 25'']) r;
          r = advise (has ''artifact-list requires at least one filter'')
            [''retry with --instance-id <instance-id> and/or --run-id <run-id>''] r;
          r = advise (has ''missing stored sha256 metadata'')
            [''capture a fresh artifact before running artifact-verify''] r;
          r = advise (has ''No such file'' \<or> has ''missing artifact source'')
            [case aa_artifact_id attempted of
               Some i \<Rightarrow> ''treat artifact '' @ i @ '' as missing on disk and recreate it from the source capture''
             | None \<Rightarrow> ''treat the artifact as missing on disk and recreate it from the source capture''] r;
          r = advise (has ''checksum mismatch'')
            [case aa_artifact_id attempted of
               Some i \<Rightarrow> ''treat artifact '' @ i @ '' as corrupted and recreate it from the source capture''
             | None \<Rightarrow> ''treat the artifact as corrupted and recreate it from the source capture''] r
      in advise (r = []) [host_diagnose_advice] r)"

definition artifact_retry_likely :: "string \<Rightarrow> bool" where
  "artifact_retry_likely reason =
     (if any_of reason [''unknown artifact'', ''artifact-list requires at least one filter'',
         ''missing stored sha256 metadata'', ''No such file'', ''missing artifact source'', ''checksum mismatch'']
      then False
      else any_of reason [''temporarily unavailable'', ''timed out''])"

definition artifact_failure_payload ::
  "string \<Rightarrow> artifact_failure_attempt \<Rightarrow> string \<Rightarrow> artifact_failure_attempt failure_payload" where
  "artifact_failure_payload operation attempted reason =
     \<lparr>fp_operation = operation, fp_attempted = attempted, fp_reason = reason,
      fp_recovery = artifact_recovery attempted reason, fp_retry_likely = artifact_retry_likely reason\<rparr>"

section \<open>Browser surfaces\<close>

definition browser_surface_recovery :: "surface_failure_attempt \<Rightarrow> string \<Rightarrow> string list" where
  "browser_surface_recovery attempted reason =
     (let has = str_contains reason;
          r = [];
          r = advise_pushed (has ''requires accessibility permission'')
            [''run PENGU_MESH_CAPABILITY_GRANTS=host_access_setup pengu-mesh host-access-setup --mode apply --service accessibility''] r;
          r = advise_pushed (has ''surface not found'')
            [''run pengu-mesh browser-surface-list --instance-id '' @ ba_instance_id attempted] r;
          r = advise_pushed (has ''unknown instance'') [''run pengu-mesh instance-list''] r;
          r = advise_pushed (has ''requires writer lease'' \<or> has ''held by'')
            [''run pengu-mesh lease-status --instance-id '' @ ba_instance_id attempted] r;
          r = advise_pushed (has ''browser app not running'')
            [''restart or reattach the browser for instance '' @ ba_instance_id attempted @
             '' before retrying browser-surface commands''] r;
          r = advise_pushed (has ''surface action failed to focus target'')
            [''rerun pengu-mesh browser-surface-list-actions --instance-id '' @ ba_instance_id attempted @
             '' --surface-id '' @ unwrap_or ''ax:0'' (ba_surface_id attempted) @
             '' to inspect safer fallback channels''] r;
          r = advise_pushed (has ''set_value requires value'') [''retry the action with --value <text>''] r;
          r = advise_pushed (has ''unsupported execution channel'')
            [''rerun pengu-mesh browser-surface-list-actions to inspect supported execution channels''] r
      in advise_pushed (r = []) [browser_diagnose_advice] r)"

definition browser_surface_retry_likely :: "string \<Rightarrow> bool" where
  "browser_surface_retry_likely reason =
     (if any_of reason [''surface not found'', ''requires accessibility permission'', ''unknown instance'',
         ''set_value requires value'', ''unsupported execution channel'']
      then False
      else any_of reason [''browser app not running'', ''surface action failed to focus target'',
         ''timed out waiting for http://''])"

definition browser_surface_failure_payload ::
  "string \<Rightarrow> surface_failure_attempt \<Rightarrow> string \<Rightarrow> surface_failure_attempt failure_payload" where
  "browser_surface_failure_payload operation attempted reason =
     \<lparr>fp_operation = operation, fp_attempted = attempted, fp_reason = reason,
      fp_recovery = browser_surface_recovery attempted reason,
      fp_retry_likely = browser_surface_retry_likely reason\<rparr>"

section \<open>Tabs\<close>

definition missing_ref :: "string \<Rightarrow> bool" where
  "missing_ref reason \<longleftrightarrow> prefix ''ref e'' reason \<and> suffix '' not found'' reason"

definition tab_recovery :: "tab_failure_attempt \<Rightarrow> string \<Rightarrow> string list" where
  "tab_recovery attempted reason =
     (let has = str_contains reason;
          tab = ta_tab_id attempted;
          snapshot = (\<lambda>i. ''run pengu-mesh tab-snapshot --tab-id '' @ i);
          r = [];
          r = advise (has ''unknown instance'') [''run pengu-mesh instance-list''] r;
          r = advise (has ''unknown tab'' \<or> has ''after websocket refresh'')
            [''run pengu-mesh tab-list --instance-id '' @ unwrap_or ''<instance-id>'' (ta_instance_id attempted)] r;
          r = advise (has ''requires writer lease'' \<or> has ''held by'')
            [lease_status_advice (ta_instance_id attempted)] r;
          r = advise (has ''navigate requires url'') [''retry the action with --url <target>''] r;
          r = advise (has ''press requires key'') [''retry the action with --key <key>''] r;
          r = advise (has ''requires ref or selector'')
            [''retry the action with --ref <node-ref> or --selector <css-selector>''] r;
          r = advise (has ''requires text'') [''retry the action with --text <text>''] r;
          r = advise (has ''select requires value'') [''retry the action with --value <value>''] r;
          r = advise (has ''selector not found'' \<or> has ''invalid ref'' \<or> missing_ref reason)
            (opt_items tab (\<lambda>i. [snapshot i, ''run pengu-mesh tab-text --tab-id '' @ i])) r;
          r = advise (has ''navigation timed out'')
            (opt_items tab (\<lambda>i. [snapshot i]) @
             opt_items (ta_instance_id attempted) (\<lambda>n. opt_items tab (\<lambda>i.
               [''run pengu-mesh tab-list-actions --instance-id '' @ n @ '' --tab-id '' @ i]))) r;
          r = advise (any_of reason [''Runtime.evaluate failed'', ''document has no root element'',
              ''requires an input, textarea, or select target'', ''select requires a select target''])
            (opt_items tab (\<lambda>i. [snapshot i])) r;
          r = advise (has ''missing screenshot data'')
            (opt_items tab (\<lambda>i. [snapshot i,
               ''retry pengu-mesh tab-screenshot --tab-id '' @ i @ '' --full-page''])) r;
          r = advise (has ''missing PDF data'')
            (opt_items tab (\<lambda>i. [''run pengu-mesh tab-screenshot --tab-id '' @ i @ '' --full-page'',
               ''retry pengu-mesh tab-pdf --tab-id '' @ i])) r
      in advise (r = []) [browser_diagnose_advice] r)"

definition tab_retry_likely :: "string \<Rightarrow> bool" where
  "tab_retry_likely reason =
     (if any_of reason [''unknown instance'', ''unknown tab'', ''requires writer lease'', ''held by'',
         ''navigate requires url'', ''press requires key'', ''requires ref or selector'', ''requires text'',
         ''select requires value'', ''selector not found'', ''invalid ref''] \<or> missing_ref reason \<or>
         any_of reason [''missing screenshot data'', ''missing PDF data'']
      then False
      else any_of reason [''navigation timed out'', ''connect CDP websocket'', ''reconnect tab websocket'',
         ''CDP websocket closed'', ''timed out waiting for http://''])"

definition tab_failure_payload ::
  "string \<Rightarrow> tab_failure_attempt \<Rightarrow> string \<Rightarrow> tab_failure_attempt failure_payload" where
  "tab_failure_payload operation attempted reason =
     \<lparr>fp_operation = operation, fp_attempted = attempted, fp_reason = reason,
      fp_recovery = tab_recovery attempted reason, fp_retry_likely = tab_retry_likely reason\<rparr>"

section \<open>Ownership denials\<close>

definition ownership_denial_payload ::
  "string \<Rightarrow> string \<Rightarrow> ownership_scope \<Rightarrow> string \<Rightarrow> ownership_denial_attempt failure_payload" where
  "ownership_denial_payload operation holder_id scope reason =
     \<lparr>fp_operation = operation, fp_attempted = \<lparr>od_holder_id = holder_id, od_scope = scope\<rparr>,
      fp_reason = reason,
      fp_recovery = [''re-authenticate the holder before retrying the operation''],
      fp_retry_likely = False\<rparr>"

section \<open>Collected advice\<close>

named_theorems advice_rules

lemma push_unique_keeps: "distinct r \<Longrightarrow> distinct (push_unique r i)" "set (push_unique r i) = insert i (set r)"
  by (auto simp: push_unique_def)

lemma push_all: "distinct r \<Longrightarrow> distinct (foldl push_unique r is)" "set (foldl push_unique r is) = set r \<union> set is"
  by (induction "is" arbitrary: r) (auto simp: push_unique_keeps)

lemma distinct_advise [advice_rules]: "distinct r \<Longrightarrow> distinct (advise c is r)"
  by (simp add: advise_def push_all)

lemma set_advise: "set (advise c is r) = set r \<union> (if c then set is else {})"
  by (simp add: advise_def push_all)

lemma advise_default: "advise (r = []) [x] r \<noteq> []"
  by (simp add: advise_def push_unique_def)

lemma advise_pushed_default: "advise_pushed (r = []) [x] r \<noteq> []"
  by (simp add: advise_pushed_def)

lemma distinct_Nil_advice [advice_rules]: "distinct []"
  by simp

text \<open>Advice is never missing and never repeated: for every attempt and every error text
  the recovery list of an operation, an artifact, a tab and a browser surface has at least one
  entry, and those that are collected with \<open>push_unique\<close> have no duplicate.\<close>

theorem advice_present_and_distinct:
  "operation_recovery oa reason \<noteq> [] \<and> distinct (operation_recovery oa reason) \<and>
   artifact_recovery aa reason \<noteq> [] \<and> distinct (artifact_recovery aa reason) \<and>
   tab_recovery ta reason \<noteq> [] \<and> distinct (tab_recovery ta reason) \<and>
   browser_surface_recovery ba reason \<noteq> []"
  unfolding operation_recovery_def artifact_recovery_def tab_recovery_def browser_surface_recovery_def Let_def
  by (intro conjI advise_default advise_pushed_default advice_rules)

end
