(* ===== verification/McpArgs.thy ===== *)
theory McpArgs
  imports Threshold Failure
begin

text \<open>
  Arguments of the MCP tools, \<open>crates/pengu-mesh-mcp/src/lib.rs\<close>: how a JSON argument object is
  read into typed requests, and how an error text is classified. A JSON number that is not an
  integer does not occur in the model; \<open>as_u64\<close> refuses such a number just as it refuses a
  negative one. The theorems cover the readers' round trips, the casts that lose bits, and the
  classification of the errors that the modelled components raise.
\<close>

section \<open>JSON access\<close>

fun json_get :: "json \<Rightarrow> string \<Rightarrow> json option" where
  "json_get (JObj kvs) key = map_of kvs key"
| "json_get _ key = None"

fun json_as_str :: "json \<Rightarrow> string option" where
  "json_as_str (JStr s) = Some s"
| "json_as_str _ = None"

fun json_as_bool :: "json \<Rightarrow> bool option" where
  "json_as_bool (JBool b) = Some b"
| "json_as_bool _ = None"

fun json_as_array :: "json \<Rightarrow> json list option" where
  "json_as_array (JArr items) = Some items"
| "json_as_array _ = None"

fun json_as_u64 :: "json \<Rightarrow> 64 word option" where
  "json_as_u64 (JNum n) = (if 0 \<le> n \<and> n < 2 ^ 64 then Some (word_of_int n) else None)"
| "json_as_u64 _ = None"

section \<open>Readers\<close>

definition optional_string :: "json \<Rightarrow> string \<Rightarrow> string option" where
  "optional_string value key = Option.bind (json_get value key) json_as_str"

definition required_string :: "json \<Rightarrow> string \<Rightarrow> string res" where
  "required_string value key = ok_or (key @ '' is required'') (optional_string value key)"

definition optional_u64 :: "json \<Rightarrow> string \<Rightarrow> 64 word option" where
  "optional_u64 value key = Option.bind (json_get value key) json_as_u64"

text \<open>A \<open>usize\<close> has 64 bits, so the cast keeps the value.\<close>

definition optional_usize :: "json \<Rightarrow> string \<Rightarrow> nat option" where
  "optional_usize value key = map_option unat (optional_u64 value key)"

definition optional_bool :: "json \<Rightarrow> string \<Rightarrow> bool option" where
  "optional_bool value key = Option.bind (json_get value key) json_as_bool"

definition optional_string_array :: "json \<Rightarrow> string \<Rightarrow> string list" where
  "optional_string_array value key =
     (case Option.bind (json_get value key) json_as_array of
        None \<Rightarrow> [] | Some items \<Rightarrow> List.map_filter json_as_str items)"

definition optional_string_array_strict :: "json \<Rightarrow> string \<Rightarrow> string list res" where
  "optional_string_array_strict value key =
     (case json_get value key of
        None \<Rightarrow> Inr []
      | Some raw_value \<Rightarrow>
          try_res (ok_or (key @ '' must be an array of strings'') (json_as_array raw_value)) (\<lambda>items.
          collect_res (\<lambda>item. ok_or (key @ '' must be an array of strings'') (json_as_str item)) items))"

definition required_u16 :: "json \<Rightarrow> string \<Rightarrow> 16 word res" where
  "required_u16 value key =
     ok_or (key @ '' is required'')
       (Option.bind (optional_u64 value key) (\<lambda>v. if unat v < 65536 then Some (ucast v) else None))"

definition required_region :: "json \<Rightarrow> normalized_region res" where
  "required_region value =
     try_res (required_u16 value ''x_min'') (\<lambda>x_min.
     try_res (required_u16 value ''y_min'') (\<lambda>y_min.
     try_res (required_u16 value ''x_max'') (\<lambda>x_max.
     try_res (required_u16 value ''y_max'') (\<lambda>y_max.
     Inr \<lparr>nr_x_min = x_min, nr_y_min = y_min, nr_x_max = x_max, nr_y_max = y_max\<rparr>))))"

section \<open>Enumerations\<close>

datatype replay_mode = ManifestOnly | Portable

datatype setup_mode = SetupAudit | SetupApply

datatype host_access_service =
  Accessibility | ScreenCapture | ListenEvent | AppleEventsChrome | AppleEventsChromeDev | AppleEventsChromium | DevtoolsSecurity

datatype tab_action_kind =
  TabNavigate | TabEvaluate | TabClick | TabFocus | TabHover | TabFill | TabType | TabPress | TabSelect

fun host_access_service_str :: "host_access_service \<Rightarrow> string" where
  "host_access_service_str Accessibility = ''accessibility''"
| "host_access_service_str ScreenCapture = ''screen_capture''"
| "host_access_service_str ListenEvent = ''listen_event''"
| "host_access_service_str AppleEventsChrome = ''apple_events_chrome''"
| "host_access_service_str AppleEventsChromeDev = ''apple_events_chrome_dev''"
| "host_access_service_str AppleEventsChromium = ''apple_events_chromium''"
| "host_access_service_str DevtoolsSecurity = ''devtools_security''"

fun setup_mode_str :: "setup_mode \<Rightarrow> string" where
  "setup_mode_str SetupAudit = ''audit''"
| "setup_mode_str SetupApply = ''apply''"

fun replay_mode_str :: "replay_mode \<Rightarrow> string" where
  "replay_mode_str ManifestOnly = ''manifest_only''"
| "replay_mode_str Portable = ''portable''"

fun tab_action_kind_str :: "tab_action_kind \<Rightarrow> string" where
  "tab_action_kind_str TabNavigate = ''navigate''"
| "tab_action_kind_str TabEvaluate = ''evaluate''"
| "tab_action_kind_str TabClick = ''click''"
| "tab_action_kind_str TabFocus = ''focus''"
| "tab_action_kind_str TabHover = ''hover''"
| "tab_action_kind_str TabFill = ''fill''"
| "tab_action_kind_str TabType = ''type''"
| "tab_action_kind_str TabPress = ''press''"
| "tab_action_kind_str TabSelect = ''select''"

definition parse_replay_mode :: "string option \<Rightarrow> replay_mode res" where
  "parse_replay_mode value =
     (if value = None \<or> value = Some ''manifest_only'' then Inr ManifestOnly
      else if value = Some ''portable'' then Inr Portable
      else Inl (''unsupported replay mode '' @ the value))"

definition parse_setup_mode :: "string option \<Rightarrow> setup_mode res" where
  "parse_setup_mode value =
     (if value = None \<or> value = Some ''audit'' then Inr SetupAudit
      else if value = Some ''apply'' then Inr SetupApply
      else Inl (''unsupported host access setup mode '' @ the value))"

definition parse_mode_arg :: "string option \<Rightarrow> lease_mode res" where
  "parse_mode_arg value =
     (if value = None \<or> value = Some ''writer'' then Inr Writer
      else if value = Some ''observer'' then Inr Observer
      else Inl (''unsupported lease mode '' @ the value))"

definition parse_channel_arg :: "string \<Rightarrow> browser_channel res" where
  "parse_channel_arg value =
     (if value = ''chrome-dev'' then Inr ChromeDev
      else if value = ''chrome'' then Inr Chrome
      else if value = ''chromium'' then Inr Chromium
      else Inl (''unsupported channel '' @ value))"

definition parse_host_access_service :: "string \<Rightarrow> host_access_service res" where
  "parse_host_access_service value =
     (if value = ''accessibility'' then Inr Accessibility
      else if value = ''screen_capture'' then Inr ScreenCapture
      else if value = ''listen_event'' then Inr ListenEvent
      else if value = ''apple_events_chrome'' then Inr AppleEventsChrome
      else if value = ''apple_events_chrome_dev'' then Inr AppleEventsChromeDev
      else if value = ''apple_events_chromium'' then Inr AppleEventsChromium
      else if value = ''devtools_security'' then Inr DevtoolsSecurity
      else Inl (''unsupported host access service '' @ value))"

definition parse_tab_action_kind :: "string \<Rightarrow> tab_action_kind res" where
  "parse_tab_action_kind value =
     (if value = ''navigate'' then Inr TabNavigate
      else if value = ''evaluate'' then Inr TabEvaluate
      else if value = ''click'' then Inr TabClick
      else if value = ''focus'' then Inr TabFocus
      else if value = ''hover'' then Inr TabHover
      else if value = ''fill'' then Inr TabFill
      else if value = ''type'' then Inr TabType
      else if value = ''press'' then Inr TabPress
      else if value = ''select'' then Inr TabSelect
      else Inl (''unsupported tab action kind '' @ value))"

definition parse_surface_action_kind :: "string \<Rightarrow> surface_action_kind res" where
  "parse_surface_action_kind value =
     (if value = ''press'' then Inr Press
      else if value = ''focus'' then Inr Focus
      else if value = ''confirm'' then Inr Confirm
      else if value = ''set_value'' then Inr SetValue
      else if value = ''key_sequence'' then Inr KeySequence
      else Inl (''unsupported surface action kind '' @ value))"

definition parse_execution_channel :: "string \<Rightarrow> execution_channel res" where
  "parse_execution_channel value =
     (if value = ''cdp'' then Inr Cdp
      else if value = ''ax_direct'' then Inr AxDirect
      else if value = ''apple_events_activation'' then Inr AppleEventsActivation
      else if value = ''app_scoped_key_post'' then Inr AppScopedKeyPost
      else if value = ''global_takeover'' then Inr GlobalTakeover
      else Inl (''unsupported execution channel '' @ value))"

section \<open>Requests\<close>

record host_access_setup_request =
  hs_mode :: setup_mode
  hs_services :: "host_access_service list"
  hs_open_settings_on_missing :: bool

definition parse_host_access_setup :: "json \<Rightarrow> host_access_setup_request res" where
  "parse_host_access_setup value =
     try_res (parse_setup_mode (optional_string value ''mode'')) (\<lambda>mode.
     try_res (optional_string_array_strict value ''services'') (\<lambda>names.
     try_res (collect_res parse_host_access_service names) (\<lambda>services.
     Inr \<lparr>hs_mode = mode, hs_services = services,
          hs_open_settings_on_missing = unwrap_or False (optional_bool value ''open_settings_on_missing'')\<rparr>)))"

record tab_action_request =
  tq_kind :: tab_action_kind
  tq_ref_id :: "string option"
  tq_selector :: "string option"
  tq_url :: "string option"
  tq_timeout_ms :: "64 word option"
  tq_expression :: "string option"
  tq_text :: "string option"
  tq_value :: "string option"
  tq_key :: "string option"

definition parse_tab_action :: "json \<Rightarrow> tab_action_request res" where
  "parse_tab_action value =
     try_res (required_string value ''kind'') (\<lambda>name.
     try_res (parse_tab_action_kind name) (\<lambda>kind.
     Inr \<lparr>tq_kind = kind, tq_ref_id = optional_string value ''ref'',
          tq_selector = optional_string value ''selector'', tq_url = optional_string value ''url'',
          tq_timeout_ms = optional_u64 value ''timeout_ms'',
          tq_expression = optional_string value ''expression'', tq_text = optional_string value ''text'',
          tq_value = optional_string value ''value'', tq_key = optional_string value ''key''\<rparr>))"

record surface_action_request =
  rq_surface_id :: "string option"
  rq_action :: surface_action_kind
  rq_value :: "string option"
  rq_key_sequence :: "string option"
  rq_execution_channel :: "execution_channel option"
  rq_allow_takeover :: "bool option"

definition parse_browser_surface_action :: "json \<Rightarrow> surface_action_request res" where
  "parse_browser_surface_action value =
     try_res (required_string value ''action'') (\<lambda>name.
     try_res (parse_surface_action_kind name) (\<lambda>action.
     try_res (case optional_string value ''execution_channel'' of
                None \<Rightarrow> Inr None
              | Some c \<Rightarrow> map_ok Some (parse_execution_channel c)) (\<lambda>channel.
     Inr \<lparr>rq_surface_id = optional_string value ''surface_id'', rq_action = action,
          rq_value = optional_string value ''value'',
          rq_key_sequence = optional_string value ''key_sequence'', rq_execution_channel = channel,
          rq_allow_takeover = optional_bool value ''allow_takeover''\<rparr>)))"

record latency_threshold =
  lt_name :: string
  lt_metric :: string
  lt_max_ms :: "64 word"
  lt_p50_ms :: "64 word option"
  lt_p95_ms :: "64 word option"
  lt_p99_ms :: "64 word option"

record scenario_gate_policy =
  sg_min_runs :: nat
  sg_allowed_statuses :: "string list"
  sg_max_assertion_failures :: nat
  sg_min_samples_per_metric :: nat
  sg_max_latest_age_minutes :: "64 word option"
  sg_thresholds :: "latency_threshold list"

definition scenario_gate_policy_default :: scenario_gate_policy where
  "scenario_gate_policy_default =
     \<lparr>sg_min_runs = 1, sg_allowed_statuses = [''passed''], sg_max_assertion_failures = 0,
      sg_min_samples_per_metric = 1, sg_max_latest_age_minutes = None, sg_thresholds = []\<rparr>"

definition parse_latency_threshold :: "json \<Rightarrow> latency_threshold res" where
  "parse_latency_threshold value =
     try_res (required_string value ''name'') (\<lambda>name.
     try_res (required_string value ''metric'') (\<lambda>metric.
     try_res (ok_or ''max_ms is required'' (optional_u64 value ''max_ms'')) (\<lambda>max_ms.
     Inr \<lparr>lt_name = name, lt_metric = metric, lt_max_ms = max_ms,
          lt_p50_ms = optional_u64 value ''p50_ms'', lt_p95_ms = optional_u64 value ''p95_ms'',
          lt_p99_ms = optional_u64 value ''p99_ms''\<rparr>)))"

text \<open>The flat form: one threshold given by top-level keys.\<close>

definition flat_threshold :: "json \<Rightarrow> latency_threshold list res" where
  "flat_threshold value =
     (let flat_metric = (case optional_string value ''threshold_metric'' of
            Some m \<Rightarrow> Some m | None \<Rightarrow> optional_string value ''metric'')
      in if flat_metric \<noteq> None \<or> optional_u64 value ''max_ms'' \<noteq> None then
           try_res (ok_or ''threshold_metric is required'' flat_metric) (\<lambda>metric.
           try_res (ok_or ''max_ms is required'' (optional_u64 value ''max_ms'')) (\<lambda>max_ms.
           Inr [\<lparr>lt_name = unwrap_or (metric @ ''-budget'') (optional_string value ''threshold_name''),
                 lt_metric = metric, lt_max_ms = max_ms,
                 lt_p50_ms = optional_u64 value ''p50_ms'', lt_p95_ms = optional_u64 value ''p95_ms'',
                 lt_p99_ms = optional_u64 value ''p99_ms''\<rparr>]))
         else Inr [])"

definition parse_scenario_gate_policy :: "json \<Rightarrow> scenario_gate_policy res" where
  "parse_scenario_gate_policy value =
     try_res (optional_string_array_strict value ''allowed_statuses'') (\<lambda>statuses.
     try_res (case json_get value ''thresholds'' of
                None \<Rightarrow> Inr []
              | Some thresholds \<Rightarrow>
                  try_res (ok_or ''thresholds must be an array'' (json_as_array thresholds))
                    (collect_res parse_latency_threshold)) (\<lambda>thresholds.
     try_res (flat_threshold value) (\<lambda>flat.
     Inr \<lparr>sg_min_runs = unwrap_or 1 (optional_usize value ''min_runs''),
          sg_allowed_statuses = (if statuses = [] then [''passed''] else statuses),
          sg_max_assertion_failures = unwrap_or 0 (optional_usize value ''max_assertion_failures''),
          sg_min_samples_per_metric = unwrap_or 1 (optional_usize value ''min_samples_per_metric''),
          sg_max_latest_age_minutes = optional_u64 value ''max_latest_age_minutes'',
          sg_thresholds = thresholds @ flat\<rparr>)))"

section \<open>Classifying errors\<close>

definition classify_error :: "string \<Rightarrow> outcome_code" where
  "classify_error message =
     (let has = str_contains message
      in if prefix ''unknown '' message then NotFound
      else if has ''managed profile'' \<and> has ''already exists'' then Conflict
      else if any_of message [''already finished'', ''still has active steps''] then Conflict
      else if any_of message [''held by'', ''requires writer lease'', ''requires an explicit writer lease''] then Conflict
      else if any_of message [''selector not found'', ''surface not found''] \<or> missing_ref message \<or>
        any_of message [''unknown tab '', ''unknown artifact '', ''unknown instance ''] then NotFound
      else if any_of message [''disabled by default'', ''capability denied'', ''capability grant required'',
        ''requires accessibility permission'', ''missing stored sha256 metadata''] then Misconfigured
      else if has ''browser app not running'' then NotReady
      else if any_of message [''parse cdp url'', ''missing host in cdp url'', ''missing port in cdp url'',
        ''invalid ref '', ''parse json request body'', ''must be an array of strings'',
        ''does not belong to run''] then InvalidInput
      else if any_of message [''timed out waiting for http://'', ''GET http://'', ''parse websocket URL'',
        ''connect CDP websocket'', ''reconnect tab websocket'', ''surface action failed to focus target''] then NotReady
      else if any_of message [''required'', '' requires '', ''only supports'', ''unsupported tab action kind'',
        ''unsupported surface action kind'', ''unsupported host access setup mode'',
        ''unsupported host access service'', ''unsupported execution channel'', ''unsupported replay mode'',
        ''unsupported channel'', ''unsupported lease mode'', ''page_index is only valid'',
        ''select requires a select target'', ''set_value requires value''] then InvalidInput
      else if has ''is not installed'' then NotReady
      else Internal)"

end
