(* ===== verification/Capability.thy ===== *)
theory Capability
  imports McpArgs
begin

text \<open>
  The capability gate: \<open>crates/pengu-mesh-shared/src/capability.rs\<close> and its use in
  \<open>crates/pengu-mesh-core/src/lib.rs\<close> (policy from the environment, preflight, posture,
  enforcement). The theorems say what the gate lets through, that the preflight agrees with
  the enforcement and that its hint works, and that parsing a grant list inverts printing it.
\<close>

section \<open>Descriptors and policies\<close>

datatype risk_tier = Safe | Elevated | Dangerous

fun risk_tier_debug :: "risk_tier \<Rightarrow> string" where
  "risk_tier_debug Safe = ''Safe''"
| "risk_tier_debug Elevated = ''Elevated''"
| "risk_tier_debug Dangerous = ''Dangerous''"

record capability_descriptor =
  cp_name :: string
  cp_risk_tier :: risk_tier
  cp_description :: string
  cp_requires_explicit_grant :: bool

record gate_policy =
  gp_allow_safe :: bool
  gp_allow_elevated :: bool
  gp_allow_dangerous :: bool
  gp_explicit_grants :: "string list"

definition gate_policy_default :: gate_policy where
  "gate_policy_default =
     \<lparr>gp_allow_safe = True, gp_allow_elevated = False, gp_allow_dangerous = False,
      gp_explicit_grants = []\<rparr>"

datatype capability_decision = Allowed | Denied string | RequiresGrant string

definition evaluate :: "gate_policy \<Rightarrow> capability_descriptor \<Rightarrow> capability_decision" where
  "evaluate policy capability =
     (if cp_name capability \<in> set (gp_explicit_grants policy) then Allowed
      else if cp_requires_explicit_grant capability then RequiresGrant (cp_name capability)
      else
        (let tier_allowed = (case cp_risk_tier capability of
               Safe \<Rightarrow> gp_allow_safe policy
             | Elevated \<Rightarrow> gp_allow_elevated policy
             | Dangerous \<Rightarrow> gp_allow_dangerous policy)
         in if tier_allowed then Allowed
            else Denied (''capability '' @ [CHR 0x27] @ cp_name capability @ [CHR 0x27] @ '' requires tier '' @
                   risk_tier_debug (cp_risk_tier capability) @ '' which is not allowed by policy'')))"

definition denial_payload :: "string \<Rightarrow> string \<Rightarrow> string \<Rightarrow> string \<Rightarrow> json" where
  "denial_payload operation capability tier reason =
     JObj [(''denied'', JBool True), (''operation'', JStr operation), (''capability'', JStr capability),
           (''tier'', JStr tier), (''reason'', JStr reason)]"

definition safe_capabilities :: "(string \<times> string) list" where
  "safe_capabilities =
     [(''navigate'', ''Navigate to a URL''), (''snapshot'', ''Capture a DOM snapshot''),
      (''text'', ''Extract text content''), (''screenshot'', ''Capture a screenshot''),
      (''pdf'', ''Generate a PDF''), (''artifact_list'', ''List artifacts''),
      (''health'', ''Health check''), (''diagnose'', ''Run diagnostics'')]"

definition elevated_capabilities :: "(string \<times> string) list" where
  "elevated_capabilities =
     [(''evaluate'', ''Evaluate JavaScript in page''), (''click'', ''Click an element''),
      (''fill'', ''Fill an input element''), (''type'', ''Type text into an element''),
      (''press'', ''Press a key''), (''select'', ''Select an option''),
      (''instance_start'', ''Start a browser instance''), (''tab_open'', ''Open a new tab'')]"

definition dangerous_capabilities :: "(string \<times> string \<times> bool) list" where
  "dangerous_capabilities =
     [(''host_access_setup'', ''Apply-mode host access setup'', True),
      (''browser_surface_action'', ''Global takeover surface action'', True)]"

definition default_capabilities :: "capability_descriptor list" where
  "default_capabilities =
     map (\<lambda>(name, desc). \<lparr>cp_name = name, cp_risk_tier = Safe, cp_description = desc,
            cp_requires_explicit_grant = False\<rparr>) safe_capabilities @
     map (\<lambda>(name, desc). \<lparr>cp_name = name, cp_risk_tier = Elevated, cp_description = desc,
            cp_requires_explicit_grant = False\<rparr>) elevated_capabilities @
     map (\<lambda>(name, desc, requires_grant). \<lparr>cp_name = name, cp_risk_tier = Dangerous,
            cp_description = desc, cp_requires_explicit_grant = requires_grant\<rparr>) dangerous_capabilities"

section \<open>The policy of the process\<close>

definition grants_env :: string where
  "grants_env = ''PENGU_MESH_CAPABILITY_GRANTS''"

definition grant_separator :: "char \<Rightarrow> bool" where
  "grant_separator c \<longleftrightarrow> c = CHR '','' \<or> c = CHR '';'' \<or> is_whitespace c"

text \<open>The last \<open>filter_map\<close>: the first occurrence of each grant.\<close>

fun keep_first :: "string set \<Rightarrow> string list \<Rightarrow> string list" where
  "keep_first seen [] = []"
| "keep_first seen (grant # grants) =
     (if grant \<in> seen then keep_first seen grants else grant # keep_first (insert grant seen) grants)"

definition parse_capability_grants :: "string \<Rightarrow> string list" where
  "parse_capability_grants value =
     keep_first {} (filter (\<lambda>grant. grant \<noteq> []) (map trim (split_on grant_separator value)))"

text \<open>The argument is the environment variable, when it is set to Unicode text.\<close>

definition capability_policy_from_env :: "string option \<Rightarrow> gate_policy" where
  "capability_policy_from_env var =
     gate_policy_default\<lparr>gp_explicit_grants :=
       unwrap_or [] (map_option parse_capability_grants var)\<rparr>"

section \<open>Enforcement\<close>

definition require_capability_allowed_by_policy :: "string \<Rightarrow> gate_policy \<Rightarrow> unit res" where
  "require_capability_allowed_by_policy capability_name policy =
     (case List.find (\<lambda>c. cp_name c = capability_name) default_capabilities of
        None \<Rightarrow> Inl (''unknown capability '' @ capability_name)
      | Some capability \<Rightarrow>
          (case evaluate policy capability of
             Allowed \<Rightarrow> Inr ()
           | Denied reason \<Rightarrow>
               Inl (''capability denied: '' @ reason @ ''; grant explicitly with '' @ grants_env @ ''='' @
                    capability_name)
           | RequiresGrant capability \<Rightarrow>
               Inl (''capability grant required: '' @ capability @ ''; set '' @ grants_env @ ''='' @ capability @
                    '' for this trusted local operation'')))"

definition require_capability_allowed :: "string option \<Rightarrow> string \<Rightarrow> unit res" where
  "require_capability_allowed var capability_name =
     require_capability_allowed_by_policy capability_name (capability_policy_from_env var)"

definition surface_action_requires_grant :: "surface_action_request \<Rightarrow> bool" where
  "surface_action_requires_grant request \<longleftrightarrow>
     rq_execution_channel request = Some GlobalTakeover \<or> unwrap_or True (rq_allow_takeover request)"

section \<open>Preflight and posture\<close>

record preflight_entry =
  pe_name :: string
  pe_risk_tier :: risk_tier
  pe_description :: string
  pe_requires_explicit_grant :: bool
  pe_decision :: capability_decision
  pe_allowed :: bool
  pe_grant_hint :: "string option"

record preflight_payload =
  pp_policy :: gate_policy
  pp_requested_capability :: "string option"
  pp_ready :: bool
  pp_grant_env :: string
  pp_capabilities :: "preflight_entry list"

definition capability_preflight_entry :: "gate_policy \<Rightarrow> capability_descriptor \<Rightarrow> preflight_entry" where
  "capability_preflight_entry policy capability =
     (let decision = evaluate policy capability;
          allowed = (decision = Allowed)
      in \<lparr>pe_name = cp_name capability, pe_risk_tier = cp_risk_tier capability,
          pe_description = cp_description capability,
          pe_requires_explicit_grant = cp_requires_explicit_grant capability,
          pe_decision = decision, pe_allowed = allowed,
          pe_grant_hint = (if allowed then None else Some (grants_env @ ''='' @ cp_name capability))\<rparr>)"

definition capability_preflight :: "gate_policy \<Rightarrow> string option \<Rightarrow> preflight_payload res" where
  "capability_preflight policy capability_name =
     (let requested = (case capability_name of
            None \<Rightarrow> default_capabilities
          | Some name \<Rightarrow> filter (\<lambda>c. cp_name c = name) default_capabilities)
      in case (capability_name, requested) of
           (Some name, []) \<Rightarrow> Inl (''unknown capability '' @ name)
         | _ \<Rightarrow>
             (let entries = map (capability_preflight_entry policy) requested
              in Inr \<lparr>pp_policy = policy, pp_requested_capability = capability_name,
                      pp_ready = list_all pe_allowed entries, pp_grant_env = grants_env,
                      pp_capabilities = entries\<rparr>))"

record posture_entry =
  po_name :: string
  po_risk_tier :: risk_tier
  po_description :: string
  po_requires_explicit_grant :: bool
  po_decision :: capability_decision

record capability_posture =
  cs_policy :: gate_policy
  cs_total :: nat
  cs_safe :: nat
  cs_elevated :: nat
  cs_dangerous :: nat
  cs_allowed :: nat
  cs_denied :: nat
  cs_requires_grant :: nat
  cs_capabilities :: "posture_entry list"

text \<open>The closure that counts and converts one capability.\<close>

definition posture_step :: "gate_policy \<Rightarrow> capability_descriptor \<Rightarrow> capability_posture \<Rightarrow> capability_posture" where
  "posture_step policy capability p =
     (let p = (case cp_risk_tier capability of
            Safe \<Rightarrow> p\<lparr>cs_safe := cs_safe p + 1\<rparr>
          | Elevated \<Rightarrow> p\<lparr>cs_elevated := cs_elevated p + 1\<rparr>
          | Dangerous \<Rightarrow> p\<lparr>cs_dangerous := cs_dangerous p + 1\<rparr>);
          decision = evaluate policy capability;
          p = (case decision of
            Allowed \<Rightarrow> p\<lparr>cs_allowed := cs_allowed p + 1\<rparr>
          | Denied _ \<Rightarrow> p\<lparr>cs_denied := cs_denied p + 1\<rparr>
          | RequiresGrant _ \<Rightarrow> p\<lparr>cs_requires_grant := cs_requires_grant p + 1\<rparr>)
      in p\<lparr>cs_capabilities := cs_capabilities p @
           [\<lparr>po_name = cp_name capability, po_risk_tier = cp_risk_tier capability,
             po_description = cp_description capability,
             po_requires_explicit_grant = cp_requires_explicit_grant capability, po_decision = decision\<rparr>]\<rparr>)"

definition capability_posture :: "gate_policy \<Rightarrow> capability_posture" where
  "capability_posture policy =
     (let p = fold (posture_step policy) default_capabilities
            \<lparr>cs_policy = policy, cs_total = 0, cs_safe = 0, cs_elevated = 0, cs_dangerous = 0,
             cs_allowed = 0, cs_denied = 0, cs_requires_grant = 0, cs_capabilities = []\<rparr>
      in p\<lparr>cs_total := length (cs_capabilities p)\<rparr>)"

section \<open>What the gate lets through\<close>

lemma default_names_distinct: "distinct (map cp_name default_capabilities)"
  by code_simp

lemma find_default:
  "List.find (\<lambda>c. cp_name c = n) default_capabilities = Some c \<longleftrightarrow> c \<in> set default_capabilities \<and> cp_name c = n"
proof
  assume "List.find (\<lambda>c. cp_name c = n) default_capabilities = Some c"
  then show "c \<in> set default_capabilities \<and> cp_name c = n" by (rule find_Some_iff_set)
next
  assume c: "c \<in> set default_capabilities \<and> cp_name c = n"
  then obtain d where d: "List.find (\<lambda>c. cp_name c = n) default_capabilities = Some d"
    by (cases "List.find (\<lambda>c. cp_name c = n) default_capabilities") (auto simp: find_None_iff)
  from find_Some_iff_set [OF this] have "d \<in> set default_capabilities \<and> cp_name d = n" .
  then have "d = c" using c default_names_distinct by (auto simp: distinct_map dest: inj_onD)
  then show "List.find (\<lambda>c. cp_name c = n) default_capabilities = Some c" using d by simp
qed

lemma gate_allows:
  "is_ok (require_capability_allowed_by_policy n policy) \<longleftrightarrow>
   (\<exists>c\<in>set default_capabilities. cp_name c = n \<and> evaluate policy c = Allowed)"
proof (cases "List.find (\<lambda>c. cp_name c = n) default_capabilities")
  case None
  then have "\<forall>c\<in>set default_capabilities. cp_name c \<noteq> n" by (auto simp: find_None_iff)
  then show ?thesis using None by (auto simp: require_capability_allowed_by_policy_def)
next
  case (Some c)
  have c: "c \<in> set default_capabilities" "cp_name c = n" using Some find_default by blast+
  have "d = c" if "d \<in> set default_capabilities" "cp_name d = n" for d
    using that Some find_default by (metis option.inject)
  then have "(\<exists>c\<in>set default_capabilities. cp_name c = n \<and> evaluate policy c = Allowed) \<longleftrightarrow>
      evaluate policy c = Allowed"
    using c by metis
  then show ?thesis using Some
    by (simp add: require_capability_allowed_by_policy_def split: capability_decision.splits)
qed

lemma default_tiers:
  "list_all (\<lambda>c. cp_requires_explicit_grant c = (cp_risk_tier c = Dangerous) \<and>
     (cp_risk_tier c = Safe) = (cp_name c \<in> set (map fst safe_capabilities))) default_capabilities"
  by code_simp

lemma safe_names: "set (map fst safe_capabilities) \<subseteq> cp_name ` set default_capabilities"
proof -
  have "list_all (\<lambda>n. n \<in> set (map cp_name default_capabilities)) (map fst safe_capabilities)" by code_simp
  then show ?thesis by (auto simp: list_all_iff)
qed

text \<open>Claim C37. With the policy of the process, which starts from the default and adds the grants of
  the environment variable, an operation passes the gate exactly when its capability is one of
  the safe built-in ones, or is built in and granted by name. Everything else, elevated and
  dangerous capabilities without a grant and unknown names even with one, is refused.\<close>

theorem gate_passes_iff_safe_or_granted:
  "is_ok (require_capability_allowed var n) \<longleftrightarrow>
     n \<in> set (map fst safe_capabilities) \<or>
     (n \<in> cp_name ` set default_capabilities \<and>
      n \<in> set (gp_explicit_grants (capability_policy_from_env var)))"
proof -
  have allowed: "evaluate (capability_policy_from_env var) c = Allowed \<longleftrightarrow>
      n \<in> set (map fst safe_capabilities) \<or> n \<in> set (gp_explicit_grants (capability_policy_from_env var))"
    if c: "c \<in> set default_capabilities" "cp_name c = n" for c
  proof -
    have tier: "cp_requires_explicit_grant c = (cp_risk_tier c = Dangerous)"
      "(cp_risk_tier c = Safe) = (n \<in> set (map fst safe_capabilities))"
      using default_tiers c unfolding list_all_iff by blast+
    have flags: "gp_allow_safe (capability_policy_from_env var)"
      "\<not> gp_allow_elevated (capability_policy_from_env var)"
      by (simp_all add: capability_policy_from_env_def gate_policy_default_def)
    show ?thesis unfolding evaluate_def tier(2) [symmetric] using tier(1) flags c(2)
      by (cases "cp_risk_tier c") simp_all
  qed
  show ?thesis
    unfolding require_capability_allowed_def gate_allows
    using allowed safe_names by blast
qed

section \<open>Grant lists\<close>

lemma split_on_app:
  assumes "\<forall>c\<in>set x. \<not> p c" and "p d"
  shows "split_on p (x @ d # y) = x # split_on p y"
  using assms by (induction x) auto

lemma split_on_clean: "\<forall>c\<in>set x. \<not> p c \<Longrightarrow> split_on p x = [x]"
  by (induction x) auto

lemma split_on_join:
  assumes "\<forall>x\<in>set xs. \<forall>c\<in>set x. \<not> p c" and "p d" and "xs \<noteq> []"
  shows "split_on p (join [d] xs) = xs"
  using assms
proof (induction "[d]" xs rule: join.induct)
  case (3 x y ys)
  then show ?case using split_on_app [of x p d] by simp
qed (simp_all add: split_on_clean)

lemma keep_first_distinct: "distinct xs \<Longrightarrow> set xs \<inter> seen = {} \<Longrightarrow> keep_first seen xs = xs"
  by (induction xs arbitrary: seen) auto

lemma set_keep_first: "set (keep_first seen xs) = set xs - seen \<and> distinct (keep_first seen xs)"
  by (induction xs arbitrary: seen) auto

text \<open>Reading a grant list inverts writing it: distinct, non-empty grants without
  separators, joined by commas, come back in the same order; and whatever the text, the grants
  read from it are distinct, non-empty and free of separators.\<close>

theorem grants_roundtrip:
  assumes "distinct gs" and "list_all (\<lambda>g. g \<noteq> [] \<and> list_all (\<lambda>c. \<not> grant_separator c) g) gs"
  shows "parse_capability_grants (join [CHR '',''] gs) = gs \<and>
    distinct (parse_capability_grants txt) \<and>
    list_all (\<lambda>g. g \<noteq> [] \<and> list_all (\<lambda>c. \<not> grant_separator c) g) (parse_capability_grants txt)"
proof -
  have trim_clean: "trim g = g" if "list_all (\<lambda>c. \<not> grant_separator c) g" for g
    using that by (intro trim_no_ws) (auto simp: list_all_iff grant_separator_def)
  have inverse: "parse_capability_grants (join [CHR '',''] gs) = gs"
  proof (cases "gs = []")
    case True
    then show ?thesis by (simp add: parse_capability_grants_def trim_no_ws)
  next
    case False
    have "split_on grant_separator (join [CHR '',''] gs) = gs"
      by (rule split_on_join) (use assms(2) False in \<open>auto simp: list_all_iff grant_separator_def\<close>)
    moreover have "filter (\<lambda>g. g \<noteq> []) (map trim gs) = gs"
      using assms(2) trim_clean by (induction gs) auto
    ultimately show ?thesis using assms(1) by (simp add: parse_capability_grants_def keep_first_distinct)
  qed
  have clean: "list_all (\<lambda>c. \<not> grant_separator c) (trim w)" if "w \<in> set (split_on grant_separator txt)" for w
    using split_on_pieces [OF that] set_trim [of _ w] by (auto simp: list_all_iff)
  show ?thesis using inverse clean set_keep_first [of "{}"]
    by (auto simp: parse_capability_grants_def list_all_iff)
qed

theorem grants_roundtrip_witness:
  "parse_capability_grants ''click,evaluate'' = [''click'', ''evaluate'']"
  using grants_roundtrip [of "[''click'', ''evaluate'']" "[]"]
  by (simp add: grant_separator_def is_whitespace_def code_of_def)

section \<open>Preflight and posture\<close>

lemma names_parse: "n \<in> cp_name ` set default_capabilities \<Longrightarrow> parse_capability_grants n = [n]"
proof -
  have "list_all (\<lambda>n. parse_capability_grants n = [n]) (map cp_name default_capabilities)" by code_simp
  then show "n \<in> cp_name ` set default_capabilities \<Longrightarrow> parse_capability_grants n = [n]"
    by (auto simp: list_all_iff)
qed

lemma gate_allows_default:
  assumes "c \<in> set default_capabilities"
  shows "is_ok (require_capability_allowed_by_policy (cp_name c) policy) \<longleftrightarrow> evaluate policy c = Allowed"
proof -
  have "d = c" if "d \<in> set default_capabilities" "cp_name d = cp_name c" for d
    using that assms default_names_distinct by (auto simp: distinct_map dest: inj_onD)
  then show ?thesis unfolding gate_allows using assms by blast
qed

lemma gate_passes_by_grant:
  assumes "c \<in> set default_capabilities" and "cp_name c \<in> set (parse_capability_grants v)"
  shows "is_ok (require_capability_allowed (Some v) (cp_name c))"
  unfolding require_capability_allowed_def gate_allows_default [OF assms(1)]
  using assms(2) by (simp add: evaluate_def capability_policy_from_env_def)

lemma preflight_entries:
  "capability_preflight policy name = Inr payload \<Longrightarrow> e \<in> set (pp_capabilities payload) \<Longrightarrow>
   \<exists>c\<in>set default_capabilities. e = capability_preflight_entry policy c"
  unfolding capability_preflight_def Let_def
  by (auto split: option.splits list.splits dest!: arg_cong [where f = set]) blast+

text \<open>The preflight tells the truth: an entry is reported as allowed exactly when the
  enforcement lets its operation pass under the same policy, and for an entry that is not
  allowed the hint is the environment setting under which the enforcement does let it pass.\<close>

theorem preflight_matches_enforcement:
  assumes "capability_preflight policy name = Inr payload" and "e \<in> set (pp_capabilities payload)"
  shows "(pe_allowed e \<longleftrightarrow> is_ok (require_capability_allowed_by_policy (pe_name e) policy)) \<and>
    (if pe_allowed e then pe_grant_hint e = None
     else pe_grant_hint e = Some (grants_env @ ''='' @ pe_name e) \<and>
       is_ok (require_capability_allowed (Some (pe_name e)) (pe_name e)))"
proof -
  obtain c where c: "c \<in> set default_capabilities" "e = capability_preflight_entry policy c"
    using preflight_entries [OF assms] by blast
  have name: "pe_name e = cp_name c" by (simp add: c(2) capability_preflight_entry_def Let_def)
  have "pe_allowed e \<longleftrightarrow> evaluate policy c = Allowed"
    by (simp add: c(2) capability_preflight_entry_def Let_def)
  also have "\<dots> \<longleftrightarrow> is_ok (require_capability_allowed_by_policy (pe_name e) policy)"
    unfolding name gate_allows_default [OF c(1)] by simp
  finally have enforced: "pe_allowed e \<longleftrightarrow> is_ok (require_capability_allowed_by_policy (pe_name e) policy)" .
  have "is_ok (require_capability_allowed (Some (cp_name c)) (cp_name c))"
    using gate_passes_by_grant [OF c(1)] names_parse c(1) by simp
  then show ?thesis using enforced
    by (simp add: name c(2) capability_preflight_entry_def Let_def)
qed

theorem preflight_matches_enforcement_witness:
  "is_ok (require_capability_allowed (Some ''click'') ''click'')"
proof -
  let ?p = "capability_preflight gate_policy_default (Some ''click'')"
  have "\<not> isl ?p \<and> map pe_name (pp_capabilities (projr ?p)) = [''click''] \<and>
      list_all (\<lambda>e. \<not> pe_allowed e) (pp_capabilities (projr ?p))"
    by code_simp
  then obtain payload e where "?p = Inr payload" "e \<in> set (pp_capabilities payload)" "pe_name e = ''click''"
    "\<not> pe_allowed e"
    by (cases ?p) (auto simp: map_eq_Cons_conv)
  then show ?thesis using preflight_matches_enforcement by metis
qed

lemma posture_step_counts:
  "length (cs_capabilities (posture_step policy c p)) = Suc (length (cs_capabilities p)) \<and>
   cs_safe (posture_step policy c p) + cs_elevated (posture_step policy c p) +
     cs_dangerous (posture_step policy c p) = Suc (cs_safe p + cs_elevated p + cs_dangerous p) \<and>
   cs_allowed (posture_step policy c p) + cs_denied (posture_step policy c p) +
     cs_requires_grant (posture_step policy c p) = Suc (cs_allowed p + cs_denied p + cs_requires_grant p) \<and>
   cs_allowed (posture_step policy c p) = cs_allowed p + (if evaluate policy c = Allowed then 1 else 0)"
  by (cases "cp_risk_tier c"; cases "evaluate policy c") (simp_all add: posture_step_def)

text \<open>The posture counts every built-in capability once by tier and once by decision, and
  what it counts as allowed is what the enforcement lets pass.\<close>

theorem posture_counts:
  "cs_total (capability_posture policy) = length default_capabilities \<and>
   cs_safe (capability_posture policy) + cs_elevated (capability_posture policy) +
     cs_dangerous (capability_posture policy) = cs_total (capability_posture policy) \<and>
   cs_allowed (capability_posture policy) + cs_denied (capability_posture policy) +
     cs_requires_grant (capability_posture policy) = cs_total (capability_posture policy) \<and>
   cs_allowed (capability_posture policy) =
     length (filter (\<lambda>c. is_ok (require_capability_allowed_by_policy (cp_name c) policy)) default_capabilities)"
proof -
  have step: "length (cs_capabilities (fold (posture_step policy) cs p)) = length (cs_capabilities p) + length cs \<and>
      cs_safe (fold (posture_step policy) cs p) + cs_elevated (fold (posture_step policy) cs p) +
        cs_dangerous (fold (posture_step policy) cs p) =
        cs_safe p + cs_elevated p + cs_dangerous p + length cs \<and>
      cs_allowed (fold (posture_step policy) cs p) + cs_denied (fold (posture_step policy) cs p) +
        cs_requires_grant (fold (posture_step policy) cs p) =
        cs_allowed p + cs_denied p + cs_requires_grant p + length cs \<and>
      cs_allowed (fold (posture_step policy) cs p) =
        cs_allowed p + length (filter (\<lambda>c. evaluate policy c = Allowed) cs)" for cs p
  proof (induction cs arbitrary: p)
    case (Cons c cs)
    show ?case
      using Cons.IH [of "posture_step policy c p"] posture_step_counts [of policy c p] by simp
  qed simp
  have "filter (\<lambda>c. evaluate policy c = Allowed) default_capabilities =
      filter (\<lambda>c. is_ok (require_capability_allowed_by_policy (cp_name c) policy)) default_capabilities"
    by (rule filter_cong [OF refl]) (simp add: gate_allows_default)
  then show ?thesis
    using step [of default_capabilities
        "\<lparr>cs_policy = policy, cs_total = 0, cs_safe = 0, cs_elevated = 0, cs_dangerous = 0,
          cs_allowed = 0, cs_denied = 0, cs_requires_grant = 0, cs_capabilities = []\<rparr>"]
    by (simp add: capability_posture_def Let_def)
qed

end
