(* ===== verification/McpTools.thy ===== *)
theory McpTools
  imports McpArgs
begin

text \<open>
  The tool catalogue and the dispatcher of the MCP server, \<open>core_tools\<close> and \<open>execute_tool\<close> of
  \<open>crates/pengu-mesh-mcp/src/lib.rs\<close>. A call is first decoded: \<open>dispatch_tool\<close> gives the typed
  runtime call together with the attempt that a failure report will carry, or the error that
  the dispatcher itself raises. What the runtime answers is an argument of \<open>execute_tool\<close>.
\<close>

section \<open>The catalogue\<close>

record tool_contract =
  tc_name :: string
  tc_summary :: string
  tc_input_schema :: json
  tc_deferred :: bool

definition tool :: "string \<Rightarrow> string \<Rightarrow> json \<Rightarrow> bool \<Rightarrow> tool_contract" where
  "tool name summary input_schema deferred =
     \<lparr>tc_name = name, tc_summary = summary, tc_input_schema = input_schema, tc_deferred = deferred\<rparr>"

definition tab_schema :: json where
  "tab_schema =
     JObj [(''type'', JStr ''object''), (''properties'', JObj [(''tab_id'', JObj [(''type'',
       JStr ''string'')]), (''holder_id'', JObj [(''type'', JStr ''string'')])]), (''required'',
       JArr [JStr ''tab_id'']), (''additionalProperties'', JBool False)]"

definition host_tools :: "tool_contract list" where
  "host_tools =
     [tool ''browser_health'' ''Validate runtime readiness, browser discovery, and active instances.'' (JObj [(''type'',
        JStr ''object''), (''properties'', JObj []), (''additionalProperties'', JBool False)]) False,
      tool ''browser_doctor'' ''Capture host, browser, and permission diagnostics.'' (JObj [(''type'',
        JStr ''object''), (''properties'', JObj []), (''additionalProperties'', JBool False)]) False,
      tool ''diagnose'' ''Return a side-effect-free host readiness and remediation report.'' (JObj [(''type'',
        JStr ''object''), (''properties'', JObj []), (''additionalProperties'', JBool False)]) False,
      tool ''capability_preflight'' ''Preflight one or all built-in capabilities against the current local policy before acting.'' (JObj [(''type'',
        JStr ''object''), (''properties'', JObj [(''capability'', JObj [(''type'',
        JStr ''string'')])]), (''additionalProperties'', JBool False)]) False,
      tool ''host_access_status'' ''Read host-level macOS access, permissions, and execution-channel readiness.'' (JObj [(''type'',
        JStr ''object''), (''properties'', JObj []), (''additionalProperties'', JBool False)]) False,
      tool ''host_access_setup'' ''Audit or apply host-level macOS access setup for native browser control surfaces.'' (JObj [(''type'',
        JStr ''object''), (''properties'', JObj [(''mode'', JObj [(''type'', JStr ''string''),
        (''enum'', JArr [JStr ''audit'', JStr ''apply''])]), (''services'', JObj [(''type'',
        JStr ''array''), (''items'', JObj [(''type'', JStr ''string''), (''enum'',
        JArr [JStr ''accessibility'', JStr ''screen_capture'', JStr ''listen_event'',
        JStr ''apple_events_chrome'', JStr ''apple_events_chrome_dev'', JStr ''apple_events_chromium'',
        JStr ''devtools_security''])])]), (''open_settings_on_missing'', JObj [(''type'',
        JStr ''boolean'')])]), (''additionalProperties'', JBool False)]) False,
      tool ''profile_list'' ''List managed browser profiles.'' (JObj [(''type'', JStr ''object''),
        (''properties'', JObj []), (''additionalProperties'', JBool False)]) False,
      tool ''profile_create'' ''Create a managed profile.'' (JObj [(''type'', JStr ''object''),
        (''properties'', JObj [(''name'', JObj [(''type'', JStr ''string'')]), (''channel'',
        JObj [(''type'', JStr ''string''), (''enum'', JArr [JStr ''chrome-dev'', JStr ''chrome'',
        JStr ''chromium''])])]), (''required'', JArr [JStr ''name'']), (''additionalProperties'',
        JBool False)]) False,
      tool ''instance_list'' ''List live and known browser instances.'' (JObj [(''type'',
        JStr ''object''), (''properties'', JObj []), (''additionalProperties'', JBool False)]) False,
      tool ''instance_start'' ''Launch a managed browser instance.'' (JObj [(''type'',
        JStr ''object''), (''properties'', JObj [(''name'', JObj [(''type'', JStr ''string'')]),
        (''channel'', JObj [(''type'', JStr ''string''), (''enum'', JArr [JStr ''chrome-dev'',
        JStr ''chrome'', JStr ''chromium''])]), (''headless'', JObj [(''type'', JStr ''boolean'')]),
        (''holder_id'', JObj [(''type'', JStr ''string'')])]), (''additionalProperties'',
        JBool False)]) False,
      tool ''instance_stop'' ''Stop a managed browser instance.'' (JObj [(''type'', JStr ''object''),
        (''properties'', JObj [(''instance_id'', JObj [(''type'', JStr ''string'')]), (''holder_id'',
        JObj [(''type'', JStr ''string'')])]), (''required'', JArr [JStr ''instance_id'']),
        (''additionalProperties'', JBool False)]) False,
      tool ''instance_attach'' ''Attach to an externally managed browser endpoint.'' (JObj [(''type'',
        JStr ''object''), (''properties'', JObj [(''name'', JObj [(''type'', JStr ''string'')]),
        (''cdp_url'', JObj [(''type'', JStr ''string'')]), (''holder_id'', JObj [(''type'',
        JStr ''string'')])]), (''required'', JArr [JStr ''name'', JStr ''cdp_url'']),
        (''additionalProperties'', JBool False)]) False]"

definition tab_tools :: "tool_contract list" where
  "tab_tools =
     [tool ''tab_list'' ''List tabs for a live instance.'' (JObj [(''type'', JStr ''object''),
        (''properties'', JObj [(''instance_id'', JObj [(''type'', JStr ''string'')]), (''holder_id'',
        JObj [(''type'', JStr ''string'')])]), (''required'', JArr [JStr ''instance_id'']),
        (''additionalProperties'', JBool False)]) False,
      tool ''browser_surface_list'' ''List native browser surfaces discovered through macOS Accessibility.'' (JObj [(''type'',
        JStr ''object''), (''properties'', JObj [(''instance_id'', JObj [(''type'', JStr ''string'')]),
        (''holder_id'', JObj [(''type'', JStr ''string'')])]), (''required'',
        JArr [JStr ''instance_id'']), (''additionalProperties'', JBool False)]) False,
      tool ''browser_surface_list_actions'' ''Describe the available actions for a native browser surface, including required permissions and execution paths.'' (JObj [(''type'',
        JStr ''object''), (''properties'', JObj [(''instance_id'', JObj [(''type'', JStr ''string'')]),
        (''surface_id'', JObj [(''type'', JStr ''string'')]), (''holder_id'', JObj [(''type'',
        JStr ''string'')])]), (''required'', JArr [JStr ''instance_id'', JStr ''surface_id'']),
        (''additionalProperties'', JBool False)]) False,
      tool ''browser_surface_snapshot'' ''Capture a native browser-surface snapshot and optional native window evidence.'' (JObj [(''type'',
        JStr ''object''), (''properties'', JObj [(''instance_id'', JObj [(''type'', JStr ''string'')]),
        (''root_surface_id'', JObj [(''type'', JStr ''string'')]), (''holder_id'', JObj [(''type'',
        JStr ''string'')])]), (''required'', JArr [JStr ''instance_id'']), (''additionalProperties'',
        JBool False)]) False,
      tool ''browser_surface_action'' ''Execute an action against a browser-native surface through the macOS substrate.'' (JObj [(''type'',
        JStr ''object''), (''properties'', JObj [(''instance_id'', JObj [(''type'', JStr ''string'')]),
        (''surface_id'', JObj [(''type'', JStr ''string'')]), (''action'', JObj [(''type'',
        JStr ''string''), (''enum'', JArr [JStr ''press'', JStr ''focus'', JStr ''confirm'',
        JStr ''set_value'', JStr ''key_sequence''])]), (''value'', JObj [(''type'', JStr ''string'')]),
        (''key_sequence'', JObj [(''type'', JStr ''string'')]), (''execution_channel'',
        JObj [(''type'', JStr ''string''), (''enum'', JArr [JStr ''cdp'', JStr ''ax_direct'',
        JStr ''apple_events_activation'', JStr ''app_scoped_key_post'', JStr ''global_takeover''])]),
        (''allow_takeover'', JObj [(''type'', JStr ''boolean'')]), (''holder_id'', JObj [(''type'',
        JStr ''string'')])]), (''required'', JArr [JStr ''instance_id'', JStr ''action'']),
        (''additionalProperties'', JBool False)]) False,
      tool ''tab_open'' ''Open a tab in a live instance.'' (JObj [(''type'', JStr ''object''),
        (''properties'', JObj [(''instance_id'', JObj [(''type'', JStr ''string'')]), (''url'',
        JObj [(''type'', JStr ''string'')]), (''holder_id'', JObj [(''type'', JStr ''string'')])]),
        (''required'', JArr [JStr ''instance_id'', JStr ''url'']), (''additionalProperties'',
        JBool False)]) False,
      tool ''tab_list_actions'' ''Describe the available tab action contracts before acting.'' (JObj [(''type'',
        JStr ''object''), (''properties'', JObj [(''instance_id'', JObj [(''type'', JStr ''string'')]),
        (''tab_id'', JObj [(''type'', JStr ''string'')]), (''holder_id'', JObj [(''type'',
        JStr ''string'')])]), (''required'', JArr [JStr ''instance_id'', JStr ''tab_id'']),
        (''additionalProperties'', JBool False)]) False,
      tool ''tab_close'' ''Close a tab by stable tab id.'' (JObj [(''type'', JStr ''object''),
        (''properties'', JObj [(''tab_id'', JObj [(''type'', JStr ''string'')]), (''holder_id'',
        JObj [(''type'', JStr ''string'')])]), (''required'', JArr [JStr ''tab_id'']),
        (''additionalProperties'', JBool False)]) False,
      tool ''tab_snapshot'' ''Capture an accessibility-oriented snapshot.'' tab_schema False,
      tool ''tab_text'' ''Extract token-efficient text from a tab.'' tab_schema False,
      tool ''tab_action'' ''Run a typed browser action.'' (JObj [(''type'', JStr ''object''),
        (''properties'', JObj [(''tab_id'', JObj [(''type'', JStr ''string'')]), (''kind'',
        JObj [(''type'', JStr ''string''), (''enum'', JArr [JStr ''navigate'', JStr ''evaluate'',
        JStr ''click'', JStr ''focus'', JStr ''hover'', JStr ''fill'', JStr ''type'', JStr ''press'',
        JStr ''select''])]), (''ref'', JObj [(''type'', JStr ''string'')]), (''selector'',
        JObj [(''type'', JStr ''string'')]), (''url'', JObj [(''type'', JStr ''string'')]),
        (''timeout_ms'', JObj [(''type'', JStr ''integer'')]), (''expression'', JObj [(''type'',
        JStr ''string'')]), (''text'', JObj [(''type'', JStr ''string'')]), (''value'',
        JObj [(''type'', JStr ''string'')]), (''key'', JObj [(''type'', JStr ''string'')]),
        (''holder_id'', JObj [(''type'', JStr ''string'')])]), (''required'', JArr [JStr ''tab_id'',
        JStr ''kind'']), (''additionalProperties'', JBool False)]) False,
      tool ''tab_screenshot'' ''Capture a screenshot artifact.'' (JObj [(''type'', JStr ''object''),
        (''properties'', JObj [(''tab_id'', JObj [(''type'', JStr ''string'')]), (''holder_id'',
        JObj [(''type'', JStr ''string'')]), (''full_page'', JObj [(''type'', JStr ''boolean'')])]),
        (''required'', JArr [JStr ''tab_id'']), (''additionalProperties'', JBool False)]) False,
      tool ''tab_pdf'' ''Capture a PDF artifact.'' tab_schema False]"

definition record_tools :: "tool_contract list" where
  "record_tools =
     [tool ''artifact_list'' ''List artifact metadata for a run and/or instance.'' (JObj [(''type'',
        JStr ''object''), (''properties'', JObj [(''instance_id'', JObj [(''type'', JStr ''string'')]),
        (''run_id'', JObj [(''type'', JStr ''string'')])]), (''additionalProperties'',
        JBool False)]) False,
      tool ''artifact_verify'' ''Recompute and compare the stored SHA-256 for an artifact.'' (JObj [(''type'',
        JStr ''object''), (''properties'', JObj [(''artifact_id'', JObj [(''type'',
        JStr ''string'')])]), (''required'', JArr [JStr ''artifact_id'']), (''additionalProperties'',
        JBool False)]) False,
      tool ''artifact_crop'' ''Create a derived crop artifact from a screenshot or PDF artifact.'' (JObj [(''type'',
        JStr ''object''), (''properties'', JObj [(''artifact_id'', JObj [(''type'', JStr ''string'')]),
        (''x_min'', JObj [(''type'', JStr ''integer''), (''minimum'', JNum 0), (''maximum'',
        JNum 999)]), (''y_min'', JObj [(''type'', JStr ''integer''), (''minimum'', JNum 0),
        (''maximum'', JNum 999)]), (''x_max'', JObj [(''type'', JStr ''integer''), (''minimum'',
        JNum 0), (''maximum'', JNum 999)]), (''y_max'', JObj [(''type'', JStr ''integer''),
        (''minimum'', JNum 0), (''maximum'', JNum 999)]), (''page_index'', JObj [(''type'',
        JStr ''integer''), (''minimum'', JNum 0)]), (''holder_id'', JObj [(''type'',
        JStr ''string'')])]), (''required'', JArr [JStr ''artifact_id'', JStr ''x_min'',
        JStr ''y_min'', JStr ''x_max'', JStr ''y_max'']), (''additionalProperties'',
        JBool False)]) False,
      tool ''artifact_crop_grid'' ''Create a deterministic batch of derived crop artifacts from a screenshot or PDF artifact.'' (JObj [(''type'',
        JStr ''object''), (''properties'', JObj [(''artifact_id'', JObj [(''type'', JStr ''string'')]),
        (''rows'', JObj [(''type'', JStr ''integer''), (''minimum'', JNum 1), (''maximum'', JNum 16)]),
        (''cols'', JObj [(''type'', JStr ''integer''), (''minimum'', JNum 1), (''maximum'', JNum 16)]),
        (''overlap'', JObj [(''type'', JStr ''integer''), (''minimum'', JNum 0), (''maximum'',
        JNum 250)]), (''page_index'', JObj [(''type'', JStr ''integer''), (''minimum'', JNum 0)]),
        (''holder_id'', JObj [(''type'', JStr ''string'')])]), (''required'',
        JArr [JStr ''artifact_id'', JStr ''rows'', JStr ''cols'']), (''additionalProperties'',
        JBool False)]) False,
      tool ''capture_start_recording'' ''Begin or resume recording a run.'' (JObj [(''type'',
        JStr ''object''), (''properties'', JObj []), (''additionalProperties'', JBool False)]) False,
      tool ''capture_stop_recording'' ''Stop recording the current run.'' (JObj [(''type'',
        JStr ''object''), (''properties'', JObj []), (''additionalProperties'', JBool False)]) False,
      tool ''run_list'' ''List recent capture runs.'' (JObj [(''type'', JStr ''object''),
        (''properties'', JObj [(''limit'', JObj [(''type'', JStr ''integer''), (''minimum'', JNum 1),
        (''maximum'', JNum 200)])]), (''additionalProperties'', JBool False)]) False,
      tool ''scenario_list'' ''List stored scenario runs, optionally filtered by family.'' (JObj [(''type'',
        JStr ''object''), (''properties'', JObj [(''family'', JObj [(''type'', JStr ''string'')]),
        (''limit'', JObj [(''type'', JStr ''integer''), (''minimum'', JNum 1), (''maximum'',
        JNum 200)])]), (''additionalProperties'', JBool False)]) False,
      tool ''scenario_summary'' ''Summarize stored scenario evidence by family, status, assertions, and latency.'' (JObj [(''type'',
        JStr ''object''), (''properties'', JObj [(''family'', JObj [(''type'', JStr ''string'')]),
        (''limit'', JObj [(''type'', JStr ''integer''), (''minimum'', JNum 1), (''maximum'',
        JNum 200)])]), (''additionalProperties'', JBool False)]) False,
      tool ''scenario_gate'' ''Evaluate stored scenario evidence against a release or promotion policy.'' (JObj [(''type'',
        JStr ''object''), (''properties'', JObj [(''family'', JObj [(''type'', JStr ''string'')]),
        (''limit'', JObj [(''type'', JStr ''integer''), (''minimum'', JNum 1), (''maximum'',
        JNum 200)]), (''min_runs'', JObj [(''type'', JStr ''integer''), (''minimum'', JNum 0)]),
        (''allowed_statuses'', JObj [(''type'', JStr ''array''), (''items'', JObj [(''type'',
        JStr ''string'')])]), (''max_assertion_failures'', JObj [(''type'', JStr ''integer''),
        (''minimum'', JNum 0)]), (''min_samples_per_metric'', JObj [(''type'', JStr ''integer''),
        (''minimum'', JNum 0)]), (''max_latest_age_minutes'', JObj [(''type'', JStr ''integer''),
        (''minimum'', JNum 0)]), (''thresholds'', JObj [(''type'', JStr ''array''), (''items'',
        JObj [(''type'', JStr ''object''), (''properties'', JObj [(''name'', JObj [(''type'',
        JStr ''string'')]), (''metric'', JObj [(''type'', JStr ''string'')]), (''max_ms'',
        JObj [(''type'', JStr ''integer''), (''minimum'', JNum 0)]), (''p50_ms'', JObj [(''type'',
        JStr ''integer''), (''minimum'', JNum 0)]), (''p95_ms'', JObj [(''type'', JStr ''integer''),
        (''minimum'', JNum 0)]), (''p99_ms'', JObj [(''type'', JStr ''integer''), (''minimum'',
        JNum 0)])]), (''required'', JArr [JStr ''name'', JStr ''metric'', JStr ''max_ms'']),
        (''additionalProperties'', JBool False)])]), (''threshold_name'', JObj [(''type'',
        JStr ''string'')]), (''threshold_metric'', JObj [(''type'', JStr ''string'')]), (''max_ms'',
        JObj [(''type'', JStr ''integer''), (''minimum'', JNum 0)]), (''p50_ms'', JObj [(''type'',
        JStr ''integer''), (''minimum'', JNum 0)]), (''p95_ms'', JObj [(''type'', JStr ''integer''),
        (''minimum'', JNum 0)]), (''p99_ms'', JObj [(''type'', JStr ''integer''), (''minimum'',
        JNum 0)])]), (''additionalProperties'', JBool False)]) False,
      tool ''scenario_run_detail'' ''Read the stored detail for one scenario run.'' (JObj [(''type'',
        JStr ''object''), (''properties'', JObj [(''run_id'', JObj [(''type'', JStr ''string'')])]),
        (''required'', JArr [JStr ''run_id'']), (''additionalProperties'', JBool False)]) False,
      tool ''replay_export'' ''Export a replay manifest for a run.'' (JObj [(''type'',
        JStr ''object''), (''properties'', JObj [(''run_id'', JObj [(''type'', JStr ''string'')]),
        (''mode'', JObj [(''type'', JStr ''string''), (''enum'', JArr [JStr ''manifest_only'',
        JStr ''portable''])])]), (''additionalProperties'', JBool False)]) False,
      tool ''trace_capture'' ''Capture a bounded Chrome trace artifact for a tab.'' (JObj [(''type'',
        JStr ''object''), (''properties'', JObj [(''tab_id'', JObj [(''type'', JStr ''string'')]),
        (''duration_ms'', JObj [(''type'', JStr ''integer''), (''minimum'', JNum 100), (''maximum'',
        JNum 30000)]), (''categories'', JObj [(''type'', JStr ''array''), (''items'', JObj [(''type'',
        JStr ''string'')])]), (''holder_id'', JObj [(''type'', JStr ''string'')])]), (''required'',
        JArr [JStr ''tab_id'']), (''additionalProperties'', JBool False)]) False,
      tool ''recording_capture'' ''Capture a bounded screenshot-archive recording artifact for a tab.'' (JObj [(''type'',
        JStr ''object''), (''properties'', JObj [(''tab_id'', JObj [(''type'', JStr ''string'')]),
        (''duration_ms'', JObj [(''type'', JStr ''integer''), (''minimum'', JNum 100), (''maximum'',
        JNum 30000)]), (''interval_ms'', JObj [(''type'', JStr ''integer''), (''minimum'', JNum 50),
        (''maximum'', JNum 5000)]), (''holder_id'', JObj [(''type'', JStr ''string'')])]),
        (''required'', JArr [JStr ''tab_id'']), (''additionalProperties'', JBool False)]) False,
      tool ''events_tail'' ''Read recent orchestration events for a run.'' (JObj [(''type'',
        JStr ''object''), (''properties'', JObj [(''run_id'', JObj [(''type'', JStr ''string'')]),
        (''limit'', JObj [(''type'', JStr ''integer''), (''minimum'', JNum 1), (''maximum'',
        JNum 200)])]), (''additionalProperties'', JBool False)]) False]"

definition lease_tools :: "tool_contract list" where
  "lease_tools =
     [tool ''lease_status'' ''Inspect active multi-agent lease state.'' (JObj [(''type'',
        JStr ''object''), (''properties'', JObj [(''instance_id'', JObj [(''type'',
        JStr ''string'')])]), (''additionalProperties'', JBool False)]) False,
      tool ''lease_acquire'' ''Acquire or renew a writer or observer lease for an instance.'' (JObj [(''type'',
        JStr ''object''), (''properties'', JObj [(''instance_id'', JObj [(''type'', JStr ''string'')]),
        (''holder_id'', JObj [(''type'', JStr ''string'')]), (''holder_label'', JObj [(''type'',
        JStr ''string'')]), (''mode'', JObj [(''type'', JStr ''string''), (''enum'',
        JArr [JStr ''writer'', JStr ''observer''])]), (''ttl_seconds'', JObj [(''type'',
        JStr ''integer''), (''minimum'', JNum 15), (''maximum'', JNum 3600)])]), (''required'',
        JArr [JStr ''instance_id'', JStr ''holder_id'']), (''additionalProperties'',
        JBool False)]) False,
      tool ''lease_release'' ''Release one or all leases held by an operator for an instance.'' (JObj [(''type'',
        JStr ''object''), (''properties'', JObj [(''instance_id'', JObj [(''type'', JStr ''string'')]),
        (''holder_id'', JObj [(''type'', JStr ''string'')]), (''mode'', JObj [(''type'',
        JStr ''string''), (''enum'', JArr [JStr ''writer'', JStr ''observer''])])]), (''required'',
        JArr [JStr ''instance_id'', JStr ''holder_id'']), (''additionalProperties'',
        JBool False)]) False,
      tool ''lease_transfer'' ''Transfer a writer lease from one operator to another.'' (JObj [(''type'',
        JStr ''object''), (''properties'', JObj [(''instance_id'', JObj [(''type'', JStr ''string'')]),
        (''from_holder_id'', JObj [(''type'', JStr ''string'')]), (''to_holder_id'', JObj [(''type'',
        JStr ''string'')]), (''to_holder_label'', JObj [(''type'', JStr ''string'')]),
        (''ttl_seconds'', JObj [(''type'', JStr ''integer''), (''minimum'', JNum 15), (''maximum'',
        JNum 3600)])]), (''required'', JArr [JStr ''instance_id'', JStr ''from_holder_id'',
        JStr ''to_holder_id'']), (''additionalProperties'', JBool False)]) False]"

definition core_tools :: "tool_contract list" where
  "core_tools = host_tools @ tab_tools @ record_tools @ lease_tools"

definition mcp_tools_list :: json where
  "mcp_tools_list =
     JObj [(''tools'', JArr (map (\<lambda>t. JObj [(''name'', JStr (tc_name t)), (''description'', JStr (tc_summary t)),
       (''inputSchema'', tc_input_schema t)]) core_tools))]"

definition supported_tools :: "string list" where
  "supported_tools = map tc_name (filter (\<lambda>t. \<not> tc_deferred t) core_tools)"

definition deferred_tools :: "string list" where
  "deferred_tools = map tc_name (filter tc_deferred core_tools)"

end
