(* ===== verification/McpDispatch.thy ===== *)
theory McpDispatch
  imports McpTools
begin

text \<open>
  \<open>execute_tool\<close> of \<open>crates/pengu-mesh-mcp/src/lib.rs\<close>: the decoding of every tool call, the
  runtime call it leads to, and the outcome that reports the answer. The runtime's handlers
  are an argument: a function from a typed call and the state to an answer and a new state.
  The theorems relate the dispatcher to the catalogue, say when the runtime is called at all,
  and show two casts that lose bits.
\<close>

section \<open>Calls and attempts\<close>

text \<open>One constructor for every handler of the runtime that a tool calls, in the groups of the dispatcher.\<close>

datatype host_call =
    BrowserHealth | DoctorReport | DiagnoseReport | CapabilityPreflight "string option"
  | HostAccessStatus | HostAccessSetup host_access_setup_request
  | ListProfiles | CreateProfile string browser_channel | ListInstances

datatype instance_call =
    StartInstance string browser_channel bool "string option"
  | AttachInstance string string "string option" | StopInstance string "string option"

datatype tab_call =
    ListTabs string "string option" | TabListActions string string "string option"
  | OpenTab string string "string option" | CloseTab string "string option"
  | SnapshotTab string "string option" | TextTab string "string option"
  | TabAction string tab_action_request "string option"
  | ScreenshotTab string "string option" bool | PdfTab string "string option"

datatype surface_call =
    SurfaceList string "string option" | SurfaceListActions string string "string option"
  | SurfaceSnapshot string "string option" "string option"
  | SurfaceAction string surface_action_request "string option"

datatype artifact_call =
    ArtifactCrop string normalized_region "32 word option" "string option"
  | ArtifactList "string option" "string option" | ArtifactVerify string
  | ArtifactCropGrid string "16 word" "16 word" "16 word" "32 word option" "string option"
  | CaptureStart | CaptureStop

datatype run_call =
    RunList nat | ScenarioList "string option" nat | ScenarioSummary "string option" nat
  | ScenarioGate "string option" nat scenario_gate_policy | ScenarioRunDetail string
  | ReplayExport "string option" replay_mode
  | TraceCapture string nat "string list" "string option"
  | RecordingCapture string nat nat "string option" | EventsTail "string option" nat

datatype lease_call =
    LeaseStatus "string option" | LeaseAcquire string string "string option" lease_mode nat
  | LeaseRelease string string "lease_mode option"
  | LeaseTransfer string string string "string option" nat

datatype tool_call =
    HostCall host_call | InstanceCall instance_call | TabCall tab_call | SurfaceCall surface_call
  | ArtifactCall artifact_call | RunCall run_call | LeaseCall lease_call

datatype attempt =
    OperationAttempt operation_failure_attempt
  | TabAttempt tab_failure_attempt
  | SurfaceAttempt surface_failure_attempt
  | ArtifactAttempt artifact_failure_attempt

text \<open>\<open>Reported\<close> wraps the answer under a message, with the attempt for a failure; \<open>Direct\<close> is a
  runtime call that builds its own outcome.\<close>

datatype dispatch = Reported string attempt "tool_call res" | Direct tool_call

type_synonym dispatcher = "string \<Rightarrow> json \<Rightarrow> dispatch res option"

definition operation_attempt ::
  "string \<Rightarrow> string option \<Rightarrow> string option \<Rightarrow> string option \<Rightarrow> attempt" where
  "operation_attempt operation instance_id holder_id detail =
     OperationAttempt \<lparr>oa_operation = operation, oa_instance_id = instance_id, oa_holder_id = holder_id,
                       oa_detail = detail\<rparr>"

definition tab_attempt :: "string option \<Rightarrow> string option \<Rightarrow> string option \<Rightarrow> attempt" where
  "tab_attempt instance_id tab_id action_kind =
     TabAttempt \<lparr>ta_instance_id = instance_id, ta_tab_id = tab_id, ta_action_kind = action_kind\<rparr>"

definition artifact_attempt :: "string option \<Rightarrow> string option \<Rightarrow> string option \<Rightarrow> string \<Rightarrow> attempt" where
  "artifact_attempt artifact_id instance_id run_id action_kind =
     ArtifactAttempt \<lparr>aa_artifact_id = artifact_id, aa_instance_id = instance_id, aa_run_id = run_id,
                      aa_action_kind = Some action_kind\<rparr>"

definition surface_attempt :: "string \<Rightarrow> string option \<Rightarrow> string option \<Rightarrow> attempt" where
  "surface_attempt instance_id surface_id root_surface_id =
     SurfaceAttempt \<lparr>ba_instance_id = instance_id, ba_surface_id = surface_id,
       ba_root_surface_id = root_surface_id, ba_action = None, ba_execution_channel = None,
       ba_allow_takeover = None\<rparr>"

definition holder_arg :: "json \<Rightarrow> string option" where
  "holder_arg args = optional_string args ''holder_id''"

definition limit_arg :: "json \<Rightarrow> nat" where
  "limit_arg args = unwrap_or 25 (optional_usize args ''limit'')"

definition page_arg :: "json \<Rightarrow> 32 word option" where
  "page_arg args = map_option of_nat (optional_usize args ''page_index'')"

definition show_bool :: "bool \<Rightarrow> string" where
  "show_bool b = (if b then ''true'' else ''false'')"

section \<open>Host, profile and instance tools\<close>

definition dispatch_host :: dispatcher where
  "dispatch_host name args =
     (if name = ''browser_health'' then Some (Inr (Direct (HostCall BrowserHealth)))
      else if name = ''browser_doctor'' then
        Some (Inr (Reported ''browser doctor'' (operation_attempt ''browser_doctor'' None None None) (Inr (HostCall DoctorReport))))
      else if name = ''diagnose'' then
        Some (Inr (Reported ''diagnose report'' (operation_attempt ''diagnose'' None None None) (Inr (HostCall DiagnoseReport))))
      else if name = ''capability_preflight'' then
        Some (Inr (Reported ''capability preflight''
          (operation_attempt ''capability_preflight'' None None
             (map_option (\<lambda>c. ''capability='' @ c) (optional_string args ''capability'')))
          (Inr (HostCall (CapabilityPreflight (optional_string args ''capability''))))))
      else if name = ''host_access_status'' then
        Some (Inr (Reported ''host access status'' (operation_attempt ''host_access_status'' None None None)
          (Inr (HostCall HostAccessStatus))))
      else if name = ''host_access_setup'' then
        Some (try_res (parse_host_access_setup args) (\<lambda>request.
          Inr (Reported ''host access setup''
            (operation_attempt ''host_access_setup'' None None
               (Some (''mode='' @ setup_mode_str (hs_mode request) @ '' services=['' @
                  join '','' (map host_access_service_str (hs_services request)) @
                  ''] open_settings_on_missing='' @ show_bool (hs_open_settings_on_missing request))))
            (Inr (HostCall (HostAccessSetup request))))))
      else if name = ''profile_list'' then
        Some (Inr (Reported ''profile list'' (operation_attempt ''profile_list'' None None None) (Inr (HostCall ListProfiles))))
      else if name = ''profile_create'' then
        Some (try_res (required_string args ''name'') (\<lambda>n.
          try_res (parse_channel_arg (unwrap_or ''chrome-dev'' (optional_string args ''channel''))) (\<lambda>channel.
          Inr (Reported ''profile created''
            (operation_attempt ''profile_create'' None None
               (Some (''name='' @ n @ '' channel='' @ browser_channel_str channel)))
            (Inr (HostCall (CreateProfile n channel)))))))
      else if name = ''instance_list'' then
        Some (Inr (Reported ''instance list'' (operation_attempt ''instance_list'' None None None) (Inr (HostCall ListInstances))))
      else None)"

definition dispatch_instance :: dispatcher where
  "dispatch_instance name args =
     (if name = ''instance_start'' then
        (let n = unwrap_or ''stage1'' (optional_string args ''name'')
         in Some (try_res (parse_channel_arg (unwrap_or ''chrome-dev'' (optional_string args ''channel''))) (\<lambda>channel.
          let headless = unwrap_or False (optional_bool args ''headless'')
          in Inr (Reported ''instance started''
            (operation_attempt ''instance_start'' None (holder_arg args)
               (Some (''name='' @ n @ '' channel='' @ browser_channel_str channel @ '' headless='' @ show_bool headless)))
            (Inr (InstanceCall (StartInstance n channel headless (holder_arg args))))))))
      else if name = ''instance_attach'' then
        Some (try_res (required_string args ''name'') (\<lambda>n.
          try_res (required_string args ''cdp_url'') (\<lambda>cdp_url.
          Inr (Reported ''instance attached''
            (operation_attempt ''instance_attach'' None (holder_arg args)
               (Some (''name='' @ n @ '' cdp_url='' @ cdp_url)))
            (Inr (InstanceCall (AttachInstance n cdp_url (holder_arg args))))))))
      else if name = ''instance_stop'' then
        Some (try_res (required_string args ''instance_id'') (\<lambda>i.
          Inr (Reported ''instance stopped'' (operation_attempt ''instance_stop'' (Some i) (holder_arg args) None)
            (Inr (InstanceCall (StopInstance i (holder_arg args)))))))
      else None)"

section \<open>Tab and surface tools\<close>

text \<open>A tool that reads its id inside the closure: a missing id is reported with the attempt.\<close>

definition with_id :: "string option \<Rightarrow> string \<Rightarrow> (string \<Rightarrow> tool_call res) \<Rightarrow> tool_call res" where
  "with_id i what f = try_res (ok_or (what @ '' is required'') i) f"

definition dispatch_tab :: dispatcher where
  "dispatch_tab name args =
     (let instance_id = optional_string args ''instance_id'';
          tab_id = optional_string args ''tab_id'';
          holder = holder_arg args;
          on_tab = (\<lambda>message kind f.
            Some (Inr (Reported message (tab_attempt None tab_id (Some kind)) (with_id tab_id ''tab_id'' f))))
      in if name = ''tab_list'' then
        Some (Inr (Reported ''tab list'' (tab_attempt instance_id None (Some ''list''))
          (with_id instance_id ''instance_id'' (\<lambda>i. Inr (TabCall (ListTabs i holder))))))
      else if name = ''tab_list_actions'' then
        Some (try_res (required_string args ''instance_id'') (\<lambda>i.
          try_res (required_string args ''tab_id'') (\<lambda>t.
          Inr (Reported ''tab action catalog'' (tab_attempt (Some i) (Some t) (Some ''list_actions''))
            (Inr (TabCall (TabListActions i t holder)))))))
      else if name = ''tab_open'' then
        Some (Inr (Reported ''tab opened'' (tab_attempt instance_id None (Some ''open''))
          (with_id instance_id ''instance_id'' (\<lambda>i.
             try_res (required_string args ''url'') (\<lambda>url. Inr (TabCall (OpenTab i url holder)))))))
      else if name = ''tab_close'' then on_tab ''tab closed'' ''close'' (\<lambda>t. Inr (TabCall (CloseTab t holder)))
      else if name = ''tab_snapshot'' then on_tab ''tab snapshot'' ''snapshot'' (\<lambda>t. Inr (TabCall (SnapshotTab t holder)))
      else if name = ''tab_text'' then on_tab ''tab text'' ''text'' (\<lambda>t. Inr (TabCall (TextTab t holder)))
      else if name = ''tab_action'' then
        Some (Inr (Reported ''tab action completed'' (tab_attempt None tab_id (optional_string args ''kind''))
          (with_id tab_id ''tab_id'' (\<lambda>t.
             try_res (parse_tab_action args) (\<lambda>request. Inr (TabCall (TabAction t request holder)))))))
      else if name = ''tab_screenshot'' then
        on_tab ''tab screenshot'' ''screenshot''
          (\<lambda>t. Inr (TabCall (ScreenshotTab t holder (unwrap_or False (optional_bool args ''full_page'')))))
      else if name = ''tab_pdf'' then on_tab ''tab pdf'' ''pdf'' (\<lambda>t. Inr (TabCall (PdfTab t holder)))
      else None)"

definition dispatch_surface :: dispatcher where
  "dispatch_surface name args =
     (let holder = holder_arg args;
          on_instance = (\<lambda>f. Some (try_res (required_string args ''instance_id'') f))
      in if name = ''browser_surface_list'' then
        on_instance (\<lambda>i. Inr (Reported ''browser surface list'' (surface_attempt i None None)
          (Inr (SurfaceCall (SurfaceList i holder)))))
      else if name = ''browser_surface_list_actions'' then
        on_instance (\<lambda>i. try_res (required_string args ''surface_id'') (\<lambda>surface.
          Inr (Reported ''browser surface action catalog'' (surface_attempt i (Some surface) None)
            (Inr (SurfaceCall (SurfaceListActions i surface holder))))))
      else if name = ''browser_surface_snapshot'' then
        on_instance (\<lambda>i. let root = optional_string args ''root_surface_id''
          in Inr (Reported ''browser surface snapshot'' (surface_attempt i None root)
            (Inr (SurfaceCall (SurfaceSnapshot i root holder)))))
      else if name = ''browser_surface_action'' then
        on_instance (\<lambda>i. try_res (parse_browser_surface_action args) (\<lambda>request.
          Inr (Reported ''browser surface action completed''
            (SurfaceAttempt \<lparr>ba_instance_id = i, ba_surface_id = rq_surface_id request,
               ba_root_surface_id = None, ba_action = Some (rq_action request),
               ba_execution_channel = rq_execution_channel request,
               ba_allow_takeover = rq_allow_takeover request\<rparr>)
            (Inr (SurfaceCall (SurfaceAction i request holder))))))
      else None)"

section \<open>Artifact, run and scenario tools\<close>

definition dispatch_artifact :: dispatcher where
  "dispatch_artifact name args =
     (let holder = holder_arg args;
          on_artifact = (\<lambda>f. Some (try_res (required_string args ''artifact_id'') f))
      in if name = ''artifact_crop'' then
        on_artifact (\<lambda>a. try_res (required_region args) (\<lambda>region.
          Inr (Reported ''artifact crop'' (artifact_attempt (Some a) None None ''crop'')
            (Inr (ArtifactCall (ArtifactCrop a region (page_arg args) holder))))))
      else if name = ''artifact_list'' then
        (let instance_id = optional_string args ''instance_id''; run_id = optional_string args ''run_id''
         in Some (Inr (Reported ''artifact list'' (artifact_attempt None instance_id run_id ''list'')
           (Inr (ArtifactCall (ArtifactList instance_id run_id))))))
      else if name = ''artifact_verify'' then
        (let a = optional_string args ''artifact_id''
         in Some (Inr (Reported ''artifact verify'' (artifact_attempt a None None ''verify'')
           (with_id a ''artifact_id'' (\<lambda>i. Inr (ArtifactCall (ArtifactVerify i)))))))
      else if name = ''artifact_crop_grid'' then
        on_artifact (\<lambda>a.
          try_res (required_u16 args ''rows'') (\<lambda>rows.
          try_res (required_u16 args ''cols'') (\<lambda>cols.
          Inr (Reported ''artifact crop grid'' (artifact_attempt (Some a) None None ''crop_grid'')
            (Inr (ArtifactCall (ArtifactCropGrid a rows cols (of_nat (unwrap_or 0 (optional_usize args ''overlap'')))
               (page_arg args) holder)))))))
      else if name = ''capture_start_recording'' then
        Some (Inr (Reported ''capture recording active''
          (operation_attempt ''capture_start_recording'' None None None) (Inr (ArtifactCall CaptureStart))))
      else if name = ''capture_stop_recording'' then
        Some (Inr (Reported ''capture recording stopped''
          (operation_attempt ''capture_stop_recording'' None None None) (Inr (ArtifactCall CaptureStop))))
      else None)"

definition family_detail :: "string option \<Rightarrow> nat \<Rightarrow> string" where
  "family_detail family limit =
     (case family of
        Some f \<Rightarrow> ''family='' @ f @ '' limit='' @ show_nat limit
      | None \<Rightarrow> ''limit='' @ show_nat limit)"

definition dispatch_run :: dispatcher where
  "dispatch_run name args =
     (let limit = limit_arg args;
          family = optional_string args ''family'';
          run_id = optional_string args ''run_id''
      in if name = ''run_list'' then
        Some (Inr (Reported ''known capture runs''
          (operation_attempt ''run_list'' None None (Some (''limit='' @ show_nat limit))) (Inr (RunCall (RunList limit)))))
      else if name = ''scenario_list'' then
        Some (Inr (Reported ''scenario runs''
          (operation_attempt ''scenario_list'' None None (Some (family_detail family limit)))
          (Inr (RunCall (ScenarioList family limit)))))
      else if name = ''scenario_summary'' then
        Some (Inr (Reported ''scenario summary''
          (operation_attempt ''scenario_summary'' None None (Some (family_detail family limit)))
          (Inr (RunCall (ScenarioSummary family limit)))))
      else if name = ''scenario_gate'' then
        Some (try_res (parse_scenario_gate_policy args) (\<lambda>policy. Inr (Direct (RunCall (ScenarioGate family limit policy)))))
      else if name = ''scenario_run_detail'' then
        Some (try_res (required_string args ''run_id'') (\<lambda>r.
          Inr (Reported ''scenario run detail''
            (operation_attempt ''scenario_run_detail'' None None (Some (''run_id='' @ r)))
            (Inr (RunCall (ScenarioRunDetail r))))))
      else if name = ''replay_export'' then
        Some (try_res (parse_replay_mode (optional_string args ''mode'')) (\<lambda>mode.
          Inr (Reported ''replay manifest exported''
            (operation_attempt ''replay_export'' None None
               (Some (''run_id='' @ unwrap_or ''current'' run_id @ '' mode='' @ replay_mode_str mode)))
            (Inr (RunCall (ReplayExport run_id mode))))))
      else if name = ''trace_capture'' then
        Some (try_res (required_string args ''tab_id'') (\<lambda>t.
          Inr (Reported ''trace capture'' (tab_attempt None (Some t) (Some ''trace_capture''))
            (Inr (RunCall (TraceCapture t (unwrap_or 2000 (optional_usize args ''duration_ms''))
               (optional_string_array args ''categories'') (holder_arg args)))))))
      else if name = ''recording_capture'' then
        Some (try_res (required_string args ''tab_id'') (\<lambda>t.
          Inr (Reported ''recording capture'' (tab_attempt None (Some t) (Some ''recording_capture''))
            (Inr (RunCall (RecordingCapture t (unwrap_or 2000 (optional_usize args ''duration_ms''))
               (unwrap_or 250 (optional_usize args ''interval_ms'')) (holder_arg args)))))))
      else if name = ''events_tail'' then
        Some (Inr (Reported ''capture events''
          (operation_attempt ''events_tail'' None None
             (Some (''run_id='' @ unwrap_or ''current'' run_id @ '' limit='' @ show_nat limit)))
          (Inr (RunCall (EventsTail run_id limit)))))
      else None)"

section \<open>Lease tools\<close>

definition ttl_arg :: "json \<Rightarrow> nat" where
  "ttl_arg args = unwrap_or 120 (optional_usize args ''ttl_seconds'')"

definition dispatch_lease :: dispatcher where
  "dispatch_lease name args =
     (let on_instance = (\<lambda>f. Some (try_res (required_string args ''instance_id'') f))
      in if name = ''lease_status'' then
        (let i = optional_string args ''instance_id''
         in Some (Inr (Reported ''active lease state'' (operation_attempt ''lease_status'' i None None)
           (Inr (LeaseCall (LeaseStatus i))))))
      else if name = ''lease_acquire'' then
        on_instance (\<lambda>i. try_res (required_string args ''holder_id'') (\<lambda>holder.
          let label = optional_string args ''holder_label''
          in try_res (parse_mode_arg (optional_string args ''mode'')) (\<lambda>mode.
          Inr (Reported ''lease acquired''
            (operation_attempt ''lease_acquire'' (Some i) (Some holder)
               (Some (''holder_label='' @ unwrap_or ''none'' label @ '' mode='' @ lease_mode_str mode @
                  '' ttl_seconds='' @ show_nat (ttl_arg args))))
            (Inr (LeaseCall (LeaseAcquire i holder label mode (ttl_arg args))))))))
      else if name = ''lease_release'' then
        on_instance (\<lambda>i. try_res (required_string args ''holder_id'') (\<lambda>holder.
          try_res (case optional_string args ''mode'' of
                     None \<Rightarrow> Inr None | Some m \<Rightarrow> map_ok Some (parse_mode_arg (Some m))) (\<lambda>mode.
          Inr (Reported ''lease released''
            (operation_attempt ''lease_release'' (Some i) (Some holder)
               (Some (''mode='' @ unwrap_or ''all'' (map_option lease_mode_str mode))))
            (Inr (LeaseCall (LeaseRelease i holder mode)))))))
      else if name = ''lease_transfer'' then
        on_instance (\<lambda>i. try_res (required_string args ''from_holder_id'') (\<lambda>from_holder.
          try_res (required_string args ''to_holder_id'') (\<lambda>to_holder.
          let label = optional_string args ''to_holder_label''
          in Inr (Reported ''lease transferred''
            (operation_attempt ''lease_transfer'' (Some i) (Some from_holder)
               (Some (''to_holder_id='' @ to_holder @ '' to_holder_label='' @ unwrap_or ''none'' label @
                  '' ttl_seconds='' @ show_nat (ttl_arg args))))
            (Inr (LeaseCall (LeaseTransfer i from_holder to_holder label (ttl_arg args))))))))
      else None)"

section \<open>Executing a tool\<close>

text \<open>The arms of the match, in groups; the names are distinct, so the order is of no matter.\<close>

definition dispatchers :: "dispatcher list" where
  "dispatchers = [dispatch_host, dispatch_instance, dispatch_tab, dispatch_surface, dispatch_artifact,
     dispatch_run, dispatch_lease]"

fun first_arm :: "dispatcher list \<Rightarrow> dispatcher" where
  "first_arm [] name args = None"
| "first_arm (d # ds) name args = (case d name args of Some r \<Rightarrow> Some r | None \<Rightarrow> first_arm ds name args)"

definition dispatch_tool :: dispatcher where
  "dispatch_tool = first_arm dispatchers"

definition json_strings :: "string list \<Rightarrow> json" where
  "json_strings ss = JArr (map JStr ss)"

definition json_opt_bool :: "bool option \<Rightarrow> json" where
  "json_opt_bool b = (case b of None \<Rightarrow> JNull | Some v \<Rightarrow> JBool v)"

fun attempt_json :: "attempt \<Rightarrow> json" where
  "attempt_json (OperationAttempt a) =
     JObj [(''operation'', JStr (oa_operation a)), (''instance_id'', json_opt_str (oa_instance_id a)),
           (''holder_id'', json_opt_str (oa_holder_id a)), (''detail'', json_opt_str (oa_detail a))]"
| "attempt_json (TabAttempt a) =
     JObj [(''instance_id'', json_opt_str (ta_instance_id a)), (''tab_id'', json_opt_str (ta_tab_id a)),
           (''action_kind'', json_opt_str (ta_action_kind a))]"
| "attempt_json (SurfaceAttempt a) =
     JObj [(''instance_id'', JStr (ba_instance_id a)), (''surface_id'', json_opt_str (ba_surface_id a)),
           (''root_surface_id'', json_opt_str (ba_root_surface_id a)),
           (''action'', json_opt_str (map_option surface_action_kind_str (ba_action a))),
           (''execution_channel'', json_opt_str (map_option execution_channel_str (ba_execution_channel a))),
           (''allow_takeover'', json_opt_bool (ba_allow_takeover a))]"
| "attempt_json (ArtifactAttempt a) =
     JObj [(''artifact_id'', json_opt_str (aa_artifact_id a)), (''instance_id'', json_opt_str (aa_instance_id a)),
           (''run_id'', json_opt_str (aa_run_id a)), (''action_kind'', json_opt_str (aa_action_kind a))]"

definition payload_json :: "('a \<Rightarrow> json) \<Rightarrow> 'a failure_payload \<Rightarrow> json" where
  "payload_json f p =
     JObj [(''operation'', JStr (fp_operation p)), (''attempted'', f (fp_attempted p)),
           (''reason'', JStr (fp_reason p)), (''recovery'', json_strings (fp_recovery p)),
           (''retry_likely'', JBool (fp_retry_likely p))]"

fun failure_data :: "string \<Rightarrow> attempt \<Rightarrow> string \<Rightarrow> json" where
  "failure_data message (OperationAttempt a) e =
     payload_json (attempt_json \<circ> OperationAttempt) (operation_failure_payload message a e)"
| "failure_data message (TabAttempt a) e =
     payload_json (attempt_json \<circ> TabAttempt) (tab_failure_payload message a e)"
| "failure_data message (SurfaceAttempt a) e =
     payload_json (attempt_json \<circ> SurfaceAttempt) (browser_surface_failure_payload message a e)"
| "failure_data message (ArtifactAttempt a) e =
     payload_json (attempt_json \<circ> ArtifactAttempt) (artifact_failure_payload message a e)"

text \<open>\<open>operation_result\<close>, \<open>tab_result\<close>, \<open>browser_surface_result\<close> and \<open>artifact_result\<close>.\<close>

definition reported_outcome :: "string \<Rightarrow> string \<Rightarrow> attempt \<Rightarrow> json res \<Rightarrow> json operation_outcome" where
  "reported_outcome now message attempted r =
     (case r of
        Inr data \<Rightarrow> outcome_success now message data
      | Inl e \<Rightarrow> outcome_failure now (classify_error e) e (failure_data message attempted e))"

definition run_dispatch ::
  "(tool_call \<Rightarrow> 's \<Rightarrow> json res \<times> 's) \<Rightarrow> (tool_call \<Rightarrow> 's \<Rightarrow> json operation_outcome res \<times> 's) \<Rightarrow>
   string \<Rightarrow> dispatch \<Rightarrow> 's \<Rightarrow> json operation_outcome res \<times> 's" where
  "run_dispatch answer direct now d s =
     (case d of
        Direct call \<Rightarrow> direct call s
      | Reported message attempted call \<Rightarrow>
          (case call of
             Inl e \<Rightarrow> (Inr (reported_outcome now message attempted (Inl e)), s)
           | Inr c \<Rightarrow> (case answer c s of (r, s') \<Rightarrow> (Inr (reported_outcome now message attempted r), s'))))"

definition execute_tool ::
  "(tool_call \<Rightarrow> 's \<Rightarrow> json res \<times> 's) \<Rightarrow> (tool_call \<Rightarrow> 's \<Rightarrow> json operation_outcome res \<times> 's) \<Rightarrow>
   string \<Rightarrow> string \<Rightarrow> json \<Rightarrow> 's \<Rightarrow> json operation_outcome \<times> 's" where
  "execute_tool answer direct now name args s =
     (let args = (if args = JNull then JObj [] else args)
      in case dispatch_tool name args of
           None \<Rightarrow>
             (outcome_failure now NotFound (''unknown tool '' @ name)
                (JObj [(''supported_tools'', json_strings supported_tools),
                       (''deferred_tools'', json_strings deferred_tools)]), s)
         | Some r \<Rightarrow>
             (case (case r of Inl e \<Rightarrow> (Inl e, s) | Inr d \<Rightarrow> run_dispatch answer direct now d s) of
                (Inr outcome, s') \<Rightarrow> (outcome, s')
              | (Inl e, s') \<Rightarrow> (outcome_failure now (classify_error e) e (JObj []), s')))"

section \<open>Dispatcher and catalogue\<close>

lemmas dispatch_defs = dispatch_host_def dispatch_instance_def dispatch_tab_def dispatch_surface_def
  dispatch_artifact_def dispatch_run_def dispatch_lease_def

lemma arm_None: "((if c then Some x else e) = None) = (\<not> c \<and> e = None)" "(None = None) = True"
  by simp_all

lemma arm_names:
  "dispatch_host name args = None \<longleftrightarrow> name \<notin> {''browser_health'', ''browser_doctor'', ''diagnose'',
     ''capability_preflight'', ''host_access_status'', ''host_access_setup'', ''profile_list'',
     ''profile_create'', ''instance_list''}"
  "dispatch_instance name args = None \<longleftrightarrow> name \<notin> {''instance_start'', ''instance_attach'', ''instance_stop''}"
  "dispatch_tab name args = None \<longleftrightarrow> name \<notin> {''tab_list'', ''tab_list_actions'', ''tab_open'', ''tab_close'',
     ''tab_snapshot'', ''tab_text'', ''tab_action'', ''tab_screenshot'', ''tab_pdf''}"
  "dispatch_surface name args = None \<longleftrightarrow> name \<notin> {''browser_surface_list'',
     ''browser_surface_list_actions'', ''browser_surface_snapshot'', ''browser_surface_action''}"
  "dispatch_artifact name args = None \<longleftrightarrow> name \<notin> {''artifact_crop'', ''artifact_list'', ''artifact_verify'',
     ''artifact_crop_grid'', ''capture_start_recording'', ''capture_stop_recording''}"
  "dispatch_run name args = None \<longleftrightarrow> name \<notin> {''run_list'', ''scenario_list'', ''scenario_summary'',
     ''scenario_gate'', ''scenario_run_detail'', ''replay_export'', ''trace_capture'',
     ''recording_capture'', ''events_tail''}"
  "dispatch_lease name args = None \<longleftrightarrow> name \<notin> {''lease_status'', ''lease_acquire'', ''lease_release'',
     ''lease_transfer''}"
  unfolding dispatch_defs Let_def insert_iff empty_iff
  by (simp_all only: arm_None simp_thms de_Morgan_disj)

lemma tool_names:
  "map tc_name core_tools =
     [''browser_health'', ''browser_doctor'', ''diagnose'', ''capability_preflight'', ''host_access_status'',
      ''host_access_setup'', ''profile_list'', ''profile_create'', ''instance_list'', ''instance_start'',
      ''instance_stop'', ''instance_attach'', ''tab_list'', ''browser_surface_list'',
      ''browser_surface_list_actions'', ''browser_surface_snapshot'', ''browser_surface_action'',
      ''tab_open'', ''tab_list_actions'', ''tab_close'', ''tab_snapshot'', ''tab_text'', ''tab_action'',
      ''tab_screenshot'', ''tab_pdf'', ''artifact_list'', ''artifact_verify'', ''artifact_crop'',
      ''artifact_crop_grid'', ''capture_start_recording'', ''capture_stop_recording'', ''run_list'',
      ''scenario_list'', ''scenario_summary'', ''scenario_gate'', ''scenario_run_detail'',
      ''replay_export'', ''trace_capture'', ''recording_capture'', ''events_tail'', ''lease_status'',
      ''lease_acquire'', ''lease_release'', ''lease_transfer'']"
  by (simp only: core_tools_def host_tools_def tab_tools_def record_tools_def lease_tools_def tool_def
      append.simps list.map tool_contract.simps)

lemma dispatch_None:
  "dispatch_tool name args = None \<longleftrightarrow> (\<forall>d\<in>set dispatchers. d name args = None)"
proof -
  have "first_arm ds name args = None \<longleftrightarrow> (\<forall>d\<in>set ds. d name args = None)" for ds
    by (induction ds) (auto split: option.splits)
  then show ?thesis by (simp add: dispatch_tool_def)
qed

lemma none_deferred: "list_all (\<lambda>t. \<not> tc_deferred t) core_tools"
  by code_simp

lemma names_distinct: "distinct (map tc_name core_tools)"
  unfolding tool_names by code_simp

lemma dispatched_names:
  "dispatch_tool name args = None \<longleftrightarrow> name \<notin> set (map tc_name core_tools)"
  unfolding dispatch_None dispatchers_def tool_names list.set ball_simps arm_names insert_iff empty_iff
  by (simp only: de_Morgan_disj simp_thms conj_ac)

definition required_keys :: "json \<Rightarrow> string list" where
  "required_keys schema =
     (case json_get schema ''required'' of Some (JArr keys) \<Rightarrow> List.map_filter json_as_str keys | _ \<Rightarrow> [])"

definition required_pairs :: "(string \<times> string) list" where
  "required_pairs = concat (map (\<lambda>t. map (Pair (tc_name t)) (required_keys (tc_input_schema t))) core_tools)"

lemma required_pairs:
  "required_pairs =
     [(''profile_create'', ''name''), (''instance_stop'', ''instance_id''), (''instance_attach'', ''name''),
      (''instance_attach'', ''cdp_url''), (''tab_list'', ''instance_id''),
      (''browser_surface_list'', ''instance_id''), (''browser_surface_list_actions'', ''instance_id''),
      (''browser_surface_list_actions'', ''surface_id''), (''browser_surface_snapshot'', ''instance_id''),
      (''browser_surface_action'', ''instance_id''), (''browser_surface_action'', ''action''),
      (''tab_open'', ''instance_id''), (''tab_open'', ''url''), (''tab_list_actions'', ''instance_id''),
      (''tab_list_actions'', ''tab_id''), (''tab_close'', ''tab_id''), (''tab_snapshot'', ''tab_id''),
      (''tab_text'', ''tab_id''), (''tab_action'', ''tab_id''), (''tab_action'', ''kind''),
      (''tab_screenshot'', ''tab_id''), (''tab_pdf'', ''tab_id''), (''artifact_verify'', ''artifact_id''),
      (''artifact_crop'', ''artifact_id''), (''artifact_crop'', ''x_min''), (''artifact_crop'', ''y_min''),
      (''artifact_crop'', ''x_max''), (''artifact_crop'', ''y_max''),
      (''artifact_crop_grid'', ''artifact_id''), (''artifact_crop_grid'', ''rows''),
      (''artifact_crop_grid'', ''cols''), (''scenario_run_detail'', ''run_id''),
      (''trace_capture'', ''tab_id''), (''recording_capture'', ''tab_id''),
      (''lease_acquire'', ''instance_id''), (''lease_acquire'', ''holder_id''),
      (''lease_release'', ''instance_id''), (''lease_release'', ''holder_id''),
      (''lease_transfer'', ''instance_id''), (''lease_transfer'', ''from_holder_id''),
      (''lease_transfer'', ''to_holder_id'')]"
  by code_simp

text \<open>Claim C40. The catalogue and the dispatcher agree: the tool names are distinct, none is
  deferred, and for every name the dispatcher has an arm exactly when the catalogue lists it.\<close>

theorem catalogue_is_dispatched:
  "distinct (map tc_name core_tools) \<and> deferred_tools = [] \<and>
   (dispatch_tool name args = None \<longleftrightarrow> name \<notin> set supported_tools)"
proof -
  have live: "filter tc_deferred core_tools = []" "filter (\<lambda>t. \<not> tc_deferred t) core_tools = core_tools"
    using none_deferred unfolding list_all_iff by (auto simp: filter_empty_conv filter_id_conv)
  show ?thesis unfolding supported_tools_def deferred_tools_def live dispatched_names
    using names_distinct by simp
qed

section \<open>Required arguments\<close>

text \<open>The errors of a missing argument, wherever the dispatcher raises them.\<close>

definition argument_names :: "string list" where
  "argument_names =
    [''name'', ''cdp_url'', ''action'', ''url'', ''kind'', ''x_min'', ''y_min'', ''x_max'',
     ''y_max'', ''artifact_id'', ''rows'', ''cols'', ''run_id'', ''tab_id'', ''instance_id'', ''surface_id'',
     ''holder_id'', ''from_holder_id'', ''to_holder_id'']"

definition missing_error :: "string \<Rightarrow> bool" where
  "missing_error e \<longleftrightarrow> list_ex (\<lambda>k. e = k @ '' is required'') argument_names"

definition is_missing :: "'a res \<Rightarrow> bool" where
  "is_missing r = (case r of Inl e \<Rightarrow> missing_error e | Inr _ \<Rightarrow> False)"

definition refused :: "dispatch res option \<Rightarrow> bool" where
  "refused d = (case d of
      None \<Rightarrow> False
    | Some (Inl e) \<Rightarrow> missing_error e
    | Some (Inr (Reported m a c)) \<Rightarrow> is_missing c
    | Some (Inr (Direct c)) \<Rightarrow> False)"

lemma missing_key: "k \<in> set argument_names \<Longrightarrow> missing_error (k @ '' is required'')"
  by (auto simp: missing_error_def list_ex_iff)

named_theorems missing_rules

lemma missing_string:
  "k \<in> set argument_names \<Longrightarrow> required_string args k = Inl e \<Longrightarrow> missing_error e"
  by (cases "optional_string args k") (auto simp: required_string_def missing_key)

lemma missing_u16:
  "k \<in> set argument_names \<Longrightarrow> required_u16 args k = Inl e \<Longrightarrow> missing_error e"
  by (cases "Option.bind (optional_u64 args k) (\<lambda>v. if unat v < 65536 then Some (ucast v :: 16 word) else None)")
    (auto simp: required_u16_def missing_key)

lemma absent_string: "json_get args k = None \<Longrightarrow> required_string args k = Inl (k @ '' is required'')"
  by (simp add: required_string_def optional_string_def)

lemma absent_u16: "json_get args k = None \<Longrightarrow> required_u16 args k = Inl (k @ '' is required'')"
  by (simp add: required_u16_def optional_u64_def)

lemma absent_id: "json_get args k = None \<Longrightarrow> with_id (optional_string args k) k f = Inl (k @ '' is required'')"
  by (simp add: with_id_def optional_string_def)

text \<open>A chain of reads is refused when one of its reads is, since the reads before it fail only
  for want of their own argument.\<close>

lemma refused_string_then:
  assumes "k \<in> set argument_names" and "\<And>v. required_string args k = Inr v \<Longrightarrow> refused (Some (f v))"
  shows "refused (Some (try_res (required_string args k) f))"
  using assms missing_string [OF assms(1)]
  by (cases "required_string args k") (auto simp: refused_def)

lemma refused_u16_then:
  assumes "k \<in> set argument_names" and "\<And>v. required_u16 args k = Inr v \<Longrightarrow> refused (Some (f v))"
  shows "refused (Some (try_res (required_u16 args k) f))"
  using assms missing_u16 [OF assms(1)]
  by (cases "required_u16 args k") (auto simp: refused_def)

lemma refused_id_then:
  assumes "k \<in> set argument_names" and "\<And>v. optional_string args k = Some v \<Longrightarrow> is_missing (f v)"
  shows "refused (Some (Inr (Reported m a (with_id (optional_string args k) k f))))"
  using assms missing_key [OF assms(1)]
  by (cases "optional_string args k") (auto simp: refused_def with_id_def is_missing_def)

lemma try_ok_or: "try_res (ok_or e v) f = (case v of None \<Rightarrow> Inl e | Some a \<Rightarrow> f a)"
  by (cases v) simp_all

lemma try_case: "try_res (case v of None \<Rightarrow> Inl e | Some a \<Rightarrow> f a) g = (case v of None \<Rightarrow> Inl e | Some a \<Rightarrow> try_res (f a) g)"
  by (cases v) simp_all

lemma refused_simps:
  "refused (Some (Inl e)) = missing_error e"
  "refused (Some (Inr (Reported m a (Inl e)))) = missing_error e"
  by (simp_all add: refused_def is_missing_def)

lemma refused_option:
  "refused (Some (case v of None \<Rightarrow> Inl e | Some a \<Rightarrow> f a)) \<longleftrightarrow>
     (v = None \<longrightarrow> missing_error e) \<and> (\<forall>a. v = Some a \<longrightarrow> refused (Some (f a)))"
  "refused (Some (Inr (Reported m t (case v of None \<Rightarrow> Inl e | Some a \<Rightarrow> g a)))) \<longleftrightarrow>
     (v = None \<longrightarrow> missing_error e) \<and> (\<forall>a. v = Some a \<longrightarrow> refused (Some (Inr (Reported m t (g a)))))"
  by (cases v; simp add: refused_simps)+

lemma missing_errors: "list_all (\<lambda>k. missing_error (k @ '' is required'')) argument_names"
  by (auto simp: list_all_iff intro: missing_key)

lemmas missing_literals = missing_errors [unfolded argument_names_def list.pred_inject append.simps]

lemmas refusal_simps = required_string_def required_u16_def with_id_def try_ok_or try_case refused_simps refused_option
  missing_literals Let_def

lemma absent_reads:
  "json_get args k = None \<Longrightarrow> optional_string args k = None"
  "json_get args k = None \<Longrightarrow> optional_u64 args k = None"
  by (simp_all add: optional_string_def optional_u64_def)

lemma refused_host:
  "json_get args ''name'' = None \<Longrightarrow> refused (dispatch_host ''profile_create'' args)"
  by (simp add: dispatch_host_def refusal_simps absent_reads)

lemma refused_instance:
  "json_get args ''name'' = None \<Longrightarrow> refused (dispatch_instance ''instance_attach'' args)"
  "json_get args ''cdp_url'' = None \<Longrightarrow> refused (dispatch_instance ''instance_attach'' args)"
  "json_get args ''instance_id'' = None \<Longrightarrow> refused (dispatch_instance ''instance_stop'' args)"
  by (simp_all add: dispatch_instance_def refusal_simps absent_reads)

lemma refused_tab:
  "json_get args ''instance_id'' = None \<Longrightarrow> refused (dispatch_tab ''tab_list'' args)"
  "json_get args ''instance_id'' = None \<Longrightarrow> refused (dispatch_tab ''tab_open'' args)"
  "json_get args ''url'' = None \<Longrightarrow> refused (dispatch_tab ''tab_open'' args)"
  "json_get args ''instance_id'' = None \<Longrightarrow> refused (dispatch_tab ''tab_list_actions'' args)"
  "json_get args ''tab_id'' = None \<Longrightarrow> refused (dispatch_tab ''tab_list_actions'' args)"
  "json_get args ''tab_id'' = None \<Longrightarrow> refused (dispatch_tab ''tab_close'' args)"
  "json_get args ''tab_id'' = None \<Longrightarrow> refused (dispatch_tab ''tab_snapshot'' args)"
  "json_get args ''tab_id'' = None \<Longrightarrow> refused (dispatch_tab ''tab_text'' args)"
  "json_get args ''tab_id'' = None \<Longrightarrow> refused (dispatch_tab ''tab_action'' args)"
  "json_get args ''kind'' = None \<Longrightarrow> refused (dispatch_tab ''tab_action'' args)"
  "json_get args ''tab_id'' = None \<Longrightarrow> refused (dispatch_tab ''tab_screenshot'' args)"
  "json_get args ''tab_id'' = None \<Longrightarrow> refused (dispatch_tab ''tab_pdf'' args)"
  by (simp_all add: dispatch_tab_def parse_tab_action_def refusal_simps absent_reads)

lemma refused_surface:
  "json_get args ''instance_id'' = None \<Longrightarrow> refused (dispatch_surface ''browser_surface_list'' args)"
  "json_get args ''instance_id'' = None \<Longrightarrow> refused (dispatch_surface ''browser_surface_list_actions'' args)"
  "json_get args ''surface_id'' = None \<Longrightarrow> refused (dispatch_surface ''browser_surface_list_actions'' args)"
  "json_get args ''instance_id'' = None \<Longrightarrow> refused (dispatch_surface ''browser_surface_snapshot'' args)"
  "json_get args ''instance_id'' = None \<Longrightarrow> refused (dispatch_surface ''browser_surface_action'' args)"
  "json_get args ''action'' = None \<Longrightarrow> refused (dispatch_surface ''browser_surface_action'' args)"
  by (simp_all add: dispatch_surface_def parse_browser_surface_action_def refusal_simps absent_reads)

lemma refused_artifact:
  "json_get args ''artifact_id'' = None \<Longrightarrow> refused (dispatch_artifact ''artifact_verify'' args)"
  "json_get args ''artifact_id'' = None \<Longrightarrow> refused (dispatch_artifact ''artifact_crop'' args)"
  "json_get args ''x_min'' = None \<Longrightarrow> refused (dispatch_artifact ''artifact_crop'' args)"
  "json_get args ''y_min'' = None \<Longrightarrow> refused (dispatch_artifact ''artifact_crop'' args)"
  "json_get args ''x_max'' = None \<Longrightarrow> refused (dispatch_artifact ''artifact_crop'' args)"
  "json_get args ''y_max'' = None \<Longrightarrow> refused (dispatch_artifact ''artifact_crop'' args)"
  "json_get args ''artifact_id'' = None \<Longrightarrow> refused (dispatch_artifact ''artifact_crop_grid'' args)"
  "json_get args ''rows'' = None \<Longrightarrow> refused (dispatch_artifact ''artifact_crop_grid'' args)"
  "json_get args ''cols'' = None \<Longrightarrow> refused (dispatch_artifact ''artifact_crop_grid'' args)"
  by (simp_all add: dispatch_artifact_def required_region_def refusal_simps absent_reads)

lemma refused_run:
  "json_get args ''run_id'' = None \<Longrightarrow> refused (dispatch_run ''scenario_run_detail'' args)"
  "json_get args ''tab_id'' = None \<Longrightarrow> refused (dispatch_run ''trace_capture'' args)"
  "json_get args ''tab_id'' = None \<Longrightarrow> refused (dispatch_run ''recording_capture'' args)"
  by (simp_all add: dispatch_run_def refusal_simps absent_reads)

lemma refused_lease:
  "json_get args ''instance_id'' = None \<Longrightarrow> refused (dispatch_lease ''lease_acquire'' args)"
  "json_get args ''holder_id'' = None \<Longrightarrow> refused (dispatch_lease ''lease_acquire'' args)"
  "json_get args ''instance_id'' = None \<Longrightarrow> refused (dispatch_lease ''lease_release'' args)"
  "json_get args ''holder_id'' = None \<Longrightarrow> refused (dispatch_lease ''lease_release'' args)"
  "json_get args ''instance_id'' = None \<Longrightarrow> refused (dispatch_lease ''lease_transfer'' args)"
  "json_get args ''from_holder_id'' = None \<Longrightarrow> refused (dispatch_lease ''lease_transfer'' args)"
  "json_get args ''to_holder_id'' = None \<Longrightarrow> refused (dispatch_lease ''lease_transfer'' args)"
  by (simp_all add: dispatch_lease_def refusal_simps absent_reads)

lemmas arm_none = arm_names [THEN iffD2]

text \<open>A name of one group reaches the arm of that group.\<close>

lemma first_arm_skip: "d name args = None \<Longrightarrow> first_arm (d # ds) name args = first_arm ds name args"
  by simp

lemma first_arm_take:
  "d name args \<noteq> None \<Longrightarrow> first_arm (d # ds) name args = d name args"
  by auto

lemma refused_Some: "refused d \<Longrightarrow> d \<noteq> None"
  by (cases d) (simp_all add: refused_def)

lemma refused_first:
  "refused (d name args) \<Longrightarrow> refused (first_arm (d # ds) name args)"
  by (simp add: first_arm_take refused_Some del: first_arm.simps)

lemma required_refused:
  assumes "(name, k) \<in> set required_pairs" and "json_get args k = None"
  shows "refused (dispatch_tool name args)"
  using assms unfolding required_pairs dispatch_tool_def dispatchers_def list.set insert_iff empty_iff prod.inject
  by (elim disjE conjE FalseE)
    (simp_all only: first_arm_skip arm_none insert_iff empty_iff simp_thms list.inject char.inject list.distinct,
     (rule refused_first; simp only: refused_host refused_instance refused_tab refused_surface
       refused_artifact refused_run refused_lease)+)

lemma missing_is_invalid: "missing_error e \<Longrightarrow> classify_error e = InvalidInput"
proof -
  have "list_all (\<lambda>k. classify_error (k @ '' is required'') = InvalidInput) argument_names" by code_simp
  then show "missing_error e \<Longrightarrow> classify_error e = InvalidInput"
    by (auto simp: missing_error_def list_all_iff list_ex_iff)
qed

lemma execute_refused:
  assumes "refused (dispatch_tool name args)" and "args \<noteq> JNull"
  obtains o1 where "execute_tool answer direct now name args s = (o1, s)" "\<not> oo_ok o1" "missing_error (oo_message o1)"
    "oo_code o1 = classify_error (oo_message o1)"
proof (cases "dispatch_tool name args")
  case None
  then show thesis using assms(1) by (simp add: refused_def)
next
  case (Some r)
  show thesis
  proof (cases r)
    case (Inl e)
    then have "missing_error e" using assms(1) Some by (simp add: refused_def)
    then show thesis using Some Inl assms(2) by (intro that) (auto simp: execute_tool_def outcome_failure_def)
  next
    case (Inr d)
    then obtain m a e where d: "d = Reported m a (Inl e)" "missing_error e"
      using assms(1) Some by (auto simp: refused_def is_missing_def split: dispatch.splits sum.splits)
    then show thesis using Some Inr assms(2)
      by (intro that)
        (auto simp: execute_tool_def run_dispatch_def reported_outcome_def outcome_failure_def)
  qed
qed

text \<open>Claim C36. What the catalogue declares as required the dispatcher demands: for every tool and
  every key in the \<open>required\<close> list of its schema, a call without that key is answered with an
  invalid-input failure that names a missing argument, and the runtime is not called at all, so
  its state is the same whatever its handlers would do.\<close>

theorem required_arguments_enforced:
  assumes "t \<in> set core_tools" and "k \<in> set (required_keys (tc_input_schema t))"
    and "json_get args k = None" and "args \<noteq> JNull"
  shows "\<exists>o1 k'. execute_tool answer direct now (tc_name t) args s = (o1, s) \<and> oo_ok o1 = False \<and>
    oo_code o1 = InvalidInput \<and> oo_message o1 = k' @ '' is required''"
proof -
  have "(tc_name t, k) \<in> set required_pairs" using assms(1,2) unfolding required_pairs_def by auto
  then have "refused (dispatch_tool (tc_name t) args)" using assms(3) by (rule required_refused)
  then obtain o1
    where o1: "execute_tool answer direct now (tc_name t) args s = (o1, s)" "\<not> oo_ok o1"
      "missing_error (oo_message o1)" "oo_code o1 = classify_error (oo_message o1)"
    using assms(4) by (rule execute_refused)
  obtain k' where "oo_message o1 = k' @ '' is required''"
    using o1(3) unfolding missing_error_def list_ex_iff by blast
  then show ?thesis using o1 missing_is_invalid [OF o1(3)] by auto
qed

theorem required_arguments_enforced_witness:
  "\<exists>o1. execute_tool (\<lambda>c s. (Inr JNull, s + 1)) (\<lambda>c s. (Inl [], s + 1)) [] ''lease_release''
      (JObj [(''instance_id'', JStr ''i'')]) (7::nat) = (o1, 7) \<and> oo_code o1 = InvalidInput"
proof -
  have "list_ex (\<lambda>t. tc_name t = ''lease_release'' \<and> ''holder_id'' \<in> set (required_keys (tc_input_schema t))) core_tools"
    by code_simp
  then obtain t where t: "t \<in> set core_tools" "tc_name t = ''lease_release''"
    "''holder_id'' \<in> set (required_keys (tc_input_schema t))"
    by (auto simp: list_ex_iff)
  have "json_get (JObj [(''instance_id'', JStr ''i'')]) ''holder_id'' = None" by simp
  from required_arguments_enforced [OF t(1,3) this, of "\<lambda>c s. (Inr JNull, s + 1)" "\<lambda>c s. (Inl [], s + 1)" "[]" "7::nat"]
  show ?thesis unfolding t(2) by auto
qed

text \<open>An argument of the wrong type or size is not refused but read as something else. A
  grid overlap of 65536 is cut to zero, a page index of \<open>2^32\<close> selects page zero, and a lease
  mode that is not a string counts as absent, which acquires a writer lease.\<close>

theorem wrong_arguments_pass:
  "(\<exists>m a. dispatch_tool ''artifact_crop_grid''
      (JObj [(''artifact_id'', JStr ''a''), (''rows'', JNum 1), (''cols'', JNum 1), (''overlap'', JNum 65536),
             (''page_index'', JNum 4294967296)]) =
      Some (Inr (Reported m a (Inr (ArtifactCall (ArtifactCropGrid ''a'' 1 1 0 (Some 0) None)))))) \<and>
   (\<exists>m a. dispatch_tool ''lease_acquire''
      (JObj [(''instance_id'', JStr ''i''), (''holder_id'', JStr ''h''), (''mode'', JBool False)]) =
      Some (Inr (Reported m a (Inr (LeaseCall (LeaseAcquire ''i'' ''h'' None Writer 120))))))"
proof -
  note skip = dispatch_tool_def dispatchers_def first_arm_skip arm_none insert_iff empty_iff simp_thms
    list.inject char.inject list.distinct
  have grid: "dispatch_tool ''artifact_crop_grid'' args = dispatch_artifact ''artifact_crop_grid'' args" for args
    by (simp only: skip, rule first_arm_take, simp only: arm_names skip)
  have lease: "dispatch_tool ''lease_acquire'' args = dispatch_lease ''lease_acquire'' args" for args
    by (simp only: skip, rule first_arm_take, simp only: arm_names skip)
  let ?grid = "JObj [(''artifact_id'', JStr ''a''), (''rows'', JNum 1), (''cols'', JNum 1),
    (''overlap'', JNum 65536), (''page_index'', JNum 4294967296)]"
  have args: "required_string ?grid ''artifact_id'' = Inr ''a''" "required_u16 ?grid ''rows'' = Inr 1"
    "required_u16 ?grid ''cols'' = Inr 1" "holder_arg ?grid = None"
    by (simp_all add: required_string_def optional_string_def required_u16_def optional_u64_def holder_arg_def)
  have cut: "of_nat (unwrap_or 0 (optional_usize ?grid ''overlap'')) = (0 :: 16 word)"
    by (simp add: optional_usize_def optional_u64_def)
  have page: "page_arg ?grid = Some 0"
    by (simp add: page_arg_def optional_usize_def optional_u64_def)
  have "\<exists>m a. dispatch_artifact ''artifact_crop_grid'' ?grid =
      Some (Inr (Reported m a (Inr (ArtifactCall (ArtifactCropGrid ''a'' 1 1 0 (Some 0) None)))))"
    unfolding dispatch_artifact_def Let_def args cut page by simp
  moreover have "\<exists>m a. dispatch_lease ''lease_acquire''
      (JObj [(''instance_id'', JStr ''i''), (''holder_id'', JStr ''h''), (''mode'', JBool False)]) =
      Some (Inr (Reported m a (Inr (LeaseCall (LeaseAcquire ''i'' ''h'' None Writer 120)))))"
    by (simp add: dispatch_lease_def required_string_def optional_string_def
        optional_usize_def optional_u64_def parse_mode_arg_def ttl_arg_def)
  ultimately show ?thesis unfolding grid lease by blast
qed

end
