(* ===== verification/McpServer.thy ===== *)
theory McpServer
  imports McpDispatch HttpWire
begin

text \<open>
  The stdio server of \<open>crates/pengu-mesh-mcp/src/main.rs\<close>: message frames, the JSON-RPC methods and
  the loop that reads, handles and answers. Standard input is the list of its bytes. The JSON
  parser and printers are arguments, and so is the execution of a tool. The theorems show that
  reading inverts writing, that a session of well-formed requests is answered request by
  request in order, and that the first request without a method ends the session.
\<close>

section \<open>Frames\<close>

definition read_line :: "string \<Rightarrow> string \<times> string" where
  "read_line input =
     (case dropWhile (\<lambda>c. c \<noteq> lf) input of
        [] \<Rightarrow> (input, [])
      | c # rest \<Rightarrow> (takeWhile (\<lambda>c. c \<noteq> lf) input @ [c], rest))"

definition strip_prefix :: "string \<Rightarrow> string \<Rightarrow> string option" where
  "strip_prefix pre s = (if prefix pre s then Some (drop (length pre) s) else None)"

lemma read_line_append:
  assumes "read_line input = (line, rest)"
  shows "input = line @ rest"
proof (cases "dropWhile (\<lambda>c. c \<noteq> lf) input")
  case Nil
  show ?thesis using assms unfolding read_line_def Nil by simp
next
  case (Cons c cs)
  have "takeWhile (\<lambda>c. c \<noteq> lf) input @ c # cs = input"
    unfolding Cons [symmetric] by (rule takeWhile_dropWhile_id)
  then show ?thesis using assms Cons by (auto simp: read_line_def)
qed

lemma read_line_shorter: "read_line input = (line, rest) \<Longrightarrow> line \<noteq> [] \<Longrightarrow> length rest < length input"
  by (auto dest: read_line_append)

text \<open>The header loop: \<open>None\<close> is the end of the input, otherwise the last length and what follows
  the empty line.\<close>

function read_headers :: "nat option \<Rightarrow> string \<Rightarrow> (nat option \<times> string) option res" where
  "read_headers content_length input =
     (case read_line input of (line, rest) \<Rightarrow>
        if line = [] then Inr None
        else if \<not> is_utf8 line then Inl ''read MCP header''
        else if line = crlf then Inr (Some (content_length, rest))
        else
          (case strip_prefix ''content-length:'' (to_ascii_lowercase line) of
             Some value \<Rightarrow>
               (case parse_usize (trim value) of
                  None \<Rightarrow> Inl ''parse content length''
                | Some n \<Rightarrow> read_headers (Some n) rest)
           | None \<Rightarrow> read_headers content_length rest))"
  by pat_completeness auto
termination
  by (relation "measure (\<lambda>(c, input). length input)") (auto dest: read_line_shorter [OF sym])

declare read_headers.simps [simp del]

definition read_mcp_message :: "string \<Rightarrow> (string \<times> string) option res" where
  "read_mcp_message input =
     try_res (read_headers None input) (\<lambda>head.
       case head of
         None \<Rightarrow> Inr None
       | Some (None, rest) \<Rightarrow> Inl ''missing Content-Length header''
       | Some (Some n, rest) \<Rightarrow>
           (if length rest < n then Inl ''read MCP body'' else Inr (Some (take n rest, drop n rest))))"

definition write_mcp_message :: "string \<Rightarrow> string" where
  "write_mcp_message body = ''Content-Length: '' @ show_nat (length body) @ crlf @ crlf @ body"

lemma read_headers_shorter:
  "read_headers c input = Inr (Some (c', rest)) \<Longrightarrow> length rest < length input"
proof (induction c input rule: read_headers.induct)
  case (1 c input)
  obtain line after where l: "read_line input = (line, after)" by fastforce
  show ?case
    using "1.prems" "1.IH" l read_line_shorter [OF l]
    by (subst (asm) read_headers.simps) (fastforce split: if_splits option.splits)
qed

lemma read_message_shorter:
  assumes "read_mcp_message input = Inr (Some (m, rest))"
  shows "length rest < length input"
proof -
  obtain n r where "read_headers None input = Inr (Some (Some n, r))" "rest = drop n r"
  proof -
    obtain h where h: "read_headers None input = Inr h"
      using assms by (auto simp: read_mcp_message_def try_res_Inr)
    show thesis using assms h that
      by (cases h; cases "fst (the h)") (auto simp: read_mcp_message_def split: if_splits)
  qed
  then show ?thesis using read_headers_shorter [of None input "Some n" r] by simp
qed

section \<open>Requests\<close>

fun outcome_code_str :: "outcome_code \<Rightarrow> string" where
  "outcome_code_str CodeOk = ''ok''"
| "outcome_code_str NotReady = ''not_ready''"
| "outcome_code_str Conflict = ''conflict''"
| "outcome_code_str Unsupported = ''unsupported''"
| "outcome_code_str Misconfigured = ''misconfigured''"
| "outcome_code_str InvalidInput = ''invalid_input''"
| "outcome_code_str NotFound = ''not_found''"
| "outcome_code_str Internal = ''internal''"

definition outcome_json :: "json operation_outcome \<Rightarrow> json" where
  "outcome_json o1 =
     JObj [(''ok'', JBool (oo_ok o1)), (''code'', JStr (outcome_code_str (oo_code o1))),
           (''message'', JStr (oo_message o1)), (''timestamp'', JStr (oo_timestamp o1)), (''data'', oo_data o1)]"

definition rpc_result :: "json \<Rightarrow> json \<Rightarrow> json" where
  "rpc_result i result = JObj [(''jsonrpc'', JStr ''2.0''), (''id'', i), (''result'', result)]"

definition initialize_result :: "string \<Rightarrow> json" where
  "initialize_result version =
     JObj [(''protocolVersion'', JStr ''2024-11-05''),
           (''serverInfo'', JObj [(''name'', JStr ''pengu-mesh-mcp''), (''version'', JStr version)]),
           (''capabilities'', JObj [(''tools'', JObj [(''listChanged'', JBool False)])])]"

definition call_result :: "(json \<Rightarrow> string) \<Rightarrow> json operation_outcome \<Rightarrow> json" where
  "call_result pretty payload =
     JObj [(''content'', JArr [JObj [(''type'', JStr ''text''), (''text'', JStr (pretty (outcome_json payload)))]]),
           (''structuredContent'', outcome_json payload), (''isError'', JBool (\<not> oo_ok payload))]"

definition unsupported_method :: "json \<Rightarrow> string \<Rightarrow> json" where
  "unsupported_method i rpc_method =
     JObj [(''jsonrpc'', JStr ''2.0''), (''id'', i),
           (''error'', JObj [(''code'', JNum (- 32601)), (''message'', JStr (''unsupported method '' @ rpc_method))])]"

definition handle_request ::
  "string \<Rightarrow> (json \<Rightarrow> string) \<Rightarrow> (string \<Rightarrow> json \<Rightarrow> 's \<Rightarrow> json operation_outcome \<times> 's) \<Rightarrow>
   json \<Rightarrow> 's \<Rightarrow> json res \<times> 's" where
  "handle_request version pretty execute request s =
     (let i = unwrap_or JNull (json_get request ''id'');
          params = unwrap_or (JObj []) (json_get request ''params'')
      in case optional_string request ''method'' of
           None \<Rightarrow> (Inl ''request missing method'', s)
         | Some rpc_method \<Rightarrow>
             (if rpc_method = ''initialize'' then (Inr (rpc_result i (initialize_result version)), s)
              else if rpc_method = ''notifications/initialized'' then (Inr (JObj []), s)
              else if rpc_method = ''tools/list'' then (Inr (rpc_result i mcp_tools_list), s)
              else if rpc_method = ''tools/call'' then
                (case optional_string params ''name'' of
                   None \<Rightarrow> (Inl ''tools/call missing name'', s)
                 | Some tool_name \<Rightarrow>
                     (case execute tool_name (unwrap_or (JObj []) (json_get params ''arguments'')) s of
                        (payload, s') \<Rightarrow> (Inr (rpc_result i (call_result pretty payload)), s')))
              else if rpc_method = ''ping'' then (Inr (rpc_result i (JObj [])), s)
              else (Inr (unsupported_method i rpc_method), s)))"

section \<open>The loop\<close>

text \<open>The result of the process, what it wrote, and the state it leaves.\<close>

function run_stdio_server ::
  "(string \<Rightarrow> json option) \<Rightarrow> (json \<Rightarrow> string) \<Rightarrow> (json \<Rightarrow> 's \<Rightarrow> json res \<times> 's) \<Rightarrow> string \<Rightarrow> 's \<Rightarrow>
   unit res \<times> string \<times> 's" where
  "run_stdio_server parse serialise handle input s =
     (case read_mcp_message input of
        Inl e \<Rightarrow> (Inl e, [], s)
      | Inr None \<Rightarrow> (Inr (), [], s)
      | Inr (Some (message, rest)) \<Rightarrow>
          (case parse message of
             None \<Rightarrow> (Inl ''parse MCP request'', [], s)
           | Some request \<Rightarrow>
               (case handle request s of
                  (Inl e, s') \<Rightarrow> (Inl e, [], s')
                | (Inr response, s') \<Rightarrow>
                    (case run_stdio_server parse serialise handle rest s' of
                       (r, out, s'') \<Rightarrow>
                         (r, (if response \<noteq> JObj [] then write_mcp_message (serialise response) else []) @ out,
                          s'')))))"
  by pat_completeness auto
termination
  by (relation "measure (\<lambda>(p, z, h, input, s). length input)") (auto dest: read_message_shorter)

declare run_stdio_server.simps [simp del]

section \<open>Reading what was written\<close>

lemma digit_char: "d < 10 \<Longrightarrow> is_ascii_digit (char_of (48 + d)) \<and> code_of (char_of (48 + d)) = 48 + d"
  for d :: nat
  by (simp add: is_ascii_digit_def code_of_def)

lemma show_nat_digits: "list_all is_ascii_digit (show_nat n)"
proof (induction n rule: show_nat.induct)
  case (1 n)
  then show ?case using digit_char [of n] digit_char [of "n mod 10"]
    by (subst show_nat.simps) auto
qed

lemma digits_value_snoc: "digits_value (s @ [c]) = digits_value s * 10 + (int (code_of c) - 48)"
  by (simp add: digits_value_def)

lemma digits_value_show: "digits_value (show_nat n) = int n"
proof (induction n rule: show_nat.induct)
  case (1 n)
  show ?case
  proof (cases "n < 10")
    case True
    then show ?thesis using digit_char [of n]
      by (subst show_nat.simps) (simp add: digits_value_def)
  next
    case False
    then have "digits_value (show_nat n) = int (n div 10) * 10 + int (n mod 10)"
      using 1 digit_char [of "n mod 10"] by (subst show_nat.simps) (simp add: digits_value_snoc)
    then show ?thesis by (simp add: zdiv_int zmod_int)
  qed
qed

lemma parse_show:
  assumes "n < 2 ^ 64"
  shows "parse_usize (show_nat n) = Some n"
proof -
  have "show_nat n \<noteq> CHR ''+'' # ds" for ds
    using show_nat_digits [of n] by (auto simp: is_ascii_digit_def code_of_def)
  then have digits: "(case show_nat n of CHR ''+'' # ds \<Rightarrow> ds | _ \<Rightarrow> show_nat n) = show_nat n"
    by (auto split: list.splits char.splits bool.splits)
  have "int n < 2 ^ 64" using assms by (metis of_nat_less_iff of_nat_numeral of_nat_power)
  then show ?thesis
    unfolding parse_usize_def digits Let_def using show_nat_digits [of n] digits_value_show [of n] by simp
qed

lemma digit_plain:
  assumes "is_ascii_digit c"
  shows "c \<noteq> lf" "\<not> is_whitespace c" "to_ascii_lower c = c" "code_of c \<le> 127"
  using assms by (auto simp: is_ascii_digit_def is_whitespace_def to_ascii_lower_def is_ascii_upper_def code_of_def)

lemma utf8_ascii: "list_all (\<lambda>c. code_of c \<le> 127) s \<Longrightarrow> is_utf8 s"
  by (induction s) (auto simp: byte_in_def)

lemma trim_padded:
  assumes "list_all is_whitespace a" and "list_all is_whitespace b" and "x \<noteq> []" and "list_all (\<lambda>c. \<not> is_whitespace c) x"
  shows "trim (a @ x @ b) = x"
proof -
  have drop: "dropWhile is_whitespace (w @ y) = y"
    if "list_all is_whitespace w" "y \<noteq> []" "\<not> is_whitespace (hd y)" for w y
    using that by (induction w) (auto simp: neq_Nil_conv)
  have ends: "\<not> is_whitespace (hd x)" "\<not> is_whitespace (last x)"
    using assms(3,4) by (auto simp: list_all_iff)
  have "rev (a @ x @ b) = rev b @ rev x @ rev a" by simp
  then show ?thesis
    using assms ends drop [of a "x @ b"] drop [of "rev b" "rev x"] drop [of "rev b" "rev x @ rev a"]
      drop [of a x]
    by (simp add: trim_def trim_matches_def hd_rev list_all_rev)
qed

definition length_header :: "string \<Rightarrow> string" where
  "length_header body = ''Content-Length: '' @ show_nat (length body) @ crlf"

lemma write_frame: "write_mcp_message body = length_header body @ crlf @ body"
  by (simp add: write_mcp_message_def length_header_def)

lemma read_line_lf:
  assumes "lf \<notin> set xs"
  shows "read_line (xs @ lf # ys) = (xs @ [lf], ys)"
  using assms by (simp add: read_line_def takeWhile_append dropWhile_append)

lemma header_text: "list_all (\<lambda>c. code_of c \<le> 127 \<and> c \<noteq> lf) ''Content-Length: ''"
  by code_simp

lemma header_lower: "to_ascii_lowercase ''Content-Length: '' = ''content-length:'' @ '' ''"
  by code_simp

lemma cr_facts: "code_of cr \<le> 127" "code_of lf \<le> 127" "cr \<noteq> lf" "is_whitespace cr" "is_whitespace lf"
    "is_whitespace CHR '' ''" "to_ascii_lower cr = cr" "to_ascii_lower lf = lf"
  by code_simp+

lemma read_length_header:
  assumes "length body < 2 ^ 64"
  shows "read_headers c (length_header body @ after) = read_headers (Some (length body)) after"
proof -
  let ?n = "show_nat (length body)"
  have plain: "\<forall>c\<in>set ?n. is_ascii_digit c" using show_nat_digits by (simp add: list_all_iff)
  have line: "read_line (length_header body @ after) = (length_header body, after)"
    using read_line_lf [of "''Content-Length: '' @ ?n @ [cr]" after] plain digit_plain(1) header_text cr_facts
    by (auto simp: length_header_def crlf_def list_all_iff)
  have utf8: "is_utf8 (length_header body)"
    by (rule utf8_ascii)
      (use plain digit_plain(4) header_text cr_facts in \<open>auto simp: length_header_def crlf_def list_all_iff\<close>)
  have "map to_ascii_lower ?n = ?n" using plain digit_plain(3) by (simp add: map_idI)
  then have "to_ascii_lowercase (length_header body) = ''content-length:'' @ ('' '' @ ?n @ crlf)"
    using header_lower by (simp add: length_header_def to_ascii_lowercase_def crlf_def cr_facts)
  then have stripped: "strip_prefix ''content-length:'' (to_ascii_lowercase (length_header body)) =
      Some ('' '' @ ?n @ crlf)"
    unfolding strip_prefix_def by simp
  have "trim ('' '' @ ?n @ crlf) = ?n"
    by (rule trim_padded)
      (use plain digit_plain(2) in \<open>auto simp: crlf_def cr_facts list_all_iff\<close>)
  moreover have "length_header body \<noteq> []" "length_header body \<noteq> crlf"
    by (simp_all add: length_header_def crlf_def)
  ultimately show ?thesis
    unfolding read_headers.simps [of c "length_header body @ after"] line prod.case
    using utf8 stripped parse_show [OF assms] by simp
qed

lemma read_end_of_headers: "read_headers c (crlf @ after) = Inr (Some (c, after))"
proof -
  have line: "read_line (crlf @ after) = (crlf, after)"
    using read_line_lf [of "[cr]" after] cr_facts by (simp add: crlf_def)
  have "is_utf8 crlf" by code_simp
  then show ?thesis
    unfolding read_headers.simps [of c "crlf @ after"] line prod.case by (simp add: crlf_def)
qed

lemma read_frame:
  assumes "length body < 2 ^ 64"
  shows "read_mcp_message (write_mcp_message body @ rest) = Inr (Some (body, rest))"
proof -
  have "read_headers None (write_mcp_message body @ rest) = Inr (Some (Some (length body), body @ rest))"
    using read_length_header [OF assms, of None "crlf @ body @ rest"] read_end_of_headers
    by (simp add: write_frame)
  then show ?thesis by (simp add: read_mcp_message_def)
qed

text \<open>Claim C39. Reading inverts writing: a message written to the stream is read back byte for byte,
  whatever follows it, and what follows is left for the next read.\<close>

theorem mcp_frame_roundtrip:
  assumes "length body < 2 ^ 64"
  shows "read_mcp_message (write_mcp_message body @ rest) = Inr (Some (body, rest))"
  using assms by (rule read_frame)

theorem mcp_frame_roundtrip_witness:
  "read_mcp_message (write_mcp_message ''{}'' @ ''Content'') = Inr (Some (''{}'', ''Content''))"
  by (rule mcp_frame_roundtrip) simp

section \<open>Sessions\<close>

text \<open>The specification of a session: requests handled in order, empty responses not sent.\<close>

fun answer_all :: "(json \<Rightarrow> 's \<Rightarrow> json res \<times> 's) \<Rightarrow> json list \<Rightarrow> 's \<Rightarrow> json list \<times> 's" where
  "answer_all handle [] s = ([], s)"
| "answer_all handle (request # requests) s =
     (case handle request s of
        (Inl e, s') \<Rightarrow> ([], s')
      | (Inr response, s') \<Rightarrow>
          (case answer_all handle requests s' of (responses, s'') \<Rightarrow>
             ((if response \<noteq> JObj [] then [response] else []) @ responses, s'')))"

definition well_formed_request :: "json \<Rightarrow> bool" where
  "well_formed_request request \<longleftrightarrow>
     (case optional_string request ''method'' of
        None \<Rightarrow> False
      | Some rpc_method \<Rightarrow>
          \<not> (rpc_method = ''tools/call'' \<and>
             optional_string (unwrap_or (JObj []) (json_get request ''params'')) ''name'' = None))"

lemma handle_well_formed:
  "is_ok (fst (handle_request version pretty execute request s)) \<longleftrightarrow> well_formed_request request"
  unfolding handle_request_def well_formed_request_def Let_def
  by (auto split: option.splits prod.splits)

text \<open>One turn of the loop on a framed message.\<close>

lemma server_turn:
  assumes "length message < 2 ^ 64" and "parse message = Some request"
  shows "run_stdio_server parse serialise handle (write_mcp_message message @ rest) s =
    (case handle request s of
       (Inl e, s') \<Rightarrow> (Inl e, [], s')
     | (Inr response, s') \<Rightarrow>
         (case run_stdio_server parse serialise handle rest s' of
            (r, out, s'') \<Rightarrow>
              (r, (if response \<noteq> JObj [] then write_mcp_message (serialise response) else []) @ out, s'')))"
  unfolding run_stdio_server.simps [of parse serialise handle "write_mcp_message message @ rest"]
    read_frame [OF assms(1)]
  using assms(2) by simp

lemma server_prefix:
  assumes "list_all (\<lambda>(message, request). length message < 2 ^ 64 \<and> parse message = Some request \<and>
      well_formed_request request) session"
  shows "run_stdio_server parse serialise (handle_request version pretty execute)
      (concat (map (\<lambda>(message, request). write_mcp_message message) session) @ rest) s =
    (case answer_all (handle_request version pretty execute) (map snd session) s of (responses, s') \<Rightarrow>
       (case run_stdio_server parse serialise (handle_request version pretty execute) rest s' of
          (r, out, s'') \<Rightarrow> (r, concat (map (\<lambda>j. write_mcp_message (serialise j)) responses) @ out, s'')))"
  using assms
proof (induction session arbitrary: s)
  case Nil
  then show ?case by (simp split: prod.splits)
next
  case (Cons mr session)
  obtain m q where mr: "mr = (m, q)" by fastforce
  then have m: "length m < 2 ^ 64" "parse m = Some q" "well_formed_request q" using Cons.prems by auto
  obtain response s' where h: "handle_request version pretty execute q s = (Inr response, s')"
    using handle_well_formed [of version pretty execute q s] m(3)
    by (cases "handle_request version pretty execute q s") (auto simp: is_ok_iff)
  show ?case
    using Cons.IH [of s'] Cons.prems h
    by (simp add: mr server_turn [where parse = parse and message = m and request = q, OF m(1,2)]
        split: prod.splits)
qed

lemma server_end: "run_stdio_server parse serialise handle [] s = (Inr (), [], s)"
proof -
  have "read_headers None [] = Inr None" by (subst read_headers.simps) (simp add: read_line_def)
  then show ?thesis by (subst run_stdio_server.simps) (simp add: read_mcp_message_def)
qed

text \<open>Claim C35. A session of well-formed requests is answered like a sequence of calls: the server
  ends without an error, has written exactly the responses of the requests in their order, one
  frame each and none for an initialized notification, and leaves the state that handling them
  one after the other leaves.\<close>

theorem session_answered_in_order:
  assumes "list_all (\<lambda>(message, request). length message < 2 ^ 64 \<and> parse message = Some request \<and>
      well_formed_request request) session"
  shows "run_stdio_server parse serialise (handle_request version pretty execute)
      (concat (map (\<lambda>(message, request). write_mcp_message message) session)) s =
    (case answer_all (handle_request version pretty execute) (map snd session) s of (responses, s') \<Rightarrow>
       (Inr (), concat (map (\<lambda>j. write_mcp_message (serialise j)) responses), s'))"
  using server_prefix [where session = session and parse = parse and rest = "[]", OF assms,
      of serialise version pretty execute s]
  by (simp add: server_end split: prod.splits)

text \<open>One malformed request ends the server: whatever was answered before, a request
  without a method, or a tool call without a name, stops the process with an error, gets no
  response itself, and every request after it is lost.\<close>

theorem malformed_request_ends_session:
  assumes "list_all (\<lambda>(message, request). length message < 2 ^ 64 \<and> parse message = Some request \<and>
      well_formed_request request) session"
    and "length bad < 2 ^ 64" and "parse bad = Some request" and "\<not> well_formed_request request"
  shows "\<exists>e. run_stdio_server parse serialise (handle_request version pretty execute)
      (concat (map (\<lambda>(message, request). write_mcp_message message) session) @ write_mcp_message bad @ rest) s =
    (case answer_all (handle_request version pretty execute) (map snd session) s of (responses, s') \<Rightarrow>
       (Inl e, concat (map (\<lambda>j. write_mcp_message (serialise j)) responses), s'))"
proof -
  obtain responses s' where a: "answer_all (handle_request version pretty execute) (map snd session) s = (responses, s')"
    by fastforce
  obtain e where h: "handle_request version pretty execute request s' = (Inl e, s')"
    using assms(4) unfolding handle_request_def well_formed_request_def Let_def
    by (auto split: option.splits)
  show ?thesis
    unfolding server_prefix [OF assms(1)] a prod.case server_turn [where parse = parse and message = bad, OF assms(2,3)] h sum.case by simp
qed

text \<open>A parser that knows two messages, for the closed instances.\<close>

definition sample_parse :: "string \<Rightarrow> json option" where
  "sample_parse message =
     (if message = ''ping'' then Some (JObj [(''method'', JStr ''ping'')])
      else if message = ''note'' then Some (JObj [(''method'', JStr ''notifications/initialized'')])
      else Some (JObj []))"

lemma sample_well_formed:
  "well_formed_request (JObj [(''method'', JStr ''ping'')])"
  "well_formed_request (JObj [(''method'', JStr ''notifications/initialized'')])"
  "\<not> well_formed_request (JObj [])"
  by code_simp+

theorem session_answered_in_order_witness:
  "run_stdio_server sample_parse (\<lambda>j. ''!'') (handle_request ''1'' (\<lambda>j. []) (\<lambda>n a s. undefined))
      (concat (map (\<lambda>(message, request). write_mcp_message message)
         [(''ping'', JObj [(''method'', JStr ''ping'')]),
          (''note'', JObj [(''method'', JStr ''notifications/initialized'')])])) () =
    (case answer_all (handle_request ''1'' (\<lambda>j. []) (\<lambda>n a s. undefined))
        (map snd [(''ping'', JObj [(''method'', JStr ''ping'')]),
          (''note'', JObj [(''method'', JStr ''notifications/initialized'')])]) () of (responses, s') \<Rightarrow>
       (Inr (), concat (map (\<lambda>j. write_mcp_message ((\<lambda>j. ''!'') j)) responses), s'))"
  by (rule session_answered_in_order) (simp add: sample_parse_def sample_well_formed)

theorem malformed_request_ends_session_witness:
  "\<exists>e. run_stdio_server sample_parse (\<lambda>j. ''!'') (handle_request ''1'' (\<lambda>j. []) (\<lambda>n a s. undefined))
      (concat (map (\<lambda>(message, request). write_mcp_message message)
         [(''ping'', JObj [(''method'', JStr ''ping'')])]) @ write_mcp_message ''bad'' @ write_mcp_message ''ping'') () =
    (case answer_all (handle_request ''1'' (\<lambda>j. []) (\<lambda>n a s. undefined))
        (map snd [(''ping'', JObj [(''method'', JStr ''ping'')])]) () of (responses, s') \<Rightarrow>
       (Inl e, concat (map (\<lambda>j. write_mcp_message ((\<lambda>j. ''!'') j)) responses), s'))"
  by (rule malformed_request_ends_session [where request = "JObj []"])
    (simp_all add: sample_parse_def sample_well_formed)

end
