(* ===== verification/McpLeases.thy ===== *)
theory McpLeases
  imports McpDispatch CoreLeases
begin

text \<open>
  The lease tools end to end: the typed calls of the dispatcher answered by the lease handlers
  of the runtime, with their payloads serialised as \<open>serde\<close> derives it. The theorems follow a
  call from its arguments to the lease table and back to the report that a refused client
  reads.
\<close>

section \<open>Payloads\<close>

definition lease_record_json :: "lease_record \<Rightarrow> json" where
  "lease_record_json l =
     JObj [(''id'', JStr (lr_id l)), (''resource_kind'', JStr (lease_resource_kind_str (lr_resource_kind l))),
           (''resource_id'', JStr (lr_resource_id l)), (''holder_id'', JStr (lr_holder_id l)),
           (''holder_label'', json_opt_str (lr_holder_label l)), (''mode'', lease_mode_json (lr_mode l)),
           (''granted_at'', JStr (lr_granted_at l)), (''expires_at'', JStr (lr_expires_at l)),
           (''last_heartbeat_at'', JStr (lr_last_heartbeat_at l))]"

definition lease_records_json :: "lease_record list \<Rightarrow> json" where
  "lease_records_json ls = JArr (map lease_record_json ls)"

definition lease_status_json :: "lease_status_payload \<Rightarrow> json" where
  "lease_status_json p =
     JObj [(''operator_id'', JStr (lsp_operator_id p)),
           (''requested_resource_id'', json_opt_str (lsp_requested_resource_id p)),
           (''leases'', lease_records_json (lsp_leases p))]"

fun outcome_code_json :: "outcome_code \<Rightarrow> json" where
  "outcome_code_json CodeOk = JStr ''ok''"
| "outcome_code_json NotReady = JStr ''not_ready''"
| "outcome_code_json Conflict = JStr ''conflict''"
| "outcome_code_json Unsupported = JStr ''unsupported''"
| "outcome_code_json Misconfigured = JStr ''misconfigured''"
| "outcome_code_json InvalidInput = JStr ''invalid_input''"
| "outcome_code_json NotFound = JStr ''not_found''"
| "outcome_code_json Internal = JStr ''internal''"

definition lease_acquire_json :: "lease_acquire_payload \<Rightarrow> json" where
  "lease_acquire_json p =
     JObj [(''operator_id'', JStr (lap_operator_id p)), (''lease'', lease_record_json (lap_lease p)),
           (''leases'', lease_records_json (lap_leases p)), (''renewed'', JBool (lap_renewed p)),
           (''code'', outcome_code_json (lap_code p)), (''message'', JStr (lap_message p))]"

definition lease_release_json :: "lease_release_payload \<Rightarrow> json" where
  "lease_release_json p =
     JObj [(''operator_id'', JStr (lrp_operator_id p)),
           (''requested_resource_id'', JStr (lrp_requested_resource_id p)),
           (''holder_id'', JStr (lrp_holder_id p)), (''released_count'', JNum (int (lrp_released_count p))),
           (''leases'', lease_records_json (lrp_leases p)),
           (''code'', outcome_code_json (lrp_code p)), (''message'', JStr (lrp_message p))]"

definition lease_transfer_json :: "lease_transfer_payload \<Rightarrow> json" where
  "lease_transfer_json p =
     JObj [(''operator_id'', JStr (ltp_operator_id p)),
           (''previous_holder_id'', JStr (ltp_previous_holder_id p)),
           (''lease'', lease_record_json (ltp_lease p)), (''leases'', lease_records_json (ltp_leases p)),
           (''code'', outcome_code_json (ltp_code p)), (''message'', JStr (ltp_message p))]"

section \<open>Answering lease calls\<close>

definition serialised :: "('a \<Rightarrow> json) \<Rightarrow> 'a res \<times> runtime \<Rightarrow> json res \<times> runtime" where
  "serialised f rs = (map_ok f (fst rs), snd rs)"

fun lease_answer :: "runtime_env \<Rightarrow> lease_call \<Rightarrow> runtime \<Rightarrow> json res \<times> runtime" where
  "lease_answer env (LeaseStatus i) s = serialised lease_status_json (lease_status env i s)"
| "lease_answer env (LeaseAcquire i h label mode ttl) s =
     serialised lease_acquire_json (lease_acquire env i h label mode ttl s)"
| "lease_answer env (LeaseRelease i h mode) s = serialised lease_release_json (lease_release env i h mode s)"
| "lease_answer env (LeaseTransfer i a b label ttl) s =
     serialised lease_transfer_json (lease_transfer env i a b label ttl s)"

text \<open>The calls of the other groups are answered by a parameter.\<close>

definition runtime_answer ::
  "runtime_env \<Rightarrow> (tool_call \<Rightarrow> runtime \<Rightarrow> json res \<times> runtime) \<Rightarrow> tool_call \<Rightarrow> runtime \<Rightarrow> json res \<times> runtime" where
  "runtime_answer env other call s =
     (case call of LeaseCall c \<Rightarrow> lease_answer env c s | _ \<Rightarrow> other call s)"

section \<open>Acquiring through the server\<close>

lemma dispatch_acquire: "dispatch_tool ''lease_acquire'' args = dispatch_lease ''lease_acquire'' args"
proof -
  note skip = dispatch_tool_def dispatchers_def first_arm_skip arm_none insert_iff empty_iff simp_thms
    list.inject char.inject list.distinct
  show ?thesis by (simp only: skip, rule first_arm_take, simp only: arm_names skip)
qed

text \<open>The arguments of a request for the writer lease; the mode may be left out.\<close>

definition writer_request :: "json \<Rightarrow> string \<Rightarrow> string \<Rightarrow> bool" where
  "writer_request args i h \<longleftrightarrow>
     optional_string args ''instance_id'' = Some i \<and> optional_string args ''holder_id'' = Some h \<and>
     (optional_string args ''mode'' = None \<or> optional_string args ''mode'' = Some ''writer'')"

lemma dispatch_writer_request:
  assumes "writer_request args i h"
  shows "\<exists>m a. dispatch_tool ''lease_acquire'' args =
    Some (Inr (Reported m (OperationAttempt a)
      (Inr (LeaseCall (LeaseAcquire i h (optional_string args ''holder_label'') Writer (ttl_arg args)))))) \<and>
    oa_instance_id a = Some i"
proof -
  have mode: "parse_mode_arg (optional_string args ''mode'') = Inr Writer"
    using assms by (auto simp: writer_request_def parse_mode_arg_def)
  have keys: "required_string args ''instance_id'' = Inr i" "required_string args ''holder_id'' = Inr h"
    using assms by (auto simp: writer_request_def required_string_def)
  show ?thesis
    unfolding dispatch_acquire dispatch_lease_def operation_attempt_def
    by (simp add: keys mode Let_def)
qed

lemma acquire_tool_run:
  assumes "writer_request args i h"
  shows "\<exists>m a. oa_instance_id a = Some i \<and>
    execute_tool (runtime_answer env other) direct now ''lease_acquire'' args s =
      (case lease_acquire env i h (optional_string args ''holder_label'') Writer (ttl_arg args) s of (r, s') \<Rightarrow>
         (reported_outcome now m (OperationAttempt a) (map_ok lease_acquire_json r), s'))"
proof -
  have "args \<noteq> JNull" using assms by (auto simp: writer_request_def optional_string_def)
  moreover obtain m a where "dispatch_tool ''lease_acquire'' args =
      Some (Inr (Reported m (OperationAttempt a)
        (Inr (LeaseCall (LeaseAcquire i h (optional_string args ''holder_label'') Writer (ttl_arg args))))))"
    and a: "oa_instance_id a = Some i"
    using dispatch_writer_request [OF assms] by blast
  ultimately have "execute_tool (runtime_answer env other) direct now ''lease_acquire'' args s =
      (case lease_acquire env i h (optional_string args ''holder_label'') Writer (ttl_arg args) s of (r, s') \<Rightarrow>
         (reported_outcome now m (OperationAttempt a) (map_ok lease_acquire_json r), s'))"
    by (simp add: execute_tool_def run_dispatch_def runtime_answer_def serialised_def split: prod.splits)
  with a show ?thesis by blast
qed

lemma is_ok_map: "is_ok (map_ok f r) \<longleftrightarrow> is_ok r"
  by (cases r) simp_all

lemma reported_ok: "oo_ok (reported_outcome now m a r) \<longleftrightarrow> is_ok r"
  by (cases r) (simp_all add: reported_outcome_def outcome_success_def outcome_failure_def is_ok_map)

lemma writer_of_granted:
  assumes "core_inv s" and "clock_ok env" and "lease_acquire env i h lbl Writer ttl s = (Inr p, s')"
  shows "core_inv s' \<and> writer_of (rt_leases s') i = Some h"
proof -
  have "core_inv s'" using core_lease_acquire assms(1,3) by (rule preservesD)
  moreover from this have "lease_inv (rt_leases s')" by (simp add: core_inv_def)
  ultimately show ?thesis using lease_acquire_grants [OF assms] writer_of_row by metis
qed

text \<open>Claim C34. The writer lease through the server. A call of \<open>lease_acquire\<close> that asks for the
  writer lease, in words or by leaving the mode out, keeps the runtime's invariant; if the
  outcome the client reads is a success, the caller is the writer of the instance in the table;
  and while another holder's writer lease is active the outcome is a failure and the table
  stays as it was.\<close>

theorem mcp_writer_lease:
  assumes inv: "core_inv s" and clock: "clock_ok env" and request: "writer_request args i h"
    and run: "execute_tool (runtime_answer env other) direct now ''lease_acquire'' args s = (o1, s')"
  shows "core_inv s' \<and> (oo_ok o1 \<longrightarrow> writer_of (rt_leases s') i = Some h) \<and>
    (\<forall>w g. w \<in> set (rt_leases s) \<and> writer_row_of i g w \<and> g \<noteq> h \<and> (\<forall>n. lease_active (en_clock env n) w) \<longrightarrow>
       \<not> oo_ok o1 \<and> rt_leases s' = rt_leases s)"
proof -
  obtain r t where t: "lease_acquire env i h (optional_string args ''holder_label'') Writer (ttl_arg args) s = (r, t)"
    by fastforce
  have s': "s' = t" "oo_ok o1 \<longleftrightarrow> is_ok r"
    using acquire_tool_run [OF request, of env other direct now s] run t by (auto simp: reported_ok is_ok_map)
  have "core_inv t" using core_lease_acquire inv t by (rule preservesD)
  moreover have "writer_of (rt_leases t) i = Some h" if "is_ok r"
    using writer_of_granted [OF inv clock] t that by (auto simp: is_ok_iff)
  moreover have "\<not> is_ok r \<and> rt_leases t = rt_leases s"
    if "w \<in> set (rt_leases s)" "writer_row_of i g w" "g \<noteq> h" "\<forall>n. lease_active (en_clock env n) w" for w g
    using lease_acquire_blocked [OF inv that(1-3)] that(4) t by (metis fst_conv snd_conv)
  ultimately show ?thesis using s' by blast
qed

text \<open>The witness: an agent asks for the writer lease that the operator holds.\<close>

lemma frozen_clock_ok: "clock_ok frozen_env"
  by (simp add: clock_ok_def frozen_env_def demo_env_def)

definition agent_request :: json where
  "agent_request = JObj [(''instance_id'', JStr ''i1''), (''holder_id'', JStr ''agent'')]"

theorem mcp_writer_lease_witness:
  "\<not> oo_ok (fst (execute_tool (runtime_answer frozen_env (\<lambda>c s. (Inl [], s))) (\<lambda>c s. (Inl [], s)) []
      ''lease_acquire'' agent_request demo_held))"
proof -
  obtain l where l: "rt_leases demo_held = [l]" "lr_resource_id l = ''i1''" "lr_holder_id l = ''op''"
    "lr_mode l = Writer" "lr_expires_at l = ''00000~''"
    using demo_held_row by blast
  have active: "lease_active (en_clock frozen_env n) l" for n
    using l by (simp add: lease_active_def frozen_env_def)
  have request: "writer_request agent_request ''i1'' ''agent''"
    by (simp add: writer_request_def agent_request_def optional_string_def)
  obtain o1 s' where run: "execute_tool (runtime_answer frozen_env (\<lambda>c s. (Inl [], s))) (\<lambda>c s. (Inl [], s)) []
      ''lease_acquire'' agent_request demo_held = (o1, s')"
    by fastforce
  have "\<not> oo_ok o1"
    using mcp_writer_lease [OF demo_held_inv frozen_clock_ok request run] l active
    by (auto simp: writer_row_of_def)
  with run show ?thesis by simp
qed

section \<open>What a refused caller reads\<close>

text \<open>The actions for which the runtime asks for a lease.\<close>

definition access_actions :: "string list" where
  "access_actions =
     [''instance_attach'', ''instance_stop'', ''tab_list'', ''tab_list_actions'', ''browser_surface_list'',
      ''browser_surface_list_actions'', ''browser_surface_snapshot'', ''browser_surface_action'', ''tab_open'',
      ''tab_close'', ''tab_action'', ''tab_snapshot'', ''tab_text'', ''tab_screenshot'', ''tab_pdf'',
      ''artifact_crop'', ''artifact_crop_grid'', ''trace_capture'', ''recording_capture'']"

definition lease_refusal :: "error \<Rightarrow> bool" where
  "lease_refusal e \<longleftrightarrow>
     (\<exists>l w. e = lease_held_message l w) \<or>
     (\<exists>action i w. action \<in> set access_actions \<and> e = writer_conflict_message action i w) \<or>
     (\<exists>action i. action \<in> set access_actions \<and> e = observer_conflict_message action i)"

lemma contains_part: "str_contains (a @ p @ b) p"
  by (rule sublist_appendI)

lemma refusal_phrases:
  assumes "lease_refusal e"
  shows "any_of e [''held by'', ''requires writer lease'', ''requires an explicit writer lease'']"
proof -
  have held: "str_contains (lease_held_message l w) ''held by''" for l w
    using contains_part [where a = "''writer lease for '' @ lr_resource_id l @ '' is ''" and p = "''held by''" and
        b = "'' '' @ lr_holder_id w @ '' until '' @ lr_expires_at w"]
    by (simp add: lease_held_message_def)
  have writer: "str_contains (writer_conflict_message a i w) ''requires writer lease''" for a i w
    using contains_part [where a = "a @ '' ''" and p = "''requires writer lease''" and
        b = "'' for '' @ i @ ''; held by '' @ lr_holder_id w @ '' until '' @ lr_expires_at w"]
    by (simp add: writer_conflict_message_def)
  have observer: "str_contains (observer_conflict_message a i) ''requires an explicit writer lease''" for a i
    using contains_part [where a = "a @ '' ''" and p = "''requires an explicit writer lease''" and
        b = "'' for '' @ i @ '' while observers are active''"]
    by (simp add: observer_conflict_message_def)
  show ?thesis using assms held writer observer by (auto simp: lease_refusal_def any_of_def)
qed

lemma refusal_not_unknown:
  assumes "lease_refusal e"
  shows "\<not> prefix ''unknown '' e"
proof -
  have "list_all (\<lambda>a. a \<noteq> [] \<and> hd a \<noteq> CHR ''u'') access_actions" by code_simp
  then have start: "\<not> prefix ''unknown '' (a @ x)" if "a \<in> set access_actions" for a x
    using that by (cases a) (auto simp: list_all_iff)
  show ?thesis using assms start
    by (auto simp: lease_refusal_def lease_held_message_def writer_conflict_message_def observer_conflict_message_def)
qed

lemma classify_refusal:
  assumes "lease_refusal e"
  shows "classify_error e = Conflict"
  using refusal_phrases [OF assms] refusal_not_unknown [OF assms] by (simp add: classify_error_def)

lemma advise_mono: "x \<in> set r \<Longrightarrow> x \<in> set (advise c is r)"
  by (simp add: set_advise)

lemma advise_here: "c \<Longrightarrow> x \<in> set is \<Longrightarrow> x \<in> set (advise c is r)"
  by (simp add: set_advise)

lemma operation_advises_lease_status:
  assumes "any_of e [''requires writer lease'', ''requires an explicit writer lease'', ''held by'']"
  shows "lease_status_advice (oa_instance_id a) \<in> set (operation_recovery a e)"
  unfolding operation_recovery_def Let_def
  by (rule advise_mono, rule advise_mono, rule advise_mono, rule advise_here, rule assms) simp



text \<open>The tab and surface tools miss one refusal: for the conflict with observers
  neither \<open>tab_recovery\<close> nor \<open>browser_surface_recovery\<close> finds its phrase, so a refused tab
  action is sent to the general diagnosis and not to the lease status, although the operation
  tools give that advice for the same text.\<close>

theorem observer_conflict_not_advised:
  "tab_recovery \<lparr>ta_instance_id = Some ''i'', ta_tab_id = Some ''t'', ta_action_kind = Some ''click''\<rparr>
     (observer_conflict_message ''tab_action'' ''i'') = [browser_diagnose_advice] \<and>
   browser_surface_recovery \<lparr>ba_instance_id = ''i'', ba_surface_id = None, ba_root_surface_id = None,
       ba_action = None, ba_execution_channel = None, ba_allow_takeover = None\<rparr>
     (observer_conflict_message ''browser_surface_action'' ''i'') = [browser_diagnose_advice] \<and>
   operation_recovery \<lparr>oa_operation = ''instance_stop'', oa_instance_id = Some ''i'', oa_holder_id = None,
       oa_detail = None\<rparr>
     (observer_conflict_message ''instance_stop'' ''i'') = [lease_status_advice (Some ''i'')]"
  by code_simp

end
