(* ===== verification/ScenarioGate.thy ===== *)
theory ScenarioGate
  imports ScenarioStore Threshold McpArgs
begin

text \<open>
  Scenario summaries and the gate on them, \<open>scenario_summary_for_store\<close>,
  \<open>scenario_gate\<close> and their helpers in \<open>crates/pengu-mesh-core/src/lib.rs\<close>. The reading of a start time
  and its distance to the clock, by the \<open>time\<close> crate, is an argument: the whole minutes since a
  text, or the error of parsing it. The theorems show that the summary built family by family
  counts the evidence exactly, and that the gate passes exactly when the evidence of the selected
  runs satisfies the policy.
\<close>

unbundle bit_operations_syntax

section \<open>Latencies\<close>

text \<open>A latency is the bit pattern of its \<open>f64\<close>. \<open>f64::total_cmp\<close> compares the patterns as signed
  integers after flipping the magnitude bits of the negative ones.\<close>

definition f64_total_key :: "64 word \<Rightarrow> int" where
  "f64_total_key b = (if sint b < 0 then sint (b XOR 0x7FFFFFFFFFFFFFFF) else sint b)"

definition f64_exponent :: "64 word \<Rightarrow> nat" where
  "f64_exponent b = unat b div 2 ^ 52 mod 2 ^ 11"

definition f64_fraction :: "64 word \<Rightarrow> nat" where
  "f64_fraction b = unat b mod 2 ^ 52"

text \<open>The ceiling of a positive finite value; the cast to \<open>u64\<close> saturates.\<close>

definition f64_ceil_positive :: "64 word \<Rightarrow> nat" where
  "f64_ceil_positive b =
     (let e = f64_exponent b; m = f64_fraction b
      in if e = 0 then (if m = 0 then 0 else 1)
         else if 1075 \<le> e then (2 ^ 52 + m) * 2 ^ (e - 1075)
         else (2 ^ 52 + m + (2 ^ (1075 - e) - 1)) div 2 ^ (1075 - e))"

definition latency_sample_budget_ms :: "64 word \<Rightarrow> 64 word" where
  "latency_sample_budget_ms b =
     (if f64_exponent b = 2047 \<or> sint b < 0 \<or> b = 0 then 0
      else of_nat (min (f64_ceil_positive b) (2 ^ 64 - 1)))"

section \<open>Summaries\<close>

record scenario_status_count =
  sc_status :: string
  sc_runs :: nat

record scenario_family_summary =
  sf_scenario_family :: string
  sf_runs :: nat
  sf_statuses :: "scenario_status_count list"
  sf_assertion_total :: nat
  sf_assertion_failures :: nat
  sf_latency_sample_count :: nat
  sf_latency_min_ms :: "64 word option"
  sf_latency_median_ms :: "64 word option"
  sf_latency_max_ms :: "64 word option"
  sf_latest_run_id :: "string option"
  sf_latest_status :: "string option"
  sf_latest_started_at :: "string option"
  sf_latest_commit_sha :: "string option"

record scenario_summary_payload =
  ss_requested_family :: "string option"
  ss_requested_limit :: nat
  ss_total_runs :: nat
  ss_families :: "scenario_family_summary list"

record family_builder =
  fb_scenario_family :: string
  fb_runs :: nat
  fb_statuses :: "(string \<times> nat) list"
  fb_assertion_total :: nat
  fb_assertion_failures :: nat
  fb_latencies_ms :: "64 word list"
  fb_latest_run_id :: "string option"
  fb_latest_status :: "string option"
  fb_latest_started_at :: "string option"
  fb_latest_commit_sha :: "string option"

definition family_builder_new :: "string \<Rightarrow> family_builder" where
  "family_builder_new scenario_family =
     \<lparr>fb_scenario_family = scenario_family, fb_runs = 0, fb_statuses = [], fb_assertion_total = 0,
      fb_assertion_failures = 0, fb_latencies_ms = [], fb_latest_run_id = None, fb_latest_status = None,
      fb_latest_started_at = None, fb_latest_commit_sha = None\<rparr>"

definition nth_opt :: "'a list \<Rightarrow> nat \<Rightarrow> 'a option" where
  "nth_opt xs i = (if i < length xs then Some (xs ! i) else None)"

definition last_opt :: "'a list \<Rightarrow> 'a option" where
  "last_opt xs = (if xs = [] then None else Some (last xs))"

definition family_builder_finish :: "family_builder \<Rightarrow> scenario_family_summary" where
  "family_builder_finish b =
     (let latencies = sort_key f64_total_key (fb_latencies_ms b)
      in \<lparr>sf_scenario_family = fb_scenario_family b, sf_runs = fb_runs b,
          sf_statuses = map (\<lambda>(status, runs). \<lparr>sc_status = status, sc_runs = runs\<rparr>) (fb_statuses b),
          sf_assertion_total = fb_assertion_total b, sf_assertion_failures = fb_assertion_failures b,
          sf_latency_sample_count = length latencies,
          sf_latency_min_ms = nth_opt latencies 0,
          sf_latency_median_ms = nth_opt latencies (length latencies div 2),
          sf_latency_max_ms = last_opt latencies,
          sf_latest_run_id = fb_latest_run_id b, sf_latest_status = fb_latest_status b,
          sf_latest_started_at = fb_latest_started_at b, sf_latest_commit_sha = fb_latest_commit_sha b\<rparr>)"

text \<open>\<open>*statuses.entry(status).or_insert(0) += 1\<close> on a map kept in key order.\<close>

fun count_status :: "string \<Rightarrow> (string \<times> nat) list \<Rightarrow> (string \<times> nat) list" where
  "count_status s [] = [(s, 1)]"
| "count_status s ((k, n) # rest) =
     (if s = k then (k, Suc n) # rest
      else if s < k then (s, 1) # (k, n) # rest
      else (k, n) # count_status s rest)"

text \<open>One turn of the loop on the builder of the run's family.\<close>

definition note_latest :: "scenario_run \<Rightarrow> family_builder \<Rightarrow> family_builder" where
  "note_latest run b =
     (if fb_latest_run_id b = None
      then b\<lparr>fb_latest_run_id := Some (sr_id run), fb_latest_status := Some (sr_status run),
             fb_latest_started_at := Some (sr_started_at run), fb_latest_commit_sha := sr_commit_sha run\<rparr>
      else b)"

definition absorb_run :: "scenario_db \<Rightarrow> scenario_run \<Rightarrow> family_builder \<Rightarrow> family_builder" where
  "absorb_run db run b =
     (let b = note_latest run
            (b\<lparr>fb_runs := fb_runs b + 1, fb_statuses := count_status (sr_status run) (fb_statuses b)\<rparr>);
          assertions = list_scenario_assertions (sr_id run) db
      in b\<lparr>fb_assertion_total := fb_assertion_total b + length assertions,
           fb_assertion_failures := fb_assertion_failures b +
             length (filter (\<lambda>a. sa_status a \<noteq> ''passed'') assertions),
           fb_latencies_ms := fb_latencies_ms b @ map ls_sample_ms (list_latency_samples (sr_id run) db)\<rparr>)"

definition summarise_run :: "scenario_db \<Rightarrow> family_builder list \<Rightarrow> scenario_run \<Rightarrow> family_builder list" where
  "summarise_run db families run =
     (case position (\<lambda>b. fb_scenario_family b = sr_scenario_family run) families of
        Some i \<Rightarrow> families[i := absorb_run db run (families ! i)]
      | None \<Rightarrow> families @ [absorb_run db run (family_builder_new (sr_scenario_family run))])"

definition page_limit :: "nat \<Rightarrow> nat" where
  "page_limit limit = (if limit < 1 then 1 else if 200 < limit then 200 else limit)"

definition scenario_summary_for_store ::
  "scenario_db \<Rightarrow> string option \<Rightarrow> nat \<Rightarrow> scenario_summary_payload" where
  "scenario_summary_for_store db family limit =
     (let limit = page_limit limit;
          runs = list_scenario_runs family (of_nat limit) db
      in \<lparr>ss_requested_family = family, ss_requested_limit = limit, ss_total_runs = length runs,
          ss_families = map family_builder_finish (foldl (summarise_run db) [] runs)\<rparr>)"

definition scenario_list :: "scenario_db \<Rightarrow> string option \<Rightarrow> nat \<Rightarrow> string option \<times> nat \<times> scenario_run list" where
  "scenario_list db family limit =
     (family, page_limit limit, list_scenario_runs family (of_nat (page_limit limit)) db)"

record scenario_run_detail_payload =
  rd_run :: scenario_run
  rd_run_steps :: "scenario_step list"
  rd_run_assertions :: "scenario_assertion list"
  rd_run_samples :: "latency_sample list"
  rd_run_fingerprint :: "environment_fingerprint option"

definition scenario_run_detail :: "scenario_db \<Rightarrow> string \<Rightarrow> scenario_run_detail_payload res" where
  "scenario_run_detail db run_id =
     try_res (ok_or (''unknown scenario run '' @ run_id) (get_scenario_run run_id db)) (\<lambda>run.
     Inr \<lparr>rd_run = run, rd_run_steps = list_scenario_steps run_id db,
          rd_run_assertions = list_scenario_assertions run_id db,
          rd_run_samples = list_latency_samples run_id db,
          rd_run_fingerprint = get_environment_fingerprint run_id db\<rparr>)"

section \<open>Evidence status\<close>

datatype diagnose_state = StateReady | StateDegraded | StateBlocked | StateUnknown | StateUnsupported

record scenario_evidence_status =
  se_state :: diagnose_state
  se_summary :: string
  se_total_runs :: nat
  se_passing_families :: nat
  se_degraded_families :: nat
  se_families :: "scenario_family_summary list"

definition scenario_evidence_status_from_summary :: "scenario_summary_payload \<Rightarrow> scenario_evidence_status" where
  "scenario_evidence_status_from_summary summary =
     (let total = ss_total_runs summary;
          degraded = length (filter (\<lambda>f. sf_latest_status f \<noteq> Some ''passed'') (ss_families summary));
          passing = length (ss_families summary) - degraded
      in \<lparr>se_state = (if total = 0 then StateDegraded else if degraded = 0 then StateReady else StateDegraded),
          se_summary =
            (if total = 0 then ''no stored scenario runs found''
             else if degraded = 0 then show_nat passing @
               '' scenario families have latest passing evidence across '' @ show_nat total @ '' runs''
             else show_nat degraded @ '' of '' @ show_nat (length (ss_families summary)) @
               '' scenario families have non-passing latest evidence across '' @ show_nat total @ '' runs''),
          se_total_runs = total, se_passing_families = passing, se_degraded_families = degraded,
          se_families = ss_families summary\<rparr>)"

definition unknown_scenario_evidence_status :: "string \<Rightarrow> scenario_evidence_status" where
  "unknown_scenario_evidence_status detail =
     \<lparr>se_state = StateUnknown,
      se_summary = ''failed to inspect stored scenario evidence: '' @ detail,
      se_total_runs = 0, se_passing_families = 0, se_degraded_families = 0, se_families = []\<rparr>"

text \<open>What \<open>StateStore::inspect_existing\<close> finds: an error, no database, or one.\<close>

definition scenario_evidence_status_for_root :: "scenario_db option res \<Rightarrow> scenario_evidence_status" where
  "scenario_evidence_status_for_root found =
     (case found of
        Inl e \<Rightarrow> unknown_scenario_evidence_status e
      | Inr None \<Rightarrow> scenario_evidence_status_from_summary
          \<lparr>ss_requested_family = None, ss_requested_limit = 200, ss_total_runs = 0, ss_families = []\<rparr>
      | Inr (Some db) \<Rightarrow> scenario_evidence_status_from_summary (scenario_summary_for_store db None 200))"

section \<open>The gate\<close>

record scenario_gate_check =
  gc_name :: string
  gc_passed :: bool
  gc_expected :: string
  gc_actual :: string
  gc_detail :: "string option"

definition gate_check :: "string \<Rightarrow> bool \<Rightarrow> string \<Rightarrow> string \<Rightarrow> string option \<Rightarrow> scenario_gate_check" where
  "gate_check name passed expected actual detail =
     \<lparr>gc_name = name, gc_passed = passed, gc_expected = expected, gc_actual = actual, gc_detail = detail\<rparr>"

record gate_threshold_violation =
  gv_threshold_name :: string
  gv_metric :: string
  gv_expected_ms :: "64 word"
  gv_actual_ms :: "64 word"
  gv_percentile :: string

record gate_threshold_result =
  gt_threshold_name :: string
  gt_metric :: string
  gt_passed :: bool
  gt_samples_evaluated :: nat
  gt_violations :: "gate_threshold_violation list"

definition threshold_to_performance :: "latency_threshold \<Rightarrow> performance_threshold" where
  "threshold_to_performance t =
     \<lparr>pt_name = lt_name t, pt_metric = lt_metric t, pt_max_ms = lt_max_ms t, pt_p50_ms = lt_p50_ms t,
      pt_p95_ms = lt_p95_ms t, pt_p99_ms = lt_p99_ms t\<rparr>"

definition scenario_gate_threshold_result :: "threshold_result \<Rightarrow> gate_threshold_result" where
  "scenario_gate_threshold_result r =
     \<lparr>gt_threshold_name = tr_threshold_name r, gt_metric = tr_metric r, gt_passed = tr_passed r,
      gt_samples_evaluated = tr_samples_evaluated r,
      gt_violations = map (\<lambda>v. \<lparr>gv_threshold_name = tv_threshold_name v, gv_metric = tv_metric v,
        gv_expected_ms = tv_expected_ms v, gv_actual_ms = tv_actual_ms v,
        gv_percentile = tv_percentile v\<rparr>) (tr_violations r)\<rparr>"

record scenario_gate_payload =
  gp_requested_family :: "string option"
  gp_requested_limit :: nat
  gp_policy :: scenario_gate_policy
  gp_passed :: bool
  gp_summary :: scenario_summary_payload
  gp_checks :: "scenario_gate_check list"
  gp_thresholds :: "gate_threshold_result list"
  gp_recovery :: "string list"

text \<open>Rust's \<open>Debug\<close> form of a list of strings. Bytes of multi-byte characters are copied, as for
  printable characters.\<close>

definition hex_digit :: "nat \<Rightarrow> char" where
  "hex_digit n = ''0123456789abcdef'' ! n"

definition debug_char :: "char \<Rightarrow> string" where
  "debug_char c =
     (let n = code_of c
      in if c = CHR 0x22 then [CHR 0x5C, CHR 0x22]
         else if c = CHR 0x5C then [CHR 0x5C, CHR 0x5C]
         else if n = 9 then [CHR 0x5C, CHR ''t'']
         else if n = 10 then [CHR 0x5C, CHR ''n'']
         else if n = 13 then [CHR 0x5C, CHR ''r'']
         else if n = 0 then [CHR 0x5C, CHR ''0'']
         else if n < 16 then [CHR 0x5C, CHR ''u'', CHR 0x7B, hex_digit n, CHR 0x7D]
         else if n < 32 \<or> n = 127 then
           [CHR 0x5C, CHR ''u'', CHR 0x7B, hex_digit (n div 16), hex_digit (n mod 16), CHR 0x7D]
         else [c])"

definition debug_string :: "string \<Rightarrow> string" where
  "debug_string s = [CHR 0x22] @ concat (map debug_char s) @ [CHR 0x22]"

definition debug_strings :: "string list \<Rightarrow> string" where
  "debug_strings ss = ''['' @ join '', '' (map debug_string ss) @ '']''"

text \<open>\<open>scenario_run_age_minutes\<close>: the age is cut off at zero and cast to \<open>u64\<close>.\<close>

definition scenario_run_age_minutes :: "(string \<Rightarrow> int res) \<Rightarrow> string \<Rightarrow> 64 word res" where
  "scenario_run_age_minutes minutes_since started_at = map_ok (\<lambda>age. of_int (max age 0)) (minutes_since started_at)"

definition freshness_failure ::
  "(string \<Rightarrow> int res) \<Rightarrow> 64 word \<Rightarrow> scenario_family_summary \<Rightarrow> string option" where
  "freshness_failure minutes_since max_age f =
     (case sf_latest_started_at f of
        None \<Rightarrow> Some (sf_scenario_family f @ '' latest_started_at=missing'')
      | Some started_at \<Rightarrow>
          (case scenario_run_age_minutes minutes_since started_at of
             Inl e \<Rightarrow> Some (sf_scenario_family f @ '' latest_started_at_invalid='' @ e)
           | Inr age \<Rightarrow>
               (if age \<le> max_age then None
                else Some (sf_scenario_family f @ '' latest_age_minutes='' @ show_nat (unat age)))))"

definition freshness_check ::
  "(string \<Rightarrow> int res) \<Rightarrow> scenario_gate_policy \<Rightarrow> scenario_family_summary list \<Rightarrow> scenario_gate_check list" where
  "freshness_check minutes_since policy families =
     (case sg_max_latest_age_minutes policy of
        None \<Rightarrow> []
      | Some max_age \<Rightarrow>
          (let failures = List.map_filter (freshness_failure minutes_since max_age) families
           in [gate_check ''latest_freshness'' (families \<noteq> [] \<and> failures = [])
                 (''latest run age at most '' @ show_nat (unat max_age) @ '' minute(s)'')
                 (if families = [] then ''no scenario families''
                  else if failures = [] then ''all latest runs fresh'' else join '', '' failures) None]))"

definition status_failure :: "string set \<Rightarrow> scenario_family_summary \<Rightarrow> string option" where
  "status_failure allowed f =
     (case sf_latest_status f of
        None \<Rightarrow> None
      | Some status \<Rightarrow>
          (if status \<in> allowed then None
           else Some (sf_scenario_family f @ '' latest_status='' @ status)))"

definition evidence_checks ::
  "string option \<Rightarrow> scenario_gate_policy \<Rightarrow> string set \<Rightarrow> scenario_summary_payload \<Rightarrow> scenario_gate_check list" where
  "evidence_checks family policy allowed summary =
     (let families = ss_families summary;
          status_failures = List.map_filter (status_failure allowed) families;
          assertion_failures = sum_list (map sf_assertion_failures families)
      in [gate_check ''minimum_runs'' (sg_min_runs policy \<le> ss_total_runs summary)
            (''at least '' @ show_nat (sg_min_runs policy) @ '' scenario run(s)'')
            (show_nat (ss_total_runs summary)) (map_option (\<lambda>f. ''family='' @ f) family),
          gate_check ''latest_status'' (families \<noteq> [] \<and> status_failures = [])
            (''latest status in '' @ debug_strings (sg_allowed_statuses policy))
            (if families = [] then ''no scenario families''
             else if status_failures = [] then ''all latest statuses allowed''
             else join '', '' status_failures) None,
          gate_check ''assertion_failures'' (assertion_failures \<le> sg_max_assertion_failures policy)
            (''at most '' @ show_nat (sg_max_assertion_failures policy) @ '' assertion failure(s)'')
            (show_nat assertion_failures) None])"

definition threshold_checks :: "scenario_gate_policy \<Rightarrow> gate_threshold_result \<Rightarrow> scenario_gate_check list" where
  "threshold_checks policy t =
     [gate_check (''threshold_samples:'' @ gt_threshold_name t)
        (sg_min_samples_per_metric policy \<le> gt_samples_evaluated t)
        (''at least '' @ show_nat (sg_min_samples_per_metric policy) @ '' sample(s) for metric '' @ gt_metric t)
        (show_nat (gt_samples_evaluated t)) None,
      gate_check (''threshold_budget:'' @ gt_threshold_name t) (gt_passed t)
        (''latency budget for metric '' @ gt_metric t)
        (if gt_passed t then ''within budget'' else show_nat (length (gt_violations t)) @ '' violation(s)'') None]"

text \<open>\<open>samples_by_metric.entry(name).or_default().push(..)\<close> over the samples of the runs.\<close>

definition push_sample :: "(string \<rightharpoonup> 64 word list) \<Rightarrow> latency_sample \<Rightarrow> (string \<rightharpoonup> 64 word list)" where
  "push_sample m sample =
     m(ls_metric_name sample \<mapsto>
        unwrap_or [] (m (ls_metric_name sample)) @ [latency_sample_budget_ms (ls_sample_ms sample)])"

definition samples_by_metric :: "scenario_db \<Rightarrow> scenario_run list \<Rightarrow> (string \<rightharpoonup> 64 word list)" where
  "samples_by_metric db runs =
     foldl (\<lambda>m run. foldl push_sample m (list_latency_samples (sr_id run) db)) Map.empty runs"

definition gate_recovery :: "string option \<Rightarrow> string list" where
  "gate_recovery family =
     [''run pengu-mesh scenario-summary --limit 25'',
      (case family of
         Some f \<Rightarrow> ''rerun examples/workflows/'' @ f @ ''/run.sh with an isolated PENGU_MESH_RUNTIME_ROOT''
       | None \<Rightarrow> ''inspect failing families and rerun their examples/workflows/<family>/run.sh scripts''),
      ''tighten or relax latency thresholds only after repeated baseline evidence'']"

definition scenario_gate ::
  "(string \<Rightarrow> int res) \<Rightarrow> string \<Rightarrow> scenario_db \<Rightarrow> string option \<Rightarrow> nat \<Rightarrow> scenario_gate_policy \<Rightarrow>
   scenario_gate_payload operation_outcome" where
  "scenario_gate minutes_since timestamp db family limit policy =
     (let limit = page_limit limit;
          policy = (if sg_allowed_statuses policy = []
                    then policy\<lparr>sg_allowed_statuses := [''passed'']\<rparr> else policy);
          summary = scenario_summary_for_store db family limit;
          allowed = set (filter (\<lambda>s. s \<noteq> []) (map trim (sg_allowed_statuses policy)));
          samples = samples_by_metric db (list_scenario_runs family (of_nat limit) db);
          thresholds = map scenario_gate_threshold_result
            (evaluate_thresholds (map threshold_to_performance (sg_thresholds policy)) samples);
          checks = evidence_checks family policy allowed summary @
            freshness_check minutes_since policy (ss_families summary) @
            concat (map (threshold_checks policy) thresholds);
          passed = list_all gc_passed checks;
          payload = \<lparr>gp_requested_family = family, gp_requested_limit = limit, gp_policy = policy,
            gp_passed = passed, gp_summary = summary, gp_checks = checks, gp_thresholds = thresholds,
            gp_recovery = (if passed then [] else gate_recovery family)\<rparr>
      in if passed then outcome_success timestamp ''scenario gate passed'' payload
         else outcome_failure timestamp NotReady ''scenario gate failed'' payload)"

section \<open>What a summary counts\<close>

definition runs_of :: "string \<Rightarrow> scenario_run list \<Rightarrow> scenario_run list" where
  "runs_of f runs = filter (\<lambda>r. sr_scenario_family r = f) runs"

definition failed_assertions :: "scenario_db \<Rightarrow> scenario_run \<Rightarrow> nat" where
  "failed_assertions db run = length (filter (\<lambda>a. sa_status a \<noteq> ''passed'') (list_scenario_assertions (sr_id run) db))"

definition run_latencies :: "scenario_db \<Rightarrow> scenario_run \<Rightarrow> 64 word list" where
  "run_latencies db run = map ls_sample_ms (list_latency_samples (sr_id run) db)"

text \<open>What a builder must say of the runs it has seen; the first run of a family is its latest.\<close>

definition builder_ok :: "scenario_db \<Rightarrow> scenario_run list \<Rightarrow> family_builder \<Rightarrow> bool" where
  "builder_ok db runs b \<longleftrightarrow>
     (let rs = runs_of (fb_scenario_family b) runs
      in rs \<noteq> [] \<and> fb_runs b = length rs \<and>
         fb_latest_run_id b = Some (sr_id (hd rs)) \<and> fb_latest_status b = Some (sr_status (hd rs)) \<and>
         fb_latest_started_at b = Some (sr_started_at (hd rs)) \<and> fb_latest_commit_sha b = sr_commit_sha (hd rs) \<and>
         fb_assertion_total b = sum_list (map (\<lambda>r. length (list_scenario_assertions (sr_id r) db)) rs) \<and>
         fb_assertion_failures b = sum_list (map (failed_assertions db) rs) \<and>
         fb_latencies_ms b = concat (map (run_latencies db) rs))"

definition builders_ok :: "scenario_db \<Rightarrow> scenario_run list \<Rightarrow> family_builder list \<Rightarrow> bool" where
  "builders_ok db runs bs \<longleftrightarrow>
     distinct (map fb_scenario_family bs) \<and> fb_scenario_family ` set bs = sr_scenario_family ` set runs \<and>
     list_all (builder_ok db runs) bs \<and>
     sum_list (map fb_runs bs) = length runs \<and>
     sum_list (map fb_assertion_failures bs) = sum_list (map (failed_assertions db) runs)"

lemma runs_of_append: "runs_of f (runs @ [r]) = runs_of f runs @ (if sr_scenario_family r = f then [r] else [])"
  by (simp add: runs_of_def)

lemma absorb_family: "fb_scenario_family (absorb_run db run b) = fb_scenario_family b"
  by (simp add: absorb_run_def note_latest_def Let_def)

lemma absorb_counts:
  "fb_runs (absorb_run db run b) = Suc (fb_runs b)"
  "fb_assertion_failures (absorb_run db run b) = fb_assertion_failures b + failed_assertions db run"
  by (simp_all add: absorb_run_def note_latest_def Let_def failed_assertions_def)

lemma absorb_first:
  "builder_ok db (runs @ [run]) (absorb_run db run (family_builder_new (sr_scenario_family run)))"
  if "sr_scenario_family run \<notin> sr_scenario_family ` set runs"
proof -
  have "runs_of (sr_scenario_family run) runs = []"
    unfolding runs_of_def filter_empty_conv using that by (metis image_eqI)
  then show ?thesis
    by (simp add: builder_ok_def runs_of_append absorb_run_def note_latest_def family_builder_new_def
        failed_assertions_def run_latencies_def Let_def)
qed

lemma absorb_next:
  "builder_ok db runs b \<Longrightarrow> fb_scenario_family b = sr_scenario_family run \<Longrightarrow>
   builder_ok db (runs @ [run]) (absorb_run db run b)"
  by (simp add: builder_ok_def runs_of_append absorb_run_def note_latest_def failed_assertions_def
      run_latencies_def Let_def)

lemma builder_ok_other:
  "fb_scenario_family b \<noteq> sr_scenario_family run \<Longrightarrow> builder_ok db (runs @ [run]) b = builder_ok db runs b"
  by (simp add: builder_ok_def runs_of_append)

lemma builders_ok_step:
  assumes "builders_ok db runs bs"
  shows "builders_ok db (runs @ [run]) (summarise_run db bs run)"
proof (cases "position (\<lambda>b. fb_scenario_family b = sr_scenario_family run) bs")
  case None
  then have new: "sr_scenario_family run \<notin> fb_scenario_family ` set bs" by (auto simp: position_None)
  then have "sr_scenario_family run \<notin> sr_scenario_family ` set runs" using assms by (simp add: builders_ok_def)
  note first = absorb_first [OF this]
  have "list_all (builder_ok db (runs @ [run])) bs"
    using assms new unfolding builders_ok_def list_all_iff by (metis builder_ok_other image_eqI)
  then show ?thesis using assms new first None
    by (auto simp: builders_ok_def summarise_run_def absorb_family absorb_counts)
      (simp_all add: family_builder_new_def)
next
  case (Some i)
  then have i: "i < length bs" "fb_scenario_family (bs ! i) = sr_scenario_family run"
    using position_Some by blast+
  let ?b = "absorb_run db run (bs ! i)"
  have fam: "map fb_scenario_family (bs[i := ?b]) = map fb_scenario_family bs"
    using i by (simp add: map_update absorb_family list_update_same_conv)
  have "builder_ok db (runs @ [run]) (bs[i := ?b] ! j)" if "j < length bs" for j
  proof (cases "j = i")
    case True
    then show ?thesis using assms i by (auto simp: builders_ok_def list_all_length intro: absorb_next)
  next
    case False
    then have "fb_scenario_family (bs ! j) \<noteq> sr_scenario_family run"
      using assms i that by (metis builders_ok_def length_map nth_eq_iff_index_eq nth_map)
    then show ?thesis using assms False that by (simp add: builders_ok_def list_all_length builder_ok_other)
  qed
  then have "list_all (builder_ok db (runs @ [run])) (bs[i := ?b])" by (simp add: list_all_length)
  moreover have "sum_list (map fb_runs (bs[i := ?b])) = Suc (sum_list (map fb_runs bs))"
    using i elem_le_sum_list [of i "map fb_runs bs"]
    by (simp add: map_update sum_list_update absorb_counts)
  moreover have "sum_list (map fb_assertion_failures (bs[i := ?b])) =
      sum_list (map fb_assertion_failures bs) + failed_assertions db run"
    using i elem_le_sum_list [of i "map fb_assertion_failures bs"]
    by (simp add: map_update sum_list_update absorb_counts)
  moreover have "fb_scenario_family ` set (bs[i := ?b]) = fb_scenario_family ` set bs"
    using fam by (metis list.set_map)
  moreover have "sr_scenario_family run \<in> fb_scenario_family ` set bs" using i by (metis image_eqI nth_mem)
  ultimately show ?thesis using assms Some fam
    by (auto simp: builders_ok_def summarise_run_def)
qed

lemma builders_ok_summary: "builders_ok db runs (foldl (summarise_run db) [] runs)"
  by (induction runs rule: rev_induct) (simp_all add: builders_ok_def [of db "[]"] builders_ok_step)

section \<open>Properties of the summary and the gate\<close>

lemma hd_runs_of: "runs_of f runs \<noteq> [] \<Longrightarrow> hd (runs_of f runs) \<in> set runs \<and> sr_scenario_family (hd (runs_of f runs)) = f"
  using hd_in_set [of "runs_of f runs"] by (auto simp: runs_of_def)

text \<open>The runs a request selects, and the first one of each family among them.\<close>

definition selected_runs :: "scenario_db \<Rightarrow> string option \<Rightarrow> nat \<Rightarrow> scenario_run list" where
  "selected_runs db family limit = list_scenario_runs family (of_nat (page_limit limit)) db"

definition latest_run :: "scenario_run list \<Rightarrow> string \<Rightarrow> scenario_run" where
  "latest_run runs f = hd (runs_of f runs)"

lemma page_limit_idem: "page_limit (page_limit n) = page_limit n"
  by (simp add: page_limit_def)

lemma finish_sel:
  "sf_scenario_family (family_builder_finish b) = fb_scenario_family b"
  "sf_runs (family_builder_finish b) = fb_runs b"
  "sf_assertion_failures (family_builder_finish b) = fb_assertion_failures b"
  "sf_latest_run_id (family_builder_finish b) = fb_latest_run_id b"
  "sf_latest_status (family_builder_finish b) = fb_latest_status b"
  "sf_latest_started_at (family_builder_finish b) = fb_latest_started_at b"
  "sf_latency_sample_count (family_builder_finish b) = length (fb_latencies_ms b)"
  "sf_latency_max_ms (family_builder_finish b) = last_opt (sort_key f64_total_key (fb_latencies_ms b))"
  by (simp_all add: family_builder_finish_def Let_def)


definition one_run_db :: scenario_db where
  "one_run_db = (empty_scenario_db True)
     \<lparr>sd_runs := [\<lparr>sr_id = ''r1'', sr_scenario_name = ''open'', sr_scenario_family = ''smoke'',
        sr_scenario_version = ''1'', sr_tool_surface = ''mcp'', sr_runtime_root = None, sr_commit_sha = None,
        sr_branch_name = None, sr_platform = ''macos'', sr_started_at = ''2026-01-01T00:00:00Z'',
        sr_finished_at = None, sr_status = ''running'', sr_summary_path = None\<rparr>],
      sd_assertions := [\<lparr>sa_id = ''a1'', sa_run_id = ''r1'', sa_step_id = None, sa_assertion_name = ''title'',
        sa_expected_value = None, sa_actual_value = None, sa_status = ''failed'',
        sa_failure_category = None, sa_notes = None\<rparr>]\<rparr>"


definition metric_samples :: "scenario_db \<Rightarrow> scenario_run list \<Rightarrow> string \<Rightarrow> 64 word list" where
  "metric_samples db runs metric =
     concat (map (\<lambda>r. map (\<lambda>l. latency_sample_budget_ms (ls_sample_ms l))
       (filter (\<lambda>l. ls_metric_name l = metric) (list_latency_samples (sr_id r) db))) runs)"

lemma push_samples:
  "unwrap_or [] (foldl push_sample m ls k) = unwrap_or [] (m k) @
     map (\<lambda>l. latency_sample_budget_ms (ls_sample_ms l)) (filter (\<lambda>l. ls_metric_name l = k) ls)"
  by (induction ls arbitrary: m) (simp_all add: push_sample_def)

lemma samples_by_metric: "unwrap_or [] (samples_by_metric db runs k) = metric_samples db runs k"
  by (induction runs rule: rev_induct)
    (simp_all add: samples_by_metric_def metric_samples_def push_samples)

definition accepted_statuses :: "scenario_gate_policy \<Rightarrow> string set" where
  "accepted_statuses policy =
     (if sg_allowed_statuses policy = [] then {''passed''}
      else {s. s \<noteq> [] \<and> s \<in> trim ` set (sg_allowed_statuses policy)})"

text \<open>The meaning of a policy, over the runs and their evidence alone.\<close>

definition policy_satisfied ::
  "(string \<Rightarrow> int res) \<Rightarrow> scenario_gate_policy \<Rightarrow> scenario_db \<Rightarrow> scenario_run list \<Rightarrow> bool" where
  "policy_satisfied minutes_since policy db runs \<longleftrightarrow>
     runs \<noteq> [] \<and> sg_min_runs policy \<le> length runs \<and>
     sum_list (map (failed_assertions db) runs) \<le> sg_max_assertion_failures policy \<and>
     (\<forall>r\<in>set runs. sr_status (latest_run runs (sr_scenario_family r)) \<in> accepted_statuses policy) \<and>
     (\<forall>m. sg_max_latest_age_minutes policy = Some m \<longrightarrow>
        (\<forall>r\<in>set runs. \<exists>age. scenario_run_age_minutes minutes_since
            (sr_started_at (latest_run runs (sr_scenario_family r))) = Inr age \<and> age \<le> m)) \<and>
     (\<forall>t\<in>set (sg_thresholds policy).
        sg_min_samples_per_metric policy \<le> length (metric_samples db runs (lt_metric t)) \<and>
        tr_passed (evaluate_threshold (threshold_to_performance t) (metric_samples db runs (lt_metric t))))"

text \<open>A condition on the latest runs, asked family by family or run by run.\<close>

lemma families_iff:
  assumes "summary = scenario_summary_for_store db family limit" and "runs = selected_runs db family limit"
  shows "(\<forall>f\<in>set (ss_families summary). P (sf_scenario_family f) (sf_latest_status f) (sf_latest_started_at f)) \<longleftrightarrow>
    (\<forall>r\<in>set runs. P (sr_scenario_family r) (Some (sr_status (latest_run runs (sr_scenario_family r))))
        (Some (sr_started_at (latest_run runs (sr_scenario_family r)))))"
proof -
  let ?bs = "foldl (summarise_run db) [] runs"
  have fams: "ss_families summary = map family_builder_finish ?bs"
    by (simp add: assms selected_runs_def scenario_summary_for_store_def Let_def)
  have ok: "builders_ok db runs ?bs" by (rule builders_ok_summary)
  have own: "fb_latest_status b = Some (sr_status (latest_run runs (fb_scenario_family b)))"
      "fb_latest_started_at b = Some (sr_started_at (latest_run runs (fb_scenario_family b)))" if "b \<in> set ?bs" for b
    using ok that by (auto simp: builders_ok_def list_all_iff builder_ok_def Let_def latest_run_def)
  have "(\<forall>f\<in>set (ss_families summary). P (sf_scenario_family f) (sf_latest_status f) (sf_latest_started_at f)) \<longleftrightarrow>
      (\<forall>n\<in>fb_scenario_family ` set ?bs. P n (Some (sr_status (latest_run runs n))) (Some (sr_started_at (latest_run runs n))))"
    by (simp add: fams finish_sel own)
  also have "fb_scenario_family ` set ?bs = sr_scenario_family ` set runs" using ok by (simp add: builders_ok_def)
  finally show ?thesis by simp
qed

lemma map_filter_Nil: "List.map_filter f xs = [] \<longleftrightarrow> (\<forall>x\<in>set xs. f x = None)"
  by (induction xs) (auto simp: List.map_filter_def)

lemma gate_check_passed [simp]: "gc_passed (gate_check n p e a d) = p"
  by (simp add: gate_check_def)

lemma summary_totals:
  assumes "summary = scenario_summary_for_store db family limit" and "runs = selected_runs db family limit"
  shows "ss_total_runs summary = length runs" and "ss_families summary = [] \<longleftrightarrow> runs = []"
    and "sum_list (map sf_assertion_failures (ss_families summary)) = sum_list (map (failed_assertions db) runs)"
proof -
  let ?bs = "foldl (summarise_run db) [] runs"
  have fams: "ss_families summary = map family_builder_finish ?bs"
    and total: "ss_total_runs summary = length runs"
    by (simp_all add: assms selected_runs_def scenario_summary_for_store_def Let_def)
  have ok: "builders_ok db runs ?bs" by (rule builders_ok_summary)
  show "ss_total_runs summary = length runs" by (rule total)
  have "fb_scenario_family ` set ?bs = sr_scenario_family ` set runs" using ok by (simp add: builders_ok_def)
  then show "ss_families summary = [] \<longleftrightarrow> runs = []" unfolding fams by auto
  show "sum_list (map sf_assertion_failures (ss_families summary)) = sum_list (map (failed_assertions db) runs)"
    using ok by (simp add: fams builders_ok_def finish_sel comp_def)
qed

lemma gate_checks_pass:
  assumes summary: "summary = scenario_summary_for_store db family limit" and runs: "runs = selected_runs db family limit"
    and allowed: "allowed = accepted_statuses policy"
    and thresholds: "thresholds = map scenario_gate_threshold_result
      (evaluate_thresholds (map threshold_to_performance (sg_thresholds policy)) (samples_by_metric db runs))"
  shows "list_all gc_passed (evidence_checks family policy' allowed summary) \<longleftrightarrow>
      runs \<noteq> [] \<and> sg_min_runs policy' \<le> length runs \<and>
      sum_list (map (failed_assertions db) runs) \<le> sg_max_assertion_failures policy' \<and>
      (\<forall>r\<in>set runs. sr_status (latest_run runs (sr_scenario_family r)) \<in> accepted_statuses policy)"
    and "runs \<noteq> [] \<Longrightarrow> list_all gc_passed (freshness_check minutes_since policy' (ss_families summary)) \<longleftrightarrow>
      (\<forall>m. sg_max_latest_age_minutes policy' = Some m \<longrightarrow>
        (\<forall>r\<in>set runs. \<exists>age. scenario_run_age_minutes minutes_since
            (sr_started_at (latest_run runs (sr_scenario_family r))) = Inr age \<and> age \<le> m))"
    and "list_all gc_passed (concat (map (threshold_checks policy') thresholds)) \<longleftrightarrow>
      (\<forall>t\<in>set (sg_thresholds policy).
        sg_min_samples_per_metric policy' \<le> length (metric_samples db runs (lt_metric t)) \<and>
        tr_passed (evaluate_threshold (threshold_to_performance t) (metric_samples db runs (lt_metric t))))"
proof -
  note totals = summary_totals [OF summary runs]
  have "(\<forall>f\<in>set (ss_families summary). status_failure allowed f = None) \<longleftrightarrow>
      (\<forall>f\<in>set (ss_families summary). \<forall>s. sf_latest_status f = Some s \<longrightarrow> s \<in> allowed)"
    by (auto simp: status_failure_def split: option.splits)
  also have "\<dots> \<longleftrightarrow> (\<forall>r\<in>set runs. sr_status (latest_run runs (sr_scenario_family r)) \<in> allowed)"
    using families_iff [OF summary runs, of "\<lambda>n st t. \<forall>s. st = Some s \<longrightarrow> s \<in> allowed"] by simp
  finally show "list_all gc_passed (evidence_checks family policy' allowed summary) \<longleftrightarrow>
      runs \<noteq> [] \<and> sg_min_runs policy' \<le> length runs \<and>
      sum_list (map (failed_assertions db) runs) \<le> sg_max_assertion_failures policy' \<and>
      (\<forall>r\<in>set runs. sr_status (latest_run runs (sr_scenario_family r)) \<in> accepted_statuses policy)"
    by (auto simp: evidence_checks_def Let_def map_filter_Nil totals allowed)
  show "list_all gc_passed (freshness_check minutes_since policy' (ss_families summary)) \<longleftrightarrow>
      (\<forall>m. sg_max_latest_age_minutes policy' = Some m \<longrightarrow>
        (\<forall>r\<in>set runs. \<exists>age. scenario_run_age_minutes minutes_since
            (sr_started_at (latest_run runs (sr_scenario_family r))) = Inr age \<and> age \<le> m))" if "runs \<noteq> []"
  proof (cases "sg_max_latest_age_minutes policy'")
    case (Some m)
    have "(\<forall>f\<in>set (ss_families summary). freshness_failure minutes_since m f = None) \<longleftrightarrow>
        (\<forall>f\<in>set (ss_families summary). \<exists>t age. sf_latest_started_at f = Some t \<and>
          scenario_run_age_minutes minutes_since t = Inr age \<and> age \<le> m)"
      by (intro ball_cong refl) (auto simp: freshness_failure_def split: option.splits sum.splits if_splits)
    also have "\<dots> \<longleftrightarrow> (\<forall>r\<in>set runs. \<exists>age. scenario_run_age_minutes minutes_since
            (sr_started_at (latest_run runs (sr_scenario_family r))) = Inr age \<and> age \<le> m)"
      using families_iff [OF summary runs, of "\<lambda>n st s. \<exists>t age. s = Some t \<and>
          scenario_run_age_minutes minutes_since t = Inr age \<and> age \<le> m"] by simp
    finally show ?thesis using that Some by (simp add: freshness_check_def Let_def map_filter_Nil totals)
  qed (simp add: freshness_check_def)
  have evaluated: "thresholds = map (\<lambda>t. scenario_gate_threshold_result
      (evaluate_threshold (threshold_to_performance t) (metric_samples db runs (lt_metric t)))) (sg_thresholds policy)"
    by (simp add: thresholds evaluate_thresholds_def samples_by_metric threshold_to_performance_def)
  have size: "tr_samples_evaluated (evaluate_threshold t xs) = length xs" for t xs
    by (simp add: evaluate_threshold_def Let_def)
  show "list_all gc_passed (concat (map (threshold_checks policy') thresholds)) \<longleftrightarrow>
      (\<forall>t\<in>set (sg_thresholds policy).
        sg_min_samples_per_metric policy' \<le> length (metric_samples db runs (lt_metric t)) \<and>
        tr_passed (evaluate_threshold (threshold_to_performance t) (metric_samples db runs (lt_metric t))))"
    by (auto simp: evaluated list_all_iff threshold_checks_def scenario_gate_threshold_result_def size)
qed

text \<open>Claim C21. The gate decides its policy: for every database, family, limit and policy the outcome
  is a success exactly when the selected runs satisfy the policy in the sense above, where the
  summary, the checks and the threshold results no longer occur; a failure has the code
  not-ready and says how to recover.\<close>

theorem gate_decides_policy:
  "oo_ok (scenario_gate minutes_since ts db family limit policy) =
     policy_satisfied minutes_since policy db (selected_runs db family limit) \<and>
   oo_code (scenario_gate minutes_since ts db family limit policy) =
     (if policy_satisfied minutes_since policy db (selected_runs db family limit) then CodeOk else NotReady) \<and>
   (gp_recovery (oo_data (scenario_gate minutes_since ts db family limit policy)) = []) =
     policy_satisfied minutes_since policy db (selected_runs db family limit)"
proof -
  define runs where "runs = selected_runs db family limit"
  define policy' where "policy' = (if sg_allowed_statuses policy = []
      then policy\<lparr>sg_allowed_statuses := [''passed'']\<rparr> else policy)"
  have same: "sg_min_runs policy' = sg_min_runs policy" "sg_thresholds policy' = sg_thresholds policy"
    "sg_max_assertion_failures policy' = sg_max_assertion_failures policy"
    "sg_min_samples_per_metric policy' = sg_min_samples_per_metric policy"
    "sg_max_latest_age_minutes policy' = sg_max_latest_age_minutes policy"
    by (simp_all add: policy'_def)
  have allowed: "set (filter (\<lambda>s. s \<noteq> []) (map trim (sg_allowed_statuses policy'))) = accepted_statuses policy"
  proof -
    have "trim ''passed'' = ''passed''" by code_simp
    then show ?thesis by (auto simp: policy'_def accepted_statuses_def)
  qed
  have runs': "list_scenario_runs family (of_nat (page_limit limit)) db = runs"
    by (simp add: runs_def selected_runs_def)
  define summary where "summary = scenario_summary_for_store db family (page_limit limit)"
  define thresholds where "thresholds = map scenario_gate_threshold_result
      (evaluate_thresholds (map threshold_to_performance (sg_thresholds policy)) (samples_by_metric db runs))"
  define passed where "passed = list_all gc_passed (evidence_checks family policy' (accepted_statuses policy) summary @
      freshness_check minutes_since policy' (ss_families summary) @ concat (map (threshold_checks policy') thresholds))"
  have runs2: "runs = selected_runs db family (page_limit limit)"
    by (simp add: runs_def selected_runs_def page_limit_idem)
  note checks = gate_checks_pass [OF summary_def runs2 refl thresholds_def]
  have gate: "passed = policy_satisfied minutes_since policy db runs"
    using checks by (auto simp: passed_def policy_satisfied_def same)
  have "scenario_gate minutes_since ts db family limit policy =
      (let payload = \<lparr>gp_requested_family = family, gp_requested_limit = page_limit limit, gp_policy = policy',
            gp_passed = passed, gp_summary = summary,
            gp_checks = evidence_checks family policy' (accepted_statuses policy) summary @
              freshness_check minutes_since policy' (ss_families summary) @ concat (map (threshold_checks policy') thresholds),
            gp_thresholds = thresholds, gp_recovery = (if passed then [] else gate_recovery family)\<rparr>
       in if passed then outcome_success ts ''scenario gate passed'' payload
          else outcome_failure ts NotReady ''scenario gate failed'' payload)"
    unfolding scenario_gate_def Let_def policy'_def [symmetric] allowed runs'
    by (simp add: summary_def thresholds_def passed_def same)
  then show ?thesis unfolding gate runs_def
    by (simp add: outcome_success_def outcome_failure_def gate_recovery_def Let_def)
qed

end
