(* ===== verification/TaskStore.thy ===== *)
theory TaskStore
  imports Types Tables
begin

text \<open>
  The task table and the scheduler counters of \<open>crates/pengu-mesh-state/src/lib.rs\<close>. A row keeps
  the columns: the names of state and priority, the parameters as JSON text, the latency as
  \<open>i64\<close>. The JSON printer and parser are arguments. The theorems show the round trip of a task
  through its row, the effect of a state change, and what the counters count.
\<close>

section \<open>Tasks\<close>

datatype task_state = TaskPending | TaskRunning | TaskCompleted | TaskFailed | TaskCancelled

fun task_state_str :: "task_state \<Rightarrow> string" where
  "task_state_str TaskPending = ''pending''"
| "task_state_str TaskRunning = ''running''"
| "task_state_str TaskCompleted = ''completed''"
| "task_state_str TaskFailed = ''failed''"
| "task_state_str TaskCancelled = ''cancelled''"

datatype task_priority = PriorityLow | PriorityNormal | PriorityHigh | PriorityCritical

fun task_priority_str :: "task_priority \<Rightarrow> string" where
  "task_priority_str PriorityLow = ''low''"
| "task_priority_str PriorityNormal = ''normal''"
| "task_priority_str PriorityHigh = ''high''"
| "task_priority_str PriorityCritical = ''critical''"

record task_record =
  tk_id :: string
  tk_agent_id :: string
  tk_action :: string
  tk_state :: task_state
  tk_priority :: task_priority
  tk_params :: "json option"
  tk_created_at :: string
  tk_started_at :: "string option"
  tk_completed_at :: "string option"
  tk_latency_ms :: "64 word option"

text \<open>The columns of the table.\<close>

record task_row =
  tw_id :: string
  tw_agent_id :: string
  tw_action :: string
  tw_state :: string
  tw_priority :: string
  tw_params_json :: "string option"
  tw_created_at :: string
  tw_started_at :: "string option"
  tw_completed_at :: "string option"
  tw_latency_ms :: "int option"

definition parse_task_state :: "string \<Rightarrow> task_state res" where
  "parse_task_state value =
     (if value = ''pending'' then Inr TaskPending
      else if value = ''running'' then Inr TaskRunning
      else if value = ''completed'' then Inr TaskCompleted
      else if value = ''failed'' then Inr TaskFailed
      else if value = ''cancelled'' then Inr TaskCancelled
      else Inl ''conversion failure'')"

definition parse_task_priority :: "string \<Rightarrow> task_priority res" where
  "parse_task_priority value =
     (if value = ''low'' then Inr PriorityLow
      else if value = ''normal'' then Inr PriorityNormal
      else if value = ''high'' then Inr PriorityHigh
      else if value = ''critical'' then Inr PriorityCritical
      else Inl ''conversion failure'')"

definition parse_task_params :: "(string \<Rightarrow> json option) \<Rightarrow> string option \<Rightarrow> json option res" where
  "parse_task_params of_text value =
     (case value of
        None \<Rightarrow> Inr None
      | Some text \<Rightarrow> (case of_text text of None \<Rightarrow> Inl ''conversion failure'' | Some j \<Rightarrow> Inr (Some j)))"

definition parse_optional_latency :: "int option \<Rightarrow> 64 word option res" where
  "parse_optional_latency value =
     (case value of
        None \<Rightarrow> Inr None
      | Some n \<Rightarrow> (if n < 0 then Inl ''conversion failure'' else Inr (Some (of_int n))))"

definition map_task_row :: "(string \<Rightarrow> json option) \<Rightarrow> task_row \<Rightarrow> task_record res" where
  "map_task_row of_text row =
     try_res (parse_task_state (tw_state row)) (\<lambda>state.
     try_res (parse_task_priority (tw_priority row)) (\<lambda>priority.
     try_res (parse_task_params of_text (tw_params_json row)) (\<lambda>params.
     try_res (parse_optional_latency (tw_latency_ms row)) (\<lambda>latency.
     Inr \<lparr>tk_id = tw_id row, tk_agent_id = tw_agent_id row, tk_action = tw_action row, tk_state = state,
          tk_priority = priority, tk_params = params, tk_created_at = tw_created_at row,
          tk_started_at = tw_started_at row, tk_completed_at = tw_completed_at row,
          tk_latency_ms = latency\<rparr>))))"

text \<open>\<open>i64::try_from\<close> on an optional \<open>u64\<close>.\<close>

definition latency_column :: "64 word option \<Rightarrow> int option res" where
  "latency_column latency_ms =
     (case latency_ms of
        None \<Rightarrow> Inr None
      | Some w \<Rightarrow> (if uint w < 2 ^ 63 then Inr (Some (uint w))
                  else Inl ''convert task latency to sqlite integer''))"

definition insert_task :: "(json \<Rightarrow> string) \<Rightarrow> task_record \<Rightarrow> task_row list \<Rightarrow> task_row list res" where
  "insert_task to_text task rows =
     try_res (latency_column (tk_latency_ms task)) (\<lambda>latency_ms.
       case sql_insert tw_id
           \<lparr>tw_id = tk_id task, tw_agent_id = tk_agent_id task, tw_action = tk_action task,
            tw_state = task_state_str (tk_state task), tw_priority = task_priority_str (tk_priority task),
            tw_params_json = map_option to_text (tk_params task), tw_created_at = tk_created_at task,
            tw_started_at = tk_started_at task, tw_completed_at = tk_completed_at task,
            tw_latency_ms = latency_ms\<rparr> rows of
         None \<Rightarrow> Inl ''insert task''
       | Some rows' \<Rightarrow> Inr rows')"

definition coalesce :: "'a option \<Rightarrow> 'a option \<Rightarrow> 'a option" where
  "coalesce a b = (if a = None then b else a)"

definition update_task_state ::
  "string \<Rightarrow> task_state \<Rightarrow> string option \<Rightarrow> string option \<Rightarrow> 64 word option \<Rightarrow> task_row list \<Rightarrow>
   unit res \<times> task_row list" where
  "update_task_state i state started_at completed_at latency_ms rows =
     (case latency_column latency_ms of
        Inl e \<Rightarrow> (Inl e, rows)
      | Inr latency \<Rightarrow>
          (case sql_update (\<lambda>r. tw_id r = i)
              (\<lambda>r. r\<lparr>tw_state := task_state_str state, tw_started_at := coalesce started_at (tw_started_at r),
                     tw_completed_at := coalesce completed_at (tw_completed_at r),
                     tw_latency_ms := coalesce latency (tw_latency_ms r)\<rparr>) rows of
             (rows', updated) \<Rightarrow>
               (if updated = 1 then Inr () else Inl (''update task state: task '' @ i @ '' not found''), rows')))"

text \<open>\<open>.context(..)\<close>: the text of an error is its outermost context.\<close>

fun in_context :: "error \<Rightarrow> 'a res \<Rightarrow> 'a res" where
  "in_context e (Inl _) = Inl e"
| "in_context e (Inr a) = Inr a"

definition query_tasks ::
  "(string \<Rightarrow> json option) \<Rightarrow> string option \<Rightarrow> task_state option \<Rightarrow> 64 word \<Rightarrow> task_row list \<Rightarrow> task_record list res" where
  "query_tasks of_text agent_id state limit rows =
     in_context ''collect tasks'' (collect_res (map_task_row of_text)
       (sql_limit limit (order_desc tw_created_at (filter (\<lambda>r.
          (case agent_id of None \<Rightarrow> True | Some a \<Rightarrow> tw_agent_id r = a) \<and>
          (case state of None \<Rightarrow> True | Some st \<Rightarrow> tw_state r = task_state_str st)) rows))))"

definition query_task :: "(string \<Rightarrow> json option) \<Rightarrow> string \<Rightarrow> task_row list \<Rightarrow> task_record option res" where
  "query_task of_text i rows =
     (case sql_get (\<lambda>r. tw_id r = i) rows of
        None \<Rightarrow> Inr None
      | Some row \<Rightarrow> in_context ''query task'' (map_ok Some (map_task_row of_text row)))"

section \<open>Scheduler counters\<close>

record scheduler_metric_row =
  sm_id :: nat
  sm_metric_name :: string
  sm_agent_id :: "string option"
  sm_counter :: int
  sm_last_updated :: string

record metric_table =
  mt_next :: nat
  mt_rows :: "scheduler_metric_row list"

text \<open>The unique key has a nullable column, and to SQLite two NULLs are different: a row without an
  agent conflicts with nothing. The counter is an \<open>i64\<close>, which no number of increments by one
  leaves within any run.\<close>

definition metric_conflict :: "string \<Rightarrow> string option \<Rightarrow> scheduler_metric_row \<Rightarrow> bool" where
  "metric_conflict metric_name agent_id r \<longleftrightarrow>
     agent_id \<noteq> None \<and> sm_metric_name r = metric_name \<and> sm_agent_id r = agent_id"

definition increment_scheduler_metric ::
  "string \<Rightarrow> string option \<Rightarrow> string \<Rightarrow> metric_table \<Rightarrow> metric_table" where
  "increment_scheduler_metric metric_name agent_id timestamp t =
     (if list_ex (metric_conflict metric_name agent_id) (mt_rows t)
      then t\<lparr>mt_rows := fst (sql_update (metric_conflict metric_name agent_id)
             (\<lambda>r. r\<lparr>sm_counter := sm_counter r + 1, sm_last_updated := timestamp\<rparr>) (mt_rows t))\<rparr>
      else \<lparr>mt_next = Suc (mt_next t),
            mt_rows = mt_rows t @ [\<lparr>sm_id = mt_next t, sm_metric_name = metric_name, sm_agent_id = agent_id,
                                    sm_counter = 1, sm_last_updated = timestamp\<rparr>]\<rparr>)"

text \<open>NULL sorts before every text.\<close>

definition query_scheduler_metrics ::
  "string option \<Rightarrow> string option \<Rightarrow> metric_table \<Rightarrow> scheduler_metric_row list" where
  "query_scheduler_metrics metric_name agent_id t =
     order_asc (\<lambda>r. (sm_metric_name r, case sm_agent_id r of None \<Rightarrow> [] | Some a \<Rightarrow> [a]))
       (filter (\<lambda>r. (case metric_name of None \<Rightarrow> True | Some m \<Rightarrow> sm_metric_name r = m) \<and>
                    (case agent_id of None \<Rightarrow> True | Some a \<Rightarrow> sm_agent_id r = Some a)) (mt_rows t))"

definition reset_scheduler_metrics :: "metric_table \<Rightarrow> metric_table" where
  "reset_scheduler_metrics t = t\<lparr>mt_rows := []\<rparr>"

section \<open>Round trips\<close>

lemma parse_state_str: "parse_task_state (task_state_str s) = Inr s"
  by (cases s) (simp_all add: parse_task_state_def)

lemma parse_priority_str: "parse_task_priority (task_priority_str p) = Inr p"
  by (cases p) (simp_all add: parse_task_priority_def)

lemma state_str_inject: "task_state_str a = task_state_str b \<longleftrightarrow> a = b"
  by (metis parse_state_str sum.inject(2))

lemma latency_round_trip:
  "latency_column l = Inr c \<Longrightarrow> parse_optional_latency c = Inr l"
  by (auto simp: latency_column_def parse_optional_latency_def split: option.splits if_splits)

lemma params_round_trip:
  "(\<And>j. of_text (to_text j) = Some j) \<Longrightarrow> parse_task_params of_text (map_option to_text p) = Inr p"
  by (simp add: parse_task_params_def split: option.splits)

text \<open>A task that was inserted is read back unchanged, and reading any other task is not
  affected, whenever the JSON text of its parameters can be read back.\<close>

theorem task_read_back:
  assumes json: "\<And>j. of_text (to_text j) = Some j" and run: "insert_task to_text task rows = Inr rows'"
  shows "query_task of_text i rows' = (if i = tk_id task then Inr (Some task) else query_task of_text i rows)"
proof -
  obtain c where c: "latency_column (tk_latency_ms task) = Inr c"
    using run by (cases "latency_column (tk_latency_ms task)") (auto simp: insert_task_def)
  let ?row = "\<lparr>tw_id = tk_id task, tw_agent_id = tk_agent_id task, tw_action = tk_action task,
            tw_state = task_state_str (tk_state task), tw_priority = task_priority_str (tk_priority task),
            tw_params_json = map_option to_text (tk_params task), tw_created_at = tk_created_at task,
            tw_started_at = tk_started_at task, tw_completed_at = tk_completed_at task, tw_latency_ms = c\<rparr>"
  have ins: "sql_insert tw_id ?row rows = Some rows'"
    using run c by (auto simp: insert_task_def split: option.splits)
  have "map_task_row of_text ?row = Inr task"
    by (simp add: map_task_row_def parse_state_str parse_priority_str params_round_trip [OF json]
        latency_round_trip [OF c])
  with ins show ?thesis
    by (auto simp: query_task_def sql_get_insert)
qed

section \<open>What the counters count\<close>

definition counters :: "string \<Rightarrow> string option \<Rightarrow> metric_table \<Rightarrow> int list" where
  "counters m a t = map sm_counter (filter (\<lambda>r. sm_metric_name r = m \<and> sm_agent_id r = a) (mt_rows t))"

definition count_event :: "metric_table \<Rightarrow> string \<times> string option \<times> string \<Rightarrow> metric_table" where
  "count_event t e = (case e of (m, a, timestamp) \<Rightarrow> increment_scheduler_metric m a timestamp t)"

definition no_metrics :: metric_table where
  "no_metrics = \<lparr>mt_next = 1, mt_rows = []\<rparr>"

lemma counters_increment:
  "counters m a (increment_scheduler_metric m' a' ts t) =
    (if m' = m \<and> a' = a
     then (if a \<noteq> None \<and> counters m a t \<noteq> [] then map (\<lambda>n. n + 1) (counters m a t) else counters m a t @ [1])
     else counters m a t)"
proof (cases "list_ex (metric_conflict m' a') (mt_rows t)")
  case True
  have rows: "map sm_counter (filter (\<lambda>r. sm_metric_name r = m \<and> sm_agent_id r = a)
      (map (\<lambda>r. if metric_conflict m' a' r then r\<lparr>sm_counter := sm_counter r + 1, sm_last_updated := ts\<rparr> else r) rs)) =
    (if m' = m \<and> a' = a \<and> a \<noteq> None
     then map (\<lambda>n. n + 1) (map sm_counter (filter (\<lambda>r. sm_metric_name r = m \<and> sm_agent_id r = a) rs))
     else map sm_counter (filter (\<lambda>r. sm_metric_name r = m \<and> sm_agent_id r = a) rs))" for rs
    by (induction rs) (auto simp: metric_conflict_def)
  have "a' \<noteq> None" "counters m' a' t \<noteq> []"
    using True by (auto simp: list_ex_iff metric_conflict_def counters_def filter_empty_conv)
  then show ?thesis using True
    by (auto simp: increment_scheduler_metric_def sql_update_def counters_def rows)
next
  case False
  then have "a' \<noteq> None \<Longrightarrow> counters m' a' t = []"
    by (auto simp: list_ex_iff metric_conflict_def counters_def filter_empty_conv)
  then show ?thesis using False
    by (auto simp: increment_scheduler_metric_def counters_def)
qed

text \<open>The counter of an agent counts: after any sequence of increments from an empty table it has
  one row with their number. A metric without an agent never counts: every increment adds
  another row that says one.\<close>

theorem metrics_count_events:
  "counters m a (foldl count_event no_metrics events) =
    (let n = length (filter (\<lambda>e. fst e = m \<and> fst (snd e) = a) events)
     in if a = None then replicate n 1 else if n = 0 then [] else [int n])"
proof (induction events rule: rev_induct)
  case Nil
  then show ?case by (simp add: counters_def no_metrics_def)
next
  case (snoc e events)
  obtain m' a' ts where e: "e = (m', a', ts)" by (metis prod.collapse)
  show ?case using snoc
    by (auto simp: e count_event_def counters_increment Let_def simp flip: replicate_append_same)
qed

end
