(* ===== verification/ArtifactStore.thy ===== *)
theory ArtifactStore
  imports Types Ids Tables
begin

text \<open>
  The artifact store (\<open>crates/pengu-mesh-artifacts/src/lib.rs\<close>): files named after a stable id,
  written whole or in chunks with a running digest, crops of images and the regions of a grid.

  Bytes are characters. \<open>artifact_env\<close> holds what other crates and the host answer, indexed
  by a counter \<open>ad_tick\<close> of the readings: the clock, failures of file calls, SHA-256, base 64,
  the image codec, \<open>pdftoppm\<close> and the tar builder. A failing write may leave any prefix
  of its bytes. Directories are not tracked; creating one can fail. The digest of a sequence of
  updates is the digest of their concatenation, as \<open>sha2\<close> documents. A \<open>BufWriter\<close>'s
  content is what was written to it: the delay up to the flush shows only when a write fails in
  between, and then the file is removed.
\<close>

section \<open>State and environment\<close>

datatype io_call = IoMkdir string | IoCreate string | IoAppend string | IoFlush string
  | IoStat string | IoRead string | IoRemove string

record artifact_env =
  ae_clock :: "nat \<Rightarrow> string"
  ae_io :: "nat \<Rightarrow> io_call \<Rightarrow> error option"
  ae_write :: "nat \<Rightarrow> string \<Rightarrow> (error \<times> nat) option"
  ae_sha256 :: "string \<Rightarrow> string"
  ae_base64_decode :: "string \<Rightarrow> string res"
  ae_base64_reads :: "string \<Rightarrow> nat \<Rightarrow> string res list"
  ae_image_size :: "string \<Rightarrow> (32 word \<times> 32 word) res"
  ae_crop_encode :: "string \<Rightarrow> 32 word \<Rightarrow> 32 word \<Rightarrow> 32 word \<Rightarrow> 32 word \<Rightarrow> string res"
  ae_temp_dir :: string
  ae_pdftoppm :: "nat \<Rightarrow> string \<Rightarrow> nat \<Rightarrow> (error + string res)"
  ae_tar :: "(string \<times> string) list \<Rightarrow> string res"

record artifact_disk =
  ad_root :: string
  ad_files :: "string \<Rightarrow> string option"
  ad_tick :: nat

definition disk_clock :: "artifact_env \<Rightarrow> (artifact_disk, string) oper" where
  "disk_clock env d = (Inr (ae_clock env (ad_tick d)), d\<lparr>ad_tick := Suc (ad_tick d)\<rparr>)"

text \<open>A file call: it fails with the message that \<open>with_context\<close> gives it.\<close>

definition io :: "artifact_env \<Rightarrow> io_call \<Rightarrow> (artifact_disk, unit) oper" where
  "io env call d =
     ((case ae_io env (ad_tick d) call of None \<Rightarrow> Inr () | Some e \<Rightarrow> Inl e),
      d\<lparr>ad_tick := Suc (ad_tick d)\<rparr>)"

definition context_as :: "error \<Rightarrow> ('s, 'a) oper \<Rightarrow> ('s, 'a) oper" where
  "context_as message m = attempt m (\<lambda>r. case r of Inr a \<Rightarrow> ret a | Inl e \<Rightarrow> fail message)"

definition set_file :: "string \<Rightarrow> string option \<Rightarrow> (artifact_disk, unit) oper" where
  "set_file path content = modify (\<lambda>d. d\<lparr>ad_files := (ad_files d)(path := content)\<rparr>)"

definition fs_write :: "artifact_env \<Rightarrow> string \<Rightarrow> string \<Rightarrow> (artifact_disk, unit) oper" where
  "fs_write env path payload d =
     (case ae_write env (ad_tick d) path of
        None \<Rightarrow> (Inr (), d\<lparr>ad_tick := Suc (ad_tick d), ad_files := (ad_files d)(path \<mapsto> payload)\<rparr>)
      | Some (e, n) \<Rightarrow>
          (Inl e, d\<lparr>ad_tick := Suc (ad_tick d), ad_files := (ad_files d)(path \<mapsto> take n payload)\<rparr>))"

definition fs_read :: "artifact_env \<Rightarrow> string \<Rightarrow> (artifact_disk, string) oper" where
  "fs_read env path =
     and_then (io env (IoRead path)) (\<lambda>_.
     and_then (gets (\<lambda>d. ad_files d path)) (\<lambda>content.
     lift_res (ok_or ''No such file or directory'' content)))"

definition fs_len :: "artifact_env \<Rightarrow> string \<Rightarrow> (artifact_disk, nat) oper" where
  "fs_len env path =
     and_then (io env (IoStat path)) (\<lambda>_.
     and_then (gets (\<lambda>d. ad_files d path)) (\<lambda>content.
     lift_res (map_ok length (ok_or ''No such file or directory'' content))))"

section \<open>Kinds and names\<close>

fun kind_dir :: "artifact_kind \<Rightarrow> string" where
  "kind_dir ArtScreenshot = ''screenshots''"
| "kind_dir ArtPdf = ''pdfs''"
| "kind_dir ArtSnapshot = ''snapshots''"
| "kind_dir ArtText = ''text''"
| "kind_dir ArtTrace = ''traces''"
| "kind_dir ArtRecording = ''recordings''"

fun extension :: "artifact_kind \<Rightarrow> string" where
  "extension ArtScreenshot = ''png''"
| "extension ArtPdf = ''pdf''"
| "extension ArtSnapshot = ''json''"
| "extension ArtText = ''txt''"
| "extension ArtTrace = ''json''"
| "extension ArtRecording = ''tar''"

fun mime_type :: "artifact_kind \<Rightarrow> string" where
  "mime_type ArtScreenshot = ''image/png''"
| "mime_type ArtPdf = ''application/pdf''"
| "mime_type ArtSnapshot = ''application/json''"
| "mime_type ArtText = ''text/plain; charset=utf-8''"
| "mime_type ArtTrace = ''application/json''"
| "mime_type ArtRecording = ''application/x-tar''"

record artifact_descriptor =
  ad_kind :: artifact_kind
  ad_streaming_policy :: string
  ad_storage_path_hint :: string

definition baseline_artifacts :: "artifact_descriptor list" where
  "baseline_artifacts =
     [\<lparr>ad_kind = ArtScreenshot, ad_streaming_policy = ''stream-to-disk'',
       ad_storage_path_hint = ''artifacts/screenshots''\<rparr>,
      \<lparr>ad_kind = ArtPdf, ad_streaming_policy = ''stream-to-disk'',
       ad_storage_path_hint = ''artifacts/pdfs''\<rparr>,
      \<lparr>ad_kind = ArtTrace, ad_streaming_policy = ''stream-to-disk'',
       ad_storage_path_hint = ''artifacts/traces''\<rparr>,
      \<lparr>ad_kind = ArtRecording, ad_streaming_policy = ''stream-to-disk'',
       ad_storage_path_hint = ''artifacts/recordings''\<rparr>]"

definition path_join :: "string \<Rightarrow> string \<Rightarrow> string" where
  "path_join dir name = dir @ ''/'' @ name"

fun new_dirs :: "artifact_env \<Rightarrow> artifact_descriptor list \<Rightarrow> (artifact_disk, unit) oper" where
  "new_dirs env [] = ret ()"
| "new_dirs env (d # ds) =
     and_then (gets ad_root) (\<lambda>root.
     and_then (context_as (''create artifact dir under '' @ root)
                 (io env (IoMkdir (path_join root (kind_dir (ad_kind d)))))) (\<lambda>_.
     new_dirs env ds))"

definition artifact_store_new :: "artifact_env \<Rightarrow> (artifact_disk, unit) oper" where
  "artifact_store_new env = new_dirs env baseline_artifacts"

definition artifact_id :: "artifact_kind \<Rightarrow> string \<Rightarrow> string \<Rightarrow> string \<Rightarrow> string" where
  "artifact_id kind instance_id tab_id created_at =
     stable_id IdArtifact (kind_dir kind @ ''_'' @ instance_id @ ''_'' @ tab_id @ ''_'' @ created_at)"

definition output_path :: "artifact_env \<Rightarrow> artifact_kind \<Rightarrow> string \<Rightarrow> (artifact_disk, string) oper" where
  "output_path env kind aid =
     and_then (gets (\<lambda>d. path_join (ad_root d) (kind_dir kind))) (\<lambda>directory.
     and_then (context_as (''create artifact directory '' @ directory) (io env (IoMkdir directory))) (\<lambda>_.
     ret (path_join directory (aid @ ''.'' @ extension kind))))"

section \<open>Chunked writing\<close>

record chunked_write_config =
  cw_chunk_size :: nat
  cw_max_total_size :: nat

definition chunked_write_config_default :: chunked_write_config where
  "chunked_write_config_default =
     \<lparr>cw_chunk_size = 64 * 1024, cw_max_total_size = 100 * 1024 * 1024\<rparr>"

definition should_stream_large_capture :: "artifact_kind \<Rightarrow> nat \<Rightarrow> bool" where
  "should_stream_large_capture kind payload_len \<longleftrightarrow>
     kind \<in> {ArtScreenshot, ArtPdf} \<and> payload_len > cw_chunk_size chunked_write_config_default"

definition chunked_write_config_for_payload_len :: "nat \<Rightarrow> chunked_write_config" where
  "chunked_write_config_for_payload_len payload_len =
     chunked_write_config_default
       \<lparr>cw_max_total_size := max payload_len (cw_max_total_size chunked_write_config_default)\<rparr>"

text \<open>\<open>saturating_mul\<close> stays below \<open>usize::MAX\<close> for any text that fits in memory.\<close>

definition estimated_base64_decoded_len :: "nat \<Rightarrow> nat" where
  "estimated_base64_decoded_len payload_len = min (((payload_len + 3) div 4) * 3) (2 ^ 64 - 1)"

record chunked_writer =
  wr_path :: string
  wr_config :: chunked_write_config
  wr_total_written :: nat
  wr_chunks_written :: nat
  wr_hashed :: string

record chunked_write_result =
  cwr_path :: string
  cwr_total_bytes :: nat
  cwr_chunks_written :: nat
  cwr_sha256 :: string

definition chunked_writer_new ::
  "artifact_env \<Rightarrow> string \<Rightarrow> chunked_write_config \<Rightarrow> (artifact_disk, chunked_writer) oper" where
  "chunked_writer_new env path config =
     (if cw_chunk_size config = 0 then fail ''chunk_size must be at least 1 byte''
      else
        and_then (io env (IoCreate path)) (\<lambda>_.
        and_then (set_file path (Some [])) (\<lambda>_.
        ret \<lparr>wr_path = path, wr_config = config, wr_total_written = 0, wr_chunks_written = 0,
             wr_hashed = []\<rparr>)))"

definition append_bytes :: "artifact_env \<Rightarrow> string \<Rightarrow> string \<Rightarrow> (artifact_disk, unit) oper" where
  "append_bytes env path bytes =
     and_then (io env (IoAppend path)) (\<lambda>_.
     and_then (gets (\<lambda>d. unwrap_or [] (ad_files d path))) (\<lambda>old.
     set_file path (Some (old @ bytes))))"

definition write_chunk ::
  "artifact_env \<Rightarrow> chunked_writer \<Rightarrow> string \<Rightarrow> (artifact_disk, nat \<times> chunked_writer) oper" where
  "write_chunk env w data =
     (if data = [] then ret (0, w)
      else
        (let len = min (length data) (cw_chunk_size (wr_config w))
         in if wr_total_written w + len > cw_max_total_size (wr_config w) then
              fail (''chunked write would exceed max_total_size ('' @
                    show_nat (cw_max_total_size (wr_config w)) @ '' bytes)'')
            else
              and_then (append_bytes env (wr_path w) (take len data)) (\<lambda>_.
              ret (len, w\<lparr>wr_hashed := wr_hashed w @ take len data,
                          wr_total_written := wr_total_written w + len,
                          wr_chunks_written := Suc (wr_chunks_written w)\<rparr>))))"

definition writer_finish ::
  "artifact_env \<Rightarrow> chunked_writer \<Rightarrow> (artifact_disk, chunked_write_result) oper" where
  "writer_finish env w =
     and_then (io env (IoFlush (wr_path w))) (\<lambda>_.
     ret \<lparr>cwr_path = wr_path w, cwr_total_bytes = wr_total_written w,
          cwr_chunks_written = wr_chunks_written w, cwr_sha256 = ae_sha256 env (wr_hashed w)\<rparr>)"

text \<open>The loop of \<open>write_reader_chunked\<close>. A reader is the sequence of its \<open>read\<close> results up
  to the empty one; an exhausted list reads as empty.\<close>

fun copy_loop ::
  "artifact_env \<Rightarrow> chunked_writer \<Rightarrow> string res list \<Rightarrow> (artifact_disk, chunked_write_result) oper" where
  "copy_loop env w [] = writer_finish env w"
| "copy_loop env w (Inl e # reads) = fail e"
| "copy_loop env w (Inr [] # reads) = writer_finish env w"
| "copy_loop env w (Inr (b # bytes) # reads) =
     and_then (write_chunk env w (b # bytes)) (\<lambda>(written, w').
     if written \<noteq> length (b # bytes) then
       fail (''chunked writer accepted '' @ show_nat written @ '' bytes after reading '' @
             show_nat (length (b # bytes)))
     else copy_loop env w' reads)"

definition cleanup_partial_file :: "artifact_env \<Rightarrow> string \<Rightarrow> (artifact_disk, unit) oper" where
  "cleanup_partial_file env path =
     attempt (io env (IoRemove path)) (\<lambda>r.
     case r of Inr _ \<Rightarrow> set_file path None | Inl _ \<Rightarrow> ret ())"

definition write_reader_chunked ::
  "artifact_env \<Rightarrow> string \<Rightarrow> string res list \<Rightarrow> chunked_write_config \<Rightarrow>
   (artifact_disk, chunked_write_result) oper" where
  "write_reader_chunked env path reads config =
     and_then (chunked_writer_new env path config) (\<lambda>w.
     attempt (copy_loop env w reads) (\<lambda>result.
     case result of
       Inr r \<Rightarrow> ret r
     | Inl e \<Rightarrow> and_then (cleanup_partial_file env path) (\<lambda>_. fail e)))"

text \<open>A \<open>Cursor\<close> fills the buffer as far as the data goes.\<close>

fun cursor_reads :: "nat \<Rightarrow> string \<Rightarrow> string res list" where
  "cursor_reads n data =
     (if n = 0 \<or> data = [] then [] else Inr (take n data) # cursor_reads n (drop n data))"

declare cursor_reads.simps [simp del]

definition write_artifact_chunked ::
  "artifact_env \<Rightarrow> string \<Rightarrow> string \<Rightarrow> chunked_write_config \<Rightarrow> (artifact_disk, chunked_write_result) oper" where
  "write_artifact_chunked env path data config =
     write_reader_chunked env path (cursor_reads (cw_chunk_size config) data) config"

definition write_base64_artifact_chunked ::
  "artifact_env \<Rightarrow> string \<Rightarrow> string \<Rightarrow> chunked_write_config \<Rightarrow> (artifact_disk, chunked_write_result) oper" where
  "write_base64_artifact_chunked env path payload config =
     write_reader_chunked env path (ae_base64_reads env payload (cw_chunk_size config)) config"

section \<open>Storing artifacts\<close>

definition build_artifact_handle ::
  "string \<Rightarrow> artifact_kind \<Rightarrow> string option \<Rightarrow> string \<Rightarrow> string \<Rightarrow> string \<Rightarrow> nat \<Rightarrow> string \<Rightarrow> string \<Rightarrow>
   artifact_provenance \<Rightarrow> artifact_handle" where
  "build_artifact_handle aid kind run_id instance_id tab_id path bytes created_at checksum provenance =
     \<lparr>ah_id = aid, ah_run_id = run_id, ah_instance_id = instance_id, ah_tab_id = tab_id, ah_kind = kind,
      ah_path = path, ah_mime_type = mime_type kind, ah_bytes = of_nat bytes,
      ah_created_at = created_at, ah_checksum_sha256 = Some checksum, ah_provenance = provenance\<rparr>"

definition write_payload ::
  "artifact_env \<Rightarrow> string \<Rightarrow> artifact_kind \<Rightarrow> string option \<Rightarrow> string \<Rightarrow> string \<Rightarrow> string \<Rightarrow> string \<Rightarrow>
   artifact_provenance \<Rightarrow> (artifact_disk, artifact_handle) oper" where
  "write_payload env aid kind run_id instance_id tab_id payload created_at provenance =
     and_then (output_path env kind aid) (\<lambda>path.
     and_then
       (if should_stream_large_capture kind (length payload) then
          and_then (context_as (''stream '' @ path)
             (write_artifact_chunked env path payload
                (chunked_write_config_for_payload_len (length payload)))) (\<lambda>r. ret (cwr_sha256 r))
        else
          and_then (context_as (''write '' @ path) (fs_write env path payload)) (\<lambda>_.
          ret (ae_sha256 env payload))) (\<lambda>checksum.
     and_then (context_as (''stat '' @ path) (fs_len env path)) (\<lambda>bytes.
     ret (build_artifact_handle aid kind run_id instance_id tab_id path bytes created_at checksum
            provenance))))"

definition write_bytes_with_provenance ::
  "artifact_env \<Rightarrow> artifact_kind \<Rightarrow> string option \<Rightarrow> string \<Rightarrow> string \<Rightarrow> string \<Rightarrow> artifact_provenance \<Rightarrow>
   (artifact_disk, artifact_handle) oper" where
  "write_bytes_with_provenance env kind run_id instance_id tab_id payload provenance =
     and_then (disk_clock env) (\<lambda>created_at.
     write_payload env (artifact_id kind instance_id tab_id created_at) kind run_id instance_id tab_id
       payload created_at provenance)"

definition write_bytes ::
  "artifact_env \<Rightarrow> artifact_kind \<Rightarrow> string option \<Rightarrow> string \<Rightarrow> string \<Rightarrow> string \<Rightarrow>
   (artifact_disk, artifact_handle) oper" where
  "write_bytes env kind run_id instance_id tab_id payload =
     write_bytes_with_provenance env kind run_id instance_id tab_id payload provenance_primary"

definition write_text ::
  "artifact_env \<Rightarrow> artifact_kind \<Rightarrow> string option \<Rightarrow> string \<Rightarrow> string \<Rightarrow> string \<Rightarrow>
   (artifact_disk, artifact_handle) oper" where
  "write_text env kind run_id instance_id tab_id payload =
     write_bytes env kind run_id instance_id tab_id payload"

definition write_base64_streamed ::
  "artifact_env \<Rightarrow> artifact_kind \<Rightarrow> string option \<Rightarrow> string \<Rightarrow> string \<Rightarrow> string \<Rightarrow> artifact_provenance \<Rightarrow>
   (artifact_disk, artifact_handle) oper" where
  "write_base64_streamed env kind run_id instance_id tab_id payload provenance =
     and_then (disk_clock env) (\<lambda>created_at.
     let aid = artifact_id kind instance_id tab_id created_at in
     and_then (output_path env kind aid) (\<lambda>path.
     and_then (context_as (''stream base64 payload to '' @ path)
        (write_base64_artifact_chunked env path payload
           (chunked_write_config_for_payload_len (estimated_base64_decoded_len (length payload))))) (\<lambda>r.
     and_then (context_as (''stat '' @ path) (fs_len env path)) (\<lambda>bytes.
     ret (build_artifact_handle aid kind run_id instance_id tab_id path bytes created_at (cwr_sha256 r)
            provenance)))))"

definition write_base64 ::
  "artifact_env \<Rightarrow> artifact_kind \<Rightarrow> string option \<Rightarrow> string \<Rightarrow> string \<Rightarrow> string \<Rightarrow>
   (artifact_disk, artifact_handle) oper" where
  "write_base64 env kind run_id instance_id tab_id payload =
     (if should_stream_large_capture kind (estimated_base64_decoded_len (length payload)) then
        write_base64_streamed env kind run_id instance_id tab_id payload provenance_primary
      else
        and_then (lift_res (case ae_base64_decode env payload of
            Inr bytes \<Rightarrow> Inr bytes | Inl _ \<Rightarrow> Inl ''decode artifact payload'')) (\<lambda>bytes.
        write_bytes env kind run_id instance_id tab_id bytes))"

definition write_recording_archive ::
  "artifact_env \<Rightarrow> string option \<Rightarrow> string \<Rightarrow> string \<Rightarrow> string \<Rightarrow> (string \<times> string) list \<Rightarrow>
   (artifact_disk, artifact_handle) oper" where
  "write_recording_archive env run_id instance_id tab_id manifest_json frames =
     and_then (lift_res (ae_tar env ((''manifest.json'', manifest_json) # frames))) (\<lambda>archive.
     write_bytes env ArtRecording run_id instance_id tab_id archive)"

section \<open>Crops\<close>

definition scale_floor :: "16 word \<Rightarrow> 32 word \<Rightarrow> 32 word" where
  "scale_floor v dimension = of_nat (unat v * unat dimension div 1000)"

definition scale_ceil :: "16 word \<Rightarrow> 32 word \<Rightarrow> 32 word" where
  "scale_ceil v dimension = of_nat ((unat v * unat dimension + 999) div 1000)"

definition crop_png :: "artifact_env \<Rightarrow> string \<Rightarrow> normalized_region \<Rightarrow> string res" where
  "crop_png env img region =
     try_res (ae_image_size env img) (\<lambda>(width, height).
       let x_min = scale_floor (nr_x_min region) width; y_min = scale_floor (nr_y_min region) height;
           x_max = scale_ceil (nr_x_max region) width; y_max = scale_ceil (nr_y_max region) height
       in if \<not> x_min < x_max then Inl ''crop produced empty width''
          else if \<not> y_min < y_max then Inl ''crop produced empty height''
          else ae_crop_encode env img x_min y_min (x_max - x_min) (y_max - y_min))"

text \<open>\<open>page_index + 1\<close> is a 32-bit addition; a build with overflow checks panics where this
  wraps to page 0. \<open>pdftoppm\<close> could not be run (\<open>Inl\<close>), or it ran and reported a page or its
  error output.\<close>

definition render_root :: "artifact_env \<Rightarrow> string \<Rightarrow> string" where
  "render_root env now =
     path_join (ae_temp_dir env)
       (''pengu-mesh-pdf-render-'' @ map (\<lambda>c. if c = CHR '':'' then CHR ''-'' else c) now)"

definition render_pdf_page_png ::
  "artifact_env \<Rightarrow> string \<Rightarrow> 32 word \<Rightarrow> (artifact_disk, string) oper" where
  "render_pdf_page_png env path page_index =
     and_then (disk_clock env) (\<lambda>now.
     let tmp_root = render_root env now; rendered_path = path_join tmp_root ''page.png'' in
     and_then (context_as (''create temp render dir '' @ tmp_root) (io env (IoMkdir tmp_root))) (\<lambda>_.
     and_then (gets ad_tick) (\<lambda>t.
     case ae_pdftoppm env t path (unat (page_index + 1)) of
       Inl _ \<Rightarrow> fail ''run pdftoppm for pdf crop''
     | Inr (Inl stderr) \<Rightarrow>
         attempt (io env (IoRemove tmp_root)) (\<lambda>_.
         fail (''pdftoppm failed for '' @ path @ '' page '' @ show_nat (unat page_index) @ '': '' @ stderr))
     | Inr (Inr bytes) \<Rightarrow>
         and_then (context_as (''read rendered pdf page '' @ rendered_path) (io env (IoRead rendered_path)))
           (\<lambda>_. attempt (io env (IoRemove tmp_root)) (\<lambda>_. ret bytes)))))"

fun validate_regions :: "normalized_region list \<Rightarrow> unit res" where
  "validate_regions [] = Inr ()"
| "validate_regions (r # rs) = try_res (validate_region r) (\<lambda>_. validate_regions rs)"

definition decode_image :: "artifact_env \<Rightarrow> error \<Rightarrow> string \<Rightarrow> string res" where
  "decode_image env message bytes =
     (case ae_image_size env bytes of Inl _ \<Rightarrow> Inl message | Inr _ \<Rightarrow> Inr bytes)"

definition crop_source ::
  "artifact_env \<Rightarrow> artifact_handle \<Rightarrow> 32 word option \<Rightarrow> (artifact_disk, string) oper" where
  "crop_source env source page_index =
     (case ah_kind source of
        ArtScreenshot \<Rightarrow>
          and_then (context_as (''read screenshot '' @ ah_path source) (fs_read env (ah_path source)))
            (\<lambda>bytes. lift_res (decode_image env ''decode png payload'' bytes))
      | ArtPdf \<Rightarrow>
          and_then (render_pdf_page_png env (ah_path source) (unwrap_or 0 page_index))
            (\<lambda>rendered. lift_res (decode_image env ''decode rendered pdf page'' rendered))
      | _ \<Rightarrow> fail ''artifact_crop only supports screenshot and pdf artifacts'')"

fun crop_each ::
  "artifact_env \<Rightarrow> artifact_handle \<Rightarrow> string option \<Rightarrow> 32 word option \<Rightarrow> string \<Rightarrow> normalized_region list \<Rightarrow>
   (artifact_disk, artifact_handle list) oper" where
  "crop_each env source run_id page_index img [] = ret []"
| "crop_each env source run_id page_index img (region # rest) =
     and_then (lift_res (crop_png env img region)) (\<lambda>cropped.
     and_then (write_bytes_with_provenance env ArtScreenshot run_id (ah_instance_id source)
                 (ah_tab_id source) cropped
                 \<lparr>ap_source_artifact_id = Some (ah_id source), ap_crop_region = Some region,
                  ap_page_index = page_index\<rparr>) (\<lambda>artifact.
     and_then (crop_each env source run_id page_index img rest) (\<lambda>artifacts.
     ret (artifact # artifacts))))"

definition crop_artifact_many ::
  "artifact_env \<Rightarrow> artifact_handle \<Rightarrow> string option \<Rightarrow> normalized_region list \<Rightarrow> 32 word option \<Rightarrow>
   (artifact_disk, artifact_handle list) oper" where
  "crop_artifact_many env source run_id regions page_index =
     and_then (lift_res (validate_regions regions)) (\<lambda>_.
     and_then (crop_source env source page_index) (\<lambda>img.
     crop_each env source run_id page_index img regions))"

definition crop_artifact ::
  "artifact_env \<Rightarrow> artifact_handle \<Rightarrow> string option \<Rightarrow> normalized_region \<Rightarrow> 32 word option \<Rightarrow>
   (artifact_disk, artifact_handle) oper" where
  "crop_artifact env source run_id region page_index =
     and_then (crop_artifact_many env source run_id [region] page_index) (\<lambda>artifacts.
     lift_res (case artifacts of a # _ \<Rightarrow> Inr a | [] \<Rightarrow> Inl ''single crop artifact''))"

section \<open>The regions of a grid\<close>

definition grid_region :: "nat \<Rightarrow> nat \<Rightarrow> nat \<Rightarrow> nat \<Rightarrow> nat \<Rightarrow> normalized_region" where
  "grid_region rows cols overlap row col =
     (let y0 = int (row * 1000 div rows); y1 = int (((row + 1) * 1000 + rows - 1) div rows);
          x0 = int (col * 1000 div cols); x1 = int (((col + 1) * 1000 + cols - 1) div cols)
      in \<lparr>nr_x_min = of_int (max 0 (min 999 (x0 - int overlap))),
          nr_y_min = of_int (max 0 (min 999 (y0 - int overlap))),
          nr_x_max = of_int (max 1 (min 999 (x1 + int overlap))),
          nr_y_max = of_int (max 1 (min 999 (y1 + int overlap)))\<rparr>)"

fun checked_regions :: "normalized_region list \<Rightarrow> normalized_region list res" where
  "checked_regions [] = Inr []"
| "checked_regions (r # rs) =
     try_res (validate_region r) (\<lambda>_. try_res (checked_regions rs) (\<lambda>rs'. Inr (r # rs')))"

definition batch_grid_regions :: "16 word \<Rightarrow> 16 word \<Rightarrow> 16 word \<Rightarrow> normalized_region list res" where
  "batch_grid_regions rows cols overlap =
     (if \<not> 1 \<le> rows then Inl ''rows must be at least 1''
      else if \<not> 1 \<le> cols then Inl ''cols must be at least 1''
      else if \<not> overlap \<le> 250 then Inl ''overlap must be at most 250 normalized units''
      else if \<not> unat rows * unat cols \<le> 64 then Inl ''grid may contain at most 64 regions''
      else checked_regions
             [grid_region (unat rows) (unat cols) (unat overlap) row col.
                row \<leftarrow> [0..<unat rows], col \<leftarrow> [0..<unat cols]])"

section \<open>A grid covers the page\<close>

lemma unat_of_int16: "0 \<le> k \<Longrightarrow> k < 65536 \<Longrightarrow> unat (of_int k :: 16 word) = nat k"
  by (simp add: unat_eq_nat_uint uint_word_of_int_eq take_bit_int_eq_self)

lemma div_step: "0 < (n::nat) \<Longrightarrow> i * 1000 div n < ((i + 1) * 1000 + n - 1) div n"
proof -
  assume "0 < n"
  then have "(i * 1000 + n) div n \<le> ((i + 1) * 1000 + n - 1) div n" by (intro div_le_mono) simp
  moreover have "i * 1000 div n < (i * 1000 + n) div n"
    using \<open>0 < n\<close> by (subst div_add_self2) simp_all
  ultimately show ?thesis by (rule less_le_trans [rotated])
qed

lemma cell_start: "0 < (n::nat) \<Longrightarrow> n \<le> 64 \<Longrightarrow> i < n \<Longrightarrow> i * 1000 div n < 999"
  by (rule less_mult_imp_div_less) linarith

text \<open>The lower and upper edge of a cell, in one direction.\<close>

definition edge_lo :: "nat \<Rightarrow> nat \<Rightarrow> nat \<Rightarrow> int" where
  "edge_lo n overlap i = max 0 (min 999 (int (i * 1000 div n) - int overlap))"

definition edge_hi :: "nat \<Rightarrow> nat \<Rightarrow> nat \<Rightarrow> int" where
  "edge_hi n overlap i = max 1 (min 999 (int (((i + 1) * 1000 + n - 1) div n) + int overlap))"

lemma edges_valid:
  assumes "0 < n" "n \<le> 64" "i < n"
  shows "0 \<le> edge_lo n ov i" "edge_lo n ov i < edge_hi n ov i" "edge_hi n ov i \<le> 999"
  using div_step [OF assms(1), of i] cell_start [OF assms] by (simp_all add: edge_lo_def edge_hi_def)

lemma cell_of:
  assumes "0 < n" "x < 999"
  shows "x * n div 1000 < n \<and> edge_lo n ov (x * n div 1000) \<le> int x \<and> int x < edge_hi n ov (x * n div 1000)"
proof -
  let ?c = "x * n div 1000"
  have c: "?c < n" using assms by (simp add: less_mult_imp_div_less)
  have "?c * 1000 \<le> x * n" by simp
  then have "?c * 1000 div n \<le> x * n div n" by (rule div_le_mono)
  then have lo: "?c * 1000 div n \<le> x" using assms by simp
  have "x * n < (?c + 1) * 1000" using dividend_less_div_times [of 1000 "x * n"] by simp
  then have "x * n + n \<le> (?c + 1) * 1000 + n - 1" using assms by simp
  then have "(x * n + n) div n \<le> ((?c + 1) * 1000 + n - 1) div n" by (rule div_le_mono)
  then have hi: "x < ((?c + 1) * 1000 + n - 1) div n" using assms by simp
  show ?thesis using c lo hi assms by (auto simp: edge_lo_def edge_hi_def)
qed

definition spans :: "normalized_region \<Rightarrow> nat \<Rightarrow> nat \<Rightarrow> bool" where
  "spans r x y \<longleftrightarrow> unat (nr_x_min r) \<le> x \<and> x < unat (nr_x_max r) \<and>
     unat (nr_y_min r) \<le> y \<and> y < unat (nr_y_max r)"

lemma grid_region_edges:
  "grid_region rows cols ov row col =
     \<lparr>nr_x_min = of_int (edge_lo cols ov col), nr_y_min = of_int (edge_lo rows ov row),
      nr_x_max = of_int (edge_hi cols ov col), nr_y_max = of_int (edge_hi rows ov row)\<rparr>"
  by (simp only: grid_region_def Let_def edge_lo_def edge_hi_def)

lemma grid_region_unat:
  assumes "0 < rows" "rows \<le> 64" "0 < cols" "cols \<le> 64" "row < rows" "col < cols"
  shows "unat (nr_x_min (grid_region rows cols ov row col)) = nat (edge_lo cols ov col)"
    "unat (nr_x_max (grid_region rows cols ov row col)) = nat (edge_hi cols ov col)"
    "unat (nr_y_min (grid_region rows cols ov row col)) = nat (edge_lo rows ov row)"
    "unat (nr_y_max (grid_region rows cols ov row col)) = nat (edge_hi rows ov row)"
  using edges_valid [OF assms(1,2,5), of ov] edges_valid [OF assms(3,4,6), of ov]
  by (simp_all add: grid_region_edges unat_of_int16)

lemma validate_region_iff:
  "validate_region r = Inr () \<longleftrightarrow> unat (nr_x_min r) < unat (nr_x_max r) \<and>
     unat (nr_y_min r) < unat (nr_y_max r) \<and> unat (nr_x_max r) \<le> 999 \<and> unat (nr_y_max r) \<le> 999"
  by (auto simp: validate_region_def word_less_nat_alt word_le_nat_alt)

lemma grid_region_valid:
  assumes "0 < rows" "rows \<le> 64" "0 < cols" "cols \<le> 64" "row < rows" "col < cols"
  shows "validate_region (grid_region rows cols ov row col) = Inr ()"
  using edges_valid [OF assms(1,2,5), of ov] edges_valid [OF assms(3,4,6), of ov]
  by (simp add: validate_region_iff grid_region_unat [OF assms] nat_le_iff)

lemma checked_regions_ok: "(\<forall>r\<in>set rs. validate_region r = Inr ()) \<Longrightarrow> checked_regions rs = Inr rs"
  by (induction rs) simp_all

lemma grid_dims: "1 \<le> (r::nat) \<Longrightarrow> 1 \<le> c \<Longrightarrow> r * c \<le> 64 \<Longrightarrow> r \<le> 64 \<and> c \<le> 64"
  by (metis le_trans mult_le_mono1 mult_le_mono2 nat_mult_1 nat_mult_1_right)

lemma length_grid: "length [f row col. row \<leftarrow> [0..<r], col \<leftarrow> [0..<c]] = r * c"
  by (simp add: length_concat comp_def sum_list_triv)

lemma grid_mem: "row < r \<Longrightarrow> col < c \<Longrightarrow> f row col \<in> set [f row col. row \<leftarrow> [0..<r], col \<leftarrow> [0..<c]]"
  by (auto intro!: bexI [where x = row] image_eqI [where x = col])



section \<open>Crops stay inside the image\<close>

lemma scaled_le: "k \<le> 999 * w \<Longrightarrow> (k + 999) div 1000 \<le> (w::nat)"
proof -
  assume "k \<le> 999 * w"
  then have "k + 999 < Suc w * 1000" by simp
  then show ?thesis using less_mult_imp_div_less [of "k + 999" "Suc w" 1000] by simp
qed

lemma scaled_lt: "k \<le> 999 * w \<Longrightarrow> 1000 < w \<Longrightarrow> (k + 999) div 1000 < (w::nat)"
  by (rule less_mult_imp_div_less) linarith

lemma scaled_bounds:
  assumes "a < b" "b \<le> 999" "0 < (w::nat)"
  shows "a * w div 1000 < (b * w + 999) div 1000" "(b * w + 999) div 1000 \<le> w"
    "1000 < w \<Longrightarrow> (b * w + 999) div 1000 < w"
proof -
  have "a * w < b * w" using assms by simp
  then have "a * w + 1000 \<le> b * w + 999" by linarith
  then have "(a * w + 1000) div 1000 \<le> (b * w + 999) div 1000" by (rule div_le_mono)
  then show "a * w div 1000 < (b * w + 999) div 1000" by simp
  have bw: "b * w \<le> 999 * w" using assms by simp
  then show "(b * w + 999) div 1000 \<le> w" by (rule scaled_le)
  show "1000 < w \<Longrightarrow> (b * w + 999) div 1000 < w" using bw by (rule scaled_lt)
qed

lemma unat_scale:
  assumes "unat v \<le> 999"
  shows "unat (scale_floor v d) = unat v * unat d div 1000" "unat (scale_ceil v d) = (unat v * unat d + 999) div 1000"
proof -
  have "unat v * unat d \<le> 999 * unat d" using assms by simp
  then have hi: "(unat v * unat d + 999) div 1000 \<le> unat d" by (rule scaled_le)
  moreover have "unat v * unat d div 1000 \<le> (unat v * unat d + 999) div 1000" by (rule div_le_mono) simp
  ultimately have lo: "unat v * unat d div 1000 \<le> unat d" by (rule order_trans [rotated])
  show "unat (scale_floor v d) = unat v * unat d div 1000" unfolding scale_floor_def by (rule le_unat_uoi [OF lo])
  show "unat (scale_ceil v d) = (unat v * unat d + 999) div 1000" unfolding scale_ceil_def by (rule le_unat_uoi [OF hi])
qed

lemma crop_box:
  assumes "validate_region r = Inr ()" and "ae_image_size env img = Inr (w, h)" and "0 < w" and "0 < h"
  obtains x y dx dy where "crop_png env img r = ae_crop_encode env img x y dx dy" and "0 < dx" and "0 < dy"
    and "unat x = unat (nr_x_min r) * unat w div 1000" and "unat y = unat (nr_y_min r) * unat h div 1000"
    and "unat x + unat dx \<le> unat w" and "unat y + unat dy \<le> unat h"
    and "1000 < unat w \<Longrightarrow> unat x + unat dx < unat w" and "1000 < unat h \<Longrightarrow> unat y + unat dy < unat h"
proof -
  have r: "unat (nr_x_min r) < unat (nr_x_max r)" "unat (nr_x_max r) \<le> 999"
    "unat (nr_y_min r) < unat (nr_y_max r)" "unat (nr_y_max r) \<le> 999"
    using assms(1) by (simp_all add: validate_region_iff)
  have wh: "0 < unat w" "0 < unat h" using assms(3,4) by (simp_all add: word_less_nat_alt)
  let ?x0 = "scale_floor (nr_x_min r) w" and ?x1 = "scale_ceil (nr_x_max r) w"
  let ?y0 = "scale_floor (nr_y_min r) h" and ?y1 = "scale_ceil (nr_y_max r) h"
  have sx: "unat ?x0 = unat (nr_x_min r) * unat w div 1000" "unat ?x1 = (unat (nr_x_max r) * unat w + 999) div 1000"
    and sy: "unat ?y0 = unat (nr_y_min r) * unat h div 1000" "unat ?y1 = (unat (nr_y_max r) * unat h + 999) div 1000"
    using r unat_scale by simp_all
  note bx = scaled_bounds [OF r(1,2) wh(1), folded sx] and "by" = scaled_bounds [OF r(3,4) wh(2), folded sy]
  have lt: "?x0 < ?x1" "?y0 < ?y1" using bx(1) "by"(1) by (simp_all add: word_less_nat_alt)
  have sub: "unat (?x1 - ?x0) = unat ?x1 - unat ?x0" "unat (?y1 - ?y0) = unat ?y1 - unat ?y0"
    using lt by (simp_all add: unat_sub_if' word_less_nat_alt)
  have dx: "0 < ?x1 - ?x0" "0 < ?y1 - ?y0"
    using lt sub by (simp_all only: word_less_nat_alt unat_0 zero_less_diff)
  have hi: "unat ?x0 + unat (?x1 - ?x0) = unat ?x1" "unat ?y0 + unat (?y1 - ?y0) = unat ?y1"
    using lt by (simp_all only: sub word_less_nat_alt le_add_diff_inverse less_imp_le)
  have crop: "crop_png env img r = ae_crop_encode env img ?x0 ?y0 (?x1 - ?x0) (?y1 - ?y0)"
    using lt by (simp add: crop_png_def assms(2) Let_def)
  show ?thesis
    by (rule that [OF crop dx sx(1) sy(1)]) (simp_all only: hi bx(2,3) "by"(2,3))
qed

text \<open>Claim C31. A crop of a valid region reads a non-empty box inside the image, from the pixel its left and
  upper edge fall in to the one before its right and lower edge. No valid region reaches the last
  column or row of an image with more than 1000 of them.\<close>

theorem crop_reads_inside:
  assumes "validate_region r = Inr ()" and "ae_image_size env img = Inr (w, h)" and "0 < w" and "0 < h"
  shows "\<exists>x y dx dy. crop_png env img r = ae_crop_encode env img x y dx dy \<and> 0 < dx \<and> 0 < dy \<and>
    unat x = unat (nr_x_min r) * unat w div 1000 \<and> unat y = unat (nr_y_min r) * unat h div 1000 \<and>
    unat x + unat dx \<le> unat w \<and> unat y + unat dy \<le> unat h \<and>
    (1000 < unat w \<longrightarrow> unat x + unat dx < unat w) \<and> (1000 < unat h \<longrightarrow> unat y + unat dy < unat h)"
  by (rule crop_box [OF assms]) blast

definition demo_artifact_env :: artifact_env where
  "demo_artifact_env =
     \<lparr>ae_clock = (\<lambda>n. ''2026-01-01T00:00:0'' @ show_nat n @ ''Z''), ae_io = (\<lambda>_ _. None), ae_write = (\<lambda>_ _. None),
      ae_sha256 = rev, ae_base64_decode = Inr, ae_base64_reads = (\<lambda>t n. [Inr t]),
      ae_image_size = (\<lambda>_. Inr (1920, 1080)), ae_crop_encode = (\<lambda>_ x y dx dy. Inr ''png''),
      ae_temp_dir = ''/tmp'', ae_pdftoppm = (\<lambda>_ _ _. Inr (Inr ''page'')), ae_tar = (\<lambda>es. Inr (concat (map snd es)))\<rparr>"

definition demo_disk :: artifact_disk where
  "demo_disk = \<lparr>ad_root = ''/a'', ad_files = (\<lambda>_. None), ad_tick = 0\<rparr>"

definition whole_page :: normalized_region where
  "whole_page = \<lparr>nr_x_min = 0, nr_y_min = 0, nr_x_max = 999, nr_y_max = 999\<rparr>"

theorem crop_reads_inside_witness:
  "\<exists>x y dx dy. crop_png demo_artifact_env ''shot'' whole_page = ae_crop_encode demo_artifact_env ''shot'' x y dx dy \<and>
     unat x + unat dx < 1920 \<and> unat y + unat dy < 1080"
proof -
  have "validate_region whole_page = Inr ()" "ae_image_size demo_artifact_env ''shot'' = Inr (1920, 1080)"
    by (simp_all add: whole_page_def validate_region_def demo_artifact_env_def)
  from crop_reads_inside [OF this] show ?thesis by auto
qed

section \<open>A chunked write stores the whole payload\<close>

text \<open>What a call may do to the files: change the one at \<open>path\<close>, and nothing else.\<close>

definition only_at :: "string \<Rightarrow> artifact_disk \<Rightarrow> artifact_disk \<Rightarrow> bool" where
  "only_at path d d' \<longleftrightarrow> ad_root d' = ad_root d \<and> (\<forall>p. p \<noteq> path \<longrightarrow> ad_files d' p = ad_files d p)"

lemma only_at_refl: "only_at path d d"
  by (simp add: only_at_def)

lemma only_at_trans: "only_at path d d' \<Longrightarrow> only_at path d' d'' \<Longrightarrow> only_at path d d''"
  by (simp add: only_at_def)

lemma io_run: "io env c d = (r, d') \<Longrightarrow> d' = d\<lparr>ad_tick := Suc (ad_tick d)\<rparr>"
  by (auto simp: io_def)

lemma context_as_ok: "context_as e m d = (Inr a, d') \<longleftrightarrow> m d = (Inr a, d')"
  by (auto simp: context_as_def op_simps split: prod.splits sum.splits)

lemma and_then_ok:
  "and_then m f s = (Inr b, s') \<longleftrightarrow> (\<exists>a t. m s = (Inr a, t) \<and> f a t = (Inr b, s'))"
  by (auto simp: and_then_def split: prod.splits sum.splits)

lemma append_bytes_ok:
  "append_bytes env path bytes d = (Inr u, d') \<Longrightarrow>
   only_at path d d' \<and> ad_files d' path = Some (unwrap_or [] (ad_files d path) @ bytes)"
  by (auto simp: append_bytes_def and_then_ok gets_def set_file_def modify_def only_at_def dest!: io_run)

lemma write_chunk_ok:
  assumes "write_chunk env w data d = (Inr (n, w'), d')" "data \<noteq> []" "n = length data"
  shows "only_at (wr_path w) d d' \<and>
    ad_files d' (wr_path w) = Some (unwrap_or [] (ad_files d (wr_path w)) @ data) \<and>
    wr_hashed w' = wr_hashed w @ data \<and> wr_path w' = wr_path w \<and> wr_config w' = wr_config w"
proof -
  have n: "n = min (length data) (cw_chunk_size (wr_config w))"
    using assms(1,2) by (auto simp: write_chunk_def Let_def and_then_ok ret_def fail_def split: if_splits)
  then have "take (min (length data) (cw_chunk_size (wr_config w))) data = data" using assms(3) by simp
  then show ?thesis
    using assms(1,2) by (auto simp: write_chunk_def Let_def and_then_ok ret_def fail_def split: if_splits
        dest!: append_bytes_ok)
qed

fun reads_bytes :: "string res list \<Rightarrow> string" where
  "reads_bytes [] = []"
| "reads_bytes (Inl e # reads) = []"
| "reads_bytes (Inr [] # reads) = []"
| "reads_bytes (Inr (b # bytes) # reads) = (b # bytes) @ reads_bytes reads"

lemma copy_loop_ok:
  "copy_loop env w reads d = (Inr r, d') \<Longrightarrow> ad_files d (wr_path w) = Some old \<Longrightarrow>
   only_at (wr_path w) d d' \<and> ad_files d' (wr_path w) = Some (old @ reads_bytes reads) \<and>
   cwr_sha256 r = ae_sha256 env (wr_hashed w @ reads_bytes reads)"
proof (induction reads arbitrary: w d old rule: reads_bytes.induct)
  case (4 b bytes reads)
  from "4.prems"(1) obtain w' t where step: "write_chunk env w (b # bytes) d = (Inr (length (b # bytes), w'), t)"
    and rest: "copy_loop env w' reads t = (Inr r, d')"
    by (auto simp: and_then_ok fail_def split: prod.splits if_splits)
  note c = write_chunk_ok [OF step, simplified]
  have "ad_files t (wr_path w') = Some (old @ b # bytes)" using c "4.prems"(2) by simp
  from "4.IH" [OF rest this] show ?case using c by (auto intro: only_at_trans)
qed (auto simp: writer_finish_def and_then_ok ret_def fail_def only_at_def dest!: io_run)

lemma reads_bytes_cursor: "0 < n \<Longrightarrow> reads_bytes (cursor_reads n data) = data"
proof (induction n data rule: cursor_reads.induct)
  case (1 n data)
  show ?case
  proof (cases data)
    case (Cons b bytes)
    then obtain c cs where "take n data = c # cs" using "1.prems" by (cases n) simp_all
    moreover have "reads_bytes (cursor_reads n (drop n data)) = drop n data" using 1 Cons by simp
    moreover have "(c # cs) @ drop n data = data" using calculation(1) append_take_drop_id by metis
    ultimately show ?thesis using Cons "1.prems" by (simp add: cursor_reads.simps [of n "b # bytes"])
  qed (simp add: cursor_reads.simps)
qed

lemma attempt_ok:
  "attempt m f s = (Inr b, s') \<longleftrightarrow>
     (\<exists>a t. m s = (Inr a, t) \<and> f (Inr a) t = (Inr b, s')) \<or>
     (\<exists>e t. m s = (Inl e, t) \<and> f (Inl e) t = (Inr b, s'))"
  by (cases "m s", cases "fst (m s)") (auto simp: attempt_def)

lemma write_reader_ok:
  assumes "write_reader_chunked env path reads config d = (Inr r, d')"
  shows "only_at path d d' \<and> ad_files d' path = Some (reads_bytes reads) \<and>
    cwr_sha256 r = ae_sha256 env (reads_bytes reads)"
proof -
  from assms obtain w t where new: "chunked_writer_new env path config d = (Inr w, t)"
    and loop: "copy_loop env w reads t = (Inr r, d')"
    by (auto simp: write_reader_chunked_def and_then_ok attempt_ok ret_def fail_def)
  have w: "wr_path w = path" "wr_hashed w = []" "only_at path d t" "ad_files t path = Some []"
    using new by (auto simp: chunked_writer_new_def and_then_ok ret_def fail_def set_file_def modify_def
        only_at_def dest!: io_run split: if_splits)
  show ?thesis using copy_loop_ok [OF loop, of "[]"] w by (auto intro: only_at_trans)
qed

lemma fs_len_ok: "fs_len env path d = (Inr n, d') \<Longrightarrow> \<exists>c. ad_files d path = Some c \<and> n = length c \<and> ad_files d' = ad_files d \<and> ad_root d' = ad_root d"
  by (cases "ad_files d path") (auto simp: fs_len_def and_then_ok gets_def lift_res_def dest!: io_run)

lemma output_path_ok:
  "output_path env kind aid d = (Inr path, d') \<Longrightarrow>
   path = path_join (path_join (ad_root d) (kind_dir kind)) (aid @ ''.'' @ extension kind) \<and>
   ad_files d' = ad_files d \<and> ad_root d' = ad_root d"
  by (auto simp: output_path_def and_then_ok gets_def ret_def context_as_ok dest!: io_run)

lemma chunk_size_pos: "0 < cw_chunk_size (chunked_write_config_for_payload_len n)"
  by (simp add: chunked_write_config_for_payload_len_def chunked_write_config_default_def)

lemma write_payload_ok:
  assumes "write_payload env aid kind run_id inst tab payload created prov d = (Inr h, d')"
  shows "only_at (ah_path h) d d' \<and> ad_files d' (ah_path h) = Some payload \<and>
    h = build_artifact_handle aid kind run_id inst tab
          (path_join (path_join (ad_root d) (kind_dir kind)) (aid @ ''.'' @ extension kind))
          (length payload) created (ae_sha256 env payload) prov"
proof -
  let ?cfg = "chunked_write_config_for_payload_len (length payload)"
  from assms obtain path d1 checksum d2 n where
    out: "output_path env kind aid d = (Inr path, d1)" and
    store: "(if should_stream_large_capture kind (length payload) then
          and_then (context_as (''stream '' @ path) (write_artifact_chunked env path payload ?cfg))
            (\<lambda>r. ret (cwr_sha256 r))
        else and_then (context_as (''write '' @ path) (fs_write env path payload)) (\<lambda>_.
          ret (ae_sha256 env payload))) d1 = (Inr checksum, d2)" and
    len: "fs_len env path d2 = (Inr n, d')" and
    h: "h = build_artifact_handle aid kind run_id inst tab path n created checksum prov"
    by (auto simp: write_payload_def and_then_ok context_as_ok ret_def)
  note o = output_path_ok [OF out]
  have s: "only_at path d1 d2 \<and> ad_files d2 path = Some payload \<and> checksum = ae_sha256 env payload"
  proof (cases "should_stream_large_capture kind (length payload)")
    case True
    with store obtain r where "write_artifact_chunked env path payload ?cfg d1 = (Inr r, d2)"
      and "checksum = cwr_sha256 r" by (auto simp: and_then_ok context_as_ok ret_def)
    then show ?thesis using write_reader_ok reads_bytes_cursor [OF chunk_size_pos]
      by (fastforce simp: write_artifact_chunked_def)
  next
    case False
    with store show ?thesis
      by (auto simp: and_then_ok context_as_ok ret_def fs_write_def only_at_def split: option.splits)
  qed
  show ?thesis using o s fs_len_ok [OF len] h by (auto simp: build_artifact_handle_def only_at_def)
qed

section \<open>Errors of the environment are the only errors\<close>

definition io_works :: "artifact_env \<Rightarrow> bool" where
  "io_works env \<longleftrightarrow> (\<forall>n c. ae_io env n c = None) \<and> (\<forall>n p. ae_write env n p = None)"

lemma io_works_run: "io_works env \<Longrightarrow> io env c d = (Inr (), d\<lparr>ad_tick := Suc (ad_tick d)\<rparr>)"
  by (simp add: io_works_def io_def)

lemma write_chunk_runs:
  assumes "io_works env" "data \<noteq> []" "length data \<le> cw_chunk_size (wr_config w)"
    "wr_total_written w + length data \<le> cw_max_total_size (wr_config w)"
  shows "\<exists>w' d'. write_chunk env w data d = (Inr (length data, w'), d') \<and> wr_config w' = wr_config w \<and>
    wr_total_written w' = wr_total_written w + length data"
  using assms by (simp add: write_chunk_def Let_def min_absorb1 append_bytes_def and_then_def io_works_run gets_def
      set_file_def modify_def ret_def)

lemma copy_loop_runs:
  assumes "io_works env" "0 < n" "cw_chunk_size (wr_config w) = n"
    "wr_total_written w + length data \<le> cw_max_total_size (wr_config w)"
  shows "is_ok (fst (copy_loop env w (cursor_reads n data) d))"
  using assms(2-)
proof (induction n data arbitrary: w d rule: cursor_reads.induct)
  case (1 n data)
  show ?case
  proof (cases "data = []")
    case True
    then show ?thesis
      by (simp add: cursor_reads.simps writer_finish_def and_then_def io_works_run [OF assms(1)] ret_def)
  next
    case False
    then obtain c cs where t: "take n data = c # cs" using "1.prems" by (cases n; cases data) simp_all
    have len: "length (c # cs) \<le> n" "length (c # cs) + length (drop n data) = length data"
      unfolding t [symmetric] by simp_all
    obtain w' d' where step: "write_chunk env w (c # cs) d = (Inr (length (c # cs), w'), d')"
      and w': "wr_config w' = wr_config w" "wr_total_written w' = wr_total_written w + length (c # cs)"
      using write_chunk_runs [OF assms(1), of "c # cs" w d] len 1 by auto
    have "is_ok (fst (copy_loop env w' (cursor_reads n (drop n data)) d'))"
      using 1 False w' len by simp
    then show ?thesis
      using False "1.prems" by (simp add: cursor_reads.simps [of n data] t and_then_def step)
  qed
qed

lemma write_payload_runs:
  assumes "io_works env"
  shows "is_ok (fst (write_payload env aid kind run_id inst tab payload created prov d))"
proof -
  let ?cfg = "chunked_write_config_for_payload_len (length payload)"
  have chunked: "\<exists>r d'. write_artifact_chunked env path payload ?cfg d = (Inr r, d')" for path d
  proof -
    let ?w = "\<lparr>wr_path = path, wr_config = ?cfg, wr_total_written = 0, wr_chunks_written = 0, wr_hashed = []\<rparr>"
    let ?d = "d\<lparr>ad_tick := Suc (ad_tick d), ad_files := (ad_files d)(path \<mapsto> [])\<rparr>"
    have "is_ok (fst (copy_loop env ?w (cursor_reads (cw_chunk_size ?cfg) payload) ?d))"
      by (rule copy_loop_runs [OF assms chunk_size_pos]) (simp_all add: chunked_write_config_for_payload_len_def)
    then obtain r d' where "copy_loop env ?w (cursor_reads (cw_chunk_size ?cfg) payload) ?d = (Inr r, d')"
      by (auto simp: is_ok_iff) (metis prod.collapse)
    moreover have "chunked_writer_new env path ?cfg d = (Inr ?w, ?d)"
      using chunk_size_pos [of "length payload"] by (simp add: chunked_writer_new_def and_then_def io_works_run [OF assms] ret_def
          set_file_def modify_def)
    ultimately show ?thesis
      by (simp add: write_artifact_chunked_def write_reader_chunked_def and_then_def attempt_def ret_def)
  qed
  let ?path = "path_join (path_join (ad_root d) (kind_dir kind)) (aid @ ''.'' @ extension kind)"
  have out: "output_path env kind aid d = (Inr ?path, d\<lparr>ad_tick := Suc (ad_tick d)\<rparr>)"
    by (simp add: output_path_def op_simps context_as_def io_works_run [OF assms])
  show ?thesis
  proof (cases "should_stream_large_capture kind (length payload)")
    case True
    obtain r d' where c: "write_artifact_chunked env ?path payload ?cfg (d\<lparr>ad_tick := Suc (ad_tick d)\<rparr>) = (Inr r, d')"
      using chunked by blast
    have "ad_files d' ?path = Some payload"
      using write_reader_ok [OF c [unfolded write_artifact_chunked_def]] reads_bytes_cursor [OF chunk_size_pos] by simp
    then show ?thesis using True c
      by (simp add: write_payload_def out op_simps context_as_def fs_len_def io_works_run [OF assms])
  next
    case False
    then show ?thesis using assms
      by (simp add: write_payload_def out op_simps context_as_def fs_write_def fs_len_def io_works_run io_works_def)
  qed
qed

text \<open>Claim C29. Storing bytes either returns a handle whose file holds exactly these bytes, whose digest and
  size are theirs, and no other file has changed, or a call of the host has failed: the chunked
  writer is never refused for its size, whatever the payload.\<close>

theorem write_bytes_stores:
  "case write_bytes env kind run_id inst tab payload d of
     (Inr h, d') \<Rightarrow> ad_files d' = (ad_files d)(ah_path h \<mapsto> payload) \<and>
       ah_checksum_sha256 h = Some (ae_sha256 env payload) \<and> ah_bytes h = of_nat (length payload) \<and>
       ah_kind h = kind \<and> ah_run_id h = run_id \<and> ah_provenance h = provenance_primary
   | (Inl _, _) \<Rightarrow> \<not> io_works env"
proof (cases "write_bytes env kind run_id inst tab payload d")
  case (Pair r d')
  let ?now = "ae_clock env (ad_tick d)" and ?d = "d\<lparr>ad_tick := Suc (ad_tick d)\<rparr>"
  have run: "write_payload env (artifact_id kind inst tab ?now) kind run_id inst tab payload ?now provenance_primary ?d
      = (r, d')"
    using Pair by (simp add: write_bytes_def write_bytes_with_provenance_def and_then_def disk_clock_def)
  show ?thesis
  proof (cases r)
    case (Inr h)
    note w = write_payload_ok [OF run [unfolded Inr]]
    then have "ad_files d' = (ad_files d)(ah_path h \<mapsto> payload)" by (auto simp: only_at_def)
    moreover have "ah_checksum_sha256 h = Some (ae_sha256 env payload) \<and> ah_bytes h = of_nat (length payload) \<and>
        ah_kind h = kind \<and> ah_run_id h = run_id \<and> ah_provenance h = provenance_primary"
      using w by (simp add: build_artifact_handle_def)
    ultimately show ?thesis by (simp add: Pair Inr)
  next
    case (Inl e)
    then show ?thesis using write_payload_runs [of env] run by (auto simp: Pair) (metis fst_conv is_ok.simps(1))
  qed
qed

text \<open>A streamed write that fails removes what it wrote, unless the removal fails as well.\<close>

lemma failed_stream_leaves_nothing:
  assumes "write_reader_chunked env path reads config d = (Inl e, d')" and "0 < cw_chunk_size config"
    and "\<And>n. ae_io env n (IoCreate path) = None" and "\<And>n. ae_io env n (IoRemove path) = None"
  shows "ad_files d' path = None"
  using assms by (auto simp: write_reader_chunked_def chunked_writer_new_def op_simps io_def set_file_def
      cleanup_partial_file_def split: prod.splits sum.splits)

end
