(* ===== verification/Surfaces.thy ===== *)
theory Surfaces
  imports Types Failure McpArgs
begin

text \<open>
  Native browser surfaces: the descriptors and host reports of \<open>types.rs\<close>, and the contracts that
  \<open>crates/pengu-mesh-core/src/lib.rs\<close> publishes for their actions and for the actions of a tab.
  A contract lists the execution paths of an action in order of preference, with the permissions
  each needs and whether the host reports its channel as available.
\<close>

section \<open>Data\<close>

datatype interference_level = BackgroundSafe | AppTakeover | InterferesGlobally

datatype permission_state = PermGranted | PermMissing | PermUnsupported | PermUnknown

record host_access_probe =
  hp_service :: host_access_service
  hp_state :: permission_state
  hp_requestable :: bool
  hp_open_settings_url :: "string option"
  hp_detail :: string

record channel_availability =
  ca_channel :: execution_channel
  ca_available :: bool
  ca_interference_level :: interference_level
  ca_detail :: string

record overlay_descriptor =
  ov_id :: string
  ov_title :: string
  ov_summary :: string
  ov_primary_use :: string

record host_access_status =
  ha_platform :: string
  ha_app_targets :: "string list"
  ha_services :: "host_access_probe list"
  ha_execution_channels :: "channel_availability list"
  ha_assistive_overlays :: "overlay_descriptor list"
  ha_recommended_services :: "host_access_service list"
  ha_summary :: string

record surface_descriptor =
  sd_id :: string
  sd_parent_id :: "string option"
  sd_path :: string
  sd_role :: string
  sd_title :: "string option"
  sd_description :: "string option"
  sd_value :: "string option"
  sd_window_title :: "string option"
  sd_actions :: "string list"
  sd_focused :: bool
  sd_enabled :: bool
  sd_app_name :: string
  sd_bundle_id :: "string option"
  sd_channel :: browser_channel
  sd_instance_id :: string

record path_contract =
  pc_execution_channel :: execution_channel
  pc_available :: bool
  pc_required_permissions :: "host_access_service list"
  pc_interference_level :: interference_level
  pc_detail :: string

record action_contract =
  act_action :: string
  act_available :: bool
  act_required_permissions :: "host_access_service list"
  act_expected_interference :: interference_level
  act_detail :: string
  act_execution_paths :: "path_contract list"

record tab_action_contract =
  tc_kind :: string
  tc_available :: bool
  tc_required_permissions :: "host_access_service list"
  tc_detail :: string

section \<open>Execution paths\<close>

definition execution_channel_status ::
  "host_access_status \<Rightarrow> execution_channel \<Rightarrow> channel_availability option" where
  "execution_channel_status host channel =
     List.find (\<lambda>c. ca_channel c = channel) (ha_execution_channels host)"

definition surface_action_path ::
  "execution_channel \<Rightarrow> host_access_service list \<Rightarrow> interference_level \<Rightarrow> host_access_status \<Rightarrow> string \<Rightarrow>
   path_contract" where
  "surface_action_path channel permissions interference host detail =
     \<lparr>pc_execution_channel = channel,
      pc_available = (case execution_channel_status host channel of None \<Rightarrow> False | Some c \<Rightarrow> ca_available c),
      pc_required_permissions = permissions,
      pc_interference_level = interference,
      pc_detail = (case execution_channel_status host channel of
          None \<Rightarrow> detail @ ''; execution-channel readiness is unknown''
        | Some c \<Rightarrow> detail @ ''; '' @ ca_detail c)\<rparr>"

fun surface_host_access_service :: "browser_channel \<Rightarrow> host_access_service" where
  "surface_host_access_service ChromeDev = AppleEventsChromeDev"
| "surface_host_access_service Chrome = AppleEventsChrome"
| "surface_host_access_service Chromium = AppleEventsChromium"

definition surface_action_paths ::
  "surface_action_kind \<Rightarrow> host_access_service \<Rightarrow> host_access_status \<Rightarrow> path_contract list" where
  "surface_action_paths action service host =
     (if action \<in> {Press, Focus, SetValue} then
        [surface_action_path AxDirect [Accessibility] BackgroundSafe host
           ''preferred direct Accessibility path'',
         surface_action_path AppleEventsActivation [Accessibility, service] AppTakeover host
           ''fallback path activates the app before reusing Accessibility'']
      else if action = Confirm then
        [surface_action_path AxDirect [Accessibility] BackgroundSafe host
           ''preferred direct Accessibility confirmation path'',
         surface_action_path AppleEventsActivation [Accessibility, service] AppTakeover host
           ''fallback path activates the app before reusing Accessibility'',
         surface_action_path AppScopedKeyPost [Accessibility] BackgroundSafe host
           ''fallback path posts a scoped return key through Accessibility'',
         surface_action_path GlobalTakeover [ListenEvent, service] InterferesGlobally host
           ''fallback path takes over global keyboard focus through System Events'']
      else if action = KeySequence then
        [surface_action_path AppScopedKeyPost [Accessibility] BackgroundSafe host
           ''preferred path posts the requested key sequence through Accessibility'',
         surface_action_path GlobalTakeover [ListenEvent, service] InterferesGlobally host
           ''fallback path takes over global keyboard focus through System Events'']
      else if action \<in> {Scroll, Increment, Decrement, Pick, CancelAction} then
        [surface_action_path AxDirect [Accessibility] BackgroundSafe host
           ''direct Accessibility path for background-safe action'']
      else
        [surface_action_path AxDirect [Accessibility] AppTakeover host
           ''direct Accessibility path; action may take over app focus''])"

definition catalog_only_surface_action_paths :: "path_contract list \<Rightarrow> path_contract list" where
  "catalog_only_surface_action_paths paths =
     map (\<lambda>p. p\<lparr>pc_available := False,
                pc_detail := ''recognized accessibility action; runtime invocation is not yet implemented; '' @
                  pc_detail p\<rparr>) paths"

section \<open>Action contracts\<close>

definition surface_action_runtime_supported :: "surface_action_kind \<Rightarrow> bool" where
  "surface_action_runtime_supported action \<longleftrightarrow>
     action \<notin> {Scroll, Increment, Decrement, ShowMenu, Pick, Raise, CancelAction}"

definition parse_surface_action_name :: "string \<Rightarrow> surface_action_kind option" where
  "parse_surface_action_name value =
     (if value = ''press'' then Some Press else if value = ''focus'' then Some Focus
      else if value = ''confirm'' then Some Confirm else if value = ''set_value'' then Some SetValue
      else if value = ''key_sequence'' then Some KeySequence else if value = ''scroll'' then Some Scroll
      else if value = ''increment'' then Some Increment else if value = ''decrement'' then Some Decrement
      else if value = ''show_menu'' then Some ShowMenu else if value = ''pick'' then Some Pick
      else if value = ''raise'' then Some Raise else if value = ''cancel'' then Some CancelAction
      else None)"

definition permission_labels :: "host_access_service list \<Rightarrow> string" where
  "permission_labels permissions =
     (if permissions = [] then ''no additional host permissions''
      else join '', '' (map host_access_service_str permissions))"

definition no_path :: path_contract where
  "no_path =
     \<lparr>pc_execution_channel = AxDirect, pc_available = False, pc_required_permissions = [],
      pc_interference_level = BackgroundSafe,
      pc_detail = ''no execution path is currently defined for this action''\<rparr>"

definition contract_detail :: "bool \<Rightarrow> path_contract \<Rightarrow> nat \<Rightarrow> string" where
  "contract_detail supported preferred fallback_count =
     (let channel = execution_channel_str (pc_execution_channel preferred);
          labels = permission_labels (pc_required_permissions preferred)
      in if supported then
           (if fallback_count = 0 then ''preferred path '' @ channel @ '' requires '' @ labels
            else ''preferred path '' @ channel @ '' requires '' @ labels @ ''; '' @ show_nat fallback_count @
                 '' fallback paths are defined'')
         else if fallback_count = 0 then
           ''recognized accessibility action; preferred path '' @ channel @ '' would require '' @ labels @
           ''; runtime invocation is not yet implemented''
         else
           ''recognized accessibility action; preferred path '' @ channel @ '' would require '' @ labels @ ''; '' @
           show_nat fallback_count @
           '' fallback paths are cataloged, but runtime invocation is not yet implemented'')"

definition surface_action_contract ::
  "string \<Rightarrow> host_access_service \<Rightarrow> host_access_status \<Rightarrow> action_contract" where
  "surface_action_contract action_name service host =
     (case parse_surface_action_name action_name of
        None \<Rightarrow>
          \<lparr>act_action = action_name, act_available = False, act_required_permissions = [],
           act_expected_interference = BackgroundSafe,
           act_detail = ''unrecognized action; pengu mesh does not yet have execution-path metadata for this action'',
           act_execution_paths = []\<rparr>
      | Some kind \<Rightarrow>
          (let supported = surface_action_runtime_supported kind;
               all_paths = surface_action_paths kind service host;
               paths = (if supported then all_paths else catalog_only_surface_action_paths all_paths);
               preferred = (case paths of [] \<Rightarrow> no_path | p # _ \<Rightarrow> p)
           in \<lparr>act_action = action_name,
               act_available = (supported \<and> list_ex pc_available paths),
               act_required_permissions = pc_required_permissions preferred,
               act_expected_interference = pc_interference_level preferred,
               act_detail = contract_detail supported preferred (length paths - 1),
               act_execution_paths = paths\<rparr>))"

definition surface_action_contracts :: "surface_descriptor \<Rightarrow> host_access_status \<Rightarrow> action_contract list" where
  "surface_action_contracts surface host =
     map (\<lambda>action. surface_action_contract action (surface_host_access_service (sd_channel surface)) host)
       (sd_actions surface)"

text \<open>The scope that stands for the tab in the file name of a surface snapshot. \<open>chars\<close> are
  characters here; each that is not ASCII alphanumeric becomes an underscore.\<close>

definition native_surface_scope_id :: "string option \<Rightarrow> string" where
  "native_surface_scope_id root_surface_id =
     ''native_surface_'' @
     (case root_surface_id of
        None \<Rightarrow> ''root''
      | Some v \<Rightarrow>
          (let cleaned = map (\<lambda>c. if is_ascii_alphanumeric c then c else CHR ''_'') v
           in if cleaned = [] then ''root'' else cleaned))"

section \<open>Tab action contracts\<close>

definition unavailable_detail :: string where
  "unavailable_detail = ''tab websocket URL is missing; reconnect the tab before issuing CDP actions''"

definition writer_detail :: "bool \<Rightarrow> string \<Rightarrow> string \<Rightarrow> string" where
  "writer_detail available kind requirement =
     (if available then ''available through tab_action --kind '' @ kind @ '' over CDP; requires writer lease'' @ requirement
      else unavailable_detail)"

definition observer_detail :: "bool \<Rightarrow> string \<Rightarrow> string \<Rightarrow> string" where
  "observer_detail available command note =
     (if available then ''available through '' @ command @ ''; requires observer lease'' @ note
      else unavailable_detail)"

definition tab_contract :: "bool \<Rightarrow> string \<Rightarrow> string \<Rightarrow> tab_action_contract" where
  "tab_contract available kind detail =
     \<lparr>tc_kind = kind, tc_available = available, tc_required_permissions = [], tc_detail = detail\<rparr>"

definition tab_action_contracts :: "browser_tab \<Rightarrow> tab_action_contract list" where
  "tab_action_contracts tab =
     (let available = trim (bt_websocket_url tab) \<noteq> [];
          writer = (\<lambda>kind req. tab_contract available kind (writer_detail available kind req));
          observer = (\<lambda>kind cmd note. tab_contract available kind (observer_detail available cmd note))
      in [writer ''navigate'' '' and --url <target>; optional --timeout-ms <milliseconds>'',
          writer ''evaluate'' '' and --expression <javascript>'',
          writer ''click'' '' plus --ref <node-ref> or --selector <css-selector>'',
          writer ''focus'' '' plus --ref <node-ref> or --selector <css-selector>'',
          writer ''hover'' '' plus --ref <node-ref> or --selector <css-selector>'',
          writer ''fill'' '' plus --text <text> and --ref <node-ref> or --selector <css-selector>'',
          writer ''type'' '' plus --text <text> and --ref <node-ref> or --selector <css-selector>'',
          writer ''press'' '' and --key <key>'',
          writer ''select'' '' plus --value <option> and --ref <node-ref> or --selector <css-selector>'',
          observer ''snapshot'' ''pengu-mesh tab-snapshot --tab-id ...'' '''',
          observer ''text'' ''pengu-mesh tab-text --tab-id ...'' '''',
          observer ''screenshot'' ''pengu-mesh tab-screenshot --tab-id ...'' '' and optional --full-page'',
          observer ''pdf'' ''pengu-mesh tab-pdf --tab-id ...'' '''',
          observer ''trace'' ''pengu-mesh trace-capture --tab-id ...'' '''',
          observer ''recording'' ''pengu-mesh recording-capture --tab-id ...'' ''''])"

section \<open>What the contracts promise\<close>

lemma parse_name_inverse: "parse_surface_action_name v = Some kind \<Longrightarrow> surface_action_kind_str kind = v"
  by (auto simp: parse_surface_action_name_def split: if_splits)

lemma parse_name_of: "parse_surface_action_name (surface_action_kind_str kind) = Some kind"
  by (cases kind) (simp_all add: parse_surface_action_name_def)

lemma contract_of_kind:
  "surface_action_contract (surface_action_kind_str kind) service host =
     (let paths = (if surface_action_runtime_supported kind then surface_action_paths kind service host
                   else catalog_only_surface_action_paths (surface_action_paths kind service host))
      in \<lparr>act_action = surface_action_kind_str kind,
          act_available = (surface_action_runtime_supported kind \<and> list_ex pc_available paths),
          act_required_permissions = pc_required_permissions (hd paths),
          act_expected_interference = pc_interference_level (hd paths),
          act_detail = contract_detail (surface_action_runtime_supported kind) (hd paths) (length paths - 1),
          act_execution_paths = paths\<rparr>)"
proof -
  have "surface_action_paths kind service host \<noteq> []" by (simp add: surface_action_paths_def)
  then show ?thesis
    by (auto simp: surface_action_contract_def parse_name_of Let_def catalog_only_surface_action_paths_def
        split: list.splits)
qed

text \<open>The channels that can carry out an action.\<close>

fun action_channels :: "surface_action_kind \<Rightarrow> execution_channel list" where
  "action_channels Press = [AxDirect, AppleEventsActivation]"
| "action_channels Focus = [AxDirect, AppleEventsActivation]"
| "action_channels SetValue = [AxDirect, AppleEventsActivation]"
| "action_channels Confirm = [AxDirect, AppleEventsActivation, AppScopedKeyPost, GlobalTakeover]"
| "action_channels KeySequence = [AppScopedKeyPost, GlobalTakeover]"
| "action_channels _ = []"

definition channel_ready :: "host_access_status \<Rightarrow> execution_channel \<Rightarrow> bool" where
  "channel_ready host channel \<longleftrightarrow>
     (case execution_channel_status host channel of None \<Rightarrow> False | Some c \<Rightarrow> ca_available c)"

text \<open>Claim C32. A contract is available exactly when its name is an action that a request can carry and the
  host reports one of the channels of that action as ready; the names a request can carry are those
  the reader of requests accepts. Only global takeover interferes globally.\<close>

theorem contract_available_iff:
  "(act_available (surface_action_contract name service host) \<longleftrightarrow>
     (case parse_surface_action_kind name of
        Inl _ \<Rightarrow> False | Inr kind \<Rightarrow> list_ex (channel_ready host) (action_channels kind))) \<and>
   list_all (\<lambda>p. (pc_interference_level p = InterferesGlobally) = (pc_execution_channel p = GlobalTakeover))
     (act_execution_paths (surface_action_contract name service host))"
proof (cases "parse_surface_action_name name")
  case None
  then have "\<exists>e. parse_surface_action_kind name = Inl e"
    by (auto simp: parse_surface_action_name_def parse_surface_action_kind_def split: if_splits)
  then show ?thesis using None by (auto simp: surface_action_contract_def)
next
  case (Some kind)
  then have name: "name = surface_action_kind_str kind" by (simp add: parse_name_inverse)
  show ?thesis unfolding name contract_of_kind
    by (cases kind) (simp_all add: Let_def surface_action_runtime_supported_def parse_surface_action_kind_def
        surface_action_paths_def surface_action_path_def channel_ready_def catalog_only_surface_action_paths_def)
qed

end
