(* ===== verification/LeaseCoverage.thy ===== *)
theory LeaseCoverage
  imports McpDispatch
begin

text \<open>
  The lease coverage matrix of \<open>crates/pengu-mesh-core/src/lib.rs\<close>: for every operation its command,
  tool and route, and the lease it requires. The matrix is data of the health and doctor reports;
  here it is compared with the tool catalogue.
\<close>

datatype lease_disposition = WriterRequired | ObserverRequired | OutsideModel

record coverage_entry =
  le_operation :: string
  le_cli_command :: "string option"
  le_mcp_tool :: "string option"
  le_http_method :: "string option"
  le_http_route :: "string option"
  le_disposition :: lease_disposition
  le_rationale :: string

definition lease_coverage_entry ::
  "string \<Rightarrow> string option \<Rightarrow> string option \<Rightarrow> string option \<Rightarrow> string option \<Rightarrow> lease_disposition \<Rightarrow> string \<Rightarrow>
   coverage_entry" where
  "lease_coverage_entry operation cli_command mcp_tool http_method http_route disposition rationale =
     \<lparr>le_operation = operation, le_cli_command = cli_command, le_mcp_tool = mcp_tool,
      le_http_method = http_method, le_http_route = http_route, le_disposition = disposition,
      le_rationale = rationale\<rparr>"

definition coverage_of_host :: "coverage_entry list" where
  "coverage_of_host =
     [lease_coverage_entry ''browser_health'' (Some ''pengu-mesh health'') (Some ''browser_health'') (Some ''GET'') (Some ''/health'') OutsideModel
        ''runtime-wide readiness summary; not a holder-scoped browser or artifact operation'',
      lease_coverage_entry ''browser_doctor'' (Some ''pengu-mesh-doctor -- --json'') (Some ''browser_doctor'') (Some ''GET'') (Some ''/doctor'') OutsideModel
        ''runtime-wide diagnostics across tools, permissions, and persisted state'',
      lease_coverage_entry ''diagnose'' (Some ''pengu-mesh diagnose'') (Some ''diagnose'') (Some ''GET'') (Some ''/diagnose'') OutsideModel
        ''side-effect-free host readiness and remediation inventory for agent self-enablement'',
      lease_coverage_entry ''capability_preflight'' (Some ''pengu-mesh capability-preflight --capability ...'') (Some ''capability_preflight'') (Some ''GET'') (Some ''/capabilities/preflight'') OutsideModel
        ''read-only policy preflight reports capability decisions and grant hints without touching live browser state'',
      lease_coverage_entry ''host_access_status'' (Some ''pengu-mesh host-access-status'') (Some ''host_access_status'') (Some ''GET'') (Some ''/host/access/status'') OutsideModel
        ''host access status reports machine-level readiness and permissions outside browser instance coordination'',
      lease_coverage_entry ''host_access_setup'' (Some ''pengu-mesh host-access-setup --mode audit'') (Some ''host_access_setup'') (Some ''POST'') (Some ''/host/access/setup'') OutsideModel
        ''host access setup configures machine-level permissions and remains outside per-instance leases'',
      lease_coverage_entry ''profile_list'' (Some ''pengu-mesh profile-list'') (Some ''profile_list'') (Some ''GET'') (Some ''/profiles'') OutsideModel
        ''managed profile inventory is local runtime metadata, not shared browser control'',
      lease_coverage_entry ''profile_create'' (Some ''pengu-mesh profile-create --name ...'') (Some ''profile_create'') (Some ''POST'') (Some ''/profiles/create'') OutsideModel
        ''profile creation mutates local profile metadata before any instance exists'']"

definition coverage_of_leases :: "coverage_entry list" where
  "coverage_of_leases =
     [lease_coverage_entry ''instance_list'' (Some ''pengu-mesh instance-list'') (Some ''instance_list'') (Some ''GET'') (Some ''/instances'') OutsideModel
        ''aggregate instance inventory refreshes readiness across the runtime instead of claiming a single instance'',
      lease_coverage_entry ''instance_start'' (Some ''pengu-mesh instance-start --name ...'') (Some ''instance_start'') (Some ''POST'') (Some ''/instances/start'') WriterRequired
        ''launching a managed browser mints instance state and auto-acquires the writer lease'',
      lease_coverage_entry ''instance_attach'' (Some ''pengu-mesh instance-attach --name ... --cdp-url ...'') (Some ''instance_attach'') (Some ''POST'') (Some ''/instances/attach'') WriterRequired
        ''attach mutates instance identity and continuity state and requires writer ownership on reused instances'',
      lease_coverage_entry ''instance_stop'' (Some ''pengu-mesh instance-stop --instance-id ...'') (Some ''instance_stop'') (Some ''POST'') (Some ''/instances/stop'') WriterRequired
        ''stopping a managed browser mutates live browser state and releases the writer lease'',
      lease_coverage_entry ''lease_status'' (Some ''pengu-mesh lease-status --instance-id ...'') (Some ''lease_status'') (Some ''GET'') (Some ''/leases'') OutsideModel
        ''lease inspection is the coordination control plane itself'',
      lease_coverage_entry ''lease_acquire'' (Some ''pengu-mesh lease-acquire --instance-id ... --holder-id ...'') (Some ''lease_acquire'') (Some ''POST'') (Some ''/leases/acquire'') OutsideModel
        ''lease acquisition defines holder access and is intentionally outside holder enforcement'',
      lease_coverage_entry ''lease_release'' (Some ''pengu-mesh lease-release --instance-id ... --holder-id ...'') (Some ''lease_release'') (Some ''POST'') (Some ''/leases/release'') OutsideModel
        ''lease release is a coordination-plane operation, not a protected browser action'',
      lease_coverage_entry ''lease_transfer'' (Some ''pengu-mesh lease-transfer --instance-id ...'') (Some ''lease_transfer'') (Some ''POST'') (Some ''/leases/transfer'') OutsideModel
        ''writer transfer rewrites lease ownership and intentionally administers the model'']"

definition coverage_of_tabs :: "coverage_entry list" where
  "coverage_of_tabs =
     [lease_coverage_entry ''tab_list'' (Some ''pengu-mesh tab-list --instance-id ...'') (Some ''tab_list'') (Some ''GET'') (Some ''/tabs'') ObserverRequired
        ''tab inventory refresh reads shared browser state for a live instance'',
      lease_coverage_entry ''tab_list_actions'' (Some ''pengu-mesh tab-list-actions --instance-id ... --tab-id ...'') (Some ''tab_list_actions'') (Some ''GET'') (Some ''/tabs/actions'') ObserverRequired
        ''tab action contracts read shared tab state to describe safe CDP affordances before mutation'',
      lease_coverage_entry ''browser_surface_list'' (Some ''pengu-mesh browser-surface-list --instance-id ...'') (Some ''browser_surface_list'') (Some ''GET'') (Some ''/browser/surfaces'') ObserverRequired
        ''native browser surface inventory reads shared host/browser state for an attached instance'',
      lease_coverage_entry ''browser_surface_list_actions'' (Some ''pengu-mesh browser-surface-list-actions --instance-id ... --surface-id ...'') (Some ''browser_surface_list_actions'') (Some ''GET'') (Some ''/browser/surfaces/actions'') ObserverRequired
        ''browser surface action contracts read shared host/browser state to describe action affordances safely before mutation'',
      lease_coverage_entry ''browser_surface_snapshot'' (Some ''pengu-mesh browser-surface-snapshot --instance-id ...'') (Some ''browser_surface_snapshot'') (Some ''POST'') (Some ''/browser/surfaces/snapshot'') ObserverRequired
        ''native browser surface snapshot reads host/browser state and emits evidence artifacts'',
      lease_coverage_entry ''browser_surface_action'' (Some ''pengu-mesh browser-surface-action --instance-id ... --action press'') (Some ''browser_surface_action'') (Some ''POST'') (Some ''/browser/surfaces/action'') WriterRequired
        ''native browser surface actions can mutate browser-native controls and require writer ownership'',
      lease_coverage_entry ''tab_open'' (Some ''pengu-mesh tab-open --instance-id ... --url ...'') (Some ''tab_open'') (Some ''POST'') (Some ''/tabs/open'') WriterRequired
        ''opening a tab mutates the browser target set'',
      lease_coverage_entry ''tab_close'' (Some ''pengu-mesh tab-close --tab-id ...'') (Some ''tab_close'') (Some ''POST'') (Some ''/tabs/close'') WriterRequired
        ''closing a tab mutates the browser target set'',
      lease_coverage_entry ''tab_action'' (Some ''pengu-mesh tab-action --tab-id ... --kind ...'') (Some ''tab_action'') (Some ''POST'') (Some ''/tabs/action'') WriterRequired
        ''typed tab actions mutate focus, DOM state, navigation, or form inputs'',
      lease_coverage_entry ''tab_snapshot'' (Some ''pengu-mesh tab-snapshot --tab-id ...'') (Some ''tab_snapshot'') (Some ''POST'') (Some ''/tabs/snapshot'') ObserverRequired
        ''snapshot capture reads shared page state and emits an artifact'',
      lease_coverage_entry ''tab_text'' (Some ''pengu-mesh tab-text --tab-id ...'') (Some ''tab_text'') (Some ''POST'') (Some ''/tabs/text'') ObserverRequired
        ''text extraction reads shared page state and emits an artifact'',
      lease_coverage_entry ''tab_screenshot'' (Some ''pengu-mesh tab-screenshot --tab-id ...'') (Some ''tab_screenshot'') (Some ''POST'') (Some ''/tabs/screenshot'') ObserverRequired
        ''screenshot capture reads shared page state and emits an artifact'',
      lease_coverage_entry ''tab_pdf'' (Some ''pengu-mesh tab-pdf --tab-id ...'') (Some ''tab_pdf'') (Some ''POST'') (Some ''/tabs/pdf'') ObserverRequired
        ''PDF capture reads shared page state and emits an artifact'',
      lease_coverage_entry ''artifact_crop'' (Some ''pengu-mesh artifact-crop --artifact-id ...'') (Some ''artifact_crop'') (Some ''POST'') (Some ''/artifacts/crop'') ObserverRequired
        ''deriving a crop reads shared artifact state for a live instance context'',
      lease_coverage_entry ''artifact_crop_grid'' (Some ''pengu-mesh artifact-crop-grid --artifact-id ...'') (Some ''artifact_crop_grid'') (Some ''POST'') (Some ''/artifacts/crop-grid'') ObserverRequired
        ''batch crop derivation reads shared artifact state for a live instance context'']"

definition coverage_of_evidence :: "coverage_entry list" where
  "coverage_of_evidence =
     [lease_coverage_entry ''artifact_list'' (Some ''pengu-mesh artifact-list --instance-id ...'') (Some ''artifact_list'') (Some ''GET'') (Some ''/artifacts'') OutsideModel
        ''artifact inventory is immutable metadata lookup with no live browser contention'',
      lease_coverage_entry ''artifact_handle'' (None) (None) (Some ''GET'') (Some ''/artifacts/:id'') OutsideModel
        ''artifact handle resolution is immutable metadata lookup with no live browser contention'',
      lease_coverage_entry ''artifact_verify'' (Some ''pengu-mesh artifact-verify --artifact-id ...'') (Some ''artifact_verify'') (Some ''GET'') (Some ''/artifacts/verify'') OutsideModel
        ''artifact verification re-reads immutable evidence on disk without touching live browser state'',
      lease_coverage_entry ''capture_start_recording'' (Some ''pengu-mesh capture-start-recording'') (Some ''capture_start_recording'') (Some ''POST'') (Some ''/capture/start'') OutsideModel
        ''capture run state is runtime-owned observability metadata, not shared browser control'',
      lease_coverage_entry ''capture_stop_recording'' (Some ''pengu-mesh capture-stop-recording'') (Some ''capture_stop_recording'') (Some ''POST'') (Some ''/capture/stop'') OutsideModel
        ''capture run shutdown finalizes observability metadata without mutating browser state'',
      lease_coverage_entry ''run_list'' (Some ''pengu-mesh run-list'') (Some ''run_list'') (Some ''GET'') (Some ''/runs'') OutsideModel
        ''run inventory reads immutable replay metadata rather than shared live browser state'',
      lease_coverage_entry ''scenario_list'' (Some ''pengu-mesh scenario-list'') (Some ''scenario_list'') (Some ''GET'') (Some ''/scenarios'') OutsideModel
        ''scenario inventory reads stored metrics metadata without coordinating live browser state'',
      lease_coverage_entry ''scenario_summary'' (Some ''pengu-mesh scenario-summary'') (Some ''scenario_summary'') (Some ''GET'') (Some ''/scenarios/summary'') OutsideModel
        ''scenario summary aggregates stored evidence without coordinating live browser state'',
      lease_coverage_entry ''scenario_gate'' (Some ''pengu-mesh scenario-gate'') (Some ''scenario_gate'') (Some ''GET'') (Some ''/scenarios/gate'') OutsideModel
        ''scenario gate evaluates stored evidence policy without coordinating live browser state'',
      lease_coverage_entry ''scenario_run_detail'' (Some ''pengu-mesh scenario-run-detail --run-id ...'') (Some ''scenario_run_detail'') (Some ''GET'') (Some ''/scenarios/:id'') OutsideModel
        ''scenario detail reads stored metrics and assertions without mutating live browser state'',
      lease_coverage_entry ''events_tail'' (Some ''pengu-mesh events-tail'') (Some ''events_tail'') (Some ''GET'') (Some ''/events'') OutsideModel
        ''event tailing reads append-only observability state rather than coordinating browser access'',
      lease_coverage_entry ''replay_export'' (Some ''pengu-mesh replay-export'') (Some ''replay_export'') (Some ''POST'') (Some ''/replay/export'') OutsideModel
        ''replay export packages persisted evidence after capture rather than reading shared live tabs'',
      lease_coverage_entry ''trace_capture'' (Some ''pengu-mesh trace-capture --tab-id ...'') (Some ''trace_capture'') (Some ''POST'') (Some ''/trace/capture'') ObserverRequired
        ''trace capture reads a live tab and emits bounded evidence artifacts'',
      lease_coverage_entry ''recording_capture'' (Some ''pengu-mesh recording-capture --tab-id ...'') (Some ''recording_capture'') (Some ''POST'') (Some ''/recording/capture'') ObserverRequired
        ''recording capture reads a live tab repeatedly and emits bounded evidence artifacts'',
      lease_coverage_entry ''tool_catalog'' (None) (None) (Some ''GET'') (Some ''/tools'') OutsideModel
        ''generic catalog route enumerates tool contracts rather than touching runtime state'',
      lease_coverage_entry ''generic_tool_dispatch'' (None) (None) (Some ''POST'') (Some ''/tools/:tool'') OutsideModel
        ''generic dispatch route delegates to the underlying tool-specific lease policy'']"
definition lease_coverage_matrix :: "coverage_entry list" where
  "lease_coverage_matrix = coverage_of_host @ coverage_of_leases @ coverage_of_tabs @ coverage_of_evidence"

section \<open>Agreement with the catalogue\<close>

text \<open>The disposition of an operation, and the routes of the matrix.\<close>

definition disposition_of :: "string \<Rightarrow> lease_disposition option" where
  "disposition_of operation =
     map_option le_disposition (List.find (\<lambda>e. le_operation e = operation) lease_coverage_matrix)"

definition matrix_tools :: "string list" where
  "matrix_tools = List.map_filter le_mcp_tool lease_coverage_matrix"

definition matrix_routes :: "(string \<times> string) list" where
  "matrix_routes = List.map_filter (\<lambda>e. case (le_http_method e, le_http_route e) of
     (Some m, Some r) \<Rightarrow> Some (m, r) | _ \<Rightarrow> None) lease_coverage_matrix"

lemma matrix_tools_sorted: "sort matrix_tools = sort (map tc_name core_tools)"
  unfolding tool_names by code_simp


end
