(* ===== verification/BrowserOps.thy ===== *)
theory BrowserOps
  imports CoreLeases ArtifactStore Surfaces Capability
begin

text \<open>
  The state and the environment of the handlers of \<open>StageOneRuntime\<close> that drive a browser
  (\<open>crates/pengu-mesh-core/src/lib.rs\<close>), with the helpers they share.

  A handler changes \<open>browser_runtime\<close>: the lease runtime of \<open>CoreRuntime\<close>, the other tables, the
  artifact files, and \<open>br_effects\<close>, the sequence of commands sent to browsers, processes and
  the accessibility bridge. What such a command answers is a function of the commands sent so far,
  itself included (\<open>browser_env\<close>). A JavaScript text is represented by the script it is and the
  request it was made from; serde's pretty printer and the URL parser are functions of
  \<open>browser_env\<close>.
\<close>

section \<open>Data of the browser crates\<close>

record version_metadata =
  vm_browser :: string
  vm_protocol_version :: string
  vm_user_agent :: string
  vm_websocket_debugger_url :: string

record debug_target =
  dt_id :: string
  dt_title :: string
  dt_url :: string
  dt_target_type :: string
  dt_websocket_debugger_url :: "string option"

record managed_launch =
  ml_pid :: "32 word"
  ml_debug_http_url :: string
  ml_browser_ws_url :: string

record navigation_evidence =
  ne_final_url :: string
  ne_load_event_fired :: bool
  ne_duration_ms :: "64 word"

record browser_install =
  in_channel :: browser_channel
  in_installed :: bool
  in_app_path :: string
  in_binary_path :: string

record bridge_surfaces =
  bs_app_name :: string
  bs_surfaces :: "surface_descriptor list"

record bridge_snapshot =
  bn_app_name :: string
  bn_surfaces :: "surface_descriptor list"
  bn_capture_path :: "string option"
  bn_capture_source :: "string option"
  bn_capture_detail :: "string option"

record bridge_action =
  bg_app_name :: string
  bg_resolved_channel :: execution_channel
  bg_interference_level :: interference_level
  bg_took_focus :: bool
  bg_fallback_count :: nat
  bg_target_focused :: bool
  bg_detail :: string

section \<open>Commands\<close>

datatype script = SnapshotScript | TextScript | ActionScript tab_action_request | Expression string

datatype effect =
    MakeDir string
  | ReservePort
  | LaunchBrowser string string "16 word" bool
  | AskVersion string "16 word" nat
  | TerminatePid "32 word"
  | ListTargets string "16 word"
  | OpenTarget string "16 word" string
  | ActivateTarget string "16 word" string
  | CloseTarget string "16 word" string
  | ConnectSession string
  | EvaluateScript string script
  | NavigateTo string string "64 word"
  | CaptureScreenshot string bool
  | PrintToPdf string
  | StartTracing string "string list"
  | EndTracing string
  | ReadElapsed
  | ListSurfaces browser_instance
  | SnapshotSurfaces browser_instance "string option"
  | ActOnSurface browser_instance surface_action_request
  | ReadCapture string
  | RemoveCapture string
  | AskHostAccess

record browser_env =
  be_core :: runtime_env
  be_artifacts :: artifact_env
  be_url :: "string \<Rightarrow> (string option \<times> 16 word option) res"
  be_pretty :: "json \<Rightarrow> string"
  be_root_dir :: string
  be_profile_root :: string
  be_pid :: nat
  be_macos :: bool
  be_path_exists :: "string \<Rightarrow> bool"
  be_allow_attach :: "string option"
  be_capability_grants :: "string option"
  be_unit :: "effect list \<Rightarrow> unit res"
  be_value :: "effect list \<Rightarrow> json res"
  be_bytes :: "effect list \<Rightarrow> string res"
  be_nat :: "effect list \<Rightarrow> nat"
  be_port :: "effect list \<Rightarrow> 16 word res"
  be_launched :: "effect list \<Rightarrow> managed_launch res"
  be_version :: "effect list \<Rightarrow> version_metadata res"
  be_targets :: "effect list \<Rightarrow> debug_target list res"
  be_target :: "effect list \<Rightarrow> debug_target res"
  be_navigated :: "effect list \<Rightarrow> navigation_evidence res"
  be_surfaces :: "effect list \<Rightarrow> bridge_surfaces res"
  be_snapshot :: "effect list \<Rightarrow> bridge_snapshot res"
  be_acted :: "effect list \<Rightarrow> bridge_action res"
  be_host_access :: "effect list \<Rightarrow> host_access_status res"

section \<open>State\<close>

text \<open>What a restart found of the work of the process before it.\<close>

record continuity_status =
  cs_continuity_enabled :: bool
  cs_recovered_run :: bool
  cs_reused_operator_id :: bool
  cs_recovered_run_id :: "string option"
  cs_recovered_lease_count :: nat
  cs_recovered_instance_count :: nat
  cs_stale_instance_count :: nat
  cs_stale_instance_ids :: "string list"

record browser_runtime =
  br_core :: runtime
  br_profiles :: "managed_profile list"
  br_tabs :: "browser_tab list"
  br_artifacts :: "artifact_handle list"
  br_runs :: run_table
  br_identities :: "runtime_identity list"
  br_continuity :: continuity_status
  br_attach_row :: "attach_continuity_status option"
  br_attach :: attach_continuity_status
  br_disk :: artifact_disk
  br_effects :: "effect list"

definition core_op :: "(runtime, 'a) oper \<Rightarrow> (browser_runtime, 'a) oper" where
  "core_op m s = (case m (br_core s) of (r, c) \<Rightarrow> (r, s\<lparr>br_core := c\<rparr>))"

definition disk_op :: "(artifact_disk, 'a) oper \<Rightarrow> (browser_runtime, 'a) oper" where
  "disk_op m s = (case m (br_disk s) of (r, d) \<Rightarrow> (r, s\<lparr>br_disk := d\<rparr>))"

definition perform :: "(effect list \<Rightarrow> 'a res) \<Rightarrow> effect \<Rightarrow> (browser_runtime, 'a) oper" where
  "perform answer e s =
     (let sent = br_effects s @ [e] in (answer sent, s\<lparr>br_effects := sent\<rparr>))"

text \<open>\<open>match &result\<close>: the body runs, its result is reported by an event, and is then returned.
  If the event cannot be recorded, that error is returned.\<close>

definition reporting ::
  "(browser_runtime, 'a) oper \<Rightarrow> ('a res \<Rightarrow> (browser_runtime, 'b) oper) \<Rightarrow> (browser_runtime, 'a) oper" where
  "reporting body report =
     attempt body (\<lambda>result. and_then (report result) (\<lambda>_. lift_res result))"

definition note_event ::
  "browser_env \<Rightarrow> string \<Rightarrow> string \<Rightarrow> event_level \<Rightarrow> string \<Rightarrow> string option \<Rightarrow> string option \<Rightarrow>
   string option \<Rightarrow> json \<Rightarrow> (browser_runtime, runtime_event option) oper" where
  "note_event env category action level message instance_id tab_id art_id data =
     core_op (record_event (be_core env) category action level message instance_id tab_id art_id data)"

definition clock_now :: "browser_env \<Rightarrow> (browser_runtime, string) oper" where
  "clock_now env = core_op (utc_timestamp (be_core env))"

definition acting_holder :: "string option \<Rightarrow> (browser_runtime, string) oper" where
  "acting_holder holder_id = gets (\<lambda>s. lease_holder_id (br_core s) holder_id)"

definition access ::
  "browser_env \<Rightarrow> string \<Rightarrow> string \<Rightarrow> required_lease \<Rightarrow> string \<Rightarrow> (browser_runtime, unit) oper" where
  "access env instance_id holder_id required action =
     core_op (require_instance_access (be_core env) instance_id holder_id required action)"

definition the_instance :: "browser_env \<Rightarrow> string \<Rightarrow> (browser_runtime, browser_instance) oper" where
  "the_instance env instance_id = core_op (require_instance (be_core env) instance_id)"

definition require_tab :: "string \<Rightarrow> (browser_runtime, browser_tab) oper" where
  "require_tab tab_id =
     and_then (gets (\<lambda>s. get_tab tab_id (br_tabs s))) (\<lambda>found.
     lift_res (ok_or (''unknown tab '' @ tab_id) found))"

definition current_run_id :: "(browser_runtime, string option) oper" where
  "current_run_id = gets (\<lambda>s. active_run_id (br_core s))"

definition put_artifact :: "artifact_handle \<Rightarrow> (browser_runtime, unit) oper" where
  "put_artifact artifact = modify (\<lambda>s. s\<lparr>br_artifacts := upsert_artifact artifact (br_artifacts s)\<rparr>)"

definition put_instance :: "browser_instance \<Rightarrow> (browser_runtime, unit) oper" where
  "put_instance inst = core_op (store_upsert_instance inst)"

definition store_replace_tabs :: "string \<Rightarrow> browser_tab list \<Rightarrow> (browser_runtime, unit) oper" where
  "store_replace_tabs instance_id tabs s =
     (case replace_tabs instance_id tabs (br_tabs s) of
        Inl e \<Rightarrow> (Inl e, s) | Inr rows \<Rightarrow> (Inr (), s\<lparr>br_tabs := rows\<rparr>))"

section \<open>URLs and endpoints\<close>

definition parsed_host_port ::
  "browser_env \<Rightarrow> string \<Rightarrow> error \<Rightarrow> error \<Rightarrow> error \<Rightarrow> (string \<times> 16 word) res" where
  "parsed_host_port env url bad no_host no_port =
     (case be_url env url of
        Inl _ \<Rightarrow> Inl bad
      | Inr (host, port) \<Rightarrow> try_res (ok_or no_host host) (\<lambda>h. try_res (ok_or no_port port) (\<lambda>p. Inr (h, p))))"

definition host_port :: "browser_env \<Rightarrow> string \<Rightarrow> (string \<times> 16 word) res" where
  "host_port env debug_http_url =
     parsed_host_port env debug_http_url ''parse debug http url'' (''missing host in '' @ debug_http_url)
       (''missing port in '' @ debug_http_url)"

definition cdp_host_port :: "browser_env \<Rightarrow> string \<Rightarrow> (string \<times> 16 word) res" where
  "cdp_host_port env cdp_url =
     parsed_host_port env cdp_url ''parse cdp url'' ''missing host in cdp url'' ''missing port in cdp url''"

definition debug_http_url :: "string \<Rightarrow> 16 word \<Rightarrow> string" where
  "debug_http_url host port = ''http://'' @ host @ '':'' @ show_nat (unat port)"

definition debug_url_from_cdp_url :: "browser_env \<Rightarrow> string \<Rightarrow> string res" where
  "debug_url_from_cdp_url env cdp_url =
     try_res (cdp_host_port env cdp_url) (\<lambda>(host, port). Inr (debug_http_url host port))"

definition version_from_cdp_url :: "browser_env \<Rightarrow> string \<Rightarrow> (browser_runtime, version_metadata) oper" where
  "version_from_cdp_url env cdp_url =
     and_then (lift_res (cdp_host_port env cdp_url)) (\<lambda>(host, port).
     perform (be_version env) (AskVersion host port 3000))"

definition infer_channel_from_browser :: "version_metadata \<Rightarrow> browser_channel" where
  "infer_channel_from_browser metadata =
     (let browser = to_ascii_lowercase (vm_browser metadata)
      in if str_contains browser ''dev'' then ChromeDev
         else if str_contains browser ''chromium'' then Chromium
         else Chrome)"

section \<open>Tabs\<close>

definition tab_from_target :: "string \<Rightarrow> string \<Rightarrow> debug_target \<Rightarrow> browser_tab" where
  "tab_from_target instance_id time target =
     \<lparr>bt_id = stable_id IdTab (instance_id @ ''_'' @ dt_id target), bt_instance_id = instance_id,
      bt_target_id = dt_id target, bt_title = dt_title target, bt_url = dt_url target,
      bt_websocket_url = unwrap_or (''missing-websocket-for-'' @ dt_id target) (dt_websocket_debugger_url target),
      bt_active = True, bt_created_at = time, bt_updated_at = time\<rparr>"

text \<open>\<open>list_targets\<close> keeps the targets of type \<open>page\<close>.\<close>

definition list_targets :: "browser_env \<Rightarrow> string \<Rightarrow> 16 word \<Rightarrow> (browser_runtime, debug_target list) oper" where
  "list_targets env host port =
     and_then (perform (be_targets env) (ListTargets host port)) (\<lambda>targets.
     ret (filter (\<lambda>t. dt_target_type t = ''page'') targets))"

definition live_tabs_for_instance ::
  "browser_env \<Rightarrow> browser_instance \<Rightarrow> (browser_runtime, browser_tab list) oper" where
  "live_tabs_for_instance env inst =
     and_then (lift_res (host_port env (bi_debug_http_url inst))) (\<lambda>(host, port).
     and_then (list_targets env host port) (\<lambda>targets.
     and_then (clock_now env) (\<lambda>time.
     ret (map (tab_from_target (bi_id inst) time) targets))))"

definition sync_tabs :: "browser_env \<Rightarrow> string \<Rightarrow> (browser_runtime, browser_tab list) oper" where
  "sync_tabs env instance_id =
     and_then (the_instance env instance_id) (\<lambda>inst.
     and_then (live_tabs_for_instance env inst) (\<lambda>tabs.
     and_then (store_replace_tabs instance_id tabs) (\<lambda>_.
     gets (\<lambda>s. list_tabs (Some instance_id) (br_tabs s)))))"

text \<open>A session is named by the websocket it was opened on. The third component tells whether the
  stored websocket had to be replaced.\<close>

definition connect_tab_session ::
  "browser_env \<Rightarrow> string \<Rightarrow> (browser_runtime, browser_tab \<times> string \<times> bool) oper" where
  "connect_tab_session env tab_id =
     and_then (require_tab tab_id) (\<lambda>tab.
     attempt (perform (be_unit env) (ConnectSession (bt_websocket_url tab))) (\<lambda>first.
     case first of
       Inr _ \<Rightarrow> ret (tab, bt_websocket_url tab, False)
     | Inl initial_error \<Rightarrow>
         and_then (sync_tabs env (bt_instance_id tab)) (\<lambda>tabs.
         and_then (lift_res (ok_or (''unknown tab '' @ tab_id @ '' after websocket refresh'')
             (List.find (\<lambda>t. bt_id t = bt_id tab \<or> bt_target_id t = bt_target_id tab) tabs))) (\<lambda>refreshed.
         and_then (context_as (''reconnect tab websocket for '' @ tab_id @ '' after refresh from '' @ initial_error)
             (perform (be_unit env) (ConnectSession (bt_websocket_url refreshed)))) (\<lambda>_.
         and_then (note_event env ''tab'' ''session_recovered'' Info
             (''recovered tab websocket for '' @ tab_id @ '' after refresh'')
             (Some (bt_instance_id refreshed)) (Some (bt_id refreshed)) None
             (JObj [(''previous_websocket_url'', JStr (bt_websocket_url tab)),
                    (''recovered_websocket_url'', JStr (bt_websocket_url refreshed)),
                    (''target_id'', JStr (bt_target_id refreshed))])) (\<lambda>_.
         ret (refreshed, bt_websocket_url refreshed, True)))))))"

end
