(* ===== verification/BrowserTabs.thy ===== *)
theory BrowserTabs
  imports BrowserOps
begin

text \<open>
  The tab handlers of \<open>StageOneRuntime\<close> (\<open>crates/pengu-mesh-core/src/lib.rs\<close>): listing, opening,
  closing and acting on tabs, and the captures that store an artifact. Each handler asks for the
  lease its operation needs before it sends a command.
\<close>

section \<open>Event data of artifacts\<close>

fun artifact_kind_str :: "artifact_kind \<Rightarrow> string" where
  "artifact_kind_str ArtSnapshot = ''snapshot''"
| "artifact_kind_str ArtText = ''text''"
| "artifact_kind_str ArtScreenshot = ''screenshot''"
| "artifact_kind_str ArtPdf = ''pdf''"
| "artifact_kind_str ArtTrace = ''trace''"
| "artifact_kind_str ArtRecording = ''recording''"

definition region_json :: "normalized_region \<Rightarrow> json" where
  "region_json r =
     JObj [(''x_min'', JNum (uint (nr_x_min r))), (''y_min'', JNum (uint (nr_y_min r))),
           (''x_max'', JNum (uint (nr_x_max r))), (''y_max'', JNum (uint (nr_y_max r)))]"

definition json_opt :: "('a \<Rightarrow> json) \<Rightarrow> 'a option \<Rightarrow> json" where
  "json_opt f v = (case v of None \<Rightarrow> JNull | Some a \<Rightarrow> f a)"

definition page_json :: "32 word option \<Rightarrow> json" where
  "page_json page = json_opt (\<lambda>p. JNum (uint p)) page"

definition provenance_json :: "artifact_provenance \<Rightarrow> json" where
  "provenance_json p =
     JObj [(''source_artifact_id'', json_opt_str (ap_source_artifact_id p)),
           (''crop_region'', json_opt region_json (ap_crop_region p)),
           (''page_index'', page_json (ap_page_index p))]"

fun json_insert :: "string \<Rightarrow> json \<Rightarrow> (string \<times> json) list \<Rightarrow> (string \<times> json) list" where
  "json_insert key v [] = [(key, v)]"
| "json_insert key v ((k, w) # rest) = (if k = key then (key, v) # rest else (k, w) # json_insert key v rest)"

definition merge_artifact_data :: "artifact_handle \<Rightarrow> json \<Rightarrow> json" where
  "merge_artifact_data artifact extra =
     (let base = [(''artifact_id'', JStr (ah_id artifact)),
                  (''artifact_kind'', JStr (artifact_kind_str (ah_kind artifact))),
                  (''artifact_path'', JStr (ah_path artifact)),
                  (''mime_type'', JStr (ah_mime_type artifact)),
                  (''bytes'', JNum (uint (ah_bytes artifact))),
                  (''run_id'', json_opt_str (ah_run_id artifact)),
                  (''checksum_sha256'', json_opt_str (ah_checksum_sha256 artifact)),
                  (''provenance'', provenance_json (ah_provenance artifact))]
      in (case extra of
            JObj entries \<Rightarrow> JObj (fold (\<lambda>(k, v). json_insert k v) entries base)
          | _ \<Rightarrow> JObj base))"

text \<open>\<open>record_artifact_event\<close> over a payload with a tab and an artifact.\<close>

definition record_artifact_event ::
  "browser_env \<Rightarrow> string \<Rightarrow> string \<Rightarrow> string \<Rightarrow> browser_tab \<Rightarrow> artifact_handle \<Rightarrow> json \<Rightarrow>
   (browser_runtime, runtime_event option) oper" where
  "record_artifact_event env category action message tab artifact data =
     note_event env category action Info message (Some (bt_instance_id tab)) (Some (bt_id tab))
       (Some (ah_id artifact)) (merge_artifact_data artifact data)"

section \<open>Lists\<close>

definition list_tabs_of :: "browser_env \<Rightarrow> string \<Rightarrow> string option \<Rightarrow> (browser_runtime, browser_tab list) oper" where
  "list_tabs_of env instance_id holder_id =
     and_then (acting_holder holder_id) (\<lambda>h.
     and_then (access env instance_id h RequireObserver ''tab_list'') (\<lambda>_.
     sync_tabs env instance_id))"

record tab_action_catalog =
  tcat_instance :: browser_instance
  tcat_tab :: browser_tab
  tcat_actions :: "tab_action_contract list"

definition tab_list_actions ::
  "browser_env \<Rightarrow> string \<Rightarrow> string \<Rightarrow> string option \<Rightarrow> (browser_runtime, tab_action_catalog) oper" where
  "tab_list_actions env instance_id tab_id holder_id =
     reporting
       (and_then (acting_holder holder_id) (\<lambda>h.
        and_then (access env instance_id h RequireObserver ''tab_list_actions'') (\<lambda>_.
        and_then (the_instance env instance_id) (\<lambda>inst.
        and_then (require_tab tab_id) (\<lambda>tab.
        and_then (ensure (bt_instance_id tab = bi_id inst)
            (''tab '' @ tab_id @ '' does not belong to instance '' @ instance_id)) (\<lambda>_.
        ret \<lparr>tcat_instance = inst, tcat_tab = tab, tcat_actions = tab_action_contracts tab\<rparr>))))))
       (\<lambda>result. case result of
          Inr payload \<Rightarrow>
            note_event env ''tab'' ''list_actions'' Info
              (''listed '' @ show_nat (length (tcat_actions payload)) @ '' tab action contracts for '' @
               bt_id (tcat_tab payload))
              (Some (bi_id (tcat_instance payload))) (Some (bt_id (tcat_tab payload))) None
              (JObj [(''action_count'', JNum (int (length (tcat_actions payload))))])
        | Inl error \<Rightarrow>
            note_event env ''tab'' ''list_actions'' ErrorLevel
              (''tab action catalog failed for '' @ tab_id @ '': '' @ error)
              (Some instance_id) (Some tab_id) None (JObj [(''error'', JStr error)]))"

section \<open>Opening and closing\<close>

definition open_tab :: "browser_env \<Rightarrow> string \<Rightarrow> string \<Rightarrow> string option \<Rightarrow> (browser_runtime, browser_tab) oper" where
  "open_tab env instance_id url holder_id =
     reporting
       (and_then (acting_holder holder_id) (\<lambda>h.
        and_then (access env instance_id h RequireWriter ''tab_open'') (\<lambda>_.
        and_then (the_instance env instance_id) (\<lambda>inst.
        and_then (lift_res (host_port env (bi_debug_http_url inst))) (\<lambda>(host, port).
        and_then (perform (be_target env) (OpenTarget host port url)) (\<lambda>target.
        and_then (perform (be_unit env) (ActivateTarget host port (dt_id target))) (\<lambda>_.
        and_then (sync_tabs env instance_id) (\<lambda>tabs.
        lift_res (ok_or ''opened tab not found in runtime state''
          (List.find (\<lambda>tab. bt_target_id tab = dt_id target) tabs))))))))))
       (\<lambda>result. case result of
          Inr tab \<Rightarrow>
            note_event env ''tab'' ''open'' Info (''opened tab '' @ bt_title tab)
              (Some (bt_instance_id tab)) (Some (bt_id tab)) None
              (JObj [(''url'', JStr (bt_url tab)), (''target_id'', JStr (bt_target_id tab))])
        | Inl error \<Rightarrow>
            note_event env ''tab'' ''open'' ErrorLevel (''tab open failed for '' @ instance_id @ '': '' @ error)
              (Some instance_id) None None (JObj [(''url'', JStr url), (''error'', JStr error)]))"

definition close_tab :: "browser_env \<Rightarrow> string \<Rightarrow> string option \<Rightarrow> (browser_runtime, string) oper" where
  "close_tab env tab_id holder_id =
     and_then (require_tab tab_id) (\<lambda>tab.
     reporting
       (and_then (acting_holder holder_id) (\<lambda>h.
        and_then (access env (bt_instance_id tab) h RequireWriter ''tab_close'') (\<lambda>_.
        and_then (the_instance env (bt_instance_id tab)) (\<lambda>inst.
        and_then (lift_res (host_port env (bi_debug_http_url inst))) (\<lambda>(host, port).
        and_then (perform (be_unit env) (CloseTarget host port (bt_target_id tab))) (\<lambda>_.
        and_then (sync_tabs env (bt_instance_id tab)) (\<lambda>_.
        ret (''closed '' @ tab_id))))))))
       (\<lambda>result. case result of
          Inr _ \<Rightarrow>
            note_event env ''tab'' ''close'' Info (''closed tab '' @ bt_title tab)
              (Some (bt_instance_id tab)) (Some (bt_id tab)) None
              (JObj [(''url'', JStr (bt_url tab)), (''target_id'', JStr (bt_target_id tab))])
        | Inl error \<Rightarrow>
            note_event env ''tab'' ''close'' ErrorLevel (''tab close failed for '' @ tab_id @ '': '' @ error)
              (Some (bt_instance_id tab)) (Some (bt_id tab)) None (JObj [(''error'', JStr error)])))"

section \<open>Actions\<close>

definition has_target :: "tab_action_request \<Rightarrow> bool" where
  "has_target request \<longleftrightarrow> tq_ref_id request \<noteq> None \<or> tq_selector request \<noteq> None"

definition validate_tab_action_request :: "tab_action_request \<Rightarrow> unit res" where
  "validate_tab_action_request request =
     (let name = tab_action_kind_str (tq_kind request);
          target = (\<lambda>rest. if has_target request then rest else Inl (name @ '' requires ref or selector''));
          need = (\<lambda>field message. if field \<noteq> (None :: string option) then Inr () else Inl message)
      in case tq_kind request of
           TabNavigate \<Rightarrow> need (tq_url request) ''navigate requires url''
         | TabEvaluate \<Rightarrow> need (tq_expression request) ''evaluate requires expression''
         | TabPress \<Rightarrow> need (tq_key request) ''press requires key''
         | TabFill \<Rightarrow> target (need (tq_text request) (name @ '' requires text''))
         | TabType \<Rightarrow> target (need (tq_text request) (name @ '' requires text''))
         | TabSelect \<Rightarrow>
             (if has_target request then need (tq_value request) ''select requires value''
              else Inl ''select requires ref or selector'')
         | _ \<Rightarrow> target (Inr ()))"

definition normalize_runtime_evaluate_error :: "error \<Rightarrow> error" where
  "normalize_runtime_evaluate_error reason =
     (if prefix ''Runtime.evaluate failed:'' reason then reason else ''Runtime.evaluate failed: '' @ reason)"

record tab_action_payload =
  tp_tab :: browser_tab
  tp_requested :: tab_action_request
  tp_resolved_target :: string
  tp_detail :: string
  tp_final_url :: "string option"
  tp_load_event_fired :: "bool option"
  tp_duration_ms :: "64 word option"
  tp_result :: "json option"

definition json_field_str :: "json \<Rightarrow> string \<Rightarrow> string option" where
  "json_field_str value key = (case json_get value key of None \<Rightarrow> None | Some v \<Rightarrow> json_as_str v)"

definition perform_tab_action ::
  "browser_env \<Rightarrow> string \<Rightarrow> browser_tab \<Rightarrow> tab_action_request \<Rightarrow> (browser_runtime, tab_action_payload) oper" where
  "perform_tab_action env session tab request =
     (case tq_kind request of
        TabEvaluate \<Rightarrow>
          and_then (lift_res (ok_or ''evaluate requires expression'' (tq_expression request))) (\<lambda>expression.
          attempt (perform (be_value env) (EvaluateScript session (Expression expression))) (\<lambda>answer.
          case answer of
            Inl e \<Rightarrow> fail (normalize_runtime_evaluate_error e)
          | Inr value \<Rightarrow>
              ret \<lparr>tp_tab = tab, tp_requested = request, tp_resolved_target = ''page'',
                   tp_detail = ''evaluated expression over CDP'', tp_final_url = None,
                   tp_load_event_fired = None, tp_duration_ms = None, tp_result = Some value\<rparr>))
      | TabNavigate \<Rightarrow>
          and_then (lift_res (ok_or ''navigate requires url'' (tq_url request))) (\<lambda>url.
          and_then (perform (be_navigated env) (NavigateTo session url (unwrap_or 10000 (tq_timeout_ms request)))) (\<lambda>nav.
          ret \<lparr>tp_tab = tab, tp_requested = request, tp_resolved_target = ne_final_url nav,
               tp_detail = ''navigated to '' @ ne_final_url nav, tp_final_url = Some (ne_final_url nav),
               tp_load_event_fired = Some (ne_load_event_fired nav),
               tp_duration_ms = Some (ne_duration_ms nav), tp_result = None\<rparr>))
      | _ \<Rightarrow>
          and_then (perform (be_value env) (EvaluateScript session (ActionScript request))) (\<lambda>action_result.
          and_then (lift_res (ok_or ''tab action response missing target''
              (json_field_str action_result ''target''))) (\<lambda>resolved_target.
          and_then (lift_res (ok_or ''tab action response missing detail''
              (json_field_str action_result ''detail''))) (\<lambda>detail.
          ret \<lparr>tp_tab = tab, tp_requested = request, tp_resolved_target = resolved_target,
               tp_detail = detail, tp_final_url = None, tp_load_event_fired = None,
               tp_duration_ms = None, tp_result = None\<rparr>))))"

definition request_fields :: "tab_action_request \<Rightarrow> (string \<times> json) list" where
  "request_fields request =
     [(''kind'', JStr (tab_action_kind_str (tq_kind request))),
      (''ref'', json_opt_str (tq_ref_id request)), (''selector'', json_opt_str (tq_selector request)),
      (''url'', json_opt_str (tq_url request)), (''expression'', json_opt_str (tq_expression request)),
      (''text'', json_opt_str (tq_text request)), (''value'', json_opt_str (tq_value request)),
      (''key'', json_opt_str (tq_key request))]"

definition tab_action ::
  "browser_env \<Rightarrow> string \<Rightarrow> tab_action_request \<Rightarrow> string option \<Rightarrow> (browser_runtime, tab_action_payload) oper" where
  "tab_action env tab_id request holder_id =
     and_then (require_tab tab_id) (\<lambda>stored_tab.
     reporting
       (and_then (lift_res (validate_tab_action_request request)) (\<lambda>_.
        and_then (acting_holder holder_id) (\<lambda>h.
        and_then (access env (bt_instance_id stored_tab) h RequireWriter ''tab_action'') (\<lambda>_.
        and_then (connect_tab_session env tab_id) (\<lambda>(tab, session, _).
        and_then (sync_tabs env (bt_instance_id tab)) (\<lambda>tabs.
        perform_tab_action env session (unwrap_or tab (List.find (\<lambda>t. bt_id t = bt_id tab) tabs)) request)))))) 
       (\<lambda>result. case result of
          Inr payload \<Rightarrow>
            note_event env ''tab'' (tab_action_kind_str (tq_kind request)) Info
              (''executed '' @ tab_action_kind_str (tq_kind request) @ '' on '' @ bt_id (tp_tab payload))
              (Some (bt_instance_id (tp_tab payload))) (Some (bt_id (tp_tab payload))) None
              (JObj (request_fields request @
                [(''resolved_target'', JStr (tp_resolved_target payload)),
                 (''detail'', JStr (tp_detail payload)), (''final_url'', json_opt_str (tp_final_url payload)),
                 (''load_event_fired'', json_opt JBool (tp_load_event_fired payload)),
                 (''duration_ms'', json_opt (\<lambda>d. JNum (uint d)) (tp_duration_ms payload)),
                 (''result'', json_opt (\<lambda>v. v) (tp_result payload))]))
        | Inl error \<Rightarrow>
            note_event env ''tab'' (tab_action_kind_str (tq_kind request)) ErrorLevel
              (''tab action failed for '' @ tab_id @ '': '' @ error)
              (Some (bt_instance_id stored_tab)) (Some (bt_id stored_tab)) None
              (JObj (request_fields request @ [(''error'', JStr error)]))))"

end
