(* ===== verification/BrowserCaptures.thy ===== *)
theory BrowserCaptures
  imports BrowserTabs
begin

text \<open>
  The handlers of \<open>StageOneRuntime\<close> that capture evidence from a tab and store it as an artifact
  (\<open>crates/pengu-mesh-core/src/lib.rs\<close>): snapshot, text, screenshot, PDF, trace and recording. All
  of them only observe, so an observer lease is enough.
\<close>

section \<open>Storing what was captured\<close>

definition stored :: "(artifact_disk, artifact_handle) oper \<Rightarrow> (browser_runtime, artifact_handle) oper" where
  "stored write =
     and_then (disk_op write) (\<lambda>artifact.
     and_then (put_artifact artifact) (\<lambda>_.
     ret artifact))"

text \<open>The common head of the captures: the stored tab, the lease, and a session.\<close>

definition observed_session ::
  "browser_env \<Rightarrow> string \<Rightarrow> string option \<Rightarrow> string \<Rightarrow> (browser_runtime, browser_tab \<times> string) oper" where
  "observed_session env tab_id holder_id action =
     and_then (require_tab tab_id) (\<lambda>stored_tab.
     and_then (acting_holder holder_id) (\<lambda>h.
     and_then (access env (bt_instance_id stored_tab) h RequireObserver action) (\<lambda>_.
     and_then (connect_tab_session env tab_id) (\<lambda>(tab, session, _).
     ret (tab, session)))))"

definition capture_failed ::
  "browser_env \<Rightarrow> string \<Rightarrow> string \<Rightarrow> string \<Rightarrow> (string \<times> json) list \<Rightarrow> (browser_runtime, runtime_event option) oper" where
  "capture_failed env action message tab_id entries =
     note_event env ''tab'' action ErrorLevel message None (Some tab_id) None (JObj entries)"

section \<open>Snapshot and text\<close>

record snapshot_payload =
  sn_tab :: browser_tab
  sn_artifact :: artifact_handle
  sn_snapshot :: json

definition node_count :: "json \<Rightarrow> nat" where
  "node_count snapshot =
     (case json_get snapshot ''nodes'' of
        None \<Rightarrow> 0 | Some nodes \<Rightarrow> (case json_as_array nodes of None \<Rightarrow> 0 | Some ns \<Rightarrow> length ns))"

definition snapshot_tab :: "browser_env \<Rightarrow> string \<Rightarrow> string option \<Rightarrow> (browser_runtime, snapshot_payload) oper" where
  "snapshot_tab env tab_id holder_id =
     reporting
       (and_then (observed_session env tab_id holder_id ''tab_snapshot'') (\<lambda>(tab, session).
        and_then (perform (be_value env) (EvaluateScript session SnapshotScript)) (\<lambda>snapshot.
        and_then current_run_id (\<lambda>run.
        and_then (stored (write_text (be_artifacts env) ArtSnapshot run (bt_instance_id tab) (bt_id tab)
            (be_pretty env snapshot))) (\<lambda>artifact.
        ret \<lparr>sn_tab = tab, sn_artifact = artifact, sn_snapshot = snapshot\<rparr>)))))
       (\<lambda>result. case result of
          Inr payload \<Rightarrow>
            record_artifact_event env ''tab'' ''snapshot'' ''captured accessibility snapshot'' (sn_tab payload)
              (sn_artifact payload) (JObj [(''node_count'', JNum (int (node_count (sn_snapshot payload))))])
        | Inl error \<Rightarrow>
            capture_failed env ''snapshot'' (''tab snapshot failed for '' @ tab_id @ '': '' @ error) tab_id
              [(''error'', JStr error)])"

record text_payload =
  tx_tab :: browser_tab
  tx_artifact :: artifact_handle
  tx_text :: string

definition text_tab :: "browser_env \<Rightarrow> string \<Rightarrow> string option \<Rightarrow> (browser_runtime, text_payload) oper" where
  "text_tab env tab_id holder_id =
     reporting
       (and_then (observed_session env tab_id holder_id ''tab_text'') (\<lambda>(tab, session).
        and_then (perform (be_value env) (EvaluateScript session TextScript)) (\<lambda>payload.
        let text = unwrap_or [] (json_field_str payload ''text'') in
        and_then current_run_id (\<lambda>run.
        and_then (stored (write_text (be_artifacts env) ArtText run (bt_instance_id tab) (bt_id tab) text)) (\<lambda>artifact.
        ret \<lparr>tx_tab = tab, tx_artifact = artifact, tx_text = text\<rparr>)))))
       (\<lambda>result. case result of
          Inr payload \<Rightarrow>
            record_artifact_event env ''tab'' ''text'' ''captured tab text'' (tx_tab payload)
              (tx_artifact payload) (JObj [(''text_bytes'', JNum (int (length (tx_text payload))))])
        | Inl error \<Rightarrow>
            capture_failed env ''text'' (''tab text extraction failed for '' @ tab_id @ '': '' @ error) tab_id
              [(''error'', JStr error)])"

section \<open>Screenshot and PDF\<close>

record artifact_payload =
  af_tab :: browser_tab
  af_artifact :: artifact_handle

definition screenshot_tab ::
  "browser_env \<Rightarrow> string \<Rightarrow> string option \<Rightarrow> bool \<Rightarrow> (browser_runtime, artifact_payload) oper" where
  "screenshot_tab env tab_id holder_id full_page =
     reporting
       (and_then (observed_session env tab_id holder_id ''tab_screenshot'') (\<lambda>(tab, session).
        and_then (perform (be_bytes env) (CaptureScreenshot session full_page)) (\<lambda>encoded.
        and_then current_run_id (\<lambda>run.
        and_then (stored (write_base64 (be_artifacts env) ArtScreenshot run (bt_instance_id tab) (bt_id tab) encoded))
          (\<lambda>artifact. ret \<lparr>af_tab = tab, af_artifact = artifact\<rparr>)))))
       (\<lambda>result. case result of
          Inr payload \<Rightarrow>
            record_artifact_event env ''tab'' ''screenshot'' ''captured tab screenshot'' (af_tab payload)
              (af_artifact payload) (JObj [(''full_page'', JBool full_page)])
        | Inl error \<Rightarrow>
            capture_failed env ''screenshot'' (''tab screenshot failed for '' @ tab_id @ '': '' @ error) tab_id
              [(''error'', JStr error), (''full_page'', JBool full_page)])"

definition pdf_tab :: "browser_env \<Rightarrow> string \<Rightarrow> string option \<Rightarrow> (browser_runtime, artifact_payload) oper" where
  "pdf_tab env tab_id holder_id =
     reporting
       (and_then (observed_session env tab_id holder_id ''tab_pdf'') (\<lambda>(tab, session).
        and_then (perform (be_bytes env) (PrintToPdf session)) (\<lambda>encoded.
        and_then current_run_id (\<lambda>run.
        and_then (stored (write_base64 (be_artifacts env) ArtPdf run (bt_instance_id tab) (bt_id tab) encoded))
          (\<lambda>artifact. ret \<lparr>af_tab = tab, af_artifact = artifact\<rparr>)))))
       (\<lambda>result. case result of
          Inr payload \<Rightarrow>
            record_artifact_event env ''tab'' ''pdf'' ''captured tab pdf'' (af_tab payload) (af_artifact payload)
              (JObj [])
        | Inl error \<Rightarrow>
            capture_failed env ''pdf'' (''tab pdf capture failed for '' @ tab_id @ '': '' @ error) tab_id
              [(''error'', JStr error)])"

section \<open>Trace\<close>

definition default_trace_categories :: "string list" where
  "default_trace_categories =
     [''devtools.timeline'', ''disabled-by-default-devtools.screenshot'', ''toplevel'']"

record trace_payload =
  tr_tab :: browser_tab
  tr_artifact :: artifact_handle
  tr_duration_ms :: nat
  tr_categories :: "string list"

definition trace_capture ::
  "browser_env \<Rightarrow> string \<Rightarrow> nat \<Rightarrow> string list \<Rightarrow> string option \<Rightarrow> (browser_runtime, trace_payload) oper" where
  "trace_capture env tab_id requested_ms categories holder_id =
     (let duration_ms = clamp 100 30000 requested_ms;
          category_values = (if categories = [] then default_trace_categories else categories)
      in reporting
       (and_then (observed_session env tab_id holder_id ''trace_capture'') (\<lambda>(tab, session).
        and_then (perform (be_unit env) (StartTracing session category_values)) (\<lambda>_.
        and_then (perform (be_bytes env) (EndTracing session)) (\<lambda>bytes.
        and_then current_run_id (\<lambda>run.
        and_then (stored (write_bytes (be_artifacts env) ArtTrace run (bt_instance_id tab) (bt_id tab) bytes)) (\<lambda>artifact.
        ret \<lparr>tr_tab = tab, tr_artifact = artifact, tr_duration_ms = duration_ms, tr_categories = category_values\<rparr>))))))
       (\<lambda>result. case result of
          Inr payload \<Rightarrow>
            record_artifact_event env ''tab'' ''trace_capture'' ''captured trace artifact'' (tr_tab payload)
              (tr_artifact payload)
              (JObj [(''duration_ms'', JNum (int (tr_duration_ms payload))),
                     (''categories'', JArr (map JStr (tr_categories payload)))])
        | Inl error \<Rightarrow>
            capture_failed env ''trace_capture'' (''trace capture failed for '' @ tab_id @ '': '' @ error) tab_id
              [(''tab_id'', JStr tab_id), (''duration_ms'', JNum (int duration_ms)),
               (''categories'', JArr (map JStr category_values)), (''error'', JStr error)]))"

section \<open>Recording\<close>

definition pad4 :: "nat \<Rightarrow> string" where
  "pad4 n = (let digits = show_nat n in replicate (4 - length digits) (CHR ''0'') @ digits)"

definition frame_name :: "nat \<Rightarrow> string" where
  "frame_name index = ''frames/frame-'' @ pad4 index @ ''.png''"

definition expected_frames :: "nat \<Rightarrow> nat \<Rightarrow> nat" where
  "expected_frames duration_ms interval_ms = (duration_ms - 1) div interval_ms + 1"

text \<open>One pass of the loop: the time since the start, then the frame. The pauses between the passes
  send nothing.\<close>

definition capture_frame ::
  "browser_env \<Rightarrow> string \<Rightarrow> nat \<Rightarrow> (browser_runtime, nat \<times> string \<times> string) oper" where
  "capture_frame env session index =
     and_then (perform (\<lambda>sent. Inr (be_nat env sent)) ReadElapsed) (\<lambda>offset_ms.
     and_then (perform (be_bytes env) (CaptureScreenshot session False)) (\<lambda>encoded.
     and_then (context_as ''decode recording frame'' (lift_res (ae_base64_decode (be_artifacts env) encoded))) (\<lambda>bytes.
     ret (offset_ms, frame_name index, bytes))))"

text \<open>The loop ends when the duration has passed or \<open>expected\<close> frames are taken; \<open>remaining\<close>
  counts the frames after the one in hand.\<close>

function record_frames ::
  "browser_env \<Rightarrow> string \<Rightarrow> nat \<Rightarrow> nat \<Rightarrow> nat \<Rightarrow> (browser_runtime, (nat \<times> string \<times> string) list) oper" where
  "record_frames env session duration_ms index remaining =
     and_then (capture_frame env session index) (\<lambda>frame.
     if fst frame \<ge> duration_ms \<or> remaining = 0 then ret [frame]
     else
       and_then (record_frames env session duration_ms (Suc index) (remaining - 1)) (\<lambda>rest.
       ret (frame # rest)))"
  by pat_completeness auto

termination by (relation "measure (\<lambda>(env, session, duration_ms, index, remaining). remaining)") auto

declare record_frames.simps [simp del]

definition frame_json :: "nat \<times> string \<times> string \<Rightarrow> json" where
  "frame_json f =
     (case f of (offset_ms, name, bytes) \<Rightarrow>
        JObj [(''name'', JStr name), (''offset_ms'', JNum (int offset_ms)), (''bytes'', JNum (int (length bytes)))])"

definition recording_manifest :: "string \<Rightarrow> nat \<Rightarrow> nat \<Rightarrow> browser_tab \<Rightarrow> (nat \<times> string \<times> string) list \<Rightarrow> json" where
  "recording_manifest started_at duration_ms interval_ms tab frames =
     JObj [(''schema_version'', JNum 1), (''captured_at'', JStr started_at),
           (''duration_ms'', JNum (int duration_ms)), (''interval_ms'', JNum (int interval_ms)),
           (''frame_count'', JNum (int (length frames))),
           (''tab'', JObj [(''id'', JStr (bt_id tab)), (''instance_id'', JStr (bt_instance_id tab)),
                           (''title'', JStr (bt_title tab)), (''url'', JStr (bt_url tab))]),
           (''frames'', JArr (map frame_json frames))]"

record recording_payload =
  rc_tab :: browser_tab
  rc_artifact :: artifact_handle
  rc_duration_ms :: nat
  rc_interval_ms :: nat
  rc_frame_count :: nat

definition recording_capture ::
  "browser_env \<Rightarrow> string \<Rightarrow> nat \<Rightarrow> nat \<Rightarrow> string option \<Rightarrow> (browser_runtime, recording_payload) oper" where
  "recording_capture env tab_id requested_ms requested_interval_ms holder_id =
     (let duration_ms = clamp 100 30000 requested_ms; interval_ms = clamp 50 5000 requested_interval_ms;
          expected = expected_frames duration_ms interval_ms
      in and_then (ensure (expected \<le> 120)
          (''recording would capture '' @ show_nat expected @ '' frames; lower duration or raise interval'')) (\<lambda>_.
      reporting
       (and_then (observed_session env tab_id holder_id ''recording_capture'') (\<lambda>(tab, session).
        and_then (clock_now env) (\<lambda>started_at.
        and_then (record_frames env session duration_ms 1 (expected - 1)) (\<lambda>frames.
        and_then current_run_id (\<lambda>run.
        and_then (stored (write_recording_archive (be_artifacts env) run (bt_instance_id tab) (bt_id tab)
            (be_pretty env (recording_manifest started_at duration_ms interval_ms tab frames))
            (map snd frames))) (\<lambda>artifact.
        ret \<lparr>rc_tab = tab, rc_artifact = artifact, rc_duration_ms = duration_ms, rc_interval_ms = interval_ms,
             rc_frame_count = length frames\<rparr>))))))
       (\<lambda>result. case result of
          Inr payload \<Rightarrow>
            record_artifact_event env ''tab'' ''recording_capture'' ''captured screenshot recording archive''
              (rc_tab payload) (rc_artifact payload)
              (JObj [(''duration_ms'', JNum (int (rc_duration_ms payload))),
                     (''interval_ms'', JNum (int (rc_interval_ms payload))),
                     (''frame_count'', JNum (int (rc_frame_count payload)))])
        | Inl error \<Rightarrow>
            capture_failed env ''recording_capture'' (''recording capture failed for '' @ tab_id @ '': '' @ error) tab_id
              [(''tab_id'', JStr tab_id), (''duration_ms'', JNum (int duration_ms)),
               (''interval_ms'', JNum (int interval_ms)), (''error'', JStr error)])))"

end
