(* ===== verification/BrowserInstances.thy ===== *)
theory BrowserInstances
  imports BrowserTabs
begin

text \<open>
  Profiles and instances: creating a profile, starting, attaching and stopping a browser, and the
  continuity of attached browsers (\<open>crates/pengu-mesh-core/src/lib.rs\<close>, with the discovery and
  launch of \<open>crates/pengu-mesh-cdp/src/lib.rs\<close>).
\<close>

section \<open>Installations\<close>

definition install_candidates :: "bool \<Rightarrow> (browser_channel \<times> string \<times> string) list" where
  "install_candidates macos =
     (if macos then
        [(ChromeDev, ''/Applications/Google Chrome Dev.app'',
          ''/Applications/Google Chrome Dev.app/Contents/MacOS/Google Chrome Dev''),
         (Chrome, ''/Applications/Google Chrome.app'',
          ''/Applications/Google Chrome.app/Contents/MacOS/Google Chrome''),
         (Chromium, ''/Applications/Chromium.app'', ''/Applications/Chromium.app/Contents/MacOS/Chromium'')]
      else [(Chrome, ''/usr/bin/google-chrome'', ''/usr/bin/google-chrome'')])"

definition discover_installations :: "browser_env \<Rightarrow> browser_install list" where
  "discover_installations env =
     map (\<lambda>(channel, app, binary).
       \<lparr>in_channel = channel, in_installed = be_path_exists env app, in_app_path = app, in_binary_path = binary\<rparr>)
       (install_candidates (be_macos env))"

definition find_installation :: "browser_env \<Rightarrow> browser_channel \<Rightarrow> browser_install option" where
  "find_installation env channel =
     List.find (\<lambda>i. in_channel i = channel \<and> in_installed i) (discover_installations env)"

section \<open>Profiles\<close>

definition put_profile :: "managed_profile \<Rightarrow> (browser_runtime, unit) oper" where
  "put_profile profile = modify (\<lambda>s. s\<lparr>br_profiles := upsert_profile profile (br_profiles s)\<rparr>)"

definition ensure_profile :: "browser_env \<Rightarrow> browser_channel \<Rightarrow> (browser_runtime, managed_profile) oper" where
  "ensure_profile env channel =
     (let profile = \<lparr>mp_id = stable_id IdProfile (browser_channel_str channel),
                     mp_name = browser_channel_str channel @ '' default'', mp_channel = channel,
                     mp_path = path_join (be_profile_root env) (browser_channel_str channel)\<rparr>
      in and_then (put_profile profile) (\<lambda>_. ret profile))"

fun ensure_profiles :: "browser_env \<Rightarrow> browser_install list \<Rightarrow> (browser_runtime, unit) oper" where
  "ensure_profiles env [] = ret ()"
| "ensure_profiles env (i # is) =
     (if in_installed i then and_then (ensure_profile env (in_channel i)) (\<lambda>_. ensure_profiles env is)
      else ensure_profiles env is)"

definition ensure_default_profiles :: "browser_env \<Rightarrow> (browser_runtime, unit) oper" where
  "ensure_default_profiles env = ensure_profiles env (discover_installations env)"

definition create_profile ::
  "browser_env \<Rightarrow> string \<Rightarrow> browser_channel \<Rightarrow> (browser_runtime, managed_profile) oper" where
  "create_profile env name channel =
     (let seed = browser_channel_str channel @ ''_'' @ trim name;
          profile = \<lparr>mp_id = stable_id IdProfile seed, mp_name = trim name, mp_channel = channel,
                     mp_path = path_join (be_profile_root env) (stable_id IdProfile seed)\<rparr>
      in reporting
       (and_then (ensure (trim name \<noteq> []) ''profile name is required'') (\<lambda>_.
        and_then (gets (\<lambda>s. list_profiles (br_profiles s))) (\<lambda>existing.
        and_then (ensure (\<not> list_ex (\<lambda>p. mp_id p = mp_id profile) existing)
            (''managed profile '' @ mp_id profile @ '' already exists'')) (\<lambda>_.
        and_then (context_as (''create profile dir '' @ mp_path profile)
            (perform (be_unit env) (MakeDir (mp_path profile)))) (\<lambda>_.
        and_then (put_profile profile) (\<lambda>_.
        ret profile))))))
       (\<lambda>result. case result of
          Inr profile \<Rightarrow>
            note_event env ''profile'' ''create'' Info (''created managed profile '' @ mp_name profile) None None None
              (JObj [(''profile_id'', JStr (mp_id profile)),
                     (''channel'', JStr (browser_channel_str (mp_channel profile))),
                     (''path'', JStr (mp_path profile))])
        | Inl error \<Rightarrow>
            note_event env ''profile'' ''create'' ErrorLevel
              (''managed profile create failed for '' @ name @ '': '' @ error) None None None
              (JObj [(''name'', JStr name), (''channel'', JStr (browser_channel_str channel)),
                     (''error'', JStr error)])))"

section \<open>Starting\<close>

text \<open>\<open>str::replace("inst_", "")\<close>: every occurrence, from the left, is removed.\<close>

function remove_all :: "string \<Rightarrow> string \<Rightarrow> string" where
  "remove_all pat text =
     (if pat = [] \<or> text = [] then text
      else if take (length pat) text = pat then remove_all pat (drop (length pat) text)
      else hd text # remove_all pat (tl text))"
  by pat_completeness auto

termination by (relation "measure (\<lambda>(pat, text). length text)") auto

declare remove_all.simps [simp del]

definition own_writer_lease :: "browser_env \<Rightarrow> string \<Rightarrow> string \<Rightarrow> (browser_runtime, unit) oper" where
  "own_writer_lease env instance_id h =
     and_then (gets (\<lambda>s. lease_holder_label (br_core s) h)) (\<lambda>label.
     and_then (core_op (lease_acquire (be_core env) instance_id h label Writer default_lease_ttl_seconds)) (\<lambda>_.
     ret ()))"

definition json_pid :: "32 word option \<Rightarrow> json" where
  "json_pid pid = json_opt (\<lambda>p. JNum (uint p)) pid"

definition start_instance ::
  "browser_env \<Rightarrow> string \<Rightarrow> browser_channel \<Rightarrow> bool \<Rightarrow> string option \<Rightarrow> (browser_runtime, browser_instance) oper" where
  "start_instance env name channel headless holder_id =
     reporting
       (and_then (lift_res (ok_or (browser_channel_str channel @ '' is not installed'')
            (find_installation env channel))) (\<lambda>install.
        and_then (ensure_profile env channel) (\<lambda>profile.
        and_then (perform (be_port env) ReservePort) (\<lambda>port.
        let instance_id = stable_id IdInstance
              (name @ ''_'' @ browser_channel_str channel @ ''_'' @ show_nat (unat port));
            user_data_dir = path_join (mp_path profile) (remove_all ''inst_'' instance_id)
        in
        and_then (perform (be_launched env) (LaunchBrowser (in_binary_path install) user_data_dir port headless)) (\<lambda>launch.
        and_then (clock_now env) (\<lambda>created.
        and_then (clock_now env) (\<lambda>updated.
        let inst = \<lparr>bi_id = instance_id, bi_name = name, bi_channel = channel, bi_mode = Managed,
                    bi_status = StatusRunning, bi_debug_http_url = ml_debug_http_url launch,
                    bi_browser_ws_url = Some (ml_browser_ws_url launch), bi_profile_id = Some (mp_id profile),
                    bi_profile_path = Some user_data_dir, bi_pid = Some (ml_pid launch), bi_last_error = None,
                    bi_created_at = created, bi_updated_at = updated\<rparr>
        in
        and_then (put_instance inst) (\<lambda>_.
        and_then (acting_holder holder_id) (\<lambda>h.
        and_then (own_writer_lease env (bi_id inst) h) (\<lambda>_.
        and_then (sync_tabs env (bi_id inst)) (\<lambda>_.
        ret inst)))))))))))
       (\<lambda>result. case result of
          Inr inst \<Rightarrow>
            note_event env ''instance'' ''start'' Info (''managed browser started for '' @ bi_name inst)
              (Some (bi_id inst)) None None
              (JObj [(''name'', JStr (bi_name inst)), (''channel'', JStr (browser_channel_str (bi_channel inst))),
                     (''headless'', JBool headless), (''debug_http_url'', JStr (bi_debug_http_url inst)),
                     (''profile_id'', json_opt_str (bi_profile_id inst)), (''pid'', json_pid (bi_pid inst))])
        | Inl error \<Rightarrow>
            note_event env ''instance'' ''start'' ErrorLevel
              (''managed browser start failed for '' @ name @ '': '' @ error) None None None
              (JObj [(''name'', JStr name), (''channel'', JStr (browser_channel_str channel)),
                     (''headless'', JBool headless), (''error'', JStr error)]))"

section \<open>Attaching\<close>

definition find_attached_instance_seed ::
  "string \<Rightarrow> string \<Rightarrow> browser_instance list \<Rightarrow> attach_resolution_kind \<times> browser_instance option" where
  "find_attached_instance_seed debug_url cdp_url instances =
     (let attached = filter (\<lambda>i. bi_mode i = Attached) (list_instances instances)
      in case List.find (\<lambda>i. bi_debug_http_url i = debug_url) attached of
           Some i \<Rightarrow> (ByDebugHttpUrl, Some i)
         | None \<Rightarrow>
             (case List.find (\<lambda>i. bi_browser_ws_url i = Some cdp_url) attached of
                Some i \<Rightarrow> (ByBrowserWsUrl, Some i)
              | None \<Rightarrow> (ByNewInstance, None)))"

definition stored_ws_differs :: "browser_instance \<Rightarrow> string \<Rightarrow> bool" where
  "stored_ws_differs inst live =
     (case bi_browser_ws_url inst of None \<Rightarrow> False | Some ws \<Rightarrow> ws \<noteq> live)"

definition attach_continuity_outcome :: "browser_instance option \<Rightarrow> string \<Rightarrow> attach_outcome" where
  "attach_continuity_outcome existing live =
     (case existing of
        None \<Rightarrow> OutcomeNewInstance
      | Some inst \<Rightarrow>
          (if bi_status inst \<in> {StatusClosed, StatusError} \<or> stored_ws_differs inst live
           then ReclaimedStaleInstance else ReusedExistingInstance))"

definition update_attach_continuity :: "attach_continuity_status \<Rightarrow> (browser_runtime, unit) oper" where
  "update_attach_continuity status =
     modify (\<lambda>s. s\<lparr>br_attach_row := upsert_attach_continuity status (br_attach_row s), br_attach := status\<rparr>)"

fun attach_resolution_str :: "attach_resolution_kind \<Rightarrow> string" where
  "attach_resolution_str ByDebugHttpUrl = ''debug_http_url''"
| "attach_resolution_str ByBrowserWsUrl = ''browser_ws_url''"
| "attach_resolution_str ByName = ''name''"
| "attach_resolution_str ByNewInstance = ''new_instance''"

definition external_attach_enabled :: "browser_env \<Rightarrow> bool" where
  "external_attach_enabled env \<longleftrightarrow> be_allow_attach env = Some ''1''"

definition attached_record ::
  "string \<Rightarrow> browser_instance option \<Rightarrow> string \<Rightarrow> version_metadata \<Rightarrow> string \<Rightarrow> string \<Rightarrow> browser_instance" where
  "attached_record name existing debug_url metadata created_at updated_at =
     \<lparr>bi_id = (case existing of Some i \<Rightarrow> bi_id i | None \<Rightarrow> stable_id IdInstance (name @ ''_attached'')),
      bi_name = (case existing of Some i \<Rightarrow> bi_name i | None \<Rightarrow> name),
      bi_channel = infer_channel_from_browser metadata, bi_mode = Attached, bi_status = StatusAttached,
      bi_debug_http_url = debug_url, bi_browser_ws_url = Some (vm_websocket_debugger_url metadata),
      bi_profile_id = None, bi_profile_path = None, bi_pid = None, bi_last_error = None,
      bi_created_at = created_at, bi_updated_at = updated_at\<rparr>"

definition attach_body ::
  "browser_env \<Rightarrow> string \<Rightarrow> string \<Rightarrow> string option \<Rightarrow> (browser_runtime, browser_instance) oper" where
  "attach_body env name cdp_url holder_id =
     and_then (ensure (external_attach_enabled env)
       ''external attach is disabled by default; set PENGU_MESH_ALLOW_EXTERNAL_ATTACH=1 to enable it'') (\<lambda>_.
     and_then (version_from_cdp_url env cdp_url) (\<lambda>metadata.
     and_then (lift_res (debug_url_from_cdp_url env cdp_url)) (\<lambda>debug_url.
     let live = vm_websocket_debugger_url metadata in
     and_then (gets (\<lambda>s. find_attached_instance_seed debug_url cdp_url (rt_instances (br_core s)))) (\<lambda>(kind, existing).
     and_then (acting_holder holder_id) (\<lambda>h.
     and_then (case existing of
         Some i \<Rightarrow> access env (bi_id i) h RequireWriter ''instance_attach'' | None \<Rightarrow> ret ()) (\<lambda>_.
     and_then (case existing of Some i \<Rightarrow> ret (bi_created_at i) | None \<Rightarrow> clock_now env) (\<lambda>created_at.
     and_then (clock_now env) (\<lambda>updated_at.
     let inst = attached_record name existing debug_url metadata created_at updated_at in
     and_then (live_tabs_for_instance env inst) (\<lambda>tabs.
     and_then (put_instance inst) (\<lambda>_.
     and_then (own_writer_lease env (bi_id inst) h) (\<lambda>_.
     and_then (store_replace_tabs (bi_id inst) tabs) (\<lambda>_.
     and_then (clock_now env) (\<lambda>at_time.
     and_then (update_attach_continuity
       \<lparr>ac_outcome = Some (attach_continuity_outcome existing live), ac_freshness = FreshLive,
        ac_last_resolution = Some kind, ac_last_instance_id = Some (bi_id inst),
        ac_last_debug_http_url = Some (bi_debug_http_url inst), ac_last_requested_cdp_url = Some cdp_url,
        ac_last_browser_ws_url = Some live, ac_reused_existing_instance = (existing \<noteq> None),
        ac_endpoint_refreshed = (case existing of None \<Rightarrow> False | Some i \<Rightarrow> stored_ws_differs i live),
        ac_updated_at = Some at_time\<rparr>) (\<lambda>_.
     ret inst))))))))))))))"

definition attach_instance ::
  "browser_env \<Rightarrow> string \<Rightarrow> string \<Rightarrow> string option \<Rightarrow> (browser_runtime, browser_instance) oper" where
  "attach_instance env name cdp_url holder_id =
     reporting (attach_body env name cdp_url holder_id)
       (\<lambda>result. case result of
          Inr inst \<Rightarrow>
            and_then (gets br_attach) (\<lambda>attach.
            note_event env ''instance'' ''attach'' Info (''attached to external browser for '' @ bi_name inst)
              (Some (bi_id inst)) None None
              (JObj [(''name'', JStr (bi_name inst)), (''channel'', JStr (browser_channel_str (bi_channel inst))),
                     (''debug_http_url'', JStr (bi_debug_http_url inst)),
                     (''browser_ws_url'', json_opt_str (bi_browser_ws_url inst)),
                     (''attach_resolution'', json_opt (\<lambda>k. JStr (attach_resolution_str k)) (ac_last_resolution attach)),
                     (''reused_existing_instance'', JBool (ac_reused_existing_instance attach)),
                     (''endpoint_refreshed'', JBool (ac_endpoint_refreshed attach)),
                     (''requested_cdp_url'', json_opt_str (ac_last_requested_cdp_url attach))]))
        | Inl error \<Rightarrow>
            note_event env ''instance'' ''attach'' ErrorLevel
              (''external attach failed for '' @ name @ '': '' @ error) None None None
              (JObj [(''name'', JStr name), (''cdp_url'', JStr cdp_url), (''error'', JStr error)]))"

text \<open>How fresh the recorded attachment is, judged from the refreshed instances.\<close>

definition classify_attach_continuity ::
  "attach_continuity_status \<Rightarrow> browser_instance list \<Rightarrow> attach_continuity_status" where
  "classify_attach_continuity status instances =
     status\<lparr>ac_freshness :=
       (case ac_last_instance_id status of
          None \<Rightarrow> FreshNone
        | Some instance_id \<Rightarrow>
            (case List.find (\<lambda>i. bi_id i = instance_id) instances of
               None \<Rightarrow> FreshStaleInstance
             | Some inst \<Rightarrow>
                 (if bi_status inst \<in> {StatusClosed, StatusError} then FreshStaleInstance
                  else if ac_last_browser_ws_url status \<noteq> bi_browser_ws_url inst then FreshStaleEndpoint
                  else FreshLive)))\<rparr>"

section \<open>Stopping\<close>

definition stop_body ::
  "browser_env \<Rightarrow> string \<Rightarrow> browser_instance \<Rightarrow> string option \<Rightarrow> (browser_runtime, browser_instance) oper" where
  "stop_body env instance_id inst holder_id =
     and_then (acting_holder holder_id) (\<lambda>h.
     and_then (access env (bi_id inst) h RequireWriter ''instance_stop'') (\<lambda>_.
     and_then (ensure (bi_mode inst = Managed) ''instance_stop only supports managed instances'') (\<lambda>_.
     and_then (lift_res (ok_or (''managed instance '' @ instance_id @ '' has no pid'') (bi_pid inst))) (\<lambda>pid.
     and_then (perform (be_unit env) (TerminatePid pid)) (\<lambda>_.
     attempt (and_then (lift_res (host_port env (bi_debug_http_url inst))) (\<lambda>(host, port).
              perform (be_version env) (AskVersion host port 300))) (\<lambda>answer.
     case answer of
       Inr _ \<Rightarrow> fail (''instance '' @ instance_id @ '' still responded after stop request'')
     | Inl error \<Rightarrow>
         and_then (clock_now env) (\<lambda>at_time.
         let updated = inst\<lparr>bi_status := StatusClosed, bi_last_error := Some (''stopped by operator: '' @ error),
                            bi_updated_at := at_time\<rparr> in
         and_then (put_instance updated) (\<lambda>_.
         and_then (store_replace_tabs (bi_id updated) []) (\<lambda>_.
         and_then (core_op (lease_release (be_core env) (bi_id updated) h (Some Writer))) (\<lambda>_.
         ret updated))))))))))"

definition stop_instance ::
  "browser_env \<Rightarrow> string \<Rightarrow> string option \<Rightarrow> (browser_runtime, browser_instance) oper" where
  "stop_instance env instance_id holder_id =
     and_then (the_instance env instance_id) (\<lambda>inst.
     reporting (stop_body env instance_id inst holder_id)
       (\<lambda>result. case result of
          Inr updated \<Rightarrow>
            note_event env ''instance'' ''stop'' Info (''stopped managed browser for '' @ bi_name updated)
              (Some (bi_id updated)) None None
              (JObj [(''pid'', json_pid (bi_pid updated)), (''debug_http_url'', JStr (bi_debug_http_url updated)),
                     (''status'', instance_status_json (bi_status updated))])
        | Inl error \<Rightarrow>
            note_event env ''instance'' ''stop'' ErrorLevel
              (''instance stop failed for '' @ instance_id @ '': '' @ error) (Some instance_id) None None
              (JObj [(''error'', JStr error)])))"

end
