(* ===== verification/BrowserEvidence.thy ===== *)
theory BrowserEvidence
  imports BrowserCaptures BrowserInstances
begin

text \<open>
  The remaining handlers of \<open>StageOneRuntime\<close> that work on shared state: native surfaces
  (with the Rust side of \<open>crates/pengu-mesh-macos/src/lib.rs\<close>; its Python bridge answers through
  \<open>browser_env\<close>), crops and checks of artifacts, capture runs and the event tail.
\<close>

section \<open>Native surfaces\<close>

fun browser_bundle_id :: "browser_channel \<Rightarrow> string" where
  "browser_bundle_id ChromeDev = ''com.google.Chrome.dev''"
| "browser_bundle_id Chrome = ''com.google.Chrome''"
| "browser_bundle_id Chromium = ''org.chromium.Chromium''"

definition attach_bundle_id :: "browser_instance \<Rightarrow> surface_descriptor list \<Rightarrow> surface_descriptor list" where
  "attach_bundle_id inst surfaces =
     map (\<lambda>s. s\<lparr>sd_bundle_id := Some (browser_bundle_id (bi_channel inst))\<rparr>) surfaces"

definition ensure_snapshot_scope :: "string option \<Rightarrow> surface_descriptor list \<Rightarrow> unit res" where
  "ensure_snapshot_scope root_surface_id surfaces =
     (case root_surface_id of
        Some root_id \<Rightarrow> (if surfaces = [] then Inl (''surface not found: '' @ root_id) else Inr ())
      | None \<Rightarrow> Inr ())"

definition ensure_focus_result :: "surface_action_request \<Rightarrow> bridge_action \<Rightarrow> unit res" where
  "ensure_focus_result request payload =
     (if rq_action request = Focus \<and> \<not> bg_target_focused payload
      then Inl (''surface action failed to focus target: '' @ unwrap_or ''ax:0'' (rq_surface_id request))
      else Inr ())"

definition macos_surface_list ::
  "browser_env \<Rightarrow> browser_instance \<Rightarrow> (browser_runtime, bridge_surfaces) oper" where
  "macos_surface_list env inst =
     and_then (perform (be_surfaces env) (ListSurfaces inst)) (\<lambda>payload.
     ret (payload\<lparr>bs_surfaces := attach_bundle_id inst (bs_surfaces payload)\<rparr>))"

definition macos_surface_snapshot ::
  "browser_env \<Rightarrow> browser_instance \<Rightarrow> string option \<Rightarrow> (browser_runtime, bridge_snapshot) oper" where
  "macos_surface_snapshot env inst root_surface_id =
     and_then (perform (be_snapshot env) (SnapshotSurfaces inst root_surface_id)) (\<lambda>payload.
     let surfaces = attach_bundle_id inst (bn_surfaces payload) in
     and_then (lift_res (ensure_snapshot_scope root_surface_id surfaces)) (\<lambda>_.
     ret (payload\<lparr>bn_surfaces := surfaces\<rparr>)))"

record surface_action_payload =
  sp_instance :: browser_instance
  sp_app_name :: string
  sp_target_surface_id :: "string option"
  sp_requested :: surface_action_request
  sp_resolved_channel :: execution_channel
  sp_interference_level :: interference_level
  sp_took_focus :: bool
  sp_fallback_count :: nat
  sp_detail :: string

definition macos_surface_action ::
  "browser_env \<Rightarrow> browser_instance \<Rightarrow> surface_action_request \<Rightarrow> (browser_runtime, surface_action_payload) oper" where
  "macos_surface_action env inst request =
     and_then (perform (be_acted env) (ActOnSurface inst request)) (\<lambda>payload.
     and_then (lift_res (ensure_focus_result request payload)) (\<lambda>_.
     ret \<lparr>sp_instance = inst, sp_app_name = bg_app_name payload, sp_target_surface_id = rq_surface_id request,
          sp_requested = request, sp_resolved_channel = bg_resolved_channel payload,
          sp_interference_level = bg_interference_level payload, sp_took_focus = bg_took_focus payload,
          sp_fallback_count = bg_fallback_count payload, sp_detail = bg_detail payload\<rparr>))"

definition capture_bytes_from_snapshot ::
  "browser_env \<Rightarrow> bridge_snapshot \<Rightarrow> (browser_runtime, string option) oper" where
  "capture_bytes_from_snapshot env result =
     (case bn_capture_path result of
        None \<Rightarrow> ret None
      | Some path \<Rightarrow>
          and_then (context_as (''read native capture '' @ path) (perform (be_bytes env) (ReadCapture path))) (\<lambda>bytes.
          attempt (perform (be_unit env) (RemoveCapture path)) (\<lambda>_. ret (Some bytes))))"

definition cleanup_snapshot_capture :: "browser_env \<Rightarrow> bridge_snapshot \<Rightarrow> (browser_runtime, unit) oper" where
  "cleanup_snapshot_capture env result =
     (case bn_capture_path result of
        None \<Rightarrow> ret ()
      | Some path \<Rightarrow> attempt (perform (be_unit env) (RemoveCapture path)) (\<lambda>_. ret ()))"

section \<open>Event data of surfaces\<close>

fun interference_level_str :: "interference_level \<Rightarrow> string" where
  "interference_level_str BackgroundSafe = ''background_safe''"
| "interference_level_str AppTakeover = ''app_takeover''"
| "interference_level_str InterferesGlobally = ''global_takeover''"

definition surface_attempt ::
  "string \<Rightarrow> string option \<Rightarrow> string option \<Rightarrow> surface_action_request option \<Rightarrow> surface_failure_attempt" where
  "surface_attempt instance_id surface_id root_surface_id request =
     \<lparr>ba_instance_id = instance_id, ba_surface_id = surface_id, ba_root_surface_id = root_surface_id,
      ba_action = map_option rq_action request,
      ba_execution_channel = (case request of None \<Rightarrow> None | Some r \<Rightarrow> rq_execution_channel r),
      ba_allow_takeover = (case request of None \<Rightarrow> None | Some r \<Rightarrow> rq_allow_takeover r)\<rparr>"

definition surface_failure_json :: "surface_failure_attempt failure_payload \<Rightarrow> json" where
  "surface_failure_json p =
     (let a = fp_attempted p
      in JObj [(''operation'', JStr (fp_operation p)),
               (''attempted'', JObj [(''instance_id'', JStr (ba_instance_id a)),
                  (''surface_id'', json_opt_str (ba_surface_id a)),
                  (''root_surface_id'', json_opt_str (ba_root_surface_id a)),
                  (''action'', json_opt (\<lambda>k. JStr (surface_action_kind_str k)) (ba_action a)),
                  (''execution_channel'', json_opt (\<lambda>c. JStr (execution_channel_str c)) (ba_execution_channel a)),
                  (''allow_takeover'', json_opt JBool (ba_allow_takeover a))]),
               (''reason'', JStr (fp_reason p)), (''recovery'', JArr (map JStr (fp_recovery p))),
               (''retry_likely'', JBool (fp_retry_likely p))])"

definition surface_failed ::
  "browser_env \<Rightarrow> string \<Rightarrow> string \<Rightarrow> string \<Rightarrow> surface_failure_attempt \<Rightarrow> error \<Rightarrow>
   (browser_runtime, runtime_event option) oper" where
  "surface_failed env operation action message attempted error =
     note_event env ''browser_surface'' action ErrorLevel message (Some (ba_instance_id attempted)) None None
       (surface_failure_json (browser_surface_failure_payload operation attempted error))"

definition instance_json :: "browser_instance \<Rightarrow> json" where
  "instance_json i =
     JObj [(''id'', JStr (bi_id i)), (''name'', JStr (bi_name i)),
           (''channel'', JStr (browser_channel_str (bi_channel i))),
           (''mode'', JStr (case bi_mode i of Managed \<Rightarrow> ''managed'' | Attached \<Rightarrow> ''attached'')),
           (''status'', instance_status_json (bi_status i)), (''debug_http_url'', JStr (bi_debug_http_url i)),
           (''browser_ws_url'', json_opt_str (bi_browser_ws_url i)), (''profile_id'', json_opt_str (bi_profile_id i)),
           (''profile_path'', json_opt_str (bi_profile_path i)), (''pid'', json_pid (bi_pid i)),
           (''last_error'', json_opt_str (bi_last_error i)), (''created_at'', JStr (bi_created_at i)),
           (''updated_at'', JStr (bi_updated_at i))]"

definition surface_json :: "surface_descriptor \<Rightarrow> json" where
  "surface_json s =
     JObj [(''id'', JStr (sd_id s)), (''parent_id'', json_opt_str (sd_parent_id s)), (''path'', JStr (sd_path s)),
           (''role'', JStr (sd_role s)), (''title'', json_opt_str (sd_title s)),
           (''description'', json_opt_str (sd_description s)), (''value'', json_opt_str (sd_value s)),
           (''window_title'', json_opt_str (sd_window_title s)), (''actions'', JArr (map JStr (sd_actions s))),
           (''focused'', JBool (sd_focused s)), (''enabled'', JBool (sd_enabled s)),
           (''app_name'', JStr (sd_app_name s)), (''bundle_id'', json_opt_str (sd_bundle_id s)),
           (''channel'', JStr (browser_channel_str (sd_channel s))), (''instance_id'', JStr (sd_instance_id s))]"

section \<open>Surface handlers\<close>

record surface_list_payload =
  sl_instance :: browser_instance
  sl_app_name :: string
  sl_surfaces :: "surface_descriptor list"

definition observed_instance ::
  "browser_env \<Rightarrow> string \<Rightarrow> string option \<Rightarrow> required_lease \<Rightarrow> string \<Rightarrow> (browser_runtime, browser_instance) oper" where
  "observed_instance env instance_id holder_id required action =
     and_then (acting_holder holder_id) (\<lambda>h.
     and_then (access env instance_id h required action) (\<lambda>_.
     the_instance env instance_id))"

definition browser_surface_list ::
  "browser_env \<Rightarrow> string \<Rightarrow> string option \<Rightarrow> (browser_runtime, surface_list_payload) oper" where
  "browser_surface_list env instance_id holder_id =
     reporting
       (and_then (observed_instance env instance_id holder_id RequireObserver ''browser_surface_list'') (\<lambda>inst.
        and_then (macos_surface_list env inst) (\<lambda>payload.
        ret \<lparr>sl_instance = inst, sl_app_name = bs_app_name payload, sl_surfaces = bs_surfaces payload\<rparr>)))
       (\<lambda>result. case result of
          Inr payload \<Rightarrow>
            note_event env ''browser_surface'' ''list'' Info
              (''listed '' @ show_nat (length (sl_surfaces payload)) @ '' native browser surfaces for '' @
               bi_id (sl_instance payload))
              (Some (bi_id (sl_instance payload))) None None
              (JObj [(''app_name'', JStr (sl_app_name payload)),
                     (''surface_count'', JNum (int (length (sl_surfaces payload))))])
        | Inl error \<Rightarrow>
            surface_failed env ''browser_surface_list'' ''list''
              (''browser surface list failed for '' @ instance_id @ '': '' @ error)
              (surface_attempt instance_id None None None) error)"

record surface_catalog =
  sc_instance :: browser_instance
  sc_app_name :: string
  sc_surface :: surface_descriptor
  sc_actions :: "action_contract list"

definition browser_surface_list_actions ::
  "browser_env \<Rightarrow> string \<Rightarrow> string \<Rightarrow> string option \<Rightarrow> (browser_runtime, surface_catalog) oper" where
  "browser_surface_list_actions env instance_id surface_id holder_id =
     reporting
       (and_then (observed_instance env instance_id holder_id RequireObserver ''browser_surface_list_actions'') (\<lambda>inst.
        and_then (macos_surface_list env inst) (\<lambda>payload.
        and_then (lift_res (ok_or (''surface not found: '' @ surface_id)
            (List.find (\<lambda>s. sd_id s = surface_id) (bs_surfaces payload)))) (\<lambda>surface.
        and_then (perform (be_host_access env) AskHostAccess) (\<lambda>host.
        ret \<lparr>sc_instance = inst, sc_app_name = bs_app_name payload, sc_surface = surface,
             sc_actions = surface_action_contracts surface host\<rparr>)))))
       (\<lambda>result. case result of
          Inr payload \<Rightarrow>
            note_event env ''browser_surface'' ''list_actions'' Info
              (''listed '' @ show_nat (length (sc_actions payload)) @ '' action contracts for '' @
               sd_id (sc_surface payload))
              (Some (bi_id (sc_instance payload))) None None
              (JObj [(''surface_id'', JStr (sd_id (sc_surface payload))),
                     (''surface_role'', JStr (sd_role (sc_surface payload))),
                     (''action_count'', JNum (int (length (sc_actions payload))))])
        | Inl error \<Rightarrow>
            surface_failed env ''browser_surface_list_actions'' ''list_actions''
              (''browser surface list-actions failed for '' @ instance_id @ '': '' @ error)
              (surface_attempt instance_id (Some surface_id) None None) error)"

record surface_snapshot =
  ss_instance :: browser_instance
  ss_app_name :: string
  ss_root_surface_id :: "string option"
  ss_snapshot_artifact :: artifact_handle
  ss_capture_artifact :: "artifact_handle option"
  ss_capture_source :: "string option"
  ss_capture_detail :: "string option"
  ss_surfaces :: "surface_descriptor list"

definition snapshot_body_json :: "browser_instance \<Rightarrow> string option \<Rightarrow> bridge_snapshot \<Rightarrow> json" where
  "snapshot_body_json inst root_id native =
     JObj [(''instance'', instance_json inst), (''app_name'', JStr (bn_app_name native)),
           (''root_surface_id'', json_opt_str root_id), (''capture_source'', json_opt_str (bn_capture_source native)),
           (''capture_detail'', json_opt_str (bn_capture_detail native)),
           (''surfaces'', JArr (map surface_json (bn_surfaces native)))]"

definition surface_snapshot_body ::
  "browser_env \<Rightarrow> string \<Rightarrow> string option \<Rightarrow> string option \<Rightarrow> (browser_runtime, surface_snapshot) oper" where
  "surface_snapshot_body env instance_id root_id holder_id =
     and_then (observed_instance env instance_id holder_id RequireObserver ''browser_surface_snapshot'') (\<lambda>inst.
     and_then (macos_surface_snapshot env inst root_id) (\<lambda>native.
     let scope_id = native_surface_scope_id root_id in
     and_then current_run_id (\<lambda>run.
     and_then (stored (write_text (be_artifacts env) ArtSnapshot run instance_id scope_id
         (be_pretty env (snapshot_body_json inst root_id native)))) (\<lambda>snapshot_artifact.
     attempt (capture_bytes_from_snapshot env native) (\<lambda>captured.
     and_then
       (case captured of
          Inr (Some bytes) \<Rightarrow>
            and_then current_run_id (\<lambda>run.
            and_then (stored (write_bytes (be_artifacts env) ArtScreenshot run instance_id scope_id bytes)) (\<lambda>artifact.
            ret (Some artifact)))
        | Inr None \<Rightarrow> ret None
        | Inl error \<Rightarrow> and_then (cleanup_snapshot_capture env native) (\<lambda>_. fail error)) (\<lambda>capture_artifact.
     ret \<lparr>ss_instance = inst, ss_app_name = bn_app_name native, ss_root_surface_id = root_id,
          ss_snapshot_artifact = snapshot_artifact, ss_capture_artifact = capture_artifact,
          ss_capture_source = bn_capture_source native, ss_capture_detail = bn_capture_detail native,
          ss_surfaces = bn_surfaces native\<rparr>))))))"

definition browser_surface_snapshot ::
  "browser_env \<Rightarrow> string \<Rightarrow> string option \<Rightarrow> string option \<Rightarrow> (browser_runtime, surface_snapshot) oper" where
  "browser_surface_snapshot env instance_id root_id holder_id =
     reporting (surface_snapshot_body env instance_id root_id holder_id)
       (\<lambda>result. case result of
          Inr payload \<Rightarrow>
            note_event env ''browser_surface'' ''snapshot'' Info
              (''captured native browser surface snapshot for '' @ bi_id (ss_instance payload))
              (Some (bi_id (ss_instance payload))) (Some (ah_tab_id (ss_snapshot_artifact payload)))
              (Some (ah_id (ss_snapshot_artifact payload)))
              (merge_artifact_data (ss_snapshot_artifact payload)
                (JObj [(''root_surface_id'', json_opt_str (ss_root_surface_id payload)),
                       (''surface_count'', JNum (int (length (ss_surfaces payload)))),
                       (''capture_source'', json_opt_str (ss_capture_source payload)),
                       (''capture_detail'', json_opt_str (ss_capture_detail payload)),
                       (''capture_artifact_id'', json_opt (\<lambda>a. JStr (ah_id a)) (ss_capture_artifact payload))]))
        | Inl error \<Rightarrow>
            surface_failed env ''browser_surface_snapshot'' ''snapshot''
              (''browser surface snapshot failed for '' @ instance_id @ '': '' @ error)
              (surface_attempt instance_id None root_id None) error)"

definition browser_surface_action ::
  "browser_env \<Rightarrow> string \<Rightarrow> surface_action_request \<Rightarrow> string option \<Rightarrow> (browser_runtime, surface_action_payload) oper" where
  "browser_surface_action env instance_id request holder_id =
     reporting
       (and_then (observed_instance env instance_id holder_id RequireWriter ''browser_surface_action'') (\<lambda>inst.
        and_then (lift_res (if surface_action_requires_grant request
            then require_capability_allowed (be_capability_grants env) ''browser_surface_action'' else Inr ())) (\<lambda>_.
        macos_surface_action env inst request)))
       (\<lambda>result. case result of
          Inr payload \<Rightarrow>
            note_event env ''browser_surface'' (surface_action_kind_str (rq_action (sp_requested payload))) Info
              (''executed native browser surface action '' @
               surface_action_kind_str (rq_action (sp_requested payload)) @ '' on '' @ bi_id (sp_instance payload))
              (Some (bi_id (sp_instance payload))) None None
              (JObj [(''app_name'', JStr (sp_app_name payload)),
                     (''target_surface_id'', json_opt_str (sp_target_surface_id payload)),
                     (''resolved_channel'', JStr (execution_channel_str (sp_resolved_channel payload))),
                     (''interference_level'', JStr (interference_level_str (sp_interference_level payload))),
                     (''took_focus'', JBool (sp_took_focus payload)),
                     (''fallback_count'', JNum (int (sp_fallback_count payload))),
                     (''detail'', JStr (sp_detail payload))])
        | Inl error \<Rightarrow>
            surface_failed env ''browser_surface_action'' (surface_action_kind_str (rq_action request))
              (''browser surface action failed for '' @ instance_id @ '': '' @ error)
              (surface_attempt instance_id (rq_surface_id request) None (Some request)) error)"

end
