(* ===== verification/BrowserRuns.thy ===== *)
theory BrowserRuns
  imports BrowserEvidence ScenarioGate
begin

text \<open>
  Crops and checks of stored artifacts, capture runs and the event tail, and the start of a runtime
  with what it recovers from the process before it (\<open>crates/pengu-mesh-core/src/lib.rs\<close>).
\<close>

section \<open>Crops\<close>

definition artifact_handle_of :: "string \<Rightarrow> (browser_runtime, artifact_handle) oper" where
  "artifact_handle_of aid =
     and_then (gets (\<lambda>s. get_artifact aid (br_artifacts s))) (\<lambda>found.
     lift_res (ok_or (''unknown artifact '' @ aid) found))"

text \<open>The common head of the two crop handlers.\<close>

definition crop_access ::
  "browser_env \<Rightarrow> string \<Rightarrow> 32 word option \<Rightarrow> string option \<Rightarrow> string \<Rightarrow> (browser_runtime, artifact_handle) oper" where
  "crop_access env aid page_index holder_id action =
     and_then (acting_holder holder_id) (\<lambda>h.
     and_then (artifact_handle_of aid) (\<lambda>source.
     and_then (access env (ah_instance_id source) h RequireObserver action) (\<lambda>_.
     and_then (ensure (\<not> (ah_kind source \<noteq> ArtPdf \<and> page_index \<noteq> None))
         ''page_index is only valid for pdf artifacts'') (\<lambda>_.
     ret source))))"

record crop_payload =
  cp_source_artifact :: artifact_handle
  cp_artifact :: artifact_handle
  cp_crop_region :: normalized_region
  cp_page_index :: "32 word option"

definition artifact_crop ::
  "browser_env \<Rightarrow> string \<Rightarrow> normalized_region \<Rightarrow> 32 word option \<Rightarrow> string option \<Rightarrow>
   (browser_runtime, crop_payload) oper" where
  "artifact_crop env aid region page_index holder_id =
     reporting
       (and_then (crop_access env aid page_index holder_id ''artifact_crop'') (\<lambda>source.
        and_then current_run_id (\<lambda>run.
        and_then (stored (crop_artifact (be_artifacts env) source run region page_index)) (\<lambda>artifact.
        ret \<lparr>cp_source_artifact = source, cp_artifact = artifact, cp_crop_region = region,
             cp_page_index = page_index\<rparr>))))
       (\<lambda>result. case result of
          Inr payload \<Rightarrow>
            note_event env ''artifact'' ''crop'' Info
              (''created derived crop from '' @ ah_id (cp_source_artifact payload))
              (Some (ah_instance_id (cp_artifact payload))) (Some (ah_tab_id (cp_artifact payload)))
              (Some (ah_id (cp_artifact payload)))
              (merge_artifact_data (cp_artifact payload)
                (JObj [(''source_artifact_id'', JStr (ah_id (cp_source_artifact payload))),
                       (''crop_region'', region_json (cp_crop_region payload)),
                       (''page_index'', page_json (cp_page_index payload))]))
        | Inl error \<Rightarrow>
            note_event env ''artifact'' ''crop'' ErrorLevel (''artifact crop failed for '' @ aid @ '': '' @ error)
              None None None
              (JObj [(''artifact_id'', JStr aid), (''page_index'', page_json page_index),
                     (''crop_region'', region_json region), (''error'', JStr error)]))"

fun put_artifacts :: "artifact_handle list \<Rightarrow> (browser_runtime, unit) oper" where
  "put_artifacts [] = ret ()"
| "put_artifacts (a # as) = and_then (put_artifact a) (\<lambda>_. put_artifacts as)"

record crop_grid_payload =
  cg_source_artifact :: artifact_handle
  cg_artifacts :: "(normalized_region \<times> artifact_handle) list"
  cg_rows :: "16 word"
  cg_cols :: "16 word"
  cg_overlap :: "16 word"
  cg_page_index :: "32 word option"

definition artifact_crop_grid ::
  "browser_env \<Rightarrow> string \<Rightarrow> 16 word \<Rightarrow> 16 word \<Rightarrow> 16 word \<Rightarrow> 32 word option \<Rightarrow> string option \<Rightarrow>
   (browser_runtime, crop_grid_payload) oper" where
  "artifact_crop_grid env aid rows cols overlap page_index holder_id =
     reporting
       (and_then (crop_access env aid page_index holder_id ''artifact_crop_grid'') (\<lambda>source.
        and_then (lift_res (batch_grid_regions rows cols overlap)) (\<lambda>regions.
        and_then current_run_id (\<lambda>run.
        and_then (disk_op (crop_artifact_many (be_artifacts env) source run regions page_index)) (\<lambda>handles.
        and_then (put_artifacts (map snd (zip regions handles))) (\<lambda>_.
        ret \<lparr>cg_source_artifact = source, cg_artifacts = zip regions handles, cg_rows = rows, cg_cols = cols,
             cg_overlap = overlap, cg_page_index = page_index\<rparr>))))))
       (\<lambda>result. case result of
          Inr payload \<Rightarrow>
            note_event env ''artifact'' ''crop_grid'' Info
              (''created '' @ show_nat (length (cg_artifacts payload)) @ '' derived grid crops from '' @
               ah_id (cg_source_artifact payload))
              (Some (ah_instance_id (cg_source_artifact payload))) (Some (ah_tab_id (cg_source_artifact payload))) None
              (JObj [(''source_artifact_id'', JStr (ah_id (cg_source_artifact payload))),
                     (''rows'', JNum (uint (cg_rows payload))), (''cols'', JNum (uint (cg_cols payload))),
                     (''overlap'', JNum (uint (cg_overlap payload))),
                     (''page_index'', page_json (cg_page_index payload)),
                     (''derived_count'', JNum (int (length (cg_artifacts payload)))),
                     (''derived_artifact_ids'', JArr (map (\<lambda>(r, a). JStr (ah_id a)) (cg_artifacts payload)))])
        | Inl error \<Rightarrow>
            note_event env ''artifact'' ''crop_grid'' ErrorLevel
              (''artifact crop grid failed for '' @ aid @ '': '' @ error) None None None
              (JObj [(''artifact_id'', JStr aid), (''rows'', JNum (uint rows)), (''cols'', JNum (uint cols)),
                     (''overlap'', JNum (uint overlap)), (''page_index'', page_json page_index),
                     (''error'', JStr error)]))"

section \<open>Looking at artifacts\<close>

record artifact_list_entry =
  al_id :: string
  al_kind :: artifact_kind
  al_path :: string
  al_sha256 :: "string option"
  al_size_bytes :: "64 word"
  al_created_at :: string

definition artifact_list_entry_of :: "artifact_handle \<Rightarrow> artifact_list_entry" where
  "artifact_list_entry_of a =
     \<lparr>al_id = ah_id a, al_kind = ah_kind a, al_path = ah_path a, al_sha256 = ah_checksum_sha256 a,
      al_size_bytes = ah_bytes a, al_created_at = ah_created_at a\<rparr>"

definition artifact_list ::
  "string option \<Rightarrow> string option \<Rightarrow> (browser_runtime, artifact_list_entry list) oper" where
  "artifact_list instance_id run_id =
     gets (\<lambda>s. map artifact_list_entry_of (list_artifacts instance_id run_id (br_artifacts s)))"

record artifact_verify_payload =
  av_id :: string
  av_path :: string
  av_expected_sha256 :: "string option"
  av_actual_sha256 :: string
  av_valid :: bool

text \<open>\<open>sha256_path\<close>: the digest of the whole file, read in pieces.\<close>

definition sha256_path :: "artifact_env \<Rightarrow> string \<Rightarrow> (artifact_disk, string) oper" where
  "sha256_path env path =
     and_then (context_as (''open '' @ path) (fs_read env path)) (\<lambda>content.
     ret (ae_sha256 env content))"

definition artifact_verify :: "browser_env \<Rightarrow> string \<Rightarrow> (browser_runtime, artifact_verify_payload) oper" where
  "artifact_verify env aid =
     and_then (artifact_handle_of aid) (\<lambda>artifact.
     and_then (ensure (ah_checksum_sha256 artifact \<noteq> None)
         (''artifact '' @ aid @ '' is missing stored sha256 metadata'')) (\<lambda>_.
     and_then (disk_op (sha256_path (be_artifacts env) (ah_path artifact))) (\<lambda>actual.
     ret \<lparr>av_id = ah_id artifact, av_path = ah_path artifact, av_expected_sha256 = ah_checksum_sha256 artifact,
          av_actual_sha256 = actual, av_valid = (ah_checksum_sha256 artifact = Some actual)\<rparr>)))"

section \<open>Capture runs and the event tail\<close>

definition set_capture_run :: "capture_run \<Rightarrow> (browser_runtime, unit) oper" where
  "set_capture_run run = core_op (modify (\<lambda>c. c\<lparr>rt_capture_run := run\<rparr>))"

definition store_create_run :: "browser_env \<Rightarrow> string \<Rightarrow> string \<Rightarrow> (browser_runtime, capture_run) oper" where
  "store_create_run env entrypoint detail =
     and_then (core_op (unique_suffix (be_core env))) (\<lambda>sfx.
     and_then (clock_now env) (\<lambda>time s.
       case create_run entrypoint detail (be_pid env) sfx time (br_runs s) of
         Inl e \<Rightarrow> (Inl e, s)
       | Inr (run, runs) \<Rightarrow> (Inr run, s\<lparr>br_runs := runs\<rparr>)))"

definition capture_event :: "browser_env \<Rightarrow> string \<Rightarrow> string \<Rightarrow> string \<Rightarrow> (browser_runtime, runtime_event option) oper" where
  "capture_event env action message run_id =
     note_event env ''capture'' action Info message None None None (JObj [(''run_id'', JStr run_id)])"

definition capture_start_recording :: "browser_env \<Rightarrow> (browser_runtime, capture_run) oper" where
  "capture_start_recording env =
     and_then (gets (\<lambda>s. rt_capture_run (br_core s))) (\<lambda>current.
     if cr_status current = RunActive then
       and_then (capture_event env ''start'' ''capture recording already active'' (cr_id current)) (\<lambda>_. ret current)
     else
       and_then (gets (\<lambda>s. rt_entrypoint (br_core s))) (\<lambda>entrypoint.
       and_then (store_create_run env entrypoint ''capture recording active'') (\<lambda>run.
       and_then (set_capture_run run) (\<lambda>_.
       and_then (capture_event env ''start'' ''capture recording started'' (cr_id run)) (\<lambda>_.
       ret run)))))"

definition store_complete_run :: "browser_env \<Rightarrow> string \<Rightarrow> string \<Rightarrow> (browser_runtime, capture_run option) oper" where
  "store_complete_run env run_id detail =
     and_then (clock_now env) (\<lambda>time s.
       case complete_run run_id (Some detail) time (br_runs s) of (run, runs) \<Rightarrow> (Inr run, s\<lparr>br_runs := runs\<rparr>))"

definition capture_stop_recording :: "browser_env \<Rightarrow> (browser_runtime, capture_run) oper" where
  "capture_stop_recording env =
     and_then (gets (\<lambda>s. rt_capture_run (br_core s))) (\<lambda>current.
     if cr_status current = RunCompleted then ret current
     else
       and_then (capture_event env ''stop'' ''capture recording stopped'' (cr_id current)) (\<lambda>_.
       and_then (store_complete_run env (cr_id current) ''capture recording stopped'') (\<lambda>found.
       let completed = unwrap_or current found in
       and_then (set_capture_run completed) (\<lambda>_.
       ret completed))))"

record event_tail_payload =
  et_run :: "capture_run option"
  et_requested_limit :: nat
  et_events :: "runtime_event list"

definition events_tail :: "string option \<Rightarrow> nat \<Rightarrow> (browser_runtime, event_tail_payload) oper" where
  "events_tail run_id limit =
     (let limit = clamp 1 200 limit in
      and_then (gets (\<lambda>s. unwrap_or (cr_id (rt_capture_run (br_core s))) run_id)) (\<lambda>selected.
      and_then (gets (\<lambda>s. get_run selected (br_runs s))) (\<lambda>run.
      and_then (ensure (\<not> (run_id \<noteq> None \<and> run = None)) (''unknown run '' @ selected)) (\<lambda>_.
      and_then (gets (\<lambda>s. tail_events (Some selected) (of_nat limit) (rt_events (br_core s)))) (\<lambda>events.
      ret \<lparr>et_run = run, et_requested_limit = limit, et_events = events\<rparr>)))))"

definition run_list :: "nat \<Rightarrow> (browser_runtime, nat \<times> capture_run list) oper" where
  "run_list limit =
     (let limit = clamp 1 200 limit in
      and_then (gets (\<lambda>s. list_runs (of_nat limit) (br_runs s))) (\<lambda>runs.
      ret (limit, runs)))"

section \<open>Starting a runtime\<close>

definition continuity_enabled :: "string \<Rightarrow> bool" where
  "continuity_enabled entrypoint \<longleftrightarrow> entrypoint = ''pengu-mesh-daemon''"

definition boot_operator :: "browser_env \<Rightarrow> string \<Rightarrow> (browser_runtime, string \<times> bool) oper" where
  "boot_operator env entrypoint =
     (if continuity_enabled entrypoint then
        and_then (clock_now env) (\<lambda>time s.
          case get_or_create_runtime_identity entrypoint time (br_identities s) of
            Inl e \<Rightarrow> (Inl e, s)
          | Inr ((identity, reused), ids) \<Rightarrow>
              (Inr (ri_operator_id identity, reused), s\<lparr>br_identities := ids\<rparr>))
      else ret (entrypoint @ '':pid:'' @ show_nat (be_pid env), False))"

definition boot_run :: "browser_env \<Rightarrow> string \<Rightarrow> (browser_runtime, capture_run \<times> bool) oper" where
  "boot_run env entrypoint =
     (let create = and_then (store_create_run env entrypoint ''capture recording active'') (\<lambda>run. ret (run, False))
      in if continuity_enabled entrypoint then
           and_then (gets (\<lambda>s. latest_active_run entrypoint (br_runs s))) (\<lambda>found.
           case found of Some run \<Rightarrow> ret (run, True) | None \<Rightarrow> create)
         else create)"

definition list_own_leases :: "browser_env \<Rightarrow> string \<Rightarrow> (browser_runtime, lease_record list) oper" where
  "list_own_leases env time =
     gets (\<lambda>s. list_active_leases_for_holder (rt_operator_id (br_core s)) time (rt_leases (br_core s)))"

text \<open>What the leases that survived tell about the instances: only those the operator still holds a
  lease on count as recovered or stale.\<close>

definition bootstrap_continuity :: "browser_env \<Rightarrow> (browser_runtime, continuity_status) oper" where
  "bootstrap_continuity env =
     and_then (gets (\<lambda>s. (continuity_enabled (rt_entrypoint (br_core s)), br_continuity s, rt_capture_run (br_core s))))
       (\<lambda>(enabled, current, capture_run).
     and_then (clock_now env) (\<lambda>time.
     and_then (core_op (store_prune time)) (\<lambda>_.
     and_then (if enabled then list_own_leases env time else ret []) (\<lambda>recovered.
     and_then (core_op (refresh_instances (be_core env))) (\<lambda>refreshed.
     let candidates = set (map lr_resource_id recovered);
         stale = filter (\<lambda>i. bi_id i \<in> candidates \<and> bi_status i \<in> {StatusClosed, StatusError}) refreshed;
         live = filter (\<lambda>i. bi_id i \<in> candidates \<and> bi_status i \<in> {StatusRunning, StatusAttached}) refreshed
     in ret \<lparr>cs_continuity_enabled = enabled,
             cs_recovered_run = (cr_status capture_run = RunActive \<and> cs_recovered_run current),
             cs_reused_operator_id = cs_reused_operator_id current,
             cs_recovered_run_id = (if cs_recovered_run current then Some (cr_id capture_run) else None),
             cs_recovered_lease_count = length recovered, cs_recovered_instance_count = length live,
             cs_stale_instance_count = length stale, cs_stale_instance_ids = map bi_id stale\<rparr>)))))"

definition continuity_json :: "continuity_status \<Rightarrow> json" where
  "continuity_json c =
     JObj [(''continuity_enabled'', JBool (cs_continuity_enabled c)),
           (''recovered_run'', JBool (cs_recovered_run c)),
           (''reused_operator_id'', JBool (cs_reused_operator_id c)),
           (''recovered_run_id'', json_opt_str (cs_recovered_run_id c)),
           (''recovered_lease_count'', JNum (int (cs_recovered_lease_count c))),
           (''recovered_instance_count'', JNum (int (cs_recovered_instance_count c))),
           (''stale_instance_count'', JNum (int (cs_stale_instance_count c))),
           (''stale_instance_ids'', JArr (map JStr (cs_stale_instance_ids c)))]"

text \<open>\<open>new_in_root\<close> on the stored tables: the fields of the process are set before the profiles and
  the continuity are computed.\<close>

definition boot :: "browser_env \<Rightarrow> string \<Rightarrow> (browser_runtime, unit) oper" where
  "boot env entrypoint =
     and_then (disk_op (artifact_store_new (be_artifacts env))) (\<lambda>_.
     and_then (modify (\<lambda>s. s\<lparr>br_attach := unwrap_or attach_continuity_default (get_attach_continuity (br_attach_row s))\<rparr>)) (\<lambda>_.
     and_then (boot_operator env entrypoint) (\<lambda>(operator_id, reused).
     and_then (boot_run env entrypoint) (\<lambda>(run, recovered_run).
     and_then (core_op (modify (\<lambda>c. c\<lparr>rt_operator_id := operator_id, rt_entrypoint := entrypoint,
         rt_capture_run := run\<rparr>))) (\<lambda>_.
     and_then (modify (\<lambda>s. s\<lparr>br_continuity :=
         \<lparr>cs_continuity_enabled = continuity_enabled entrypoint, cs_recovered_run = recovered_run,
          cs_reused_operator_id = reused, cs_recovered_run_id = None, cs_recovered_lease_count = 0,
          cs_recovered_instance_count = 0, cs_stale_instance_count = 0, cs_stale_instance_ids = []\<rparr>\<rparr>)) (\<lambda>_.
     and_then (ensure_default_profiles env) (\<lambda>_.
     and_then (bootstrap_continuity env) (\<lambda>continuity.
     and_then (modify (\<lambda>s. s\<lparr>br_continuity := continuity\<rparr>)) (\<lambda>_.
     and_then (note_event env ''runtime''
         (if cs_recovered_run continuity \<or> cs_recovered_lease_count continuity > 0
          then ''bootstrap_recovered'' else ''bootstrap'') Info (entrypoint @ '' runtime ready'') None None None
         (JObj [(''entrypoint'', JStr entrypoint), (''runtime_root'', JStr (be_root_dir env)),
                (''operator_id'', JStr operator_id), (''continuity'', continuity_json continuity)])) (\<lambda>_.
     ret ()))))))))))"

end
