(* ===== verification/BrowserInv.thy ===== *)
theory BrowserInv
  imports BrowserRuns
begin

text \<open>
  What every handler of the runtime keeps: the invariant of the lease runtime, the keys of the other
  tables, and the agreement of the capture run in memory with the stored one. The proofs go through
  one rule per operation, collected in \<open>browser_steps\<close>.
\<close>

section \<open>The invariant\<close>

definition run_stored :: "browser_runtime \<Rightarrow> bool" where
  "run_stored s \<longleftrightarrow> get_run (cr_id (rt_capture_run (br_core s))) (br_runs s) = Some (rt_capture_run (br_core s))"

definition tables_inv :: "browser_runtime \<Rightarrow> bool" where
  "tables_inv s \<longleftrightarrow> core_inv (br_core s) \<and> unique_by bi_id (rt_instances (br_core s)) \<and>
     unique_by bt_id (br_tabs s) \<and> unique_by ah_id (br_artifacts s) \<and> unique_by mp_id (br_profiles s) \<and>
     unique_by cr_id (br_runs s)"

definition browser_inv :: "browser_runtime \<Rightarrow> bool" where
  "browser_inv s \<longleftrightarrow> tables_inv s \<and> run_stored s"

text \<open>What outlasts the process and what only the two capture handlers change: the run, the operator
  and the entrypoint in memory, the stored runs and identities.\<close>

definition lasting ::
  "browser_runtime \<Rightarrow> capture_run \<times> string \<times> string \<times> run_table \<times> runtime_identity list" where
  "lasting s = (rt_capture_run (br_core s), rt_operator_id (br_core s), rt_entrypoint (br_core s), br_runs s,
     br_identities s)"

definition steady ::
  "capture_run \<times> string \<times> string \<times> run_table \<times> runtime_identity list \<Rightarrow> browser_runtime \<Rightarrow> bool" where
  "steady x s \<longleftrightarrow> browser_inv s \<and> lasting s = x"

lemma steady_browser:
  assumes "\<And>x. preserves (steady x) m"
  shows "preserves browser_inv m"
  using assms [unfolded preserves_def steady_def] by (auto simp: preserves_def)

named_theorems browser_steps

text \<open>Operations on the lease runtime: they keep its own invariant and the key of the instances, and
  leave the capture run, the operator and the entrypoint alone.\<close>

definition keeps :: "runtime \<Rightarrow> runtime \<Rightarrow> bool" where
  "keeps old c \<longleftrightarrow> unique_by bi_id (rt_instances c) \<and> rt_capture_run c = rt_capture_run old \<and>
     rt_operator_id c = rt_operator_id old \<and> rt_entrypoint c = rt_entrypoint old"

definition core_step :: "(runtime, 'a) oper \<Rightarrow> bool" where
  "core_step m \<longleftrightarrow> preserves core_inv m \<and> (\<forall>run. preserves (keeps run) m)"

lemma core_stepI:
  "preserves core_inv m \<Longrightarrow> (\<And>run. preserves (keeps run) m) \<Longrightarrow> core_step m"
  by (simp add: core_step_def)

lemma inv_core_op [browser_steps]: "core_step m \<Longrightarrow> preserves (steady x) (core_op m)"
proof -
  assume m: "core_step m"
  have "steady x (snd (core_op m s))" if inv: "steady x s" for s
  proof -
    obtain r c where mc: "m (br_core s) = (r, c)" by fastforce
    have keep: "Q c" if q: "preserves Q m" "Q (br_core s)" for Q
      using q(1) [unfolded preserves_def, rule_format, OF q(2)] mc by simp
    have "core_inv c" using m inv keep [of core_inv] by (simp add: core_step_def steady_def lasting_def browser_inv_def tables_inv_def)
    moreover have "keeps (br_core s) c"
      using m inv keep [of "keeps (br_core s)"]
      by (simp add: core_step_def steady_def lasting_def browser_inv_def tables_inv_def keeps_def)
    ultimately show ?thesis using inv by (simp add: core_op_def mc steady_def lasting_def browser_inv_def tables_inv_def run_stored_def keeps_def)
  qed
  then show ?thesis by (simp add: preserves_def)
qed

subsection \<open>Every operation of the lease runtime is such a step\<close>

named_theorems keep_rules

lemma keeps_primitives [keep_rules]:
  "preserves (keeps run) (utc_timestamp env)" "preserves (keeps run) (unique_suffix env)"
  "preserves (keeps run) (probe env inst)" "preserves (keeps run) (store_prune t)"
  "preserves (keeps run) (store_delete i h m)" "preserves (keeps run) (store_upsert_instance inst)"
  by (auto simp: preserves_def keeps_def utc_timestamp_def unique_suffix_def probe_def store_prune_def
      store_delete_def store_upsert_instance_def modify_def intro: instances.inv_put split: prod.splits)

lemma keeps_results [keep_rules]:
  "preserves (keeps run) (store_append_event r c a l m i t f d time sfx)"
  "preserves (keeps run) (store_acquire lease time)" "preserves (keeps run) (store_transfer j from lease time)"
  by (auto simp: preserves_def keeps_def store_append_event_def store_acquire_def store_transfer_def
      split: sum.splits prod.splits)

lemma keeps_record_event [keep_rules]: "preserves (keeps run) (record_event env c a l m i t f d)"
  unfolding record_event_def by (intro preserves_intros keep_rules)

lemma keeps_refresh_one [keep_rules]: "preserves (keeps run) (refresh_one env inst)"
  unfolding refresh_one_def Let_def by (intro preserves_intros keep_rules)

lemma keeps_refresh_loop [keep_rules]: "preserves (keeps run) (refresh_loop env insts)"
  by (induction insts) (auto intro!: preserves_intros keep_rules)

lemma keeps_instances [keep_rules]:
  "preserves (keeps run) (refresh_instances env)" "preserves (keeps run) (require_instance env i)"
  unfolding require_instance_def refresh_instances_def by (intro preserves_intros keep_rules)+

lemma keeps_leases [keep_rules]:
  "preserves (keeps run) (active_leases env oi)" "preserves (keeps run) (build_instance_lease env i h lbl m ttl)"
  unfolding active_leases_def build_instance_lease_def by (intro preserves_intros keep_rules)+

lemma keeps_handlers [keep_rules]:
  "preserves (keeps run) (lease_acquire env i h lbl m ttl)" "preserves (keeps run) (lease_release env i h rm)"
  unfolding lease_acquire_def lease_acquire_body_def lease_release_def lease_release_body_def
  by (intro preserves_intros keep_rules)+

lemma keeps_transfer [keep_rules]:
  "preserves (keeps run) (lease_transfer env i a b lbl ttl)" "preserves (keeps run) (lease_status env oi)"
  unfolding lease_transfer_def lease_transfer_body_def lease_status_def
  by (intro preserves_intros keep_rules)+

lemma keeps_access [keep_rules]: "preserves (keeps run) (require_instance_access env i h req action)"
  unfolding require_instance_access_def refuse_or_grant_def auto_acquire_def lease_conflict_def
  by (intro preserves_intros keep_rules)

lemma core_refresh_instances: "preserves core_inv (refresh_instances env)"
  unfolding refresh_instances_def by (intro preserves_intros core_refresh_loop)

lemma core_step_ops [browser_steps]:
  "core_step (utc_timestamp env)" "core_step (unique_suffix env)"
  "core_step (record_event env c a l m i t f d)" "core_step (store_upsert_instance inst)"
  "core_step (refresh_instances env)" "core_step (require_instance env j)" "core_step (store_prune time)"
  "core_step (lease_acquire env j h lbl md ttl)" "core_step (lease_release env j h rm)"
  "core_step (require_instance_access env j h req action)"
  "core_step (lease_transfer env j a b lbl ttl)" "core_step (lease_status env oi)"
  by (rule core_stepI; intro core_steps core_refresh_instances core_lease_acquire core_lease_release core_lease_transfer core_lease_status
      core_require_access keep_rules)+

section \<open>The other operations\<close>

lemma inv_disk_op [browser_steps]: "preserves (steady x) (disk_op m)"
  by (auto simp: preserves_def disk_op_def steady_def lasting_def browser_inv_def tables_inv_def run_stored_def split: prod.splits)

lemma inv_perform [browser_steps]: "preserves (steady x) (perform f e)"
  by (simp add: preserves_def perform_def steady_def lasting_def browser_inv_def tables_inv_def run_stored_def Let_def)

lemma inv_put_artifact [browser_steps]: "preserves (steady x) (put_artifact a)"
  by (simp add: preserves_def put_artifact_def modify_def steady_def lasting_def browser_inv_def tables_inv_def run_stored_def artifacts.inv_put)

lemma inv_put_profile [browser_steps]: "preserves (steady x) (put_profile p)"
  by (simp add: preserves_def put_profile_def modify_def steady_def lasting_def browser_inv_def tables_inv_def run_stored_def upsert_profile_def
      unique_by_upsert)

lemma unique_replace_tabs: "replace_tabs i tabs rows = Inr rows' \<Longrightarrow> unique_by bt_id rows \<Longrightarrow> unique_by bt_id rows'"
  by (auto simp: replace_tabs_def insert_tabs_ok_iff unique_by_def sql_delete_def distinct_map_filter)

lemma inv_replace_tabs [browser_steps]: "preserves (steady x) (store_replace_tabs i tabs)"
  by (auto simp: preserves_def store_replace_tabs_def steady_def lasting_def browser_inv_def tables_inv_def run_stored_def split: sum.splits
      dest: unique_replace_tabs)

lemma inv_attach [browser_steps]: "preserves (steady x) (update_attach_continuity status)"
  by (simp add: preserves_def update_attach_continuity_def modify_def steady_def lasting_def browser_inv_def tables_inv_def run_stored_def)

lemma inv_reporting [browser_steps]:
  "preserves (steady x) m \<Longrightarrow> (\<And>r. preserves (steady x) (f r)) \<Longrightarrow> preserves (steady x) (reporting m f)"
  unfolding reporting_def by (intro preserves_intros)

lemma preserves_case_prod [preserves_intros]:
  "(\<And>a b. preserves P (f a b)) \<Longrightarrow> preserves P (case p of (a, b) \<Rightarrow> f a b)"
  by (cases p) simp

lemma inv_context_as [browser_steps]: "preserves P m \<Longrightarrow> preserves P (context_as e m)"
  unfolding context_as_def by (intro preserves_intros)

lemma inv_note_event [browser_steps]: "preserves (steady x) (note_event env c a l m i t f d)"
  unfolding note_event_def by (intro browser_steps)

lemma inv_reads [browser_steps]:
  "preserves (steady x) (clock_now env)" "preserves (steady x) (acting_holder h)"
  "preserves (steady x) (access env i holder req action)" "preserves (steady x) (the_instance env i)"
  "preserves (steady x) (require_tab t)" "preserves (steady x) current_run_id"
  "preserves (steady x) (put_instance inst)" "preserves (steady x) (artifact_handle_of aid)"
  unfolding clock_now_def acting_holder_def access_def the_instance_def require_tab_def current_run_id_def
    put_instance_def artifact_handle_of_def
  by (intro preserves_intros browser_steps)+

lemma inv_tabs [browser_steps]:
  "preserves (steady x) (list_targets env host port)" "preserves (steady x) (live_tabs_for_instance env inst)"
  "preserves (steady x) (sync_tabs env i)" "preserves (steady x) (connect_tab_session env t)"
  "preserves (steady x) (version_from_cdp_url env u)"
  unfolding list_targets_def live_tabs_for_instance_def sync_tabs_def connect_tab_session_def version_from_cdp_url_def
  by (intro preserves_intros browser_steps)+

section \<open>The handlers\<close>

lemma inv_stored [browser_steps]: "preserves (steady x) (stored write)"
  unfolding stored_def by (intro preserves_intros browser_steps)

lemma inv_shared_heads [browser_steps]:
  "preserves (steady x) (observed_session env t h action)" "preserves (steady x) (capture_failed env action msg t es)"
  "preserves (steady x) (record_artifact_event env c action msg tab art d)"
  "preserves (steady x) (observed_instance env i h req action)" "preserves (steady x) (own_writer_lease env i hid)"
  "preserves (steady x) (ensure_profile env ch)" "preserves (steady x) (crop_access env aid page h action)"
  unfolding observed_session_def capture_failed_def record_artifact_event_def observed_instance_def
    own_writer_lease_def ensure_profile_def crop_access_def Let_def
  by (intro preserves_intros browser_steps)+

lemma inv_perform_tab_action [browser_steps]: "preserves (steady x) (perform_tab_action env session tab request)"
  by (cases "tq_kind request") (simp_all add: perform_tab_action_def, (intro preserves_intros browser_steps)+)

lemma inv_tab_handlers:
  "preserves (steady x) (list_tabs_of env i h)" "preserves (steady x) (tab_list_actions env i t h)"
  "preserves (steady x) (open_tab env i url h)" "preserves (steady x) (close_tab env t h)"
  "preserves (steady x) (tab_action env t request h)"
  unfolding list_tabs_of_def tab_list_actions_def open_tab_def close_tab_def tab_action_def
  by (intro preserves_intros browser_steps)+

lemma inv_capture_frame [browser_steps]: "preserves (steady x) (capture_frame env session i)"
  unfolding capture_frame_def by (intro preserves_intros browser_steps)

lemma inv_record_frames [browser_steps]: "preserves (steady x) (record_frames env session d i n)"
proof (induction n arbitrary: i)
  case 0
  show ?case by (subst record_frames.simps, simp, intro preserves_intros browser_steps)
next
  case (Suc n)
  show ?case by (subst record_frames.simps, intro preserves_intros browser_steps; simp add: Suc.IH)
qed

lemma inv_capture_handlers:
  "preserves (steady x) (snapshot_tab env t h)" "preserves (steady x) (text_tab env t h)"
  "preserves (steady x) (screenshot_tab env t h full)" "preserves (steady x) (pdf_tab env t h)"
  "preserves (steady x) (trace_capture env t ms cats h)" "preserves (steady x) (recording_capture env t ms ival h)"
  unfolding snapshot_tab_def text_tab_def screenshot_tab_def pdf_tab_def trace_capture_def recording_capture_def Let_def
  by (intro preserves_intros browser_steps)+

lemma inv_macos [browser_steps]:
  "preserves (steady x) (macos_surface_list env inst)" "preserves (steady x) (macos_surface_snapshot env inst rid)"
  "preserves (steady x) (macos_surface_action env inst request)"
  "preserves (steady x) (capture_bytes_from_snapshot env shot)" "preserves (steady x) (cleanup_snapshot_capture env shot)"
  "preserves (steady x) (surface_failed env oper act msg attempted er)"
  unfolding macos_surface_list_def macos_surface_snapshot_def macos_surface_action_def
    capture_bytes_from_snapshot_def cleanup_snapshot_capture_def surface_failed_def Let_def
  by (intro preserves_intros browser_steps)+

lemma inv_surface_handlers:
  "preserves (steady x) (browser_surface_list env i h)"
  "preserves (steady x) (browser_surface_list_actions env i sid h)"
  "preserves (steady x) (browser_surface_snapshot env i rid h)"
  "preserves (steady x) (browser_surface_action env i req h)"
  unfolding browser_surface_list_def browser_surface_list_actions_def browser_surface_snapshot_def
    surface_snapshot_body_def browser_surface_action_def Let_def
  by (intro preserves_intros browser_steps)+

lemma inv_instance_handlers:
  "preserves (steady x) (create_profile env name ch)" "preserves (steady x) (start_instance env name ch headless h)"
  "preserves (steady x) (attach_instance env name url h)" "preserves (steady x) (stop_instance env i h)"
  unfolding create_profile_def start_instance_def attach_instance_def attach_body_def stop_instance_def
    stop_body_def Let_def
  by (intro preserves_intros browser_steps)+

lemma inv_put_artifacts [browser_steps]: "preserves (steady x) (put_artifacts rows)"
  by (induction rows) (auto intro!: preserves_intros browser_steps)

lemma inv_artifact_handlers:
  "preserves (steady x) (artifact_crop env aid region page h)"
  "preserves (steady x) (artifact_crop_grid env aid rows cols overlap page h)"
  "preserves (steady x) (artifact_list i r)" "preserves (steady x) (artifact_verify env aid)"
  "preserves (steady x) (events_tail r limit)" "preserves (steady x) (run_list limit)"
  unfolding artifact_crop_def artifact_crop_grid_def artifact_list_def artifact_verify_def events_tail_def
    run_list_def Let_def
  by (intro preserves_intros browser_steps)+

subsection \<open>The capture run\<close>

lemma create_run_rows:
  "create_run e d pid sfx time rows = Inr (run, rows') \<Longrightarrow> sql_insert cr_id run rows = Some rows'"
  by (auto simp: create_run_def Let_def split: option.splits)

definition run_row :: "capture_run \<Rightarrow> browser_runtime \<Rightarrow> bool" where
  "run_row run s \<longleftrightarrow> get_run (cr_id run) (br_runs s) = Some run"

lemma get_run_insert:
  "sql_insert cr_id run rows = Some rows' \<Longrightarrow>
   get_run (cr_id run) rows' = Some run \<and> (get_run k rows = Some old \<longrightarrow> get_run k rows' = Some old)"
  by (auto simp: get_run_def sql_get_insert sql_insert_def image_iff dest!: sql_get_Some split: if_splits)

lemma hoare_keeps: "preserves P m \<Longrightarrow> hoare P m (\<lambda>_. P) (\<lambda>_. P)"
  by (simp add: hoare_preserves)

lemma hoare_keeps_then:
  assumes m: "preserves P m" and f: "\<And>a. hoare P (f a) Q E" and err: "\<And>e s. P s \<Longrightarrow> E e s"
  shows "hoare P (and_then m f) Q E"
  by (rule hoare_and_then [where R = "\<lambda>_. P"], rule hoareI) (auto intro: f err dest: preservesD [OF m])

lemma tables_core_op: "core_step m \<Longrightarrow> preserves tables_inv (core_op m)"
proof -
  assume m: "core_step m"
  have "tables_inv (snd (core_op m s))" if inv: "tables_inv s" for s
  proof -
    obtain r c where mc: "m (br_core s) = (r, c)" by fastforce
    have keep: "Q c" if q: "preserves Q m" "Q (br_core s)" for Q
      using q(1) [unfolded preserves_def, rule_format, OF q(2)] mc by simp
    have "core_inv c" using m inv keep [of core_inv] by (simp add: core_step_def tables_inv_def)
    moreover have "unique_by bi_id (rt_instances c)"
      using m inv keep [of "keeps (br_core s)"]
      by (simp add: core_step_def tables_inv_def keeps_def)
    ultimately show ?thesis using inv by (simp add: core_op_def mc tables_inv_def)
  qed
  then show ?thesis by (simp add: preserves_def)
qed

definition insert_run :: "browser_env \<Rightarrow> string \<Rightarrow> string \<Rightarrow> string \<Rightarrow> string \<Rightarrow> (browser_runtime, capture_run) oper" where
  "insert_run env e d sfx time s =
     (case create_run e d (be_pid env) sfx time (br_runs s) of
        Inl er \<Rightarrow> (Inl er, s) | Inr (run, runs) \<Rightarrow> (Inr run, s\<lparr>br_runs := runs\<rparr>))"

lemma create_eq:
  "store_create_run env e d =
     and_then (core_op (unique_suffix (be_core env))) (\<lambda>sfx. and_then (clock_now env) (insert_run env e d sfx))"
  by (simp add: store_create_run_def insert_run_def [abs_def])

lemma insert_run_tables:
  "hoare tables_inv (insert_run env e d sfx time) (\<lambda>run s. tables_inv s \<and> run_row run s) (\<lambda>_. tables_inv)"
  by (rule hoareI) (auto simp: insert_run_def tables_inv_def run_row_def split: sum.splits prod.splits
      dest!: create_run_rows dest: unique_by_insert get_run_insert)

lemma insert_run_browser:
  "hoare browser_inv (insert_run env e d sfx time) (\<lambda>run s. browser_inv s \<and> run_row run s) (\<lambda>_. browser_inv)"
  by (rule hoareI) (auto simp: insert_run_def browser_inv_def tables_inv_def run_row_def run_stored_def
      split: sum.splits prod.splits dest!: create_run_rows dest: unique_by_insert get_run_insert)

lemma create_browser:
  "hoare browser_inv (store_create_run env e d) (\<lambda>run s. browser_inv s \<and> run_row run s) (\<lambda>_. browser_inv)"
  unfolding create_eq
  by (intro hoare_keeps_then insert_run_browser steady_browser browser_steps)

lemma create_tables:
  "hoare tables_inv (store_create_run env e d) (\<lambda>run s. tables_inv s \<and> run_row run s) (\<lambda>_. tables_inv)"
  unfolding create_eq clock_now_def
  by (intro hoare_keeps_then insert_run_tables tables_core_op core_step_ops)

lemma set_capture_run_inv:
  "hoare (\<lambda>s. tables_inv s \<and> run_row run s) (set_capture_run run) (\<lambda>_. browser_inv) (\<lambda>_. browser_inv)"
  by (rule hoareI) (auto simp: set_capture_run_def core_op_def modify_def browser_inv_def tables_inv_def
      core_inv_def run_row_def run_stored_def)

lemma inv_capture_event [browser_steps]: "preserves (steady x) (capture_event env action msg rid)"
  unfolding capture_event_def by (rule browser_steps)

lemma hoare_chain:
  assumes m: "hoare P m R (\<lambda>_. P)" and f: "\<And>a. hoare (R a) (f a) (\<lambda>_. P) (\<lambda>_. P)"
  shows "preserves P (and_then m f)"
  unfolding hoare_preserves using m f by (rule hoare_and_then)

lemma hoare_weaken: "hoare P m Q E \<Longrightarrow> (\<And>s. P' s \<Longrightarrow> P s) \<Longrightarrow> hoare P' m Q E"
  by (simp add: hoare_def)

lemma hoare_weaken_err: "hoare P m Q E \<Longrightarrow> hoare P m Q (\<lambda>_ _. True)"
  by (auto simp: hoare_def split: prod.splits sum.splits)

lemma inv_set_new_run:
  "(\<And>u. preserves browser_inv (f u)) \<Longrightarrow>
   hoare (\<lambda>s. tables_inv s \<and> run_row run s) (and_then (set_capture_run run) f) (\<lambda>_. browser_inv) (\<lambda>_. browser_inv)"
  by (intro hoare_and_then [OF set_capture_run_inv] hoare_keeps)

lemma inv_create_and_set:
  assumes "\<And>run u. preserves browser_inv (f run u)"
  shows "preserves browser_inv (and_then (store_create_run env e d) (\<lambda>run. and_then (set_capture_run run) (f run)))"
  by (rule hoare_chain [OF create_browser], rule hoare_weaken [OF inv_set_new_run])
    (simp_all add: assms browser_inv_def)

lemma inv_capture_start: "preserves browser_inv (capture_start_recording env)"
  unfolding capture_start_recording_def
  by (intro inv_create_and_set preserves_intros steady_browser browser_steps)

lemma preserves_snd: "preserves P m \<Longrightarrow> P s \<Longrightarrow> P (snd (m s))"
  by (simp add: preserves_def)

text \<open>Stopping writes the row first and then sets the run in memory to what the row holds.\<close>

definition inv_with :: "capture_run \<Rightarrow> browser_runtime \<Rightarrow> bool" where
  "inv_with run s \<longleftrightarrow> browser_inv s \<and> rt_capture_run (br_core s) = run"

lemma inv_with_core_op: "core_step m \<Longrightarrow> preserves (inv_with run) (core_op m)"
  using inv_core_op [of m] by (force simp: preserves_def steady_def inv_with_def lasting_def)

lemma complete_run_row:
  assumes "unique_by cr_id rows" and "get_run k rows = Some old"
    and "complete_run k (Some d) time rows = (found, rows')"
  shows "\<exists>run. found = Some run \<and> get_run (cr_id run) rows' = Some run \<and> unique_by cr_id rows'"
proof -
  have k: "cr_id old = k" using assms(2) by (auto simp: get_run_def dest: sql_get_Some)
  let ?new = "old\<lparr>cr_detail := d, cr_status := RunCompleted, cr_ended_at := Some time\<rparr>"
  let ?rows = "map (\<lambda>r. if cr_id r = k then r\<lparr>cr_detail := d, cr_status := RunCompleted, cr_ended_at := Some time\<rparr> else r) rows"
  have "get_run k ?rows = Some ?new"
    using assms(2) by (simp add: get_run_def sql_get_def find_map_upd)
  moreover have "unique_by cr_id ?rows" using assms(1) by (simp add: unique_by_map)
  moreover have "complete_run k (Some d) time rows =
      (if cr_status old = RunCompleted then (Some old, rows) else (Some ?new, ?rows))"
    using assms(2) k by (simp add: complete_run_def sql_update_def Let_def)
  ultimately show ?thesis using assms k by (simp split: if_splits)
qed

definition complete_row :: "string \<Rightarrow> string \<Rightarrow> string \<Rightarrow> (browser_runtime, capture_run option) oper" where
  "complete_row rid d time s =
     (case complete_run rid (Some d) time (br_runs s) of (run, runs) \<Rightarrow> (Inr run, s\<lparr>br_runs := runs\<rparr>))"

lemma complete_eq: "store_complete_run env rid d = and_then (clock_now env) (complete_row rid d)"
  by (simp add: store_complete_run_def complete_row_def [abs_def])

lemma complete_row_inv:
  "hoare (inv_with run) (complete_row (cr_id run) d time)
     (\<lambda>found s. tables_inv s \<and> run_row (unwrap_or run found) s) (\<lambda>_. browser_inv)"
proof (rule hoareI)
  fix s found s' assume inv: "inv_with run s" and step: "complete_row (cr_id run) d time s = (Inr found, s')"
  obtain rows' where rows': "complete_run (cr_id run) (Some d) time (br_runs s) = (found, rows')"
    and s': "s' = s\<lparr>br_runs := rows'\<rparr>"
    using step by (auto simp: complete_row_def split: prod.splits)
  from inv have "unique_by cr_id (br_runs s)" and "get_run (cr_id run) (br_runs s) = Some run"
    by (auto simp: inv_with_def browser_inv_def tables_inv_def run_stored_def)
  from complete_run_row [OF this rows'] inv s'
  show "tables_inv s' \<and> run_row (unwrap_or run found) s'"
    by (auto simp: inv_with_def browser_inv_def tables_inv_def run_row_def)
qed (auto simp: complete_row_def split: prod.splits)

lemma complete_tables:
  "hoare (inv_with run) (store_complete_run env (cr_id run) d)
     (\<lambda>found s. tables_inv s \<and> run_row (unwrap_or run found) s) (\<lambda>_. browser_inv)"
  unfolding complete_eq clock_now_def
  by (intro hoare_keeps_then complete_row_inv inv_with_core_op core_step_ops) (simp add: inv_with_def)

lemma hoare_snd: "hoare P m (\<lambda>_. Q) (\<lambda>_. Q) \<Longrightarrow> P s \<Longrightarrow> Q (snd (m s))"
  by (cases "m s"; cases "fst (m s)") (auto simp: hoare_def)

lemma inv_capture_stop: "preserves browser_inv (capture_stop_recording env)"
proof -
  have body: "hoare (inv_with run)
      (and_then (capture_event env a msg rid) (\<lambda>_. and_then (store_complete_run env (cr_id run) d) (\<lambda>found.
         let completed = unwrap_or run found in and_then (set_capture_run completed) (\<lambda>_. ret completed))))
      (\<lambda>_. browser_inv) (\<lambda>_. browser_inv)" for run a msg rid d
    unfolding Let_def capture_event_def note_event_def
    by (intro hoare_keeps_then inv_with_core_op core_step_ops hoare_and_then [OF complete_tables] inv_set_new_run
        preserves_intros) (simp add: inv_with_def)
  have "browser_inv (snd (capture_stop_recording env s))" if inv: "browser_inv s" for s
  proof -
    have "inv_with (rt_capture_run (br_core s)) s" using inv by (simp add: inv_with_def)
    from hoare_snd [OF body this] inv show ?thesis
      by (simp add: capture_stop_recording_def and_then_def [of "gets g" for g] gets_def ret_def)
  qed
  then show ?thesis by (simp add: preserves_def)
qed

subsection \<open>Starting a runtime\<close>

text \<open>What a start needs of the stored tables is the invariant without the run in memory.\<close>

lemma latest_active_run_set:
  assumes "latest_active_run e rows = Some run"
  shows "run \<in> set rows \<and> cr_entrypoint run = e \<and> cr_status run = RunActive"
proof -
  let ?active = "filter (\<lambda>r. cr_entrypoint r = e \<and> cr_status r = RunActive) rows"
  obtain rest where "sql_limit 1 (order_desc cr_started_at ?active) = run # rest"
    using assms by (auto simp: latest_active_run_def split: list.splits)
  then have "run \<in> set (sql_limit 1 (order_desc cr_started_at ?active))" by simp
  from subsetD [OF set_sql_limit this] show ?thesis by simp
qed

lemma boot_run_row:
  "hoare tables_inv (boot_run env e) (\<lambda>(run, recovered) s. tables_inv s \<and> run_row run s) (\<lambda>_. tables_inv)"
proof -
  have create: "hoare tables_inv (and_then (store_create_run env e d) (\<lambda>run. ret (run, False)))
      (\<lambda>(run, recovered) s. tables_inv s \<and> run_row run s) (\<lambda>_. tables_inv)" for d
    by (rule hoare_and_then [OF create_tables]) (auto simp: hoare_def ret_def)
  have found: "run_row run s" if "latest_active_run e (br_runs s) = Some run" "tables_inv s" for run s
  proof -
    have "run \<in> set (br_runs s)" using latest_active_run_set [OF that(1)] by simp
    then show ?thesis using that(2) by (auto simp: run_row_def get_run_def tables_inv_def intro: sql_get_key)
  qed
  show ?thesis
  proof (cases "continuity_enabled e")
    case False
    then show ?thesis using create by (simp add: boot_run_def Let_def)
  next
    case True
    then show ?thesis using create found
      by (auto simp: boot_run_def Let_def hoare_def and_then_def [of "gets g" for g] gets_def ret_def split: option.splits)
  qed
qed

end
