(* ===== verification/BrowserBoot.thy ===== *)
theory BrowserBoot
  imports BrowserInv
begin

text \<open>
  Starting and restarting a runtime: a start on tables that satisfy their invariant gives a runtime
  that satisfies its own, a daemon that is started again on what the one before it left is the same
  operator and goes on with the same capture run, and every runtime reached by starts and handlers
  satisfies the invariant.
\<close>

section \<open>A start establishes the invariant\<close>

lemma tables_disk_op: "preserves tables_inv (disk_op m)"
  by (auto simp: preserves_def disk_op_def tables_inv_def split: prod.splits)

lemma tables_boot_operator: "preserves tables_inv (boot_operator env e)"
  unfolding boot_operator_def clock_now_def
  by (intro preserves_intros tables_core_op core_step_ops)
    (auto simp: preserves_def tables_inv_def split: sum.splits prod.splits)

lemma tables_attach: "tables_inv (s\<lparr>br_attach := a\<rparr>) = tables_inv s"
  by (simp add: tables_inv_def)

lemma inv_continuity: "steady x (s\<lparr>br_continuity := c\<rparr>) = steady x s"
  by (simp add: steady_def lasting_def browser_inv_def tables_inv_def run_stored_def)

lemma enter_run:
  "hoare (\<lambda>s. tables_inv s \<and> run_row run s)
     (core_op (modify (\<lambda>c. c\<lparr>rt_operator_id := oid, rt_entrypoint := e, rt_capture_run := run\<rparr>)))
     (\<lambda>_. browser_inv) (\<lambda>_. browser_inv)"
  by (rule hoareI) (auto simp: core_op_def modify_def browser_inv_def tables_inv_def core_inv_def
      run_row_def run_stored_def)

lemma inv_ensure_profiles [browser_steps]: "preserves (steady x) (ensure_profiles env installs)"
  by (induction installs) (auto intro!: preserves_intros browser_steps)

lemma inv_bootstrap [browser_steps]: "preserves (steady x) (bootstrap_continuity env)"
  unfolding bootstrap_continuity_def list_own_leases_def Let_def
  by (intro preserves_intros browser_steps)

definition boot_tail :: "browser_env \<Rightarrow> string \<Rightarrow> string \<Rightarrow> bool \<Rightarrow> bool \<Rightarrow> (browser_runtime, unit) oper" where
  "boot_tail env entrypoint operator_id reused recovered_run =
     and_then (modify (\<lambda>s. s\<lparr>br_continuity :=
         \<lparr>cs_continuity_enabled = continuity_enabled entrypoint, cs_recovered_run = recovered_run,
          cs_reused_operator_id = reused, cs_recovered_run_id = None, cs_recovered_lease_count = 0,
          cs_recovered_instance_count = 0, cs_stale_instance_count = 0, cs_stale_instance_ids = []\<rparr>\<rparr>)) (\<lambda>_.
     and_then (ensure_default_profiles env) (\<lambda>_.
     and_then (bootstrap_continuity env) (\<lambda>continuity.
     and_then (modify (\<lambda>s. s\<lparr>br_continuity := continuity\<rparr>)) (\<lambda>_.
     and_then (note_event env ''runtime''
         (if cs_recovered_run continuity \<or> cs_recovered_lease_count continuity > 0
          then ''bootstrap_recovered'' else ''bootstrap'') Info (entrypoint @ '' runtime ready'') None None None
         (JObj [(''entrypoint'', JStr entrypoint), (''runtime_root'', JStr (be_root_dir env)),
                (''operator_id'', JStr operator_id), (''continuity'', continuity_json continuity)])) (\<lambda>_.
     ret ())))))"

lemma boot_eq:
  "boot env entrypoint =
     and_then (disk_op (artifact_store_new (be_artifacts env))) (\<lambda>_.
     and_then (modify (\<lambda>s. s\<lparr>br_attach := unwrap_or attach_continuity_default (get_attach_continuity (br_attach_row s))\<rparr>)) (\<lambda>_.
     and_then (boot_operator env entrypoint) (\<lambda>(operator_id, reused).
     and_then (boot_run env entrypoint) (\<lambda>(run, recovered_run).
     and_then (core_op (modify (\<lambda>c. c\<lparr>rt_operator_id := operator_id, rt_entrypoint := entrypoint,
         rt_capture_run := run\<rparr>))) (\<lambda>_.
     boot_tail env entrypoint operator_id reused recovered_run)))))"
  unfolding boot_def boot_tail_def by (rule refl)

lemma inv_boot_tail: "preserves (steady x) (boot_tail env e oid reused rec)"
  unfolding boot_tail_def ensure_default_profiles_def
  by (intro preserves_intros browser_steps) (simp_all add: inv_continuity)

lemma boot_establishes: "hoare tables_inv (boot env e) (\<lambda>_. browser_inv) (\<lambda>_ _. True)"
proof -
  have tail: "hoare (\<lambda>s. tables_inv s \<and> run_row run s)
      (and_then (core_op (modify (\<lambda>c. c\<lparr>rt_operator_id := oid, rt_entrypoint := e, rt_capture_run := run\<rparr>)))
        (\<lambda>_. boot_tail env e oid reused rec)) (\<lambda>_. browser_inv) (\<lambda>_ _. True)" for run oid reused rec
    by (rule hoare_and_then [OF hoare_weaken_err [OF enter_run]])
      (auto intro: hoare_weaken_err [OF hoare_keeps [OF steady_browser [OF inv_boot_tail]]])
  have run: "hoare tables_inv (and_then (boot_run env e) (\<lambda>(run, rec).
      and_then (core_op (modify (\<lambda>c. c\<lparr>rt_operator_id := oid, rt_entrypoint := e, rt_capture_run := run\<rparr>)))
        (\<lambda>_. boot_tail env e oid reused rec))) (\<lambda>_. browser_inv) (\<lambda>_ _. True)" for oid reused
    by (rule hoare_and_then [OF hoare_weaken_err [OF boot_run_row]]) (auto simp: tail split: prod.split)
  show ?thesis
    unfolding boot_eq
    by (intro hoare_keeps_then tables_disk_op tables_boot_operator preserves_modify)
      (auto simp: tables_attach run split: prod.split)
qed

section \<open>A daemon that is started again\<close>

definition knows_operator :: "string \<Rightarrow> string \<Rightarrow> browser_runtime \<Rightarrow> bool" where
  "knows_operator e oid s \<longleftrightarrow>
     map_option ri_operator_id (sql_get (\<lambda>i. ri_entrypoint i = e) (br_identities s)) = Some oid"

definition settled :: "string \<Rightarrow> string \<Rightarrow> capture_run \<Rightarrow> browser_runtime \<Rightarrow> bool" where
  "settled e oid run s \<longleftrightarrow> knows_operator e oid s \<and> latest_active_run e (br_runs s) = Some run"

lemma core_op_frame: "br_runs (snd (core_op m s)) = br_runs s \<and> br_identities (snd (core_op m s)) = br_identities s"
  by (simp add: core_op_def case_prod_beta)

lemma core_op_ok: "core_op m s = (r, s') \<Longrightarrow> br_runs s' = br_runs s \<and> br_identities s' = br_identities s"
  using core_op_frame [of m s] by simp

lemma identity_kept:
  assumes "get_or_create_runtime_identity e time ids = Inr ((identity, reused), ids')"
  shows "map_option ri_operator_id (sql_get (\<lambda>i. ri_entrypoint i = e) ids') = Some (ri_operator_id identity) \<and>
    (map_option ri_operator_id (sql_get (\<lambda>i. ri_entrypoint i = e) ids) = Some oid \<longrightarrow> ri_operator_id identity = oid)"
proof (cases "sql_get (\<lambda>i. ri_entrypoint i = e) ids")
  case None
  then show ?thesis using assms
    by (auto simp: get_or_create_runtime_identity_def Let_def sql_get_insert split: option.splits)
next
  case (Some old)
  have "sql_get (\<lambda>i. ri_entrypoint i = e) (map (\<lambda>i. if ri_entrypoint i = e then i\<lparr>ri_updated_at := time\<rparr> else i) ids) =
      Some (old\<lparr>ri_updated_at := time\<rparr>)"
    using Some by (simp add: sql_get_def find_map_upd)
  then show ?thesis using assms Some
    by (auto simp: get_or_create_runtime_identity_def sql_update_def)
qed

lemma latest_None: "latest_active_run e rows = None \<Longrightarrow> filter (\<lambda>r. cr_entrypoint r = e \<and> cr_status r = RunActive) rows = []"
  by (cases "order_desc cr_started_at (filter (\<lambda>r. cr_entrypoint r = e \<and> cr_status r = RunActive) rows)")
    (auto simp: latest_active_run_def sql_limit_def order_desc_def split: list.splits dest: arg_cong [where f = length])

lemma latest_created:
  assumes "latest_active_run e rows = None" and "create_run e d pid sfx time rows = Inr (run, rows')"
  shows "latest_active_run e rows' = Some run"
proof -
  have run: "cr_entrypoint run = e" "cr_status run = RunActive"
    using assms(2) by (auto simp: create_run_def Let_def split: option.splits)
  have "rows' = rows @ [run]"
    using create_run_rows [OF assms(2)] by (auto simp: sql_insert_def split: if_splits)
  then have "filter (\<lambda>r. cr_entrypoint r = e \<and> cr_status r = RunActive) rows' = [run]"
    using run latest_None [OF assms(1)] by simp
  then show ?thesis by (simp add: latest_active_run_def sql_limit_def order_desc_def)
qed

definition identity_row :: "string \<Rightarrow> string \<Rightarrow> (browser_runtime, string \<times> bool) oper" where
  "identity_row e time s =
     (case get_or_create_runtime_identity e time (br_identities s) of
        Inl er \<Rightarrow> (Inl er, s)
      | Inr ((identity, reused), ids) \<Rightarrow> (Inr (ri_operator_id identity, reused), s\<lparr>br_identities := ids\<rparr>))"

lemma identity_row_ok:
  assumes "identity_row e time s = (Inr (oid, reused), s')"
  shows "br_runs s' = br_runs s \<and> knows_operator e oid s' \<and> (knows_operator e oid0 s \<longrightarrow> oid = oid0)"
proof (cases "get_or_create_runtime_identity e time (br_identities s)")
  case (Inl er)
  then show ?thesis using assms by (simp add: identity_row_def)
next
  case (Inr b)
  obtain identity reused' ids where b: "b = ((identity, reused'), ids)" by (metis surj_pair)
  from identity_kept [OF Inr [unfolded b], of oid0] show ?thesis
    using assms Inr b by (auto simp: identity_row_def knows_operator_def)
qed

lemma insert_run_ok:
  "insert_run env e d sfx time s = (Inr run, s') \<Longrightarrow>
   \<exists>rows. create_run e d (be_pid env) sfx time (br_runs s) = Inr (run, rows) \<and> s' = s\<lparr>br_runs := rows\<rparr>"
  by (auto simp: insert_run_def split: sum.splits)

lemma boot_operator_eq:
  "continuity_enabled e \<Longrightarrow> boot_operator env e = and_then (clock_now env) (identity_row e)"
  by (simp add: boot_operator_def identity_row_def [abs_def])

lemma boot_operator_result:
  assumes "continuity_enabled e" and "boot_operator env e s = (Inr (oid, reused), s')"
  shows "br_runs s' = br_runs s \<and> knows_operator e oid s' \<and> (knows_operator e oid0 s \<longrightarrow> oid = oid0)"
proof -
  obtain time t where t: "clock_now env s = (Inr time, t)" and row: "identity_row e time t = (Inr (oid, reused), s')"
    using assms by (auto simp: boot_operator_eq and_then_ok)
  from t have "br_runs t = br_runs s" and "br_identities t = br_identities s"
    by (auto simp: clock_now_def dest: core_op_ok)
  with identity_row_ok [OF row, of oid0] show ?thesis by (simp add: knows_operator_def)
qed

lemma boot_run_result:
  assumes e: "continuity_enabled e" and ok: "boot_run env e s = (Inr (run, reused), s')"
  shows "br_identities s' = br_identities s \<and> latest_active_run e (br_runs s') = Some run \<and>
    (latest_active_run e (br_runs s) = Some run0 \<longrightarrow> run = run0)"
proof (cases "latest_active_run e (br_runs s)")
  case (Some r)
  then show ?thesis using e ok by (auto simp: boot_run_def and_then_ok gets_def ret_def)
next
  case None
  obtain sfx time t u where t: "core_op (unique_suffix (be_core env)) s = (Inr sfx, t)"
    and u: "core_op (utc_timestamp (be_core env)) t = (Inr time, u)"
    and ins: "insert_run env e ''capture recording active'' sfx time u = (Inr run, s')"
    using e ok None by (auto simp: boot_run_def create_eq and_then_ok gets_def ret_def clock_now_def Let_def)
  have rows: "br_runs u = br_runs s" "br_identities u = br_identities s"
    using core_op_ok [OF t] core_op_ok [OF u] by simp_all
  with insert_run_ok [OF ins] None show ?thesis by (auto intro: latest_created)
qed

text \<open>A start settles the operator and the run; on settled tables it takes both over.\<close>

lemma boot_settles:
  assumes e: "continuity_enabled e" and inv: "tables_inv s" and ok: "boot env e s = (Inr u, s')"
  shows "browser_inv s' \<and> settled e (rt_operator_id (br_core s')) (rt_capture_run (br_core s')) s' \<and>
    (settled e oid0 run0 s \<longrightarrow> rt_operator_id (br_core s') = oid0 \<and> rt_capture_run (br_core s') = run0)"
proof -
  obtain u1 t1 where t1: "disk_op (artifact_store_new (be_artifacts env)) s = (Inr u1, t1)"
    and rest: "and_then (boot_operator env e) (\<lambda>(operator_id, reused).
       and_then (boot_run env e) (\<lambda>(run, recovered_run).
       and_then (core_op (modify (\<lambda>c. c\<lparr>rt_operator_id := operator_id, rt_entrypoint := e, rt_capture_run := run\<rparr>))) (\<lambda>_.
       boot_tail env e operator_id reused recovered_run)))
       (t1\<lparr>br_attach := unwrap_or attach_continuity_default (get_attach_continuity (br_attach_row t1))\<rparr>) = (Inr u, s')"
    using ok by (auto simp: boot_eq and_then_ok modify_def)
  let ?t = "t1\<lparr>br_attach := unwrap_or attach_continuity_default (get_attach_continuity (br_attach_row t1))\<rparr>"
  have t: "br_runs ?t = br_runs s" "br_identities ?t = br_identities s" "tables_inv ?t"
    using t1 preservesD [OF tables_disk_op inv t1] by (auto simp: disk_op_def tables_attach split: prod.splits)
  obtain oid reused t2 where t2: "boot_operator env e ?t = (Inr (oid, reused), t2)"
    and rest2: "and_then (boot_run env e) (\<lambda>(run, recovered_run).
       and_then (core_op (modify (\<lambda>c. c\<lparr>rt_operator_id := oid, rt_entrypoint := e, rt_capture_run := run\<rparr>))) (\<lambda>_.
       boot_tail env e oid reused recovered_run)) t2 = (Inr u, s')"
    using rest by (auto simp: and_then_ok)
  obtain run rec t3 where t3: "boot_run env e t2 = (Inr (run, rec), t3)"
    and rest3: "boot_tail env e oid reused rec
       (t3\<lparr>br_core := (br_core t3)\<lparr>rt_operator_id := oid, rt_entrypoint := e, rt_capture_run := run\<rparr>\<rparr>) = (Inr u, s')"
    using rest2 by (auto simp: and_then_ok core_op_def modify_def)
  let ?t4 = "t3\<lparr>br_core := (br_core t3)\<lparr>rt_operator_id := oid, rt_entrypoint := e, rt_capture_run := run\<rparr>\<rparr>"
  have "tables_inv t2" by (rule preservesD [OF tables_boot_operator t(3) t2])
  from hoare_ok [OF boot_run_row this t3] have t3': "tables_inv t3" "run_row run t3" by simp_all
  then have "steady (lasting ?t4) ?t4"
    by (simp add: steady_def browser_inv_def tables_inv_def core_inv_def run_row_def run_stored_def)
  from preservesD [OF inv_boot_tail this rest3] have s': "browser_inv s'" "lasting s' = lasting ?t4"
    by (simp_all add: steady_def)
  from boot_operator_result [OF e t2, of oid0] boot_run_result [OF e t3, of run0] s' t
  show ?thesis by (auto simp: lasting_def settled_def knows_operator_def)
qed

section \<open>Every reachable runtime\<close>

text \<open>One call of a handler that leaves the capture run alone, whatever it returns.\<close>

inductive handler_step :: "browser_env \<Rightarrow> browser_runtime \<Rightarrow> browser_runtime \<Rightarrow> bool" for env where
  profile: "handler_step env s (snd (create_profile env name ch s))"
| start: "handler_step env s (snd (start_instance env name ch headless h s))"
| attach: "handler_step env s (snd (attach_instance env name url h s))"
| stop: "handler_step env s (snd (stop_instance env i h s))"
| tabs: "handler_step env s (snd (list_tabs_of env i h s))"
| tab_actions: "handler_step env s (snd (tab_list_actions env i t h s))"
| open_it: "handler_step env s (snd (open_tab env i url h s))"
| close_it: "handler_step env s (snd (close_tab env t h s))"
| act: "handler_step env s (snd (tab_action env t request h s))"
| snapshot: "handler_step env s (snd (snapshot_tab env t h s))"
| read_text: "handler_step env s (snd (text_tab env t h s))"
| screenshot: "handler_step env s (snd (screenshot_tab env t h full s))"
| pdf: "handler_step env s (snd (pdf_tab env t h s))"
| trace: "handler_step env s (snd (trace_capture env t ms cats h s))"
| recording: "handler_step env s (snd (recording_capture env t ms ival h s))"
| surfaces: "handler_step env s (snd (browser_surface_list env i h s))"
| surface_actions: "handler_step env s (snd (browser_surface_list_actions env i sid h s))"
| surface_shot: "handler_step env s (snd (browser_surface_snapshot env i rid h s))"
| surface_act: "handler_step env s (snd (browser_surface_action env i req h s))"
| crop: "handler_step env s (snd (artifact_crop env aid region page h s))"
| crop_grid: "handler_step env s (snd (artifact_crop_grid env aid rows cols overlap page h s))"
| verify: "handler_step env s (snd (artifact_verify env aid s))"
| lease_take: "handler_step env s (snd (core_op (lease_acquire (be_core env) i hid lbl m ttl) s))"
| lease_drop: "handler_step env s (snd (core_op (lease_release (be_core env) i hid rm) s))"
| lease_give: "handler_step env s (snd (core_op (lease_transfer (be_core env) i a b lbl ttl) s))"
| lease_look: "handler_step env s (snd (core_op (lease_status (be_core env) oi) s))"

text \<open>The life of a store: processes start on it one after the other, and each serves calls.\<close>

definition fresh_root :: "browser_runtime \<Rightarrow> bool" where
  "fresh_root s \<longleftrightarrow> rt_leases (br_core s) = [] \<and> rt_instances (br_core s) = [] \<and>
     rt_events (br_core s) = empty_event_log \<and> br_profiles s = [] \<and> br_tabs s = [] \<and> br_artifacts s = [] \<and>
     br_runs s = [] \<and> br_identities s = []"

inductive runtime_reachable :: "browser_runtime \<Rightarrow> bool" where
  fresh: "fresh_root s \<Longrightarrow> boot env e s = (Inr u, s') \<Longrightarrow> runtime_reachable s'"
| restart: "runtime_reachable s \<Longrightarrow> boot env e s = (Inr u, s') \<Longrightarrow> runtime_reachable s'"
| handled: "runtime_reachable s \<Longrightarrow> handler_step env s s' \<Longrightarrow> runtime_reachable s'"
| capture_start: "runtime_reachable s \<Longrightarrow> runtime_reachable (snd (capture_start_recording env s))"
| capture_stop: "runtime_reachable s \<Longrightarrow> runtime_reachable (snd (capture_stop_recording env s))"

lemma handler_steady: "handler_step env s s' \<Longrightarrow> steady x s \<Longrightarrow> steady x s'"
  by (induction rule: handler_step.induct; erule preserves_snd [rotated];
      intro inv_instance_handlers inv_tab_handlers inv_capture_handlers inv_surface_handlers inv_artifact_handlers
        inv_core_op core_step_ops)

lemma fresh_tables: "fresh_root s \<Longrightarrow> tables_inv s"
  by (simp add: fresh_root_def tables_inv_def core_inv_def lease_inv_def single_writer_def)

text \<open>Claim C3. Every runtime that starts and handlers lead to satisfies the invariant: at most one writer per
  instance and no stale lease id, an event log in order, unique ids in every table, and a capture run
  in memory that is the stored one.\<close>

theorem reachable_runtime_inv: "runtime_reachable s \<Longrightarrow> browser_inv s"
proof (induction rule: runtime_reachable.induct)
  case (fresh s env e u s')
  then show ?case using hoare_ok [OF boot_establishes fresh_tables] by blast
next
  case (restart s env e u s')
  then show ?case using hoare_ok [OF boot_establishes] by (auto simp: browser_inv_def)
next
  case (handled s env s')
  then have "steady (lasting s) s" by (simp add: steady_def)
  from handler_steady [OF handled.hyps(2) this] show ?case by (simp add: steady_def)
qed (simp_all add: preserves_snd [OF inv_capture_start] preserves_snd [OF inv_capture_stop])

text \<open>Claim C4. A daemon that is started again, after any calls that leave the capture run alone, is the same
  operator and goes on with the same run.\<close>

theorem daemon_restart_resumes:
  assumes start: "fresh_root s0" "boot env ''pengu-mesh-daemon'' s0 = (Inr u, s1)"
    and calls: "(handler_step env)\<^sup>*\<^sup>* s1 s2"
    and again: "boot env' ''pengu-mesh-daemon'' s2 = (Inr u', s3)"
  shows "rt_operator_id (br_core s3) = rt_operator_id (br_core s1) \<and>
    rt_capture_run (br_core s3) = rt_capture_run (br_core s1)"
proof -
  have d: "continuity_enabled ''pengu-mesh-daemon''" by (simp add: continuity_enabled_def)
  from boot_settles [OF d fresh_tables [OF start(1)] start(2)]
  have s1: "browser_inv s1"
    "settled ''pengu-mesh-daemon'' (rt_operator_id (br_core s1)) (rt_capture_run (br_core s1)) s1" by simp_all
  have "steady (lasting s1) s2" using calls
    by (induction rule: rtranclp_induct) (auto simp: steady_def [of _ s1] s1 intro: handler_steady)
  then have s2: "tables_inv s2" "lasting s2 = lasting s1" by (simp_all add: steady_def browser_inv_def)
  then have "settled ''pengu-mesh-daemon'' (rt_operator_id (br_core s1)) (rt_capture_run (br_core s1)) s2"
    using s1(2) by (simp add: settled_def knows_operator_def lasting_def)
  with boot_settles [OF d s2(1) again] show ?thesis by blast
qed

section \<open>An example\<close>

definition demo_browser_env :: browser_env where
  "demo_browser_env =
     \<lparr>be_core = demo_env, be_artifacts = demo_artifact_env, be_url = (\<lambda>u. Inr (Some ''h'', Some 1)),
      be_pretty = (\<lambda>j. ''json''), be_root_dir = ''/r'', be_profile_root = ''/p'', be_pid = 7, be_macos = False,
      be_path_exists = (\<lambda>p. True), be_allow_attach = None, be_capability_grants = None,
      be_unit = (\<lambda>es. Inr ()), be_value = (\<lambda>es. Inr JNull), be_bytes = (\<lambda>es. Inr ''png''), be_nat = length,
      be_port = (\<lambda>es. Inr 9), be_launched = (\<lambda>es. Inl ''no launch''), be_version = (\<lambda>es. Inl ''no answer''),
      be_targets = (\<lambda>es. Inr []), be_target = (\<lambda>es. Inl ''no target''), be_navigated = (\<lambda>es. Inl ''no page''),
      be_surfaces = (\<lambda>es. Inl ''no bridge''), be_snapshot = (\<lambda>es. Inl ''no bridge''),
      be_acted = (\<lambda>es. Inl ''no bridge''), be_host_access = (\<lambda>es. Inl ''no bridge'')\<rparr>"

definition demo_root :: browser_runtime where
  "demo_root =
     \<lparr>br_core = demo_state\<lparr>rt_instances := []\<rparr>, br_profiles = [], br_tabs = [], br_artifacts = [], br_runs = [],
      br_identities = [],
      br_continuity = \<lparr>cs_continuity_enabled = False, cs_recovered_run = False, cs_reused_operator_id = False,
        cs_recovered_run_id = None, cs_recovered_lease_count = 0, cs_recovered_instance_count = 0,
        cs_stale_instance_count = 0, cs_stale_instance_ids = []\<rparr>,
      br_attach_row = None, br_attach = attach_continuity_default, br_disk = demo_disk, br_effects = []\<rparr>"

lemma demo_boot_ok: "fst (boot demo_browser_env ''pengu-mesh-daemon'' demo_root) = Inr ()"
  by code_simp

definition demo_booted :: browser_runtime where
  "demo_booted = snd (boot demo_browser_env ''pengu-mesh-daemon'' demo_root)"

definition demo_called :: browser_runtime where
  "demo_called = snd (create_profile demo_browser_env ''work'' Chromium demo_booted)"

lemma demo_root_fresh: "fresh_root demo_root"
  by (simp add: fresh_root_def demo_root_def demo_state_def)

lemma demo_booted_eq: "boot demo_browser_env ''pengu-mesh-daemon'' demo_root = (Inr (), demo_booted)"
  using demo_boot_ok by (metis demo_booted_def prod.collapse)

theorem reachable_runtime_inv_witness: "browser_inv demo_called"
  unfolding demo_called_def
  by (rule reachable_runtime_inv, rule runtime_reachable.handled [OF _ handler_step.profile],
      rule runtime_reachable.fresh [OF demo_root_fresh demo_booted_eq])

theorem daemon_restart_resumes_witness:
  "rt_capture_run (br_core (snd (boot demo_browser_env ''pengu-mesh-daemon'' demo_called))) =
   rt_capture_run (br_core demo_booted)"
proof -
  have call: "(handler_step demo_browser_env)\<^sup>*\<^sup>* demo_booted demo_called"
    unfolding demo_called_def by (rule r_into_rtranclp, rule handler_step.profile)
  have "fst (boot demo_browser_env ''pengu-mesh-daemon'' demo_called) = Inr ()" by code_simp
  then have "boot demo_browser_env ''pengu-mesh-daemon'' demo_called =
      (Inr (), snd (boot demo_browser_env ''pengu-mesh-daemon'' demo_called))" by (metis prod.collapse)
  from daemon_restart_resumes [OF demo_root_fresh demo_booted_eq call this] show ?thesis by simp
qed

end
