(* ===== verification/BrowserAccess.thy ===== *)
theory BrowserAccess
  imports BrowserBoot
begin

text \<open>
  What the access check buys the holder of a lease: while another holder has the writer lease of an
  instance, no handler that changes the browser gets as far as its first command.
\<close>

section \<open>Calls that fail beside the browser\<close>

text \<open>The call failed and changed nothing but the lease runtime: no command was sent, and tabs,
  artifacts, profiles, runs and files are as before.\<close>

definition aside :: "browser_runtime \<Rightarrow> 'a res \<times> browser_runtime \<Rightarrow> bool" where
  "aside s r \<longleftrightarrow> (\<exists>e c. r = (Inl e, s\<lparr>br_core := c\<rparr>))"

lemma asideI: "aside s (Inl e, s\<lparr>br_core := c\<rparr>)"
  by (auto simp: aside_def)

lemma aside_same: "aside s (Inl e, s)"
  using asideI [of s e "br_core s"] by simp

lemma aside_core: "aside (s\<lparr>br_core := c\<rparr>) r \<Longrightarrow> aside s r"
  by (auto simp: aside_def)

lemma aside_then: "aside s (m s) \<Longrightarrow> aside s (and_then m f s)"
  by (auto simp: aside_def and_then_def)

lemma aside_gets: "aside s (f (g s) s) \<Longrightarrow> aside s (and_then (gets g) f s)"
  by (simp add: and_then_def gets_def)

lemma aside_lift: "(\<And>a. r = Inr a \<Longrightarrow> aside s (f a s)) \<Longrightarrow> aside s (and_then (lift_res r) f s)"
  by (cases r) (simp_all add: and_then_def lift_res_def aside_same)

lemma aside_reporting:
  assumes "aside s (body s)" and "\<And>e. \<exists>m. report (Inl e) = core_op m"
  shows "aside s (reporting body report s)"
proof -
  obtain e c where b: "body s = (Inl e, s\<lparr>br_core := c\<rparr>)" using assms(1) by (auto simp: aside_def)
  obtain m where m: "report (Inl e) = core_op m" using assms(2) by blast
  obtain r c' where "m c = (r, c')" by fastforce
  then show ?thesis using b m
    by (cases r) (auto simp: reporting_def attempt_def and_then_def core_op_def lift_res_def intro: asideI)
qed

lemma note_is_core: "\<exists>m. note_event env c a l msg i t f d = core_op m"
  by (auto simp: note_event_def)

section \<open>A foreign writer\<close>

definition held_by_other :: "browser_env \<Rightarrow> string \<Rightarrow> string \<Rightarrow> browser_runtime \<Rightarrow> bool" where
  "held_by_other env h i s \<longleftrightarrow>
     (\<exists>l\<in>set (rt_leases (br_core s)). lr_resource_id l = i \<and> lr_mode l = Writer \<and> lr_holder_id l \<noteq> h \<and>
        lease_active (en_clock (be_core env) (rt_tick (br_core s))) l)"

lemma access_aside:
  assumes "core_inv (br_core s)" and "held_by_other env h i s"
  shows "aside s (access env i h RequireWriter action s)"
proof -
  obtain l where l: "l \<in> set (rt_leases (br_core s))" "lr_resource_id l = i" "lr_mode l = Writer"
    "lr_holder_id l \<noteq> h" "lease_active (en_clock (be_core env) (rt_tick (br_core s))) l"
    using assms(2) by (auto simp: held_by_other_def)
  have "\<not> writer_row_of i h w" if "w \<in> set (rt_leases (br_core s))" for w
  proof
    assume "writer_row_of i h w"
    moreover have "single_writer (rt_leases (br_core s))" using assms(1) by (simp add: core_inv_def lease_inv_def)
    ultimately show False
      using l that by (metis single_writer_def writer_row_of_def)
  qed
  then obtain e c where "require_instance_access (be_core env) i h RequireWriter action (br_core s) = (Inl e, c)"
    using access_refused_when_held [OF l(1,2,5), of h action] by blast
  then show ?thesis by (simp add: access_def core_op_def asideI)
qed

lemma aside_acting:
  "aside s (f (lease_holder_id (br_core s) holder) s) \<Longrightarrow> aside s (and_then (acting_holder holder) f s)"
  unfolding acting_holder_def by (rule aside_gets)

lemma open_tab_aside:
  assumes "core_inv (br_core s)" and "held_by_other env (lease_holder_id (br_core s) holder) i s"
  shows "aside s (open_tab env i url holder s)"
  unfolding open_tab_def
  by (rule aside_reporting, rule aside_acting, rule aside_then, rule access_aside [OF assms])
    (simp add: note_is_core)

lemma surface_action_aside:
  assumes "core_inv (br_core s)" and "held_by_other env (lease_holder_id (br_core s) holder) i s"
  shows "aside s (browser_surface_action env i request holder s)"
  unfolding browser_surface_action_def observed_instance_def surface_failed_def
  by (rule aside_reporting, rule aside_then, rule aside_acting, rule aside_then, rule access_aside [OF assms])
    (simp add: note_is_core)

lemma tab_call_aside:
  assumes "\<And>tab. get_tab t (br_tabs s) = Some tab \<Longrightarrow> aside s (f tab s)"
  shows "aside s (and_then (require_tab t) f s)"
  using assms by (cases "get_tab t (br_tabs s)")
    (simp_all add: require_tab_def and_then_def gets_def lift_res_def aside_same)

lemma close_tab_aside:
  assumes "core_inv (br_core s)" and "\<And>tab. get_tab t (br_tabs s) = Some tab \<Longrightarrow>
    held_by_other env (lease_holder_id (br_core s) holder) (bt_instance_id tab) s"
  shows "aside s (close_tab env t holder s)"
  unfolding close_tab_def
  by (rule tab_call_aside, rule aside_reporting, rule aside_acting, rule aside_then,
      erule access_aside [OF assms(1) assms(2)]) (simp add: note_is_core)

lemma tab_action_aside:
  assumes "core_inv (br_core s)" and "\<And>tab. get_tab t (br_tabs s) = Some tab \<Longrightarrow>
    held_by_other env (lease_holder_id (br_core s) holder) (bt_instance_id tab) s"
  shows "aside s (tab_action env t request holder s)"
  unfolding tab_action_def
  by (rule tab_call_aside, rule aside_reporting, rule aside_lift, rule aside_acting, rule aside_then,
      erule access_aside [OF assms(1) assms(2)]) (simp add: note_is_core)

text \<open>Claim C2. While another holder has an active writer lease on the instance, opening, closing and acting on
  its tabs and its native surfaces fails before anything is sent: the browser, the tab and artifact
  tables and the files stay as they were, and only the lease runtime (expired leases, the event that
  tells of the conflict) changes.\<close>

theorem foreign_writer_blocks_browser:
  assumes inv: "browser_inv s" and held: "held_by_other env (lease_holder_id (br_core s) holder) i s"
    and tab: "\<And>tab. get_tab t (br_tabs s) = Some tab \<Longrightarrow> bt_instance_id tab = i"
  shows "aside s (open_tab env i url holder s) \<and> aside s (close_tab env t holder s) \<and>
    aside s (tab_action env t request holder s) \<and> aside s (browser_surface_action env i surface_request holder s)"
proof -
  have core: "core_inv (br_core s)" using inv by (simp add: browser_inv_def tables_inv_def)
  show ?thesis
    using open_tab_aside [OF core held] close_tab_aside [OF core, of t env holder]
      tab_action_aside [OF core, of t env holder] surface_action_aside [OF core held] held tab
    by auto
qed

definition demo_busy :: browser_runtime where
  "demo_busy = demo_root\<lparr>br_core := demo_held, br_runs := [rt_capture_run demo_state],
     br_tabs := [sample_tab ''t1'']\<rparr>"

lemma demo_held_keeps: "keeps demo_state demo_held"
  unfolding demo_held_def
  by (rule preserves_snd [OF keeps_access]) (simp add: keeps_def demo_state_def unique_by_def)

lemma demo_busy_inv: "browser_inv demo_busy"
  using demo_held_inv demo_held_keeps
  by (simp add: keeps_def demo_busy_def browser_inv_def tables_inv_def run_stored_def demo_root_def unique_by_def
      get_run_def sql_get_def)

lemma demo_busy_held: "held_by_other demo_browser_env ''agent'' ''i1'' demo_busy"
proof -
  obtain l where l: "rt_leases demo_held = [l]" "lr_resource_id l = ''i1''" "lr_holder_id l = ''op''"
    "lr_mode l = Writer" "lr_expires_at l = ''00000~''"
    using demo_held_row by blast
  have "en_clock demo_env (rt_tick demo_held) < ''00000~''" by code_simp
  then show ?thesis using l
    by (simp add: held_by_other_def demo_busy_def demo_browser_env_def lease_active_def)
qed

theorem foreign_writer_blocks_browser_witness:
  "aside demo_busy (open_tab demo_browser_env ''i1'' ''about:blank'' (Some ''agent'') demo_busy) \<and>
   aside demo_busy (close_tab demo_browser_env ''t1'' (Some ''agent'') demo_busy)"
proof -
  have "get_tab ''t1'' (br_tabs demo_busy) = Some (sample_tab ''t1'')"
    by (simp add: demo_busy_def demo_root_def get_tab_def sql_get_def sample_tab_def)
  moreover have "held_by_other demo_browser_env (lease_holder_id (br_core demo_busy) (Some ''agent'')) ''i1'' demo_busy"
    using demo_busy_held by (simp add: lease_holder_id_def)
  ultimately show ?thesis
    using foreign_writer_blocks_browser [OF demo_busy_inv, of demo_browser_env "Some ''agent''" "''i1''" "''t1''" "''about:blank''"]
    by (simp add: sample_tab_def)
qed

end
