(* ===== verification/CaptureIntegrity.thy ===== *)
theory CaptureIntegrity
  imports BrowserAccess
begin

text \<open>
  Captures and their evidence: what a capture handler stores is what \<open>artifact_verify\<close> finds, and a
  recording takes a bounded number of frames.
\<close>

section \<open>Written files match their handles\<close>

text \<open>The file of a handle holds bytes whose digest is the one of the handle.\<close>

definition sealed :: "artifact_env \<Rightarrow> artifact_handle \<Rightarrow> artifact_disk \<Rightarrow> bool" where
  "sealed env h d \<longleftrightarrow>
     (\<exists>c. ad_files d (ah_path h) = Some c \<and> ah_checksum_sha256 h = Some (ae_sha256 env c))"

definition seals :: "artifact_env \<Rightarrow> (artifact_disk, artifact_handle) oper \<Rightarrow> bool" where
  "seals env m \<longleftrightarrow> (\<forall>d h d'. m d = (Inr h, d') \<longrightarrow> sealed env h d')"

lemma seals_then: "(\<And>a. seals env (f a)) \<Longrightarrow> seals env (and_then m f)"
  by (fastforce simp: seals_def and_then_ok)

lemma seals_if: "seals env m \<Longrightarrow> seals env n \<Longrightarrow> seals env (if b then m else n)"
  by simp

lemma seals_bytes_with: "seals env (write_bytes_with_provenance env kind run i t payload prov)"
  unfolding write_bytes_with_provenance_def
  by (rule seals_then) (auto simp: seals_def sealed_def build_artifact_handle_def dest!: write_payload_ok)

lemma seals_bytes: "seals env (write_bytes env kind run i t payload)"
  unfolding write_bytes_def by (rule seals_bytes_with)

lemma seals_text: "seals env (write_text env kind run i t payload)"
  unfolding write_text_def by (rule seals_bytes)

lemma seals_streamed: "seals env (write_base64_streamed env kind run i t payload prov)"
proof -
  have "sealed env h d'" if "write_base64_streamed env kind run i t payload prov d = (Inr h, d')" for d h d'
    using that
    by (auto simp: write_base64_streamed_def Let_def and_then_ok context_as_ok ret_def
        write_base64_artifact_chunked_def sealed_def build_artifact_handle_def
        dest!: write_reader_ok fs_len_ok)
  then show ?thesis by (simp add: seals_def)
qed

lemma seals_base64: "seals env (write_base64 env kind run i t payload)"
  unfolding write_base64_def by (intro seals_if seals_streamed seals_then seals_bytes)

lemma seals_recording: "seals env (write_recording_archive env run i t manifest frames)"
  unfolding write_recording_archive_def by (intro seals_then seals_bytes)

section \<open>Stored captures\<close>

text \<open>The table has a handle under this id, and the file of that handle is the one that was written.\<close>

definition intact :: "browser_env \<Rightarrow> string \<Rightarrow> browser_runtime \<Rightarrow> bool" where
  "intact env aid s \<longleftrightarrow>
     (\<exists>h. get_artifact aid (br_artifacts s) = Some h \<and> sealed (be_artifacts env) h (br_disk s))"

lemma intact_core: "intact env aid (s\<lparr>br_core := c\<rparr>) = intact env aid s"
  by (simp add: intact_def)

lemma stored_intact:
  assumes "seals (be_artifacts env) write" and "stored write s = (Inr h, s')"
  shows "intact env (ah_id h) s'"
proof -
  obtain d where "write (br_disk s) = (Inr h, d)"
    and "s' = s\<lparr>br_disk := d, br_artifacts := upsert_artifact h (br_artifacts s)\<rparr>"
    using assms(2) by (auto simp: stored_def and_then_ok disk_op_def put_artifact_def modify_def ret_def
        split: prod.splits)
  then show ?thesis using assms(1) by (simp add: intact_def seals_def get_artifact_upsert)
qed

lemma reporting_ok:
  assumes "reporting body report s = (Inr p, s')" and "\<And>r. \<exists>m. report r = core_op m"
  shows "\<exists>t c. body s = (Inr p, t) \<and> s' = t\<lparr>br_core := c\<rparr>"
proof -
  obtain r t where body: "body s = (r, t)" by fastforce
  obtain m where m: "report r = core_op m" using assms(2) by blast
  show ?thesis using assms(1) body m
    by (auto simp: reporting_def attempt_def and_then_ok core_op_def lift_res_def split: prod.splits)
qed

lemma capture_notes_are_core:
  "\<exists>m. record_artifact_event env c act msg tab art d = core_op m"
  "\<exists>m. capture_failed env act msg t es = core_op m"
  by (simp_all add: record_artifact_event_def capture_failed_def note_is_core)

section \<open>Verification after a capture\<close>

definition verifies :: "browser_env \<Rightarrow> string \<Rightarrow> browser_runtime \<Rightarrow> bool" where
  "verifies env aid s \<longleftrightarrow>
     (case artifact_verify env aid s of
        (Inr v, _) \<Rightarrow> av_valid v | (Inl _, _) \<Rightarrow> \<not> io_works (be_artifacts env))"

lemma intact_verifies: "intact env aid s \<Longrightarrow> verifies env aid s"
proof -
  assume "intact env aid s"
  then obtain h c where h: "get_artifact aid (br_artifacts s) = Some h" "ad_files (br_disk s) (ah_path h) = Some c"
    "ah_checksum_sha256 h = Some (ae_sha256 (be_artifacts env) c)"
    by (auto simp: intact_def sealed_def)
  show ?thesis
  proof (cases "ae_io (be_artifacts env) (ad_tick (br_disk s)) (IoRead (ah_path h))")
    case None
    then show ?thesis using h
      by (simp add: verifies_def artifact_verify_def artifact_handle_of_def sha256_path_def fs_read_def io_def
          context_as_def disk_op_def op_simps)
  next
    case (Some e)
    then show ?thesis using h
      by (auto simp: verifies_def artifact_verify_def artifact_handle_of_def sha256_path_def fs_read_def io_def
          context_as_def disk_op_def op_simps io_works_def)
  qed
qed

lemma capture_report_is_core:
  "\<exists>m. (case r of Inr p \<Rightarrow> record_artifact_event env c act msg (tab p) (art p) (d p)
          | Inl e \<Rightarrow> capture_failed env act' (msg' e) t (es e)) = core_op m"
  by (cases r) (simp_all add: capture_notes_are_core)

lemma captured_intact:
  assumes run: "reporting body (\<lambda>r. case r of Inr p \<Rightarrow> record_artifact_event env c act msg (tab p) (art p) (d p)
          | Inl e \<Rightarrow> capture_failed env act' (msg' e) t (es e)) s = (Inr p, s')"
    and body: "\<And>u. body s = (Inr p, u) \<Longrightarrow> intact env aid u"
  shows "verifies env aid s'"
  using reporting_ok [OF run capture_report_is_core] body by (auto simp: intact_core intro: intact_verifies)

lemmas capture_steps = and_then_ok Let_def ret_def
lemmas capture_seals = seals_text seals_bytes seals_base64 seals_recording

lemma snapshot_verifies:
  "snapshot_tab env t h s = (Inr p, s') \<Longrightarrow> verifies env (ah_id (sn_artifact p)) s'"
  unfolding snapshot_tab_def
  by (erule captured_intact) (auto simp: capture_steps intro: stored_intact [OF seals_text] split: prod.splits)

lemma text_verifies: "text_tab env t h s = (Inr p, s') \<Longrightarrow> verifies env (ah_id (tx_artifact p)) s'"
  unfolding text_tab_def
  by (erule captured_intact) (auto simp: capture_steps intro: stored_intact [OF seals_text] split: prod.splits)

lemma screenshot_verifies: "screenshot_tab env t h full s = (Inr p, s') \<Longrightarrow> verifies env (ah_id (af_artifact p)) s'"
  unfolding screenshot_tab_def
  by (erule captured_intact) (auto simp: capture_steps intro: stored_intact [OF seals_base64] split: prod.splits)

lemma pdf_verifies: "pdf_tab env t h s = (Inr p, s') \<Longrightarrow> verifies env (ah_id (af_artifact p)) s'"
  unfolding pdf_tab_def
  by (erule captured_intact) (auto simp: capture_steps intro: stored_intact [OF seals_base64] split: prod.splits)

lemma trace_verifies: "trace_capture env t ms cats h s = (Inr p, s') \<Longrightarrow> verifies env (ah_id (tr_artifact p)) s'"
  unfolding trace_capture_def Let_def
  by (erule captured_intact) (auto simp: capture_steps intro: stored_intact [OF seals_bytes] split: prod.splits)

lemma ensure_ok: "and_then (ensure b e) f s = (Inr p, s') \<longleftrightarrow> b \<and> f () s = (Inr p, s')"
  by (auto simp: ensure_def and_then_def ret_def fail_def)

lemma recording_verifies:
  "recording_capture env t ms ival h s = (Inr p, s') \<Longrightarrow> verifies env (ah_id (rc_artifact p)) s'"
  unfolding recording_capture_def Let_def ensure_ok
  by (erule conjE, erule captured_intact)
    (auto simp: capture_steps intro: stored_intact [OF seals_recording] split: prod.splits)

definition on_ok :: "('a \<Rightarrow> browser_runtime \<Rightarrow> bool) \<Rightarrow> 'a res \<times> browser_runtime \<Rightarrow> bool" where
  "on_ok Q r = (case r of (Inr p, s') \<Rightarrow> Q p s' | (Inl e, s') \<Rightarrow> True)"

lemma on_okI: "(\<And>p s'. r = (Inr p, s') \<Longrightarrow> Q p s') \<Longrightarrow> on_ok Q r"
  by (auto simp: on_ok_def split: prod.splits sum.splits)

text \<open>Claim C5. Whatever a capture handler returns, the artifact it names is in the table, and verifying it right
  afterwards finds the file intact, unless the host refuses to open it.\<close>

theorem captures_verify:
  "on_ok (\<lambda>p. verifies env (ah_id (sn_artifact p))) (snapshot_tab env t h s) \<and>
   on_ok (\<lambda>p. verifies env (ah_id (tx_artifact p))) (text_tab env t h s) \<and>
   on_ok (\<lambda>p. verifies env (ah_id (af_artifact p))) (screenshot_tab env t h full s) \<and>
   on_ok (\<lambda>p. verifies env (ah_id (af_artifact p))) (pdf_tab env t h s) \<and>
   on_ok (\<lambda>p. verifies env (ah_id (tr_artifact p))) (trace_capture env t ms cats h s) \<and>
   on_ok (\<lambda>p. verifies env (ah_id (rc_artifact p))) (recording_capture env t ms ival h s)"
  by (intro conjI on_okI snapshot_verifies text_verifies screenshot_verifies pdf_verifies trace_verifies
      recording_verifies)

section \<open>The length of a recording\<close>

lemma record_frames_bounds:
  "record_frames env session d i n s = (Inr frames, s') \<Longrightarrow> 1 \<le> length frames \<and> length frames \<le> Suc n"
proof (induction n arbitrary: i s frames)
  case 0
  then show ?case by (subst (asm) record_frames.simps) (auto simp: and_then_ok ret_def)
next
  case (Suc n)
  then show ?case
    by (subst (asm) (2) record_frames.simps) (auto simp: and_then_ok ret_def split: if_splits dest!: Suc.IH)
qed

fun is_shot :: "effect \<Rightarrow> bool" where
  "is_shot (CaptureScreenshot session full) = True"
| "is_shot e = False"

definition shots :: "browser_runtime \<Rightarrow> nat" where
  "shots s = length (filter is_shot (br_effects s))"

text \<open>The operation sends at most \<open>k\<close> screenshot commands, whatever it returns.\<close>

definition adds :: "nat \<Rightarrow> (browser_runtime, 'a) oper \<Rightarrow> bool" where
  "adds k m \<longleftrightarrow> (\<forall>s. shots (snd (m s)) \<le> shots s + k)"

named_theorems quiet

lemma adds_simple [quiet]:
  "adds 0 (ret a)" "adds 0 (fail e)" "adds 0 (gets g)" "adds 0 (lift_res r)" "adds 0 (ensure b e)"
  "adds 0 (core_op m)" "adds 0 (disk_op d)" "adds 0 (put_artifact art)"
  by (auto simp: adds_def shots_def op_simps lift_res_def ensure_def core_op_def disk_op_def put_artifact_def
      split: prod.splits)

lemma adds_replace [quiet]: "adds 0 (store_replace_tabs i tabs)"
  by (auto simp: adds_def shots_def store_replace_tabs_def split: sum.splits)

lemma adds_perform [quiet]: "\<not> is_shot e \<Longrightarrow> adds 0 (perform f e)"
  by (simp add: adds_def shots_def perform_def Let_def)

lemma adds_shot: "adds 1 (perform f e)"
  by (simp add: adds_def shots_def perform_def Let_def)

lemma adds_then:
  assumes m: "adds j m" and f: "\<And>a. adds k (f a)" and l: "j + k = l"
  shows "adds l (and_then m f)"
proof -
  have "shots (snd (and_then m f s)) \<le> shots s + l" for s
  proof -
    obtain r t where m': "m s = (r, t)" by fastforce
    have t: "shots t \<le> shots s + j" using m m' by (auto simp: adds_def dest: spec [of _ s])
    show ?thesis
    proof (cases r)
      case (Inl e)
      then show ?thesis using t l by (simp add: and_then_def m')
    next
      case (Inr a)
      have "shots (snd (f a t)) \<le> shots t + k" using f by (simp add: adds_def)
      then show ?thesis using t l Inr by (simp add: and_then_def m')
    qed
  qed
  then show ?thesis by (simp add: adds_def)
qed

lemma adds_attempt: "adds 0 m \<Longrightarrow> (\<And>r. adds k (f r)) \<Longrightarrow> adds k (attempt m f)"
  unfolding adds_def attempt_def by (auto split: prod.splits) (metis add_0_right le_trans add_le_mono1 snd_conv)

lemmas adds_first = adds_then [where j = 0, OF _ _ add_0]
lemmas adds_last = adds_then [where k = 0, OF _ _ add_0_right]

lemma adds_cases:
  "(\<And>a b. adds k (g a b)) \<Longrightarrow> adds k (case p of (a, b) \<Rightarrow> g a b)"
  "(\<And>e. adds k (f1 e)) \<Longrightarrow> (\<And>a. adds k (f2 a)) \<Longrightarrow> adds k (case r of Inl e \<Rightarrow> f1 e | Inr a \<Rightarrow> f2 a)"
  "adds k m1 \<Longrightarrow> adds k m2 \<Longrightarrow> adds k (if c then m1 else m2)"
  by (simp_all split: prod.splits sum.splits)

lemmas adds_intros = adds_first adds_attempt adds_cases quiet

lemma adds_reads [quiet]:
  "adds 0 (clock_now env)" "adds 0 (acting_holder h)" "adds 0 (access env i hid req action)"
  "adds 0 (the_instance env i)" "adds 0 (require_tab t)" "adds 0 current_run_id"
  "adds 0 (note_event env c a l msg i2 t2 f d)"
  unfolding clock_now_def acting_holder_def access_def the_instance_def require_tab_def current_run_id_def
    note_event_def
  by (intro adds_first quiet)+

lemma adds_context [quiet]: "adds 0 m \<Longrightarrow> adds 0 (context_as e m)"
  unfolding context_as_def by (intro adds_attempt adds_cases quiet)

lemma adds_tabs [quiet]:
  "adds 0 (list_targets env host port)" "adds 0 (live_tabs_for_instance env inst)"
  "adds 0 (sync_tabs env i)" "adds 0 (connect_tab_session env t)" "adds 0 (observed_session env t h action)"
  "adds 0 (stored write)" "adds 0 (record_artifact_event env c act msg tab art d)"
  "adds 0 (capture_failed env act msg t es)"
  unfolding list_targets_def live_tabs_for_instance_def sync_tabs_def connect_tab_session_def
    observed_session_def stored_def record_artifact_event_def capture_failed_def
  by (intro adds_first adds_attempt adds_cases quiet; simp)+

lemma adds_capture_frame: "adds 1 (capture_frame env session i)"
  unfolding capture_frame_def
  by (rule adds_first, simp add: quiet, rule adds_last, rule adds_shot, intro adds_first quiet)

lemma adds_record_frames: "adds (Suc n) (record_frames env session d i n)"
proof (induction n arbitrary: i)
  case 0
  show ?case
    by (subst record_frames.simps, simp, rule adds_last [OF adds_capture_frame [unfolded One_nat_def]], rule quiet)
next
  case (Suc n)
  have rest: "adds (Suc n) (and_then (record_frames env session d (Suc i) n) (\<lambda>rest. ret (frame # rest)))" for frame
    by (rule adds_last [OF Suc.IH], rule quiet)
  have stop: "adds (Suc n) (ret [frame])" for frame by (simp add: adds_def ret_def)
  show ?case
    by (subst record_frames.simps, rule adds_then [OF adds_capture_frame], rule adds_cases, rule stop)
      (simp_all add: rest)
qed

lemma adds_mono: "adds j m \<Longrightarrow> j \<le> k \<Longrightarrow> adds k m"
  unfolding adds_def by (meson add_left_mono le_trans)

lemma adds_reporting: "adds k m \<Longrightarrow> (\<And>r. adds 0 (f r)) \<Longrightarrow> adds k (reporting m f)"
proof -
  assume m: "adds k m" and f: "\<And>r. adds 0 (f r)"
  have g: "adds 0 (and_then (f r) (\<lambda>_. lift_res r))" for r by (intro adds_first f quiet)
  have "shots (snd (reporting m f s)) \<le> shots s + k" for s
  proof -
    obtain r t where t: "m s = (r, t)" by fastforce
    then have "shots t \<le> shots s + k" using m by (auto simp: adds_def dest: spec [of _ s])
    moreover have "shots (snd (and_then (f r) (\<lambda>_. lift_res r) t)) \<le> shots t" using g by (simp add: adds_def)
    ultimately show ?thesis by (simp add: reporting_def attempt_def t)
  qed
  then show ?thesis by (simp add: adds_def)
qed

lemma adds_ensure: "(b \<Longrightarrow> adds k (f ())) \<Longrightarrow> adds k (and_then (ensure b e) f)"
  by (cases b) (simp_all add: adds_def and_then_def ensure_def ret_def fail_def)

lemma recording_adds: "adds 120 (recording_capture env t ms ival h)"
proof -
  have frames: "adds 120 (and_then (record_frames env session d 1 (k - 1)) f)"
    if "k \<le> 120" "1 \<le> k" "\<And>a. adds 0 (f a)" for session d k f
    using that by (intro adds_last [OF adds_mono [OF adds_record_frames]]) auto
  have k: "1 \<le> expected_frames d iv" for d iv by (simp add: expected_frames_def)
  show ?thesis
    unfolding recording_capture_def Let_def
    by (rule adds_ensure, rule adds_reporting, rule adds_first, rule adds_tabs, rule adds_cases, rule adds_first,
        rule adds_reads, rule frames [OF _ k], assumption)
      (intro adds_first adds_cases quiet)+
qed

lemma clamp_between: "a \<le> b \<Longrightarrow> a \<le> clamp a b x \<and> clamp a b x \<le> b"
  by (simp add: clamp_def)

lemma recording_frame_count:
  assumes "recording_capture env t ms ival h s = (Inr p, s')"
  shows "rc_frame_count p \<in> {1..120} \<and> rc_duration_ms p \<in> {100..30000} \<and> rc_interval_ms p \<in> {50..5000}"
proof -
  let ?d = "clamp 100 30000 ms" and ?iv = "clamp 50 5000 ival"
  have k: "expected_frames ?d ?iv \<le> 120" "1 \<le> expected_frames ?d ?iv"
    using assms by (auto simp: recording_capture_def Let_def ensure_ok expected_frames_def)
  obtain session frames u u' where frames: "record_frames env session ?d 1 (expected_frames ?d ?iv - 1) u = (Inr frames, u')"
    and p: "rc_frame_count p = length frames" "rc_duration_ms p = ?d" "rc_interval_ms p = ?iv"
    using assms unfolding recording_capture_def Let_def ensure_ok
    by (elim conjE, drule_tac reporting_ok [OF _ capture_report_is_core]) (auto simp: capture_steps split: prod.splits)
  from record_frames_bounds [OF frames] k p clamp_between [of 100 30000 ms] clamp_between [of 50 5000 ival]
  show ?thesis by simp
qed

text \<open>Claim C6. A recording ends whatever the clock and the browser do: it asks for at most 120 screenshots, and the
  archive of one that succeeds has between 1 and 120 frames, over a time of at most 30 seconds.\<close>

theorem recording_ends:
  "shots (snd (recording_capture env t ms ival h s)) \<le> shots s + 120 \<and>
   on_ok (\<lambda>p s'. rc_frame_count p \<in> {1..120} \<and> rc_duration_ms p \<in> {100..30000} \<and> rc_interval_ms p \<in> {50..5000})
     (recording_capture env t ms ival h s)"
  using recording_adds [unfolded adds_def] by (auto intro!: on_okI dest: recording_frame_count)

end
