(* ===== verification/Spec2Isabelle.thy ===== *)
theory Spec2Isabelle
  imports Prelude Tables Ids Types LeaseProtocol CoreLeases RunStore BrowserStore TaskQueue
    Allocation Threshold AutoRestart Webhook HttpWire HttpProxy ScenarioStore ScenarioRecorder
    Failure McpArgs Capability McpTools McpDispatch McpServer McpLeases ScenarioGate
    TaskStore ArtifactStore Surfaces LeaseCoverage CaptureIntegrity
begin

text \<open>
  \<^bold>\<open>pengu-mesh: browser instances shared by several agents.\<close>

  The program (Rust, \<open>src/crates\<close>) starts or attaches to browsers, keeps what it knows about
  them in SQLite tables, and offers their operations to agents over an HTTP daemon and an MCP
  stdio server. Agents share an instance through leases: one writer, or several observers. Each
  operation checks the lease of its caller, acts on the browser, stores what it produced and
  appends an event to the log of the capture run.

  \<^bold>\<open>Theories and the code they model.\<close>

  \<^item> \<open>Prelude\<close>: results and the state-and-error operation \<open>oper\<close> in which every handler is
    written (\<open>?\<close> is \<open>and_then\<close>, a result that is inspected is \<open>attempt\<close>), text helpers,
    invariance rules (\<open>preserves_intros\<close>). \<open>Tables\<close>: SQLite statements on lists of rows.
  \<^item> \<open>Ids\<close>, \<open>Types\<close>: \<open>pengu-mesh-shared\<close> \<open>id.rs\<close>, \<open>types.rs\<close>, \<open>outcome.rs\<close>.
  \<^item> \<open>LeaseStore\<close>, \<open>RunStore\<close>, \<open>BrowserStore\<close>, \<open>ScenarioStore\<close>, \<open>TaskStore\<close>: the tables of
    \<open>pengu-mesh-state/src/lib.rs\<close> with every statement on them. \<open>LeaseProtocol\<close> is the
    specification of the lease table: a step relation of committed transactions, its
    reachable states, and the map from instances to writers that the table refines.
  \<^item> \<open>CoreRuntime\<close>: \<open>StageOneRuntime\<close> of \<open>pengu-mesh-core/src/lib.rs\<close> as far as leases go:
    instance refresh, event recording, the lease handlers, \<open>require_instance_access\<close>;
    \<open>CoreLeases\<close> proves what they guarantee.
  \<^item> \<open>TaskQueue\<close>, \<open>Allocation\<close>, \<open>Threshold\<close>, \<open>AutoRestart\<close>, \<open>Webhook\<close>,
    \<open>ScenarioRecorder\<close>: the files of \<open>pengu-mesh-core/src\<close> with these names.
    \<open>ScenarioGate\<close>: summaries and the evidence gate of \<open>lib.rs\<close>.
  \<^item> \<open>Failure\<close>, \<open>Capability\<close>: recovery advice and the capability gate
    (\<open>pengu-mesh-shared\<close> \<open>failure.rs\<close>, \<open>capability.rs\<close>).
  \<^item> \<open>HttpWire\<close>, \<open>HttpProxy\<close>: \<open>pengu-mesh-http\<close>.
  \<^item> \<open>McpArgs\<close>, \<open>McpTools\<close>, \<open>McpDispatch\<close>, \<open>McpServer\<close>: \<open>pengu-mesh-mcp\<close>; \<open>McpLeases\<close>
    answers the lease tools by the handlers of \<open>CoreRuntime\<close>, from the JSON arguments of a
    request down to the lease table.
  \<^item> \<open>ArtifactStore\<close>: \<open>pengu-mesh-artifacts\<close>, the files behind artifact handles, chunked writes
    with a running digest, crops and the regions of a grid.
  \<^item> \<open>Surfaces\<close>, \<open>LeaseCoverage\<close>: the contracts of surface and tab actions and the lease coverage
    matrix of \<open>pengu-mesh-core/src/lib.rs\<close>.
  \<^item> \<open>BrowserOps\<close>, \<open>BrowserTabs\<close>, \<open>BrowserCaptures\<close>, \<open>BrowserInstances\<close>, \<open>BrowserEvidence\<close>,
    \<open>BrowserRuns\<close>: the handlers of \<open>StageOneRuntime\<close> in \<open>pengu-mesh-core/src/lib.rs\<close> that drive a browser.
    The state \<open>browser_runtime\<close> is the lease runtime, the other tables, the artifact files and the
    sequence of commands sent; the answer to a command is a function of that sequence
    (\<open>browser_env\<close>). \<open>BrowserInv\<close> shows what every handler keeps; \<open>BrowserBoot\<close> that starts
    and handlers only reach runtimes with that invariant, and that a restarted daemon resumes;
    \<open>BrowserAccess\<close> that a foreign writer lease keeps the other holders from the browser;
    \<open>CaptureIntegrity\<close> that captures verify and recordings end.
  \<^bold>\<open>How the parts meet.\<close> A dispatcher reads its arguments and calls a handler; a handler
  asks \<open>require_instance_access\<close>, which reads and writes the lease table, and then performs its
  effects; an error becomes a failure payload whose advice is chosen by the text of the error.
  The interfaces between them are locales interpreted on these definitions: \<open>row_store\<close> (what
  a read returns after a write), \<open>append_log\<close>, \<open>lease_provider\<close>, \<open>allocation_policy\<close> and
  \<open>ranking\<close> (the order that decides which task is served).

  \<^bold>\<open>What is shown.\<close> Mutual exclusion of writers over every interleaving of committed
  transactions, and from there for the access check, the handlers and the MCP server; what each
  lease handler does to the table, refusals included; the invariants of the lease table, the
  event log, the queue and the evidence database under every operation; fairness and admission of
  the queue; that the gate decides exactly its policy and a summary counts exactly the evidence;
  that thresholds agree with counting; that a request is parsed the same however it arrives; round
  trips of frames and grants; bounds on retries and restarts; and the error behaviour of the
  dispatchers. A property that needs a hypothesis is followed by a witness at a concrete input.

  \<^bold>\<open>The environment.\<close> The clock, unique suffixes, process ids, RFC 3339 arithmetic, the
  URL parser, JSON text, the HTTP client, the browser's debug protocol and the file system are
  arguments of the definitions. Text is a list of characters with ASCII case and white space;
  JSON numbers are integers; an \<open>f64\<close> is an argument or its bit pattern.

  \<^bold>\<open>Bounds.\<close> A percentile is exact for fewer than \<open>2^40\<close> samples (the rounding of
  \<open>f64\<close> is written out); a request head is at most 1 MiB as in the code; a frame has fewer than
  \<open>2^64\<close> bytes; a webhook budget differs from \<open>u32::MAX\<close> (there the code overflows).
  Loops that read until the input ends recurse on the chunks that are left, so none needs fuel.

  \<^bold>\<open>Not modelled.\<close>
  The debug protocol client, native macOS surfaces, replay
  bundles, the diagnosis report, the doctor and the daemon's route table are not modelled yet.
  The JavaScript and Python texts the program sends to other interpreters, the process start of
  the binaries and their argument parsers are left out: they are no logic of the runtime.
\<close>

end
